(* ===== verification/Prelude.thy ===== *)
theory Prelude
  imports Main "HOL-Library.Word"
begin

text \<open>
  Shared vocabulary of the development: Go's time and duration values, 64-bit signed
  arithmetic, the sentinel errors of every backend package, results and transactions as
  error/state passing functions, and the few relational operators (select, update, insert)
  the SQL statements of the store are made of.  The collections declared here
  (\<open>res_simps\<close>, \<open>table_simps\<close>) carry the component proofs.
\<close>

named_theorems res_simps \<open>inversion of successful results and transactions\<close>
named_theorems table_simps \<open>facts about rows selected from and updated in a table\<close>

section \<open>Time, durations and 64-bit integers\<close>

text \<open>
  An instant is the number of nanoseconds since the zero value of \<^verbatim>\<open>time.Time\<close>
  (January 1, year 1), so the zero value is 0 and \<^verbatim>\<open>IsZero\<close>, \<^verbatim>\<open>Before\<close>
  and \<^verbatim>\<open>Add\<close> are the comparison with 0, \<open><\<close> and \<open>+\<close>.  A
  \<^verbatim>\<open>time.Duration\<close> is a number of nanoseconds.
\<close>

type_synonym gotime = int
type_synonym duration = int

definition IsZero :: "gotime \<Rightarrow> bool" where
  "IsZero t \<longleftrightarrow> t = 0"

definition Before :: "gotime \<Rightarrow> gotime \<Rightarrow> bool" where
  "Before t u \<longleftrightarrow> t < u"

definition time_Minute :: duration where
  "time_Minute = 60 * 1000000000"

definition time_Hour :: duration where
  "time_Hour = 60 * time_Minute"

declare IsZero_def [simp] Before_def [simp]

text \<open>Go's \<^verbatim>\<open>int64\<close>: a mathematical integer reduced to two's complement after
  every operation that can leave the range.\<close>

definition i64 :: "int \<Rightarrow> int" where
  "i64 x = signed_take_bit 63 x"

definition in_i64 :: "int \<Rightarrow> bool" where
  "in_i64 x \<longleftrightarrow> - (2 ^ 63) \<le> x \<and> x < 2 ^ 63"

lemma i64_id: "in_i64 x \<Longrightarrow> i64 x = x"
  unfolding i64_def in_i64_def by (rule signed_take_bit_int_eq_self) auto

lemma i64_range [simp]: "in_i64 (i64 x)"
  unfolding i64_def in_i64_def
  using signed_take_bit_int_greater_eq_minus_exp [of 63 x] signed_take_bit_int_less_exp [of 63 x]
  by simp

text \<open>The reduction is exactly the reading of a 64-bit word as two's complement.\<close>

lemma i64_word: "i64 x = sint (word_of_int x :: 64 word)"
  by (simp add: i64_def sint_sbintrunc' signed_take_bit_eq_if_positive)

lemma i64_add_left: "i64 (i64 x + y) = i64 (x + y)"
proof -
  have "(word_of_int (i64 x + y) :: 64 word) = word_of_int (x + y)"
    by (simp add: i64_word)
  then show ?thesis by (simp add: i64_word)
qed

section \<open>Errors and results\<close>

text \<open>
  The sentinel errors of the backend packages.  Wrapping with \<^verbatim>\<open>%w\<close> keeps the identity
  \<^verbatim>\<open>errors.Is\<close> tests, which is all the code branches on, so a wrapped error is its sentinel;
  construction errors carry which rule was broken.  \<open>ErrDB\<close> stands for a statement the
  database refuses (a violated constraint) and is matched by no sentinel test.
\<close>

datatype spec_fault =
    AmountNotPositive | NegativeFees | P2PCommission | P2PCreator | BrokeredCreator
  | UnknownStructure string | InstantWindow | CooldownWindow | UnknownMode string
  | DeliveryWindowNotPositive | FundingTTLNotPositive

datatype input_fault =
    SpecFault spec_fault | CreatorAccountRequired | ItemDescriptionRequired
  | ClaimAccountRequired | BrokerAccountRequired | VendorAllocationNotPositive
  | UnknownEvidenceType string | EvidenceNotAccepted | EventIdRequired

datatype db_fault =
    CheckViolation | UniqueViolation | ForeignKeyViolation | NoRows | NumericOutOfRange

datatype error =
    ErrTerminal | ErrIllegalTransition | ErrCodeLocked | ErrNotYetDue | ErrWindowClosed
  | ErrInvalidSpec spec_fault
  | ErrNotFound | ErrConflict | ErrAlreadyAccepted | ErrNotClaimed | ErrAlreadyClaimed
  | ErrIllegalState | ErrAwaitingVendor | ErrRoleConflict | ErrInvalidSplit | ErrSessionInvalid
  | ErrInvalidInput input_fault | ErrForbidden | ErrCodeNotReady
  | ErrRejected | ErrNotSubmitted | ErrAmbiguous
  | ErrInvalidToken | ErrCiphertext | ErrTooLarge
  | ErrNoSession | ErrFlowState | ErrIDToken
  | ErrDB db_fault

type_synonym 'a res = "error + 'a"

definition bind_res :: "'a res \<Rightarrow> ('a \<Rightarrow> 'b res) \<Rightarrow> 'b res" where
  "bind_res m f = (case m of Inl e \<Rightarrow> Inl e | Inr x \<Rightarrow> f x)"

definition guard_res :: "bool \<Rightarrow> error \<Rightarrow> unit res" where
  "guard_res b e = (if b then Inr () else Inl e)"

lemma bind_res_simps [simp]:
  "bind_res (Inl e) f = Inl e"
  "bind_res (Inr x) f = f x"
  by (simp_all add: bind_res_def)

lemma bind_res_Inr_iff [res_simps]:
  "bind_res m f = Inr y \<longleftrightarrow> (\<exists>x. m = Inr x \<and> f x = Inr y)"
  by (cases m) auto

lemma guard_res_Inr_iff [res_simps]: "guard_res b e = Inr u \<longleftrightarrow> b"
  by (simp add: guard_res_def)

lemma guard_res_Inl_iff [res_simps]: "guard_res b e = Inl e' \<longleftrightarrow> \<not> b \<and> e' = e"
  by (auto simp: guard_res_def)

definition is_ok :: "'e + 'a \<Rightarrow> bool" where
  "is_ok r = (case r of Inl _ \<Rightarrow> False | Inr _ \<Rightarrow> True)"

lemma is_ok_simps [simp]: "is_ok (Inr x)" "\<not> is_ok (Inl e)"
  by (simp_all add: is_ok_def)

lemma is_ok_iff: "is_ok r \<longleftrightarrow> (\<exists>x. r = Inr x)"
  by (cases r) auto

section \<open>Transactions\<close>

text \<open>
  The body of a transaction reads and writes a state and may stop with an error;
  \<open>run_tx\<close> is \<^verbatim>\<open>store.withTx\<close>: the body's writes are kept when it returns and
  discarded when it fails.
\<close>

type_synonym ('s, 'a) tx = "'s \<Rightarrow> ('a \<times> 's) res"

definition return_tx :: "'a \<Rightarrow> ('s, 'a) tx" where
  "return_tx x = (\<lambda>s. Inr (x, s))"

definition fail_tx :: "error \<Rightarrow> ('s, 'a) tx" where
  "fail_tx e = (\<lambda>s. Inl e)"

definition bind_tx :: "('s, 'a) tx \<Rightarrow> ('a \<Rightarrow> ('s, 'b) tx) \<Rightarrow> ('s, 'b) tx" where
  "bind_tx m f = (\<lambda>s. case m s of Inl e \<Rightarrow> Inl e | Inr (x, s') \<Rightarrow> f x s')"

definition guard_tx :: "bool \<Rightarrow> error \<Rightarrow> ('s, unit) tx" where
  "guard_tx b e = (\<lambda>s. if b then Inr ((), s) else Inl e)"

definition read_tx :: "('s \<Rightarrow> 'a res) \<Rightarrow> ('s, 'a) tx" where
  "read_tx f = (\<lambda>s. case f s of Inl e \<Rightarrow> Inl e | Inr x \<Rightarrow> Inr (x, s))"

definition lift_tx :: "'a res \<Rightarrow> ('s, 'a) tx" where
  "lift_tx r = (\<lambda>s. case r of Inl e \<Rightarrow> Inl e | Inr x \<Rightarrow> Inr (x, s))"

definition run_tx :: "('s, 'a) tx \<Rightarrow> 's \<Rightarrow> 'a res \<times> 's" where
  "run_tx f s = (case f s of Inl e \<Rightarrow> (Inl e, s) | Inr (x, s') \<Rightarrow> (Inr x, s'))"

lemma bind_tx_Inr_iff [res_simps]:
  "bind_tx m f s = Inr y \<longleftrightarrow> (\<exists>x s'. m s = Inr (x, s') \<and> f x s' = Inr y)"
  by (auto simp: bind_tx_def split: sum.splits)

lemma return_tx_Inr_iff [res_simps]: "return_tx x s = Inr (y, s') \<longleftrightarrow> y = x \<and> s' = s"
  by (auto simp: return_tx_def)

lemma fail_tx_Inr_iff [res_simps]: "fail_tx e s = Inr y \<longleftrightarrow> False"
  by (simp add: fail_tx_def)

lemma guard_tx_Inr_iff [res_simps]: "guard_tx b e s = Inr (u, s') \<longleftrightarrow> b \<and> s' = s"
  by (auto simp: guard_tx_def)

lemma read_tx_Inr_iff [res_simps]: "read_tx f s = Inr (y, s') \<longleftrightarrow> f s = Inr y \<and> s' = s"
  by (auto simp: read_tx_def split: sum.splits)

lemma lift_tx_Inr_iff [res_simps]: "lift_tx r s = Inr (y, s') \<longleftrightarrow> r = Inr y \<and> s' = s"
  by (auto simp: lift_tx_def split: sum.splits)

lemma run_tx_Inr_iff [res_simps]:
  "run_tx f s = (Inr x, s') \<longleftrightarrow> f s = Inr (x, s')"
  by (auto simp: run_tx_def split: sum.splits)

lemma run_tx_Inl_iff [res_simps]:
  "run_tx f s = (Inl e, s') \<longleftrightarrow> f s = Inl e \<and> s' = s"
  by (auto simp: run_tx_def split: sum.splits)

text \<open>Evaluation of a transaction on a known state, step by step.\<close>

lemma tx_eval [simp]:
  "bind_tx (return_tx x) f = f x"
  "bind_tx (fail_tx e) f = fail_tx e"
  by (simp_all add: bind_tx_def return_tx_def fail_tx_def fun_eq_iff)

section \<open>Tables\<close>

text \<open>
  A table is the list of its rows in heap order.  \<open>update_where\<close> is
  \<^verbatim>\<open>UPDATE .. SET .. WHERE ..\<close>, \<open>rows_affected\<close> the number of rows it reports.
\<close>

definition select_one :: "('r \<Rightarrow> bool) \<Rightarrow> 'r list \<Rightarrow> 'r option" where
  "select_one P t = List.find P t"

definition update_where :: "('r \<Rightarrow> bool) \<Rightarrow> ('r \<Rightarrow> 'r) \<Rightarrow> 'r list \<Rightarrow> 'r list" where
  "update_where P f t = map (\<lambda>r. if P r then f r else r) t"

definition rows_affected :: "('r \<Rightarrow> bool) \<Rightarrow> 'r list \<Rightarrow> nat" where
  "rows_affected P t = length (filter P t)"

definition exists_where :: "('r \<Rightarrow> bool) \<Rightarrow> 'r list \<Rightarrow> bool" where
  "exists_where P t = list_ex P t"

lemma exists_where_iff [table_simps]: "exists_where P t \<longleftrightarrow> (\<exists>r \<in> set t. P r)"
  by (simp add: exists_where_def list_ex_iff)

lemma select_one_Some [table_simps]: "select_one P t = Some r \<Longrightarrow> r \<in> set t \<and> P r"
  by (auto simp: select_one_def find_Some_iff in_set_conv_nth)

lemma select_one_None_iff [table_simps]: "select_one P t = None \<longleftrightarrow> (\<forall>r \<in> set t. \<not> P r)"
  by (auto simp: select_one_def find_None_iff)

lemma length_update_where [simp]: "length (update_where P f t) = length t"
  by (simp add: update_where_def)

lemma set_update_where [table_simps]:
  "set (update_where P f t) = (\<lambda>r. if P r then f r else r) ` set t"
  by (simp add: update_where_def)

lemma rows_affected_zero [table_simps]: "rows_affected P t = 0 \<longleftrightarrow> (\<forall>r \<in> set t. \<not> P r)"
  by (auto simp: rows_affected_def filter_empty_conv)

lemma update_where_none [table_simps]: "(\<forall>r \<in> set t. \<not> P r) \<Longrightarrow> update_where P f t = t"
  by (simp add: update_where_def map_idI)

subsection \<open>Keyed tables\<close>

text \<open>
  The primary-key contract of an \<^verbatim>\<open>UPDATE\<close>: an assignment that leaves the key column
  alone keeps the keys of the table, hence their uniqueness, and changes the row of one key
  only when its condition selects that key.
\<close>

locale keyed_update =
  fixes key :: "'r \<Rightarrow> 'k" and upd :: "'r \<Rightarrow> 'r"
  assumes keeps_key: "key (upd r) = key r"
begin

lemma keys_update_where [simp]: "map key (update_where P upd t) = map key t"
  by (simp add: update_where_def keeps_key)

lemma distinct_update_where:
  "distinct (map key t) \<Longrightarrow> distinct (map key (update_where P upd t))"
  by simp

lemma find_update_where:
  "select_one (\<lambda>r. key r = k) (update_where P upd t) =
     map_option (\<lambda>r. if P r then upd r else r) (select_one (\<lambda>r. key r = k) t)"
  by (induction t) (auto simp: select_one_def update_where_def keeps_key)

lemma find_update_other:
  assumes "\<And>r. P r \<Longrightarrow> key r \<noteq> k"
  shows "select_one (\<lambda>r. key r = k) (update_where P upd t) = select_one (\<lambda>r. key r = k) t"
proof -
  have "map_option (\<lambda>r. if P r then upd r else r) (select_one (\<lambda>r. key r = k) t)
      = select_one (\<lambda>r. key r = k) t"
    by (cases "select_one (\<lambda>r. key r = k) t") (use assms in \<open>auto dest: select_one_Some\<close>)
  then show ?thesis by (simp add: find_update_where)
qed

end

lemma select_one_unique:
  assumes "distinct (map key t)" and "r \<in> set t" and "key r = k"
  shows "select_one (\<lambda>r. key r = k) t = Some r"
  using assms by (induction t) (auto simp: select_one_def)

end
