(* ===== verification/Go_Strings.thy ===== *)
theory Go_Strings
  imports Prelude
begin

text \<open>
  The string functions of Go's standard library the backend uses, on byte strings
  (\<open>char list\<close>): \<^verbatim>\<open>strings.Split/Join/Cut/CutPrefix/TrimSpace\<close>,
  \<^verbatim>\<open>hex.EncodeToString/DecodeString\<close> and decimal formatting, with the round trips the
  components rest on.  None of these definitions models repository code; they are the shared
  vocabulary of the theories that do.
\<close>

section \<open>Splitting and joining\<close>

fun split_on :: "char \<Rightarrow> string \<Rightarrow> string list" where
  "split_on c [] = [[]]"
| "split_on c (x # xs) =
     (if x = c then [] # split_on c xs
      else (case split_on c xs of [] \<Rightarrow> [[x]] | y # ys \<Rightarrow> (x # y) # ys))"

fun join_with :: "char \<Rightarrow> string list \<Rightarrow> string" where
  "join_with c [] = []"
| "join_with c [s] = s"
| "join_with c (s # t # ts) = s @ [c] @ join_with c (t # ts)"

fun cut_at :: "char \<Rightarrow> string \<Rightarrow> (string \<times> string \<times> bool)" where
  "cut_at c [] = ([], [], False)"
| "cut_at c (x # xs) =
     (if x = c then ([], xs, True)
      else (case cut_at c xs of (before, after, found) \<Rightarrow>
              if found then (x # before, after, True) else (x # xs, [], False)))"

fun cut_prefix :: "string \<Rightarrow> string \<Rightarrow> string option" where
  "cut_prefix [] s = Some s"
| "cut_prefix (p # ps) [] = None"
| "cut_prefix (p # ps) (x # xs) = (if p = x then cut_prefix ps xs else None)"

definition has_prefix :: "string \<Rightarrow> string \<Rightarrow> bool" where
  "has_prefix p s = (cut_prefix p s \<noteq> None)"

definition is_space :: "char \<Rightarrow> bool" where
  "is_space c \<longleftrightarrow> (of_char c :: nat) \<in> {9, 10, 11, 12, 13, 32}"

definition trim_space :: "string \<Rightarrow> string" where
  "trim_space s = rev (dropWhile is_space (rev (dropWhile is_space s)))"

lemma split_on_nonempty [simp]: "split_on c s \<noteq> []"
  by (induction s) (auto split: list.splits)

lemma split_on_no_sep: "c \<notin> set s \<Longrightarrow> split_on c s = [s]"
  by (induction s) auto

lemma split_on_append:
  "c \<notin> set s \<Longrightarrow> split_on c (s @ c # rest) = s # split_on c rest"
  by (induction s) auto

lemma split_join:
  "xs \<noteq> [] \<Longrightarrow> \<forall>s \<in> set xs. c \<notin> set s \<Longrightarrow> split_on c (join_with c xs) = xs"
  by (induction c xs rule: join_with.induct) (auto simp: split_on_no_sep split_on_append)

lemma join_split: "join_with c (split_on c s) = s"
proof (induction s)
  case (Cons x xs)
  then show ?case
    by (cases "split_on c xs" rule: list.exhaust; cases "tl (split_on c xs)") auto
qed simp

lemma split_on_parts: "p \<in> set (split_on c s) \<Longrightarrow> c \<notin> set p"
  by (induction s arbitrary: p) (auto split: list.splits if_splits)

lemma cut_at_append: "c \<notin> set s \<Longrightarrow> cut_at c (s @ c # rest) = (s, rest, True)"
  by (induction s) auto

lemma cut_at_none: "c \<notin> set s \<Longrightarrow> cut_at c s = (s, [], False)"
  by (induction s) auto

lemma cut_at_found: "cut_at c s = (b, a, True) \<Longrightarrow> s = b @ c # a \<and> c \<notin> set b"
  by (induction s arbitrary: b a) (auto split: if_splits prod.splits)

lemma cut_prefix_append [simp]: "cut_prefix p (p @ s) = Some s"
  by (induction p) auto

lemma cut_prefix_Some_iff: "cut_prefix p s = Some r \<longleftrightarrow> s = p @ r"
  by (induction p s rule: cut_prefix.induct) auto

lemma has_prefix_iff: "has_prefix p s \<longleftrightarrow> (\<exists>r. s = p @ r)"
  by (auto simp: has_prefix_def cut_prefix_Some_iff)

lemma dropWhile_none: "(\<forall>x \<in> set xs. \<not> P x) \<Longrightarrow> dropWhile P xs = xs"
  by (cases xs) auto

lemma trim_space_id: "(\<forall>c \<in> set s. \<not> is_space c) \<Longrightarrow> trim_space s = s"
  by (simp add: trim_space_def dropWhile_none)

section \<open>Hexadecimal\<close>

definition hex_digit :: "nat \<Rightarrow> char" where
  "hex_digit n = (if n < 10 then char_of (48 + n) else char_of (87 + n))"

definition hex_value :: "char \<Rightarrow> nat option" where
  "hex_value c = (let n = (of_char c :: nat) in
     if 48 \<le> n \<and> n \<le> 57 then Some (n - 48)
     else if 97 \<le> n \<and> n \<le> 102 then Some (n - 87)
     else if 65 \<le> n \<and> n \<le> 70 then Some (n - 55)
     else None)"

fun hex_encode :: "string \<Rightarrow> string" where
  "hex_encode [] = []"
| "hex_encode (b # bs) =
     hex_digit ((of_char b :: nat) div 16) # hex_digit ((of_char b :: nat) mod 16) # hex_encode bs"

fun hex_decode :: "string \<Rightarrow> string option" where
  "hex_decode [] = Some []"
| "hex_decode [c] = None"
| "hex_decode (c # d # rest) =
     (case (hex_value c, hex_value d, hex_decode rest) of
        (Some h, Some l, Some bs) \<Rightarrow> Some (char_of (16 * h + l) # bs)
      | _ \<Rightarrow> None)"

lemma hex_value_digit: "n < 16 \<Longrightarrow> hex_value (hex_digit n) = Some n"
  by (auto simp: hex_value_def hex_digit_def Let_def)

lemma hex_digit_lower: "n < 16 \<Longrightarrow>
    (of_char (hex_digit n) :: nat) \<in> {48..57} \<union> {97..102}"
  by (auto simp: hex_digit_def)

lemma hex_round_trip [simp]: "hex_decode (hex_encode bs) = Some bs"
proof (induction bs)
  case (Cons b bs)
  have "(of_char b :: nat) div 16 < 16"
    using nat_of_char_less_256 [of b] by linarith
  with Cons show ?case by (simp add: hex_value_digit)
qed simp

lemma length_hex_encode [simp]: "length (hex_encode bs) = 2 * length bs"
  by (induction bs) auto

lemma hex_encode_chars:
  "c \<in> set (hex_encode bs) \<Longrightarrow> (of_char c :: nat) \<in> {48..57} \<union> {97..102}"
proof (induction bs)
  case (Cons b bs)
  let ?R = "{48..57} \<union> {97..102} :: nat set"
  have "(of_char b :: nat) div 16 < 16"
    using nat_of_char_less_256 [of b] by linarith
  then have "(of_char (hex_digit ((of_char b :: nat) div 16)) :: nat) \<in> ?R"
    by (rule hex_digit_lower)
  moreover have "(of_char (hex_digit ((of_char b :: nat) mod 16)) :: nat) \<in> ?R"
    by (rule hex_digit_lower) simp
  ultimately show ?case using Cons by (simp only: hex_encode.simps set_simps) blast
qed simp

lemma hex_encode_no_dot [simp]: "CHR ''.'' \<notin> set (hex_encode bs)"
  using hex_encode_chars [of "CHR ''.''" bs] by auto

section \<open>Decimal\<close>

definition digit_char :: "nat \<Rightarrow> char" where
  "digit_char n = char_of (48 + n)"

definition is_digit :: "char \<Rightarrow> bool" where
  "is_digit c \<longleftrightarrow> 48 \<le> (of_char c :: nat) \<and> (of_char c :: nat) \<le> 57"

definition digit_value :: "char \<Rightarrow> int" where
  "digit_value c = int (of_char c :: nat) - 48"

function dec :: "nat \<Rightarrow> string" where
  "dec n = (if n < 10 then [digit_char n] else dec (n div 10) @ [digit_char (n mod 10)])"
  by pat_completeness auto
termination
  by (relation "measure id") auto

declare dec.simps [simp del]

text \<open>\<^verbatim>\<open>%0wd\<close>: zero padding on the left.\<close>

definition pad_zero :: "nat \<Rightarrow> string \<Rightarrow> string" where
  "pad_zero w s = replicate (w - length s) (CHR ''0'') @ s"

fun digits_value :: "int \<Rightarrow> string \<Rightarrow> int" where
  "digits_value acc [] = acc"
| "digits_value acc (c # cs) = digits_value (acc * 10 + digit_value c) cs"

lemma digit_char_props:
  "n < 10 \<Longrightarrow> is_digit (digit_char n)"
  "n < 10 \<Longrightarrow> digit_value (digit_char n) = int n"
  by (auto simp: is_digit_def digit_char_def digit_value_def)

lemma is_digit_not_special:
  "is_digit c \<Longrightarrow> c \<noteq> CHR ''.''" "is_digit c \<Longrightarrow> \<not> is_space c"
  by (auto simp: is_digit_def is_space_def)

lemma dec_digits: "c \<in> set (dec n) \<Longrightarrow> is_digit c"
proof (induction n arbitrary: c rule: dec.induct)
  case (1 n)
  then show ?case
    by (cases "n < 10") (auto simp: dec.simps [of n] digit_char_props)
qed

lemma dec_nonempty [simp]: "dec n \<noteq> []"
  by (subst dec.simps) simp

lemma digits_value_append: "digits_value acc (xs @ ys) = digits_value (digits_value acc xs) ys"
  by (induction xs arbitrary: acc) auto

lemma digits_value_dec: "digits_value 0 (dec n) = int n"
proof (induction n rule: dec.induct)
  case (1 n)
  show ?case
  proof (cases "n < 10")
    case True
    then show ?thesis by (simp add: dec.simps [of n] digit_char_props)
  next
    case False
    with 1 have "digits_value 0 (dec (n div 10)) = int (n div 10)" by simp
    with False show ?thesis
      by (simp add: dec.simps [of n] digits_value_append digit_char_props zdiv_int zmod_int)
  qed
qed

lemma length_dec_less: "n < 10 ^ k \<Longrightarrow> 0 < k \<Longrightarrow> length (dec n) \<le> k"
proof (induction k arbitrary: n)
  case (Suc k)
  show ?case
  proof (cases "n < 10")
    case True
    then show ?thesis by (simp add: dec.simps [of n])
  next
    case False
    with Suc.prems have k: "0 < k" by (cases k) auto
    from Suc.prems have "n div 10 < 10 ^ k" by auto
    with Suc.IH k have "length (dec (n div 10)) \<le> k" by blast
    with False show ?thesis by (simp add: dec.simps [of n])
  qed
qed simp

lemma digits_value_zeros: "digits_value 0 (replicate k (CHR ''0'') @ s) = digits_value 0 s"
  by (induction k) (auto simp: digit_value_def)

lemma pad_zero_length: "length s \<le> w \<Longrightarrow> length (pad_zero w s) = w"
  by (simp add: pad_zero_def)

lemma pad_zero_digits:
  "(\<forall>c \<in> set s. is_digit c) \<Longrightarrow> c \<in> set (pad_zero w s) \<Longrightarrow> is_digit c"
  by (auto simp: pad_zero_def is_digit_def)

end
