(* ===== verification/Release_Code.thy ===== *)
theory Release_Code
  imports Go_Strings
begin

text \<open>
  The Release Code package (\<^verbatim>\<open>internal/releasecode\<close>): generation, keyed hashing, verification,
  the entry-attempt policy and the encrypted buyer copy.  The primitives of
  \<^verbatim>\<open>crypto/*\<close> are parameters: \<open>hmac\<close> (key, message to digest bytes),
  \<open>sha\<close>, and the AEAD's \<open>seal\<close> and \<open>unseal\<close>, whose documented inverse
  property is a named hypothesis where a result needs it; the random draw is an argument.
\<close>

definition codeSpace :: int where
  "codeSpace = 10000"

definition MaxAttempts :: int where
  "MaxAttempts = 5"

text \<open>\<open>draw\<close> is the outcome of \<^verbatim>\<open>rand.Int(rand.Reader, codeSpace)\<close>.\<close>

definition Generate :: "int res \<Rightarrow> string res" where
  "Generate draw = bind_res draw (\<lambda>n. Inr (pad_zero 4 (dec (nat n))))"

definition Hash :: "(string \<Rightarrow> string \<Rightarrow> string) \<Rightarrow> string \<Rightarrow> string \<Rightarrow> string" where
  "Hash hmac code secret = hex_encode (hmac secret code)"

definition Verify :: "(string \<Rightarrow> string \<Rightarrow> string) \<Rightarrow> string \<Rightarrow> string \<Rightarrow> string \<Rightarrow> bool" where
  "Verify hmac expectedHash code secret \<longleftrightarrow> Hash hmac code secret = expectedHash"

definition RegisterFailure :: "int \<Rightarrow> int \<times> bool" where
  "RegisterFailure current =
     (let attempts = current + 1 in (attempts, MaxAttempts \<le> attempts))"

section \<open>The encrypted copy\<close>

text \<open>\<open>nonceSize\<close> is GCM's 12 bytes; \<open>seal key nonce plain\<close> is ciphertext with tag,
  \<open>unseal key nonce cipher\<close> is None when authentication fails.\<close>

definition nonceSize :: nat where
  "nonceSize = 12"

definition Seal :: "(string \<Rightarrow> string) \<Rightarrow> (string \<Rightarrow> string \<Rightarrow> string \<Rightarrow> string) \<Rightarrow>
    string \<Rightarrow> string \<Rightarrow> string res \<Rightarrow> string res" where
  "Seal sha seal code secret nonce_draw =
     bind_res nonce_draw (\<lambda>nonce. Inr (hex_encode (nonce @ seal (sha secret) nonce code)))"

definition Open :: "(string \<Rightarrow> string) \<Rightarrow> (string \<Rightarrow> string \<Rightarrow> string \<Rightarrow> string option) \<Rightarrow>
    string \<Rightarrow> string \<Rightarrow> string res" where
  "Open sha unseal token secret = (case hex_decode token of
       None \<Rightarrow> Inl ErrCiphertext
     | Some sealed \<Rightarrow>
         (if length sealed < nonceSize then Inl ErrCiphertext
          else (case unseal (sha secret) (take nonceSize sealed) (drop nonceSize sealed) of
                  None \<Rightarrow> Inl ErrCiphertext
                | Some plaintext \<Rightarrow> Inr plaintext)))"

section \<open>Lemmas\<close>

lemma RegisterFailure_simp [simp]: "RegisterFailure n = (n + 1, 4 \<le> n)"
  by (simp add: RegisterFailure_def MaxAttempts_def)

lemma Generate_form:
  assumes "0 \<le> n" and "n < codeSpace"
  shows "\<exists>c. Generate (Inr n) = Inr c \<and> length c = 4 \<and> (\<forall>x \<in> set c. is_digit x)
      \<and> digits_value 0 c = n"
proof -
  have "nat n < 10 ^ 4" using assms by (simp add: codeSpace_def)
  then have "length (dec (nat n)) \<le> 4" using length_dec_less [of "nat n" 4] by simp
  moreover have "\<forall>x \<in> set (pad_zero 4 (dec (nat n))). is_digit x"
    using pad_zero_digits dec_digits by blast
  moreover have "digits_value 0 (pad_zero 4 (dec (nat n))) = n"
    using assms by (simp add: pad_zero_def digits_value_zeros digits_value_dec)
  ultimately show ?thesis by (simp add: Generate_def pad_zero_length)
qed

lemma Generate_error: "Generate (Inl e) = Inl e"
  by (simp add: Generate_def)

lemma Verify_Hash [simp]: "Verify hmac (Hash hmac code secret) code secret"
  by (simp add: Verify_def)

lemma Open_Seal:
  assumes "length nonce = nonceSize"
    and "\<And>k n p. unseal k n (seal k n p) = Some p"
  shows "bind_res (Seal sha seal code secret (Inr nonce)) (\<lambda>t. Open sha unseal t secret) = Inr code"
  using assms by (simp add: Seal_def Open_def)

lemma Open_short: "length sealed < nonceSize \<Longrightarrow>
    Open sha unseal (hex_encode sealed) secret = Inl ErrCiphertext"
  by (simp add: Open_def)

end
