(* ===== verification/Pocket.thy ===== *)
theory Pocket
  imports Release_Code
begin

text \<open>
  The escrow domain core (\<^verbatim>\<open>internal/pocket\<close>): states, roles, effects, the Pocket aggregate,
  its construction (transition \#1) and the transition function (\#2 to \#15).  Go's string
  types are closed datatypes plus an \<open>Other\<close> constructor, because the code converts
  arbitrary strings to them (request fields, the store's \<^verbatim>\<open>DRAFT\<close> position, the actors
  \<^verbatim>\<open>admin\<close> and \<^verbatim>\<open>system\<close>) and has branches for the unknown ones.
\<close>

section \<open>States, structures, modes, roles\<close>

datatype state =
    StateCreated | StateFunded | StateDeliveredPending | StateSettled | StateDisputed
  | StateFrozen | StateRefunded | StateCancelled | StateExpired | StateOther string

fun IsTerminal :: "state \<Rightarrow> bool" where
  "IsTerminal StateSettled = True"
| "IsTerminal StateRefunded = True"
| "IsTerminal StateCancelled = True"
| "IsTerminal StateExpired = True"
| "IsTerminal _ = False"

datatype pocket_structure = StructureP2P | StructureBrokered | StructureOther string
datatype mode = ModeInstant | ModeCooldown | ModeOther string
datatype role = RoleBuyer | RoleVendor | RoleBroker | RoleOther string
datatype dispute_class = DisputeNone | DisputeNotDelivered | DisputeNotAsDescribed
datatype sanction_kind = SanctionFraudFlag | SanctionStrike

section \<open>Effects\<close>

record payout_leg =
  leg_Role :: role
  leg_AmountKobo :: int

datatype notify_kind =
    NotifyFundsSecured | NotifyDeliveryConfirmed | NotifyHandoffConfirmed | NotifyCodeLocked
  | NotifyFundingExpired | NotifyCancelled | NotifyRefundIssued | NotifyDeliveryWindowClosed
  | NotifyDisputeOpened | NotifySettled

datatype effect =
    CreateFundingLink gotime
  | GenerateReleaseCode
  | PromptEvidence duration
  | StartGrace gotime
  | SchedulePayout "payout_leg list"
  | ExecuteRefund role int
  | Notify role notify_kind
  | Sanction role sanction_kind

section \<open>The aggregate\<close>

definition DefaultGracePeriod :: duration where
  "DefaultGracePeriod = 24 * time_Hour"

definition DefaultEvidenceCaptureWindow :: duration where
  "DefaultEvidenceCaptureWindow = 60 * time_Minute"

record pocket =
  p_State :: state
  p_Structure :: pocket_structure
  p_CreatorRole :: role
  p_Mode :: mode
  p_InspectionWindow :: duration
  p_DeliveryWindow :: duration
  p_AmountKobo :: int
  p_CommissionKobo :: int
  p_PremiumKobo :: int
  p_DeliveryDeadline :: gotime
  p_SettleAfter :: gotime
  p_GraceDeadline :: gotime
  p_FundingExpiresAt :: gotime
  p_CodeAttempts :: int
  p_CodeLocked :: bool
  p_DisputeClass :: dispute_class
  p_GracePeriod :: duration
  p_EvidenceCaptureWindow :: duration

record spec =
  sp_Structure :: pocket_structure
  sp_CreatorRole :: role
  sp_Mode :: mode
  sp_InspectionWindow :: duration
  sp_DeliveryWindow :: duration
  sp_AmountKobo :: int
  sp_CommissionKobo :: int
  sp_PremiumKobo :: int
  sp_FundingTTL :: duration
  sp_GracePeriod :: duration
  sp_EvidenceCaptureWindow :: duration

record outcome =
  out_Pocket :: pocket
  out_Effects :: "effect list"

definition validate_structure :: "spec \<Rightarrow> unit res" where
  "validate_structure s = (case sp_Structure s of
       StructureP2P \<Rightarrow>
         (if sp_CommissionKobo s \<noteq> 0 then Inl (ErrInvalidSpec P2PCommission)
          else if sp_CreatorRole s \<noteq> RoleBuyer \<and> sp_CreatorRole s \<noteq> RoleVendor
          then Inl (ErrInvalidSpec P2PCreator)
          else Inr ())
     | StructureBrokered \<Rightarrow>
         (if sp_CreatorRole s \<noteq> RoleBroker then Inl (ErrInvalidSpec BrokeredCreator) else Inr ())
     | StructureOther x \<Rightarrow> Inl (ErrInvalidSpec (UnknownStructure x)))"

definition validate_mode :: "spec \<Rightarrow> unit res" where
  "validate_mode s = (case sp_Mode s of
       ModeInstant \<Rightarrow>
         (if sp_InspectionWindow s \<noteq> 0 then Inl (ErrInvalidSpec InstantWindow) else Inr ())
     | ModeCooldown \<Rightarrow>
         (if sp_InspectionWindow s \<le> 0 then Inl (ErrInvalidSpec CooldownWindow) else Inr ())
     | ModeOther x \<Rightarrow> Inl (ErrInvalidSpec (UnknownMode x)))"

definition validate :: "spec \<Rightarrow> unit res" where
  "validate s =
     (if sp_AmountKobo s \<le> 0 then Inl (ErrInvalidSpec AmountNotPositive)
      else if sp_CommissionKobo s < 0 \<or> sp_PremiumKobo s < 0 then Inl (ErrInvalidSpec NegativeFees)
      else bind_res (validate_structure s) (\<lambda>_. bind_res (validate_mode s) (\<lambda>_.
        if sp_DeliveryWindow s \<le> 0 then Inl (ErrInvalidSpec DeliveryWindowNotPositive)
        else if sp_FundingTTL s \<le> 0 then Inl (ErrInvalidSpec FundingTTLNotPositive)
        else Inr ())))"

definition ValidateSpec :: "spec \<Rightarrow> unit res" where
  "ValidateSpec s = validate s"

text \<open>Transition \#1.\<close>

definition New :: "gotime \<Rightarrow> spec \<Rightarrow> outcome res" where
  "New now s = bind_res (validate s) (\<lambda>_.
     let grace = (if sp_GracePeriod s = 0 then DefaultGracePeriod else sp_GracePeriod s);
         capture = (if sp_EvidenceCaptureWindow s = 0 then DefaultEvidenceCaptureWindow
                    else sp_EvidenceCaptureWindow s);
         p = \<lparr>p_State = StateCreated, p_Structure = sp_Structure s,
              p_CreatorRole = sp_CreatorRole s, p_Mode = sp_Mode s,
              p_InspectionWindow = sp_InspectionWindow s, p_DeliveryWindow = sp_DeliveryWindow s,
              p_AmountKobo = sp_AmountKobo s, p_CommissionKobo = sp_CommissionKobo s,
              p_PremiumKobo = sp_PremiumKobo s, p_DeliveryDeadline = 0, p_SettleAfter = 0,
              p_GraceDeadline = 0, p_FundingExpiresAt = now + sp_FundingTTL s,
              p_CodeAttempts = 0, p_CodeLocked = False, p_DisputeClass = DisputeNone,
              p_GracePeriod = grace, p_EvidenceCaptureWindow = capture\<rparr>
     in Inr \<lparr>out_Pocket = p, out_Effects = [CreateFundingLink (p_FundingExpiresAt p)]\<rparr>)"

definition BuyerTotalKobo :: "pocket \<Rightarrow> int" where
  "BuyerTotalKobo p = i64 (i64 (p_AmountKobo p + p_CommissionKobo p) + p_PremiumKobo p)"

definition PayoutLegs :: "pocket \<Rightarrow> payout_leg list" where
  "PayoutLegs p =
     [\<lparr>leg_Role = RoleVendor, leg_AmountKobo = p_AmountKobo p\<rparr>] @
     (if p_Structure p = StructureBrokered \<and> 0 < p_CommissionKobo p
      then [\<lparr>leg_Role = RoleBroker, leg_AmountKobo = p_CommissionKobo p\<rparr>] else [])"

definition DueForSettlement :: "pocket \<Rightarrow> gotime \<Rightarrow> bool" where
  "DueForSettlement p now \<longleftrightarrow>
     p_State p = StateDeliveredPending \<and> \<not> Before now (p_SettleAfter p)"

section \<open>Events and transitions\<close>

datatype event_kind =
    EvFundingConfirmed | EvFundingExpired | EvCancel | EvVendorCancel | EvCodeAccepted
  | EvCodeRejected | EvDeliveryDeadlineLapsed | EvRefundFrozen | EvFrozenDispute | EvSettleDue
  | EvBuyerReportIssue | EvVendorConcede | EvAdminForceRefund | EvAdminForcePayout
  | EvOther string

record event =
  ev_Kind :: event_kind
  ev_Reason :: string
  ev_BadFaith :: bool

abbreviation event_of :: "event_kind \<Rightarrow> event" where
  "event_of k \<equiv> \<lparr>ev_Kind = k, ev_Reason = '''', ev_BadFaith = False\<rparr>"

abbreviation Outcome :: "pocket \<Rightarrow> effect list \<Rightarrow> outcome res" where
  "Outcome p es \<equiv> Inr \<lparr>out_Pocket = p, out_Effects = es\<rparr>"

definition bothNotify :: "notify_kind \<Rightarrow> effect list" where
  "bothNotify k = [Notify RoleBuyer k, Notify RoleVendor k]"

definition settleEffects :: "pocket \<Rightarrow> effect list" where
  "settleEffects p =
     [SchedulePayout (PayoutLegs p), Notify RoleVendor NotifySettled] @
     (if p_Structure p = StructureBrokered then [Notify RoleBroker NotifySettled] else [])"

definition refundEffects :: "pocket \<Rightarrow> effect list" where
  "refundEffects p = ExecuteRefund RoleBuyer (BuyerTotalKobo p) # bothNotify NotifyRefundIssued"

definition disputeNotify :: "pocket \<Rightarrow> effect list" where
  "disputeNotify p =
     bothNotify NotifyDisputeOpened @
     (if p_Structure p = StructureBrokered then [Notify RoleBroker NotifyDisputeOpened] else [])"

definition fundingConfirmed :: "pocket \<Rightarrow> gotime \<Rightarrow> outcome res" where
  "fundingConfirmed p now =
     (if p_State p \<noteq> StateCreated then Inl ErrIllegalTransition
      else Outcome (p\<lparr>p_State := StateFunded, p_DeliveryDeadline := now + p_DeliveryWindow p\<rparr>)
             [GenerateReleaseCode, Notify RoleVendor NotifyFundsSecured])"

definition fundingExpired :: "pocket \<Rightarrow> gotime \<Rightarrow> outcome res" where
  "fundingExpired p now =
     (if p_State p \<noteq> StateCreated then Inl ErrIllegalTransition
      else if \<not> IsZero (p_FundingExpiresAt p) \<and> Before now (p_FundingExpiresAt p)
      then Inl ErrNotYetDue
      else Outcome (p\<lparr>p_State := StateExpired\<rparr>) (bothNotify NotifyFundingExpired))"

definition cancel :: "pocket \<Rightarrow> outcome res" where
  "cancel p =
     (if p_State p \<noteq> StateCreated then Inl ErrIllegalTransition
      else Outcome (p\<lparr>p_State := StateCancelled\<rparr>) (bothNotify NotifyCancelled))"

definition vendorCancel :: "pocket \<Rightarrow> outcome res" where
  "vendorCancel p =
     (if p_State p \<noteq> StateFunded then Inl ErrIllegalTransition
      else Outcome (p\<lparr>p_State := StateRefunded\<rparr>) (refundEffects p))"

definition codeAccepted :: "pocket \<Rightarrow> gotime \<Rightarrow> outcome res" where
  "codeAccepted p now =
     (if p_State p \<noteq> StateFunded \<and> p_State p \<noteq> StateFrozen then Inl ErrIllegalTransition
      else if p_CodeLocked p then Inl ErrCodeLocked
      else Outcome
        (p\<lparr>p_State := StateDeliveredPending, p_SettleAfter := now + p_InspectionWindow p,
           p_GraceDeadline := 0\<rparr>)
        ((if p_Mode p = ModeCooldown then [PromptEvidence (p_EvidenceCaptureWindow p)] else []) @
         [Notify RoleBuyer NotifyDeliveryConfirmed, Notify RoleVendor NotifyHandoffConfirmed]))"

definition codeRejected :: "pocket \<Rightarrow> outcome res" where
  "codeRejected p =
     (if p_State p \<noteq> StateFunded \<and> p_State p \<noteq> StateFrozen then Inl ErrIllegalTransition
      else if p_CodeLocked p then Inl ErrCodeLocked
      else (case RegisterFailure (p_CodeAttempts p) of (attempts, locked) \<Rightarrow>
        Outcome (p\<lparr>p_CodeAttempts := attempts, p_CodeLocked := locked\<rparr>)
          (if locked then bothNotify NotifyCodeLocked else [])))"

definition deliveryDeadlineLapsed :: "pocket \<Rightarrow> gotime \<Rightarrow> outcome res" where
  "deliveryDeadlineLapsed p now =
     (if p_State p \<noteq> StateFunded then Inl ErrIllegalTransition
      else if \<not> IsZero (p_DeliveryDeadline p) \<and> Before now (p_DeliveryDeadline p)
      then Inl ErrNotYetDue
      else (let next = p\<lparr>p_State := StateFrozen, p_GraceDeadline := now + p_GracePeriod p\<rparr>
        in Outcome next (StartGrace (p_GraceDeadline next) # bothNotify NotifyDeliveryWindowClosed)))"

definition refundFrozen :: "pocket \<Rightarrow> outcome res" where
  "refundFrozen p =
     (if p_State p \<noteq> StateFrozen then Inl ErrIllegalTransition
      else Outcome (p\<lparr>p_State := StateRefunded\<rparr>) (refundEffects p))"

definition frozenDispute :: "pocket \<Rightarrow> outcome res" where
  "frozenDispute p =
     (if p_State p \<noteq> StateFrozen then Inl ErrIllegalTransition
      else Outcome (p\<lparr>p_State := StateDisputed, p_DisputeClass := DisputeNotDelivered\<rparr>)
             (disputeNotify p))"

definition settleDue :: "pocket \<Rightarrow> gotime \<Rightarrow> outcome res" where
  "settleDue p now =
     (if p_State p \<noteq> StateDeliveredPending then Inl ErrIllegalTransition
      else if Before now (p_SettleAfter p) then Inl ErrNotYetDue
      else Outcome (p\<lparr>p_State := StateSettled\<rparr>) (settleEffects p))"

definition buyerReportIssue :: "pocket \<Rightarrow> gotime \<Rightarrow> outcome res" where
  "buyerReportIssue p now =
     (if p_State p \<noteq> StateDeliveredPending then Inl ErrIllegalTransition
      else if \<not> Before now (p_SettleAfter p) then Inl ErrWindowClosed
      else Outcome (p\<lparr>p_State := StateDisputed, p_DisputeClass := DisputeNotAsDescribed\<rparr>)
             (disputeNotify p))"

definition vendorConcede :: "pocket \<Rightarrow> outcome res" where
  "vendorConcede p =
     (if p_State p \<noteq> StateDisputed then Inl ErrIllegalTransition
      else Outcome (p\<lparr>p_State := StateRefunded\<rparr>) (refundEffects p))"

definition adminForceRefund :: "pocket \<Rightarrow> outcome res" where
  "adminForceRefund p =
     (if p_State p \<noteq> StateDisputed then Inl ErrIllegalTransition
      else Outcome (p\<lparr>p_State := StateRefunded\<rparr>)
             (refundEffects p @ [Sanction RoleVendor SanctionFraudFlag]))"

definition adminForcePayout :: "pocket \<Rightarrow> event \<Rightarrow> outcome res" where
  "adminForcePayout p ev =
     (if p_State p \<noteq> StateDisputed then Inl ErrIllegalTransition
      else Outcome (p\<lparr>p_State := StateSettled\<rparr>)
             (settleEffects p @
              (if ev_BadFaith ev then [Sanction RoleBuyer SanctionStrike] else [])))"

definition Transition :: "pocket \<Rightarrow> gotime \<Rightarrow> event \<Rightarrow> outcome res" where
  "Transition p now ev =
     (if IsTerminal (p_State p) then Inl ErrTerminal
      else (case ev_Kind ev of
          EvFundingConfirmed \<Rightarrow> fundingConfirmed p now
        | EvFundingExpired \<Rightarrow> fundingExpired p now
        | EvCancel \<Rightarrow> cancel p
        | EvVendorCancel \<Rightarrow> vendorCancel p
        | EvCodeAccepted \<Rightarrow> codeAccepted p now
        | EvCodeRejected \<Rightarrow> codeRejected p
        | EvDeliveryDeadlineLapsed \<Rightarrow> deliveryDeadlineLapsed p now
        | EvRefundFrozen \<Rightarrow> refundFrozen p
        | EvFrozenDispute \<Rightarrow> frozenDispute p
        | EvSettleDue \<Rightarrow> settleDue p now
        | EvBuyerReportIssue \<Rightarrow> buyerReportIssue p now
        | EvVendorConcede \<Rightarrow> vendorConcede p
        | EvAdminForceRefund \<Rightarrow> adminForceRefund p
        | EvAdminForcePayout \<Rightarrow> adminForcePayout p ev
        | EvOther _ \<Rightarrow> Inl ErrIllegalTransition))"

lemmas transition_defs =
  Transition_def fundingConfirmed_def fundingExpired_def cancel_def vendorCancel_def
  codeAccepted_def codeRejected_def deliveryDeadlineLapsed_def refundFrozen_def
  frozenDispute_def settleDue_def buyerReportIssue_def vendorConcede_def adminForceRefund_def
  adminForcePayout_def

lemmas effect_defs = bothNotify_def settleEffects_def refundEffects_def disputeNotify_def

end
