(* ===== verification/Pocket_Spec.thy ===== *)
theory Pocket_Spec
  imports Pocket
begin

text \<open>
  The contract of the domain core: the documented transition table as data, the guard of each
  edge, the well-formedness invariant, runs of the machine, and the progress measure that
  bounds them.  The component's claims rest on the lemmas of this theory.
\<close>

section \<open>The transition table of the package documentation\<close>

definition transition_table :: "(nat \<times> state \<times> state \<times> event_kind) list" where
  "transition_table =
     [(2, StateCreated, StateFunded, EvFundingConfirmed),
      (3, StateCreated, StateExpired, EvFundingExpired),
      (4, StateCreated, StateCancelled, EvCancel),
      (5, StateFunded, StateRefunded, EvVendorCancel),
      (6, StateFunded, StateDeliveredPending, EvCodeAccepted),
      (7, StateFunded, StateFrozen, EvDeliveryDeadlineLapsed),
      (8, StateFrozen, StateDeliveredPending, EvCodeAccepted),
      (9, StateFrozen, StateRefunded, EvRefundFrozen),
      (10, StateFrozen, StateDisputed, EvFrozenDispute),
      (11, StateDeliveredPending, StateSettled, EvSettleDue),
      (12, StateDeliveredPending, StateDisputed, EvBuyerReportIssue),
      (13, StateDisputed, StateRefunded, EvVendorConcede),
      (14, StateDisputed, StateRefunded, EvAdminForceRefund),
      (15, StateDisputed, StateSettled, EvAdminForcePayout)]"

definition table_edge :: "event_kind \<Rightarrow> state \<Rightarrow> state \<Rightarrow> bool" where
  "table_edge k s t \<longleftrightarrow> (s, t, k) \<in> snd ` set transition_table"

text \<open>What besides the state decides an edge: the timers and the code lock.\<close>

fun edge_guard :: "event_kind \<Rightarrow> pocket \<Rightarrow> gotime \<Rightarrow> bool" where
  "edge_guard EvFundingExpired p now = (p_FundingExpiresAt p = 0 \<or> p_FundingExpiresAt p \<le> now)"
| "edge_guard EvDeliveryDeadlineLapsed p now =
     (p_DeliveryDeadline p = 0 \<or> p_DeliveryDeadline p \<le> now)"
| "edge_guard EvSettleDue p now = (p_SettleAfter p \<le> now)"
| "edge_guard EvBuyerReportIssue p now = (now < p_SettleAfter p)"
| "edge_guard EvCodeAccepted p now = (\<not> p_CodeLocked p)"
| "edge_guard EvCodeRejected p now = (\<not> p_CodeLocked p)"
| "edge_guard _ p now = True"

text \<open>The error of a refused edge.\<close>

fun guard_error :: "event_kind \<Rightarrow> error" where
  "guard_error EvBuyerReportIssue = ErrWindowClosed"
| "guard_error EvCodeAccepted = ErrCodeLocked"
| "guard_error EvCodeRejected = ErrCodeLocked"
| "guard_error _ = ErrNotYetDue"

definition has_edge :: "event_kind \<Rightarrow> state \<Rightarrow> bool" where
  "has_edge k s \<longleftrightarrow>
     (\<exists>t. table_edge k s t) \<or> (k = EvCodeRejected \<and> s \<in> {StateFunded, StateFrozen})"

lemma table_edge_simps [simp]:
  "table_edge EvFundingConfirmed s t \<longleftrightarrow> s = StateCreated \<and> t = StateFunded"
  "table_edge EvFundingExpired s t \<longleftrightarrow> s = StateCreated \<and> t = StateExpired"
  "table_edge EvCancel s t \<longleftrightarrow> s = StateCreated \<and> t = StateCancelled"
  "table_edge EvVendorCancel s t \<longleftrightarrow> s = StateFunded \<and> t = StateRefunded"
  "table_edge EvCodeAccepted s t \<longleftrightarrow>
     (s = StateFunded \<or> s = StateFrozen) \<and> t = StateDeliveredPending"
  "table_edge EvDeliveryDeadlineLapsed s t \<longleftrightarrow> s = StateFunded \<and> t = StateFrozen"
  "table_edge EvRefundFrozen s t \<longleftrightarrow> s = StateFrozen \<and> t = StateRefunded"
  "table_edge EvFrozenDispute s t \<longleftrightarrow> s = StateFrozen \<and> t = StateDisputed"
  "table_edge EvSettleDue s t \<longleftrightarrow> s = StateDeliveredPending \<and> t = StateSettled"
  "table_edge EvBuyerReportIssue s t \<longleftrightarrow> s = StateDeliveredPending \<and> t = StateDisputed"
  "table_edge EvVendorConcede s t \<longleftrightarrow> s = StateDisputed \<and> t = StateRefunded"
  "table_edge EvAdminForceRefund s t \<longleftrightarrow> s = StateDisputed \<and> t = StateRefunded"
  "table_edge EvAdminForcePayout s t \<longleftrightarrow> s = StateDisputed \<and> t = StateSettled"
  "table_edge EvCodeRejected s t \<longleftrightarrow> False"
  "table_edge (EvOther x) s t \<longleftrightarrow> False"
  by (auto simp: table_edge_def transition_table_def)

lemma has_edge_nonterminal: "has_edge k s \<Longrightarrow> \<not> IsTerminal s"
  by (cases k) (auto simp: has_edge_def)

text \<open>The whole behaviour of one event: terminal, no edge, refused guard, or the edge.\<close>

lemma Transition_result:
  "Transition p now ev =
     (if IsTerminal (p_State p) then Inl ErrTerminal
      else if \<not> has_edge (ev_Kind ev) (p_State p) then Inl ErrIllegalTransition
      else if \<not> edge_guard (ev_Kind ev) p now then Inl (guard_error (ev_Kind ev))
      else Transition p now ev)"
  by (cases "ev_Kind ev") (auto simp: transition_defs has_edge_def)

lemma Transition_ok_iff:
  "is_ok (Transition p now ev) \<longleftrightarrow>
     \<not> IsTerminal (p_State p) \<and> has_edge (ev_Kind ev) (p_State p) \<and> edge_guard (ev_Kind ev) p now"
  by (cases "ev_Kind ev") (auto simp: transition_defs has_edge_def Let_def)

lemma Transition_edge:
  assumes "Transition p now ev = Inr out"
  shows "table_edge (ev_Kind ev) (p_State p) (p_State (out_Pocket out)) \<or>
    (ev_Kind ev = EvCodeRejected \<and> p_State (out_Pocket out) = p_State p \<and>
     p_State p \<in> {StateFunded, StateFrozen})"
  using assms by (cases "ev_Kind ev") (auto simp: transition_defs Let_def split: if_splits)

section \<open>The terms never change\<close>

definition same_terms :: "pocket \<Rightarrow> pocket \<Rightarrow> bool" where
  "same_terms p q \<longleftrightarrow>
     p_Structure q = p_Structure p \<and> p_CreatorRole q = p_CreatorRole p \<and> p_Mode q = p_Mode p \<and>
     p_InspectionWindow q = p_InspectionWindow p \<and> p_DeliveryWindow q = p_DeliveryWindow p \<and>
     p_AmountKobo q = p_AmountKobo p \<and> p_CommissionKobo q = p_CommissionKobo p \<and>
     p_PremiumKobo q = p_PremiumKobo p \<and> p_FundingExpiresAt q = p_FundingExpiresAt p \<and>
     p_GracePeriod q = p_GracePeriod p \<and> p_EvidenceCaptureWindow q = p_EvidenceCaptureWindow p"

lemma same_terms_refl [simp]: "same_terms p p"
  by (simp add: same_terms_def)

lemma same_terms_trans: "same_terms p q \<Longrightarrow> same_terms q r \<Longrightarrow> same_terms p r"
  by (simp add: same_terms_def)

lemma same_terms_money:
  "same_terms p q \<Longrightarrow> BuyerTotalKobo q = BuyerTotalKobo p"
  "same_terms p q \<Longrightarrow> PayoutLegs q = PayoutLegs p"
  by (simp_all add: same_terms_def BuyerTotalKobo_def PayoutLegs_def)

lemma Transition_same_terms: "Transition p now ev = Inr out \<Longrightarrow> same_terms p (out_Pocket out)"
  by (cases "ev_Kind ev") (auto simp: transition_defs same_terms_def Let_def split: if_splits)

section \<open>Well-formed pockets\<close>

definition wf_terms :: "pocket \<Rightarrow> bool" where
  "wf_terms p \<longleftrightarrow>
     0 < p_AmountKobo p \<and> 0 \<le> p_CommissionKobo p \<and> 0 \<le> p_PremiumKobo p \<and>
     (case p_Structure p of
        StructureP2P \<Rightarrow> p_CommissionKobo p = 0 \<and>
          (p_CreatorRole p = RoleBuyer \<or> p_CreatorRole p = RoleVendor)
      | StructureBrokered \<Rightarrow> p_CreatorRole p = RoleBroker
      | StructureOther _ \<Rightarrow> False) \<and>
     (case p_Mode p of
        ModeInstant \<Rightarrow> p_InspectionWindow p = 0
      | ModeCooldown \<Rightarrow> 0 < p_InspectionWindow p
      | ModeOther _ \<Rightarrow> False) \<and>
     0 < p_DeliveryWindow p"

definition wf_code :: "pocket \<Rightarrow> bool" where
  "wf_code p \<longleftrightarrow> 0 \<le> p_CodeAttempts p \<and> p_CodeAttempts p \<le> MaxAttempts \<and>
     (p_CodeLocked p \<longleftrightarrow> p_CodeAttempts p = MaxAttempts)"

definition wf_position :: "pocket \<Rightarrow> bool" where
  "wf_position p \<longleftrightarrow> (case p_State p of
       StateCreated \<Rightarrow> p_CodeAttempts p = 0 \<and> p_DisputeClass p = DisputeNone
     | StateExpired \<Rightarrow> p_CodeAttempts p = 0
     | StateCancelled \<Rightarrow> p_CodeAttempts p = 0
     | StateFunded \<Rightarrow> p_DisputeClass p = DisputeNone
     | StateFrozen \<Rightarrow> p_DisputeClass p = DisputeNone
     | StateDeliveredPending \<Rightarrow>
         p_DisputeClass p = DisputeNone \<and> \<not> p_CodeLocked p \<and> p_GraceDeadline p = 0
     | StateDisputed \<Rightarrow> p_DisputeClass p \<noteq> DisputeNone
     | StateSettled \<Rightarrow> True
     | StateRefunded \<Rightarrow> True
     | StateOther _ \<Rightarrow> False)"

definition wf_pocket :: "pocket \<Rightarrow> bool" where
  "wf_pocket p \<longleftrightarrow> wf_terms p \<and> wf_code p \<and> wf_position p"

lemma same_terms_wf: "same_terms p q \<Longrightarrow> wf_terms p \<Longrightarrow> wf_terms q"
  by (auto simp: same_terms_def wf_terms_def split: pocket_structure.splits mode.splits)

lemma validate_ok_iff:
  "validate s = Inr u \<longleftrightarrow>
     0 < sp_AmountKobo s \<and> 0 \<le> sp_CommissionKobo s \<and> 0 \<le> sp_PremiumKobo s \<and>
     (case sp_Structure s of
        StructureP2P \<Rightarrow> sp_CommissionKobo s = 0 \<and>
          (sp_CreatorRole s = RoleBuyer \<or> sp_CreatorRole s = RoleVendor)
      | StructureBrokered \<Rightarrow> sp_CreatorRole s = RoleBroker
      | StructureOther _ \<Rightarrow> False) \<and>
     (case sp_Mode s of
        ModeInstant \<Rightarrow> sp_InspectionWindow s = 0
      | ModeCooldown \<Rightarrow> 0 < sp_InspectionWindow s
      | ModeOther _ \<Rightarrow> False) \<and>
     0 < sp_DeliveryWindow s \<and> 0 < sp_FundingTTL s"
  by (cases "sp_Structure s"; cases "sp_Mode s")
    (auto simp: validate_def validate_structure_def validate_mode_def res_simps split: if_splits)

lemma New_ok_iff: "is_ok (New now s) \<longleftrightarrow> is_ok (validate s)"
  by (cases "validate s") (auto simp: New_def Let_def)

lemma New_fields:
  assumes "New now s = Inr out"
  shows "p_State (out_Pocket out) = StateCreated" "p_Structure (out_Pocket out) = sp_Structure s"
    "p_CreatorRole (out_Pocket out) = sp_CreatorRole s" "p_Mode (out_Pocket out) = sp_Mode s"
    "p_InspectionWindow (out_Pocket out) = sp_InspectionWindow s"
    "p_DeliveryWindow (out_Pocket out) = sp_DeliveryWindow s"
    "p_AmountKobo (out_Pocket out) = sp_AmountKobo s" "p_CommissionKobo (out_Pocket out) = sp_CommissionKobo s"
    "p_PremiumKobo (out_Pocket out) = sp_PremiumKobo s" "p_CodeAttempts (out_Pocket out) = 0"
    "\<not> p_CodeLocked (out_Pocket out)" "p_DisputeClass (out_Pocket out) = DisputeNone"
  using assms unfolding New_def Let_def by (auto simp: res_simps)

lemmas New_state [simp] = New_fields(1)

lemma New_wf:
  assumes "New now s = Inr out"
  shows "wf_pocket (out_Pocket out)"
proof -
  have "validate s = Inr ()" using assms New_ok_iff [of now s] by (auto simp: is_ok_iff)
  then show ?thesis unfolding validate_ok_iff
    by (cases "sp_Structure s"; cases "sp_Mode s")
      (auto simp: wf_pocket_def wf_terms_def wf_code_def wf_position_def New_fields [OF assms] MaxAttempts_def)
qed

lemma Transition_wf_code:
  "Transition p now ev = Inr out \<Longrightarrow> wf_code p \<Longrightarrow> wf_code (out_Pocket out)"
  by (cases "ev_Kind ev")
    (auto simp: transition_defs wf_code_def MaxAttempts_def Let_def split: if_splits)

lemma Transition_wf_position:
  "Transition p now ev = Inr out \<Longrightarrow> wf_position p \<Longrightarrow> wf_position (out_Pocket out)"
  by (cases "ev_Kind ev")
    (auto simp: transition_defs wf_position_def Let_def split: if_splits)

lemma Transition_wf:
  "Transition p now ev = Inr out \<Longrightarrow> wf_pocket p \<Longrightarrow> wf_pocket (out_Pocket out)"
  unfolding wf_pocket_def
  using Transition_wf_code Transition_wf_position same_terms_wf Transition_same_terms by blast

section \<open>Runs\<close>

text \<open>A run applies timed events in order and collects their effects; it stops at the first
  refused event.\<close>

fun run_events :: "pocket \<Rightarrow> (gotime \<times> event) list \<Rightarrow> (pocket \<times> effect list) res" where
  "run_events p [] = Inr (p, [])"
| "run_events p ((now, ev) # rest) =
     bind_res (Transition p now ev) (\<lambda>out.
       bind_res (run_events (out_Pocket out) rest) (\<lambda>(q, es).
         Inr (q, out_Effects out @ es)))"

inductive pocket_reach :: "pocket \<Rightarrow> bool" where
  created: "New now s = Inr out \<Longrightarrow> pocket_reach (out_Pocket out)"
| moved: "pocket_reach p \<Longrightarrow> Transition p now ev = Inr out \<Longrightarrow> pocket_reach (out_Pocket out)"

lemma run_Cons_iff [res_simps]:
  "run_events p ((now, ev) # rest) = Inr (q, es) \<longleftrightarrow>
     (\<exists>out es'. Transition p now ev = Inr out \<and> run_events (out_Pocket out) rest = Inr (q, es') \<and>
        es = out_Effects out @ es')"
  by (auto simp: res_simps split: prod.splits)

declare run_events.simps(2) [simp del]

lemma run_induct [consumes 1, case_names Nil Cons]:
  assumes "run_events p evs = Inr (q, es)"
    and "\<And>p. P p [] p []"
    and "\<And>p now ev rest out q es. Transition p now ev = Inr out \<Longrightarrow>
      run_events (out_Pocket out) rest = Inr (q, es) \<Longrightarrow> P (out_Pocket out) rest q es \<Longrightarrow>
      P p ((now, ev) # rest) q (out_Effects out @ es)"
  shows "P p evs q es"
  using assms(1)
proof (induction evs arbitrary: p es)
  case Nil
  then show ?case using assms(2) by simp
next
  case (Cons a rest)
  obtain now ev where "a = (now, ev)" by (cases a)
  with Cons show ?case using assms(3) by (auto simp: run_Cons_iff)
qed

lemma pocket_reach_wf: "pocket_reach p \<Longrightarrow> wf_pocket p"
  by (induction rule: pocket_reach.induct) (auto intro: New_wf Transition_wf)

lemma run_reach: "run_events p evs = Inr (q, es) \<Longrightarrow> pocket_reach p \<Longrightarrow> pocket_reach q"
  by (induction rule: run_induct) (auto intro: pocket_reach.moved)

lemma run_same_terms: "run_events p evs = Inr (q, es) \<Longrightarrow> same_terms p q"
  by (induction rule: run_induct) (auto intro: same_terms_trans Transition_same_terms)

lemma run_wf: "run_events p evs = Inr (q, es) \<Longrightarrow> wf_pocket p \<Longrightarrow> wf_pocket q"
  by (induction rule: run_induct) (auto intro: Transition_wf)

lemma run_terminal: "IsTerminal (p_State p) \<Longrightarrow> run_events p evs = Inr (q, es) \<Longrightarrow> evs = [] \<and> q = p"
  by (cases evs) (auto simp: run_Cons_iff Transition_def)

section \<open>Progress\<close>

text \<open>
  How many further events a pocket can absorb: the longest path left in the table plus the
  wrong codes left before the lock (which, once set, removes the handoff edges).
\<close>

fun state_rank :: "state \<Rightarrow> int" where
  "state_rank StateCreated = 5"
| "state_rank StateFunded = 4"
| "state_rank StateFrozen = 3"
| "state_rank StateDeliveredPending = 2"
| "state_rank StateDisputed = 1"
| "state_rank _ = 0"

definition attempts_left :: "pocket \<Rightarrow> int" where
  "attempts_left p =
     (if p_CodeLocked p then
        (if p_State p \<in> {StateCreated, StateFunded, StateFrozen} then - 1 else 0)
      else if p_State p \<in> {StateCreated, StateFunded, StateFrozen}
      then MaxAttempts - 1 - p_CodeAttempts p else 0)"

definition progress :: "pocket \<Rightarrow> int" where
  "progress p = state_rank (p_State p) + attempts_left p"

lemma progress_nonneg: "wf_pocket p \<Longrightarrow> 0 \<le> progress p"
  by (cases "p_State p")
    (auto simp: progress_def attempts_left_def wf_pocket_def wf_code_def MaxAttempts_def)

lemma Transition_progress:
  assumes "Transition p now ev = Inr out" and "wf_pocket p"
  shows "progress (out_Pocket out) < progress p"
proof -
  have code: "p_CodeAttempts p \<le> 5" "p_CodeLocked p \<longleftrightarrow> p_CodeAttempts p = 5" "0 \<le> p_CodeAttempts p"
    using assms(2) by (auto simp: wf_pocket_def wf_code_def MaxAttempts_def)
  show ?thesis
    using assms(1) code
    by (cases "ev_Kind ev")
      (auto simp: transition_defs progress_def attempts_left_def MaxAttempts_def Let_def
        split: if_splits)
qed

lemma run_length_progress:
  "run_events p evs = Inr (q, es) \<Longrightarrow> wf_pocket p \<Longrightarrow> int (length evs) + progress q \<le> progress p"
proof (induction rule: run_induct)
  case (Cons p now ev rest out q es)
  then have "progress (out_Pocket out) < progress p" by (blast intro: Transition_progress)
  moreover have "int (length rest) + progress q \<le> progress (out_Pocket out)"
    using Cons by (blast intro: Transition_wf)
  ultimately show ?case by simp
qed simp

lemma New_progress:
  assumes "New now s = Inr out"
  shows "progress (out_Pocket out) = 9"
proof -
  have "p_State (out_Pocket out) = StateCreated" and "wf_pocket (out_Pocket out)"
    using assms by (simp_all add: New_wf)
  then show ?thesis
    by (simp add: progress_def attempts_left_def wf_pocket_def wf_code_def wf_position_def
        MaxAttempts_def)
qed

section \<open>Money\<close>

fun is_money :: "effect \<Rightarrow> bool" where
  "is_money (SchedulePayout _) = True"
| "is_money (ExecuteRefund _ _) = True"
| "is_money _ = False"

definition money_effects :: "effect list \<Rightarrow> effect list" where
  "money_effects es = filter is_money es"

definition terminal_money :: "pocket \<Rightarrow> effect list" where
  "terminal_money p = (case p_State p of
       StateSettled \<Rightarrow> [SchedulePayout (PayoutLegs p)]
     | StateRefunded \<Rightarrow> [ExecuteRefund RoleBuyer (BuyerTotalKobo p)]
     | _ \<Rightarrow> [])"

lemma money_effects_append [simp]: "money_effects (xs @ ys) = money_effects xs @ money_effects ys"
  by (simp add: money_effects_def)

lemma money_effects_simps [simp]:
  "money_effects [] = []"
  "money_effects (e # es) = (if is_money e then e # money_effects es else money_effects es)"
  by (simp_all add: money_effects_def)

lemma money_update [simp]:
  "BuyerTotalKobo (p\<lparr>p_State := s\<rparr>) = BuyerTotalKobo p"
  "PayoutLegs (p\<lparr>p_State := s\<rparr>) = PayoutLegs p"
  by (simp_all add: BuyerTotalKobo_def PayoutLegs_def)

lemma Transition_money:
  "Transition p now ev = Inr out \<Longrightarrow> money_effects (out_Effects out) = terminal_money (out_Pocket out)"
  by (cases "ev_Kind ev")
    (auto simp: transition_defs effect_defs terminal_money_def Let_def split: if_splits)

lemma run_money:
  "run_events p evs = Inr (q, es) \<Longrightarrow>
     money_effects es = (if evs = [] then [] else terminal_money q)"
proof (induction rule: run_induct)
  case (Cons p now ev rest out q es)
  show ?case
  proof (cases "rest = []")
    case True
    with Cons show ?thesis using Transition_money by auto
  next
    case False
    have "\<not> IsTerminal (p_State (out_Pocket out))"
      using run_terminal Cons.hyps(2) False by blast
    then have "terminal_money (out_Pocket out) = []"
      by (auto simp: terminal_money_def split: state.splits)
    with Cons False show ?thesis using Transition_money by auto
  qed
qed simp

lemma legs_sum:
  assumes "wf_terms p"
  shows "sum_list (map leg_AmountKobo (PayoutLegs p)) = p_AmountKobo p + p_CommissionKobo p"
  using assms by (auto simp: PayoutLegs_def wf_terms_def split: pocket_structure.splits)

lemma BuyerTotal_exact:
  assumes "wf_terms p" and "in_i64 (p_AmountKobo p + p_CommissionKobo p + p_PremiumKobo p)"
  shows "BuyerTotalKobo p = p_AmountKobo p + p_CommissionKobo p + p_PremiumKobo p"
proof -
  have "in_i64 (p_AmountKobo p + p_CommissionKobo p)"
    using assms by (auto simp: in_i64_def wf_terms_def)
  with assms(2) show ?thesis by (simp add: BuyerTotalKobo_def i64_id)
qed

end
