(* ===== verification/Premium.thy ===== *)
theory Premium
  imports Prelude
begin

text \<open>
  The Protection Premium schedule (\<^verbatim>\<open>internal/pocket/premium.go\<close>) and the public fee quote
  (\<^verbatim>\<open>internal/httpapi/fees.go\<close>).  Amounts are kobo; the schedule is the source's band table,
  scanned in order.
\<close>

record premium_band =
  upToKobo :: int
  premiumKobo :: int

definition premiumBands :: "premium_band list" where
  "premiumBands =
     [\<lparr>upToKobo = 1000000, premiumKobo = 10000\<rparr>,
      \<lparr>upToKobo = 5000000, premiumKobo = 20000\<rparr>,
      \<lparr>upToKobo = 10000000, premiumKobo = 50000\<rparr>,
      \<lparr>upToKobo = 20000000, premiumKobo = 100000\<rparr>,
      \<lparr>upToKobo = 50000000, premiumKobo = 300000\<rparr>,
      \<lparr>upToKobo = 100000000, premiumKobo = 500000\<rparr>]"

definition premiumCapKobo :: int where
  "premiumCapKobo = 1000000"

fun band_scan :: "int \<Rightarrow> premium_band list \<Rightarrow> int" where
  "band_scan goods [] = premiumCapKobo"
| "band_scan goods (band # rest) =
     (if goods \<le> upToKobo band then premiumKobo band else band_scan goods rest)"

definition ProtectionPremiumKobo :: "int \<Rightarrow> int" where
  "ProtectionPremiumKobo goods = (if goods \<le> 0 then 0 else band_scan goods premiumBands)"

text \<open>The fee quote: the parsed query parameter, rejected unless positive, and the sum
  computed in \<^verbatim>\<open>int64\<close>.\<close>

record fee_quote =
  fq_GoodsKobo :: int
  fq_PremiumKobo :: int
  fq_BuyerTotalKobo :: int

definition handleFeeQuote :: "int option \<Rightarrow> fee_quote option" where
  "handleFeeQuote parsed = (case parsed of
       None \<Rightarrow> None
     | Some goods \<Rightarrow>
         (if goods \<le> 0 then None
          else (let premium = ProtectionPremiumKobo goods in
            Some \<lparr>fq_GoodsKobo = goods, fq_PremiumKobo = premium,
                  fq_BuyerTotalKobo = i64 (goods + premium)\<rparr>)))"

section \<open>The schedule as a step function\<close>

lemma premium_cases:
  "ProtectionPremiumKobo g =
     (if g \<le> 0 then 0 else if g \<le> 1000000 then 10000 else if g \<le> 5000000 then 20000
      else if g \<le> 10000000 then 50000 else if g \<le> 20000000 then 100000
      else if g \<le> 50000000 then 300000 else if g \<le> 100000000 then 500000 else 1000000)"
  by (simp add: ProtectionPremiumKobo_def premiumBands_def premiumCapKobo_def)

lemma premium_nonneg [simp]: "0 \<le> ProtectionPremiumKobo g"
  by (simp add: premium_cases)

lemma premium_le_cap: "ProtectionPremiumKobo g \<le> premiumCapKobo"
  by (simp add: premium_cases premiumCapKobo_def)

lemma premium_mono: "g \<le> h \<Longrightarrow> ProtectionPremiumKobo g \<le> ProtectionPremiumKobo h"
  by (simp add: premium_cases)

lemma premium_pos: "0 < g \<Longrightarrow> 10000 \<le> ProtectionPremiumKobo g"
  by (simp add: premium_cases)

end
