(* ===== verification/Pocket_Claims.thy ===== *)
theory Pocket_Claims
  imports Pocket_Spec Premium
begin

text \<open>
  The claims about the domain core and the fee schedule: what every event does in every
  state, what a whole run may do to the money, how long it can last, and where the code and
  its documentation part.
\<close>

section \<open>Single transitions\<close>

text \<open>C5: The transition function is exactly the documented table.  For every pocket, time and
  event it answers \<open>ErrTerminal\<close> in a terminal state, \<open>ErrIllegalTransition\<close> when the table
  has no edge, the guard's own error when a timer or the code lock refuses the edge, and
  otherwise moves along that edge of the table (a rejected code keeps the state).\<close>

theorem transition_is_table:
  "case Transition p now ev of
     Inl e \<Rightarrow> e = (if IsTerminal (p_State p) then ErrTerminal
                   else if \<not> has_edge (ev_Kind ev) (p_State p) then ErrIllegalTransition
                   else guard_error (ev_Kind ev))
              \<and> \<not> (has_edge (ev_Kind ev) (p_State p) \<and> edge_guard (ev_Kind ev) p now)
   | Inr out \<Rightarrow> has_edge (ev_Kind ev) (p_State p) \<and> edge_guard (ev_Kind ev) p now \<and>
       (if ev_Kind ev = EvCodeRejected then p_State (out_Pocket out) = p_State p
        else table_edge (ev_Kind ev) (p_State p) (p_State (out_Pocket out)))"
proof (cases "Transition p now ev")
  case (Inl e)
  have "IsTerminal (p_State p) \<or> \<not> has_edge (ev_Kind ev) (p_State p) \<or>
      \<not> edge_guard (ev_Kind ev) p now"
    using Transition_ok_iff [of p now ev] Inl by auto
  then show ?thesis
    using Inl Transition_result [of p now ev] has_edge_nonterminal
    by (auto split: if_splits)
next
  case (Inr out)
  have "has_edge (ev_Kind ev) (p_State p)" "edge_guard (ev_Kind ev) p now"
    using Transition_ok_iff [of p now ev] Inr by auto
  then show ?thesis
    using Inr Transition_edge [OF Inr] by auto
qed

text \<open>C21: The inspection window has one boundary and no gap: after a code is accepted at \<open>t\<close>,
  at every later instant exactly one of settlement and the buyer's report is possible;
  settlement from \<open>t + InspectionWindow\<close> on, the report strictly before it.\<close>

theorem inspection_boundary:
  assumes "Transition p t (event_of EvCodeAccepted) = Inr out"
  shows "(is_ok (Transition (out_Pocket out) t' (event_of EvSettleDue)) \<longleftrightarrow>
            t + p_InspectionWindow p \<le> t') \<and>
         (is_ok (Transition (out_Pocket out) t' (event_of EvBuyerReportIssue)) \<longleftrightarrow>
            t' < t + p_InspectionWindow p)"
proof -
  have *: "p_State (out_Pocket out) = StateDeliveredPending"
      "p_SettleAfter (out_Pocket out) = t + p_InspectionWindow p"
    using assms by (auto simp: transition_defs split: if_splits)
  show ?thesis by (simp add: Transition_ok_iff * has_edge_def)
qed

definition sample_spec :: spec where
  "sample_spec = \<lparr>sp_Structure = StructureP2P, sp_CreatorRole = RoleVendor, sp_Mode = ModeCooldown,
     sp_InspectionWindow = time_Hour, sp_DeliveryWindow = 48 * time_Hour,
     sp_AmountKobo = 5000000, sp_CommissionKobo = 0, sp_PremiumKobo = 20000,
     sp_FundingTTL = 72 * time_Hour, sp_GracePeriod = 0, sp_EvidenceCaptureWindow = 0\<rparr>"

definition sample_pocket :: pocket where
  "sample_pocket = \<lparr>p_State = StateFunded, p_Structure = StructureP2P,
     p_CreatorRole = RoleVendor, p_Mode = ModeCooldown,
     p_InspectionWindow = time_Hour, p_DeliveryWindow = 48 * time_Hour,
     p_AmountKobo = 5000000, p_CommissionKobo = 0, p_PremiumKobo = 20000,
     p_DeliveryDeadline = 48 * time_Hour, p_SettleAfter = 0, p_GraceDeadline = 0,
     p_FundingExpiresAt = 72 * time_Hour, p_CodeAttempts = 0, p_CodeLocked = False,
     p_DisputeClass = DisputeNone, p_GracePeriod = 24 * time_Hour,
     p_EvidenceCaptureWindow = time_Hour\<rparr>"

lemma sample_spec_valid: "validate sample_spec = Inr ()"
  by (simp add: validate_ok_iff sample_spec_def time_Hour_def time_Minute_def)

lemma sample_pocket_wf: "wf_pocket sample_pocket"
  by (simp add: sample_pocket_def wf_pocket_def wf_terms_def wf_code_def wf_position_def
      MaxAttempts_def time_Hour_def time_Minute_def)

lemma sample_accept:
  "Transition sample_pocket 10 (event_of EvCodeAccepted) =
     Outcome (sample_pocket\<lparr>p_State := StateDeliveredPending,
                p_SettleAfter := 10 + p_InspectionWindow sample_pocket, p_GraceDeadline := 0\<rparr>)
       [PromptEvidence (p_EvidenceCaptureWindow sample_pocket),
        Notify RoleBuyer NotifyDeliveryConfirmed, Notify RoleVendor NotifyHandoffConfirmed]"
  by (simp add: transition_defs sample_pocket_def)

theorem inspection_boundary_witness:
  "\<exists>out. Transition sample_pocket 10 (event_of EvCodeAccepted) = Inr out \<and>
     is_ok (Transition (out_Pocket out) (10 + time_Hour) (event_of EvSettleDue)) \<and>
     \<not> is_ok (Transition (out_Pocket out) (10 + time_Hour) (event_of EvBuyerReportIssue))"
  using inspection_boundary [OF sample_accept, of "10 + time_Hour"] sample_accept
  by (simp add: sample_pocket_def)

text \<open>C33: No refund fires on a timer alone: the three clock-driven events never ask for one,
  whatever the pocket.\<close>

theorem no_timer_refund:
  assumes "Transition p now ev = Inr out"
    and "ev_Kind ev \<in> {EvFundingExpired, EvDeliveryDeadlineLapsed, EvSettleDue}"
  shows "\<forall>r a. ExecuteRefund r a \<notin> set (out_Effects out) \<and> p_State (out_Pocket out) \<noteq> StateRefunded"
proof -
  have "p_State (out_Pocket out) \<noteq> StateRefunded"
    using Transition_edge [OF assms(1)] assms(2) by auto
  moreover from this have "ExecuteRefund r a \<notin> set (money_effects (out_Effects out))" for r a
    using Transition_money [OF assms(1)] by (auto simp: terminal_money_def split: state.splits)
  ultimately show ?thesis by (simp add: money_effects_def)
qed

theorem no_timer_refund_witness:
  "\<exists>out. Transition sample_pocket (48 * time_Hour) (event_of EvDeliveryDeadlineLapsed) = Inr out \<and>
     p_State (out_Pocket out) = StateFrozen \<and> (\<forall>r a. ExecuteRefund r a \<notin> set (out_Effects out))"
proof -
  have "is_ok (Transition sample_pocket (48 * time_Hour) (event_of EvDeliveryDeadlineLapsed))"
    by (simp add: Transition_ok_iff has_edge_def sample_pocket_def)
  then obtain out where out:
      "Transition sample_pocket (48 * time_Hour) (event_of EvDeliveryDeadlineLapsed) = Inr out"
    by (auto simp: is_ok_iff)
  with no_timer_refund [OF out] Transition_edge [OF out] show ?thesis by simp
qed

section \<open>Whole runs\<close>

text \<open>C4: Money moves at most once in the life of a pocket.  Over any run that starts at
  construction, the money effects are exactly one payout plan when it ends SETTLED, exactly
  one full refund to the buyer when it ends REFUNDED, and none otherwise.\<close>

theorem money_moves_once:
  assumes "New t s = Inr out" and "run_events (out_Pocket out) evs = Inr (q, es)"
  shows "money_effects es = terminal_money q"
proof (cases "evs = []")
  case True
  with assms show ?thesis by (auto simp: terminal_money_def)
next
  case False
  with run_money [OF assms(2)] show ?thesis by simp
qed

theorem money_moves_once_witness:
  "\<exists>out q es. New 0 sample_spec = Inr out \<and>
     run_events (out_Pocket out)
       [(5, event_of EvFundingConfirmed), (6, event_of EvVendorCancel)] = Inr (q, es) \<and>
     money_effects es = [ExecuteRefund RoleBuyer 5020000]"
proof -
  obtain out where new: "New 0 sample_spec = Inr out"
    using New_ok_iff [of 0 sample_spec] sample_spec_valid by (auto simp: is_ok_iff)
  have out: "p_State (out_Pocket out) = StateCreated"
      "p_AmountKobo (out_Pocket out) = 5000000" "p_CommissionKobo (out_Pocket out) = 0"
      "p_PremiumKobo (out_Pocket out) = 20000"
    by (simp_all add: New_fields [OF new] sample_spec_def)
  obtain q es where run: "run_events (out_Pocket out)
      [(5, event_of EvFundingConfirmed), (6, event_of EvVendorCancel)] = Inr (q, es)"
      and q: "p_State q = StateRefunded" "same_terms (out_Pocket out) q"
    using out(1) by (auto simp: run_Cons_iff transition_defs same_terms_def)
  have "BuyerTotalKobo q = 5020000"
    using out same_terms_money(1) [OF q(2)] by (simp add: BuyerTotalKobo_def i64_id in_i64_def)
  with money_moves_once [OF new run] q new run show ?thesis
    by (auto simp: terminal_money_def)
qed

text \<open>Conservation.  For a well-formed pocket whose total fits in 64 bits, a settlement pays
  out the buyer's total less the premium, and a refund returns the buyer's total: nothing is
  created or lost between what the buyer funds and what the legs move.\<close>

theorem money_is_conserved:
  assumes "wf_pocket p" and "in_i64 (p_AmountKobo p + p_CommissionKobo p + p_PremiumKobo p)"
  shows "sum_list (map leg_AmountKobo (PayoutLegs p)) + p_PremiumKobo p = BuyerTotalKobo p \<and>
         (\<forall>l \<in> set (PayoutLegs p). 0 < leg_AmountKobo l) \<and> 0 < BuyerTotalKobo p"
proof -
  have wf: "wf_terms p" using assms(1) by (simp add: wf_pocket_def)
  have "sum_list (map leg_AmountKobo (PayoutLegs p)) + p_PremiumKobo p = BuyerTotalKobo p"
    using legs_sum [OF wf] BuyerTotal_exact [OF wf assms(2)] by simp
  moreover have "\<forall>l \<in> set (PayoutLegs p). 0 < leg_AmountKobo l"
    using wf by (auto simp: PayoutLegs_def wf_terms_def)
  moreover have "0 < BuyerTotalKobo p"
    using BuyerTotal_exact [OF wf assms(2)] wf by (auto simp: wf_terms_def)
  ultimately show ?thesis by blast
qed

theorem money_is_conserved_witness:
  "sum_list (map leg_AmountKobo (PayoutLegs sample_pocket)) + 20000 = BuyerTotalKobo sample_pocket"
proof -
  have "in_i64 (p_AmountKobo sample_pocket + p_CommissionKobo sample_pocket +
      p_PremiumKobo sample_pocket)"
    by (simp add: sample_pocket_def in_i64_def)
  with money_is_conserved [OF sample_pocket_wf] show ?thesis by (simp add: sample_pocket_def)
qed

text \<open>C32: Every pocket the machine can produce is well formed: valid terms, an attempt counter
  in range with the lock set exactly at the fifth failure, a dispute class exactly when one
  was opened, and a delivered pocket never locked.\<close>

theorem reachable_pockets_wf:
  assumes "New t s = Inr out" and "run_events (out_Pocket out) evs = Inr (q, es)"
  shows "wf_pocket q \<and> same_terms (out_Pocket out) q"
  using run_wf [OF assms(2) New_wf [OF assms(1)]] run_same_terms [OF assms(2)] by auto

theorem reachable_pockets_wf_witness:
  "\<exists>out. New 0 sample_spec = Inr out \<and> wf_pocket (out_Pocket out)"
proof -
  obtain out where new: "New 0 sample_spec = Inr out"
    using New_ok_iff [of 0 sample_spec] sample_spec_valid by (auto simp: is_ok_iff)
  with reachable_pockets_wf [OF new, of "[]"] show ?thesis by simp
qed

text \<open>C31: The lifecycle is finite: after construction a pocket accepts at most nine events,
  wrong codes included, whatever their order and times.\<close>

theorem lifecycle_bounded:
  assumes "New t s = Inr out" and "run_events (out_Pocket out) evs = Inr (q, es)"
  shows "length evs \<le> 9"
proof -
  have "int (length evs) + progress q \<le> 9"
    using run_length_progress [OF assms(2) New_wf [OF assms(1)]] New_progress [OF assms(1)] by simp
  moreover have "0 \<le> progress q"
    using progress_nonneg run_wf [OF assms(2) New_wf [OF assms(1)]] by blast
  ultimately show ?thesis by simp
qed

definition longest_run :: "(gotime \<times> event) list" where
  "longest_run =
     (0, event_of EvFundingConfirmed) # replicate 5 (1, event_of EvCodeRejected) @
     [(48 * time_Hour, event_of EvDeliveryDeadlineLapsed), (48 * time_Hour, event_of EvFrozenDispute),
      (48 * time_Hour, event_of EvAdminForcePayout)]"

theorem lifecycle_bounded_witness:
  "\<exists>out q es. New 0 sample_spec = Inr out \<and>
     run_events (out_Pocket out) longest_run = Inr (q, es) \<and> length longest_run \<le> 9"
proof -
  obtain out where new: "New 0 sample_spec = Inr out"
    using New_ok_iff [of 0 sample_spec] sample_spec_valid by (auto simp: is_ok_iff)
  have out: "p_State (out_Pocket out) = StateCreated" "p_CodeAttempts (out_Pocket out) = 0"
      "\<not> p_CodeLocked (out_Pocket out)" "p_DeliveryWindow (out_Pocket out) = 48 * time_Hour"
    by (simp_all add: New_fields [OF new] sample_spec_def)
  obtain q es where run: "run_events (out_Pocket out) longest_run = Inr (q, es)"
    using out by (auto simp: longest_run_def numeral_eq_Suc run_Cons_iff transition_defs Let_def)
  from new run lifecycle_bounded [OF new run] show ?thesis by blast
qed

text \<open>C30: No pocket is stuck: every well-formed pocket that is not terminal accepts some event
  that takes it to a terminal state at once, at any sufficiently late time.\<close>

theorem no_stuck_pocket:
  assumes "wf_pocket p" and "\<not> IsTerminal (p_State p)"
  shows "\<exists>k. \<forall>now \<ge> p_SettleAfter p. \<exists>out. Transition p now (event_of k) = Inr out \<and>
           IsTerminal (p_State (out_Pocket out))"
proof -
  have "\<exists>k. has_edge k (p_State p) \<and> (\<forall>now \<ge> p_SettleAfter p. edge_guard k p now) \<and>
      (\<forall>t. table_edge k (p_State p) t \<longrightarrow> IsTerminal t) \<and> k \<noteq> EvCodeRejected"
  proof (cases "p_State p")
    case StateCreated
    then show ?thesis by (intro exI [of _ EvCancel]) (simp add: has_edge_def)
  next
    case StateFunded
    then show ?thesis by (intro exI [of _ EvVendorCancel]) (simp add: has_edge_def)
  next
    case StateDeliveredPending
    then show ?thesis by (intro exI [of _ EvSettleDue]) (simp add: has_edge_def)
  next
    case StateDisputed
    then show ?thesis by (intro exI [of _ EvAdminForceRefund]) (simp add: has_edge_def)
  next
    case StateFrozen
    then show ?thesis by (intro exI [of _ EvRefundFrozen]) (simp add: has_edge_def)
  qed (use assms in \<open>auto simp: wf_pocket_def wf_position_def\<close>)
  then obtain k where k: "has_edge k (p_State p)" "\<forall>now \<ge> p_SettleAfter p. edge_guard k p now"
      "\<forall>t. table_edge k (p_State p) t \<longrightarrow> IsTerminal t" "k \<noteq> EvCodeRejected"
    by blast
  have "\<exists>out. Transition p now (event_of k) = Inr out \<and> IsTerminal (p_State (out_Pocket out))"
    if "p_SettleAfter p \<le> now" for now
  proof -
    have "is_ok (Transition p now (event_of k))"
      using k assms(2) that by (simp add: Transition_ok_iff)
    then obtain out where "Transition p now (event_of k) = Inr out" by (auto simp: is_ok_iff)
    with Transition_edge [OF this] k show ?thesis by auto
  qed
  then show ?thesis by blast
qed

theorem no_stuck_pocket_witness:
  "\<exists>k. \<exists>out. Transition sample_pocket 7 (event_of k) = Inr out \<and>
     IsTerminal (p_State (out_Pocket out))"
proof -
  have "\<not> IsTerminal (p_State sample_pocket)" "p_SettleAfter sample_pocket \<le> 7"
    by (simp_all add: sample_pocket_def)
  with no_stuck_pocket [OF sample_pocket_wf] show ?thesis by blast
qed

text \<open>C22: The lock holds: once a funded or frozen pocket has taken its fifth wrong code, the
  right code is refused too, in every state the pocket can still reach.\<close>

theorem locked_code_stays_locked:
  assumes "run_events p evs = Inr (q, es)" and "p_CodeLocked p"
  shows "p_CodeLocked q \<and> \<not> is_ok (Transition q now (event_of EvCodeAccepted))"
proof -
  have step: "p_CodeLocked (out_Pocket out)"
    if "Transition p now ev = Inr out" "p_CodeLocked p" for p now ev out
    using that by (cases "ev_Kind ev") (auto simp: transition_defs Let_def split: if_splits)
  have "p_CodeLocked q"
    using assms by (induction rule: run_induct) (auto intro: step)
  then show ?thesis by (simp add: Transition_ok_iff)
qed

theorem locked_code_stays_locked_witness:
  "\<not> is_ok (Transition (sample_pocket\<lparr>p_CodeLocked := True, p_CodeAttempts := 5\<rparr>) 3
       (event_of EvCodeAccepted))"
  using locked_code_stays_locked [where evs = "[]" and es = "[]"] by simp

text \<open>The documented invariant that settlement to the vendor occurs only from
  DELIVERED\_PENDING does not hold of the machine: there is a run from construction, with no
  code ever accepted and DELIVERED\_PENDING never visited, that ends SETTLED with the payout
  scheduled (delivery deadline, not-delivered dispute, admin force payout).\<close>

theorem settled_without_delivery:
  "\<exists>out q es. New 0 sample_spec = Inr out \<and> run_events (out_Pocket out) longest_run = Inr (q, es) \<and>
     EvCodeAccepted \<notin> (\<lambda>te. ev_Kind (snd te)) ` set longest_run \<and>
     p_State q = StateSettled \<and> SchedulePayout (PayoutLegs q) \<in> set es"
proof -
  obtain out where new: "New 0 sample_spec = Inr out"
    using New_ok_iff [of 0 sample_spec] sample_spec_valid by (auto simp: is_ok_iff)
  have out: "p_State (out_Pocket out) = StateCreated" "p_CodeAttempts (out_Pocket out) = 0"
      "\<not> p_CodeLocked (out_Pocket out)" "p_DeliveryWindow (out_Pocket out) = 48 * time_Hour"
    by (simp_all add: New_fields [OF new] sample_spec_def)
  obtain q es where run: "run_events (out_Pocket out) longest_run = Inr (q, es)"
      and q: "p_State q = StateSettled"
    using out by (auto simp: longest_run_def numeral_eq_Suc run_Cons_iff transition_defs Let_def)
  have "money_effects es = [SchedulePayout (PayoutLegs q)]"
    using run_money [OF run] q by (simp add: terminal_money_def longest_run_def)
  then have "SchedulePayout (PayoutLegs q) \<in> set (money_effects es)" by simp
  then have "SchedulePayout (PayoutLegs q) \<in> set es" by (simp add: money_effects_def)
  with new run q show ?thesis
    by (intro exI [of _ out] exI [of _ q] exI [of _ es]) (auto simp: longest_run_def)
qed

section \<open>Fees\<close>

text \<open>The premium schedule is the documented one: the seven bands, charged to every
  positive goods value, never decreasing in it and never above the cap.\<close>

theorem premium_schedule:
  "ProtectionPremiumKobo g =
     (if g \<le> 0 then 0 else if g \<le> 10000 * 100 then 100 * 100 else if g \<le> 50000 * 100 then 200 * 100
      else if g \<le> 100000 * 100 then 500 * 100 else if g \<le> 200000 * 100 then 1000 * 100
      else if g \<le> 500000 * 100 then 3000 * 100 else if g \<le> 1000000 * 100 then 5000 * 100
      else 10000 * 100)
   \<and> ProtectionPremiumKobo (min g h) \<le> ProtectionPremiumKobo (max g h)
   \<and> ProtectionPremiumKobo g \<le> premiumCapKobo"
  by (simp add: premium_cases premium_mono premium_le_cap) (auto simp: premiumCapKobo_def)

text \<open>The fee quote is arithmetic in \<open>int64\<close>: for goods values up to the largest that
  leaves room for the premium the quoted total is the sum, and above it the total wraps, so
  the endpoint answers a negative buyer total for the largest accepted goods value.\<close>

theorem fee_quote_total:
  "(0 < g \<and> g \<le> 2 ^ 63 - 1 - premiumCapKobo \<longrightarrow>
      handleFeeQuote (Some g) = Some \<lparr>fq_GoodsKobo = g, fq_PremiumKobo = ProtectionPremiumKobo g,
        fq_BuyerTotalKobo = g + ProtectionPremiumKobo g\<rparr>)
   \<and> map_option fq_BuyerTotalKobo (handleFeeQuote (Some (2 ^ 63 - 1))) = Some (- (2 ^ 63) + 999999)"
proof -
  have "i64 (g + ProtectionPremiumKobo g) = g + ProtectionPremiumKobo g"
    if "0 < g" "g \<le> 2 ^ 63 - 1 - premiumCapKobo"
    using that premium_le_cap [of g] premium_nonneg [of g]
    by (intro i64_id) (unfold in_i64_def premiumCapKobo_def, linarith)
  moreover have "i64 (2 ^ 63 - 1 + 1000000) = - (2 ^ 63) + 999999"
    by (simp add: i64_def signed_take_bit_eq_take_bit_shift take_bit_int_def)
  ultimately show ?thesis
    by (auto simp: handleFeeQuote_def Let_def premium_cases)
qed

theorem fee_quote_total_witness:
  "handleFeeQuote (Some 5000000) = Some \<lparr>fq_GoodsKobo = 5000000, fq_PremiumKobo = 20000,
     fq_BuyerTotalKobo = 5020000\<rparr>"
  using fee_quote_total [of 5000000] by (simp add: premium_cases premiumCapKobo_def)

end
