(* ===== verification/Database.thy ===== *)
theory Database
  imports Pocket_Spec
begin

text \<open>
  The relational state the store runs on: one record per table of
  \<^verbatim>\<open>internal/store/migrations\<close>, with the columns the Go code reads or writes, and the
  constraints (\<^verbatim>\<open>CHECK\<close>, \<^verbatim>\<open>UNIQUE\<close>, \<^verbatim>\<open>REFERENCES\<close>) as predicates the insert and update
  operations test.  A text column that the code converts to one of its string types has that
  type.  \<open>db_clock\<close> is what \<^verbatim>\<open>now()\<close> answers; instants are taken at the resolution of the
  database, so storing one does not change it.
\<close>

section \<open>Rows\<close>

abbreviation StateDraft :: state where
  "StateDraft \<equiv> StateOther ''DRAFT''"

abbreviation RoleSystem :: role where
  "RoleSystem \<equiv> RoleOther ''system''"

abbreviation RoleAdmin :: role where
  "RoleAdmin \<equiv> RoleOther ''admin''"

record pocket_row =
  r_id :: string
  r_short_code :: string
  r_version :: int
  r_structure :: pocket_structure
  r_creator_role :: role
  r_mode :: mode
  r_amount_kobo :: int
  r_commission_kobo :: int
  r_premium_kobo :: int
  r_buyer_total_kobo :: int
  r_item_description :: string
  r_category :: string
  r_delivery_address :: "string option"
  r_inspection_window_minutes :: int
  r_delivery_window_minutes :: int
  r_state :: state
  r_release_code_hash :: "string option"
  r_code_attempts :: int
  r_code_locked :: bool
  r_delivery_deadline :: "gotime option"
  r_settle_after :: "gotime option"
  r_grace_deadline :: "gotime option"
  r_funding_expires_at :: "gotime option"
  r_funding_link_ref :: "string option"
  r_funding_link_url :: "string option"
  r_funding_transaction_id :: "string option"
  r_release_code_enc :: "string option"
  r_attested_at :: "gotime option"
  r_created_at :: gotime

record participant_row =
  t_pocket :: string
  t_role :: role
  t_user :: "string option"
  t_hash :: string
  t_accepted_at :: "gotime option"

datatype payload = NoPayload | EventPayload string bool | ConvertPayload int int

record event_row =
  e_pocket :: string
  e_actor :: role
  e_from :: "state option"
  e_to :: "state option"
  e_kind :: string
  e_payload :: payload
  e_created_at :: gotime

datatype dispute_state = DisputeOpen | DisputeResolved
datatype resolution = ResolvedRefund | ResolvedPayout

record dispute_row =
  d_pocket :: string
  d_class :: dispute_class
  d_opened_by :: role
  d_state :: dispute_state
  d_resolution :: "resolution option"
  d_notes :: string
  d_created_at :: gotime
  d_updated_at :: gotime

datatype direction = Payout | Refund
datatype leg_status = LegPending | LegInflight | LegConfirmed | LegFailed

record settlement_row =
  s_pocket :: string
  s_direction :: direction
  s_role :: role
  s_user :: "string option"
  s_amount_kobo :: int
  s_key :: string
  s_gateway_ref :: "string option"
  s_status :: leg_status
  s_last_error :: string
  s_created_at :: gotime
  s_updated_at :: gotime

datatype evidence_type =
    UnboxingVideo | DispatchProof | PackingMedia | Photo | EvidenceOther string

record evidence_row =
  v_id :: string
  v_pocket :: string
  v_party :: role
  v_type :: evidence_type
  v_storage_ref :: string
  v_captured_in_app :: bool
  v_captured_at :: gotime
  v_within_window :: "bool option"
  v_created_at :: gotime

record user_row =
  u_id :: string
  u_phone :: "string option"
  u_display_name :: string
  u_email :: "string option"
  u_google_sub :: "string option"
  u_avatar_url :: string
  u_is_admin :: bool
  u_trust_tier :: int
  u_strikes :: int
  u_last_login_at :: "gotime option"

record session_row =
  n_user :: string
  n_token_hash :: string
  n_expires_at :: gotime
  n_last_seen_at :: gotime
  n_ip :: string
  n_user_agent :: string
  n_revoked_at :: "gotime option"

record webhook_row =
  w_event_id :: string
  w_payload :: string
  w_processed_at :: "gotime option"

record db =
  pockets :: "pocket_row list"
  participants :: "participant_row list"
  events :: "event_row list"
  disputes :: "dispute_row list"
  settlements :: "settlement_row list"
  evidence :: "evidence_row list"
  users :: "user_row list"
  sessions :: "session_row list"
  webhooks :: "webhook_row list"
  db_clock :: gotime

definition empty_db :: db where
  "empty_db = \<lparr>pockets = [], participants = [], events = [], disputes = [], settlements = [],
     evidence = [], users = [], sessions = [], webhooks = [], db_clock = 0\<rparr>"

section \<open>Constraints\<close>

definition in_int32 :: "int \<Rightarrow> bool" where
  "in_int32 x \<longleftrightarrow> - (2 ^ 31) \<le> x \<and> x < 2 ^ 31"

fun party_role :: "role \<Rightarrow> bool" where
  "party_role (RoleOther _) = False"
| "party_role _ = True"

text \<open>The \<^verbatim>\<open>CHECK\<close>s of \<^verbatim>\<open>pockets\<close>; the sum of the buyer-total check is \<^verbatim>\<open>bigint\<close>
  arithmetic, which raises an error instead of wrapping.\<close>

definition pocket_row_check :: "pocket_row \<Rightarrow> bool" where
  "pocket_row_check r \<longleftrightarrow>
     (r_structure r = StructureP2P \<or> r_structure r = StructureBrokered) \<and>
     party_role (r_creator_role r) \<and>
     0 < r_amount_kobo r \<and> 0 \<le> r_commission_kobo r \<and> 0 \<le> r_premium_kobo r \<and>
     in_i64 (r_amount_kobo r + r_commission_kobo r + r_premium_kobo r) \<and>
     r_buyer_total_kobo r = r_amount_kobo r + r_commission_kobo r + r_premium_kobo r \<and>
     (r_mode r = ModeInstant \<or> r_mode r = ModeCooldown) \<and>
     0 \<le> r_inspection_window_minutes r \<and> in_int32 (r_inspection_window_minutes r) \<and>
     0 \<le> r_delivery_window_minutes r \<and> in_int32 (r_delivery_window_minutes r) \<and>
     (r_structure r = StructureBrokered \<or> r_commission_kobo r = 0)"

definition actor_check :: "role \<Rightarrow> bool" where
  "actor_check a \<longleftrightarrow> party_role a \<or> a = RoleAdmin \<or> a = RoleSystem"

definition dispute_row_check :: "dispute_row \<Rightarrow> bool" where
  "dispute_row_check d \<longleftrightarrow>
     d_class d \<noteq> DisputeNone \<and> d_opened_by d \<in> {RoleBuyer, RoleVendor, RoleSystem}"

definition settlement_row_check :: "settlement_row \<Rightarrow> bool" where
  "settlement_row_check s \<longleftrightarrow> party_role (s_role s) \<and> 0 < s_amount_kobo s"

definition evidence_row_check :: "evidence_row \<Rightarrow> bool" where
  "evidence_row_check v \<longleftrightarrow>
     party_role (v_party v) \<and> (case v_type v of EvidenceOther _ \<Rightarrow> False | _ \<Rightarrow> True)"

section \<open>Lookups and inserts\<close>

definition pocket_by_id :: "string \<Rightarrow> db \<Rightarrow> pocket_row option" where
  "pocket_by_id pid d = select_one (\<lambda>r. r_id r = pid) (pockets d)"

definition participants_of :: "string \<Rightarrow> db \<Rightarrow> participant_row list" where
  "participants_of pid d = filter (\<lambda>t. t_pocket t = pid) (participants d)"

definition participant_by_role :: "string \<Rightarrow> role \<Rightarrow> db \<Rightarrow> participant_row option" where
  "participant_by_role pid role d =
     select_one (\<lambda>t. t_pocket t = pid \<and> t_role t = role) (participants d)"

definition user_exists :: "string option \<Rightarrow> db \<Rightarrow> bool" where
  "user_exists u d = (case u of None \<Rightarrow> True | Some x \<Rightarrow> exists_where (\<lambda>r. u_id r = x) (users d))"

definition insert_pocket :: "pocket_row \<Rightarrow> (db, unit) tx" where
  "insert_pocket r d =
     (if \<not> pocket_row_check r then Inl (ErrDB CheckViolation)
      else if exists_where (\<lambda>x. r_id x = r_id r \<or> r_short_code x = r_short_code r) (pockets d)
      then Inl (ErrDB UniqueViolation)
      else Inr ((), d\<lparr>pockets := pockets d @ [r]\<rparr>))"

definition insert_participant :: "participant_row \<Rightarrow> (db, unit) tx" where
  "insert_participant t d =
     (if \<not> party_role (t_role t) then Inl (ErrDB CheckViolation)
      else if exists_where (\<lambda>x. t_pocket x = t_pocket t \<and>
        (t_role x = t_role t \<or> (t_user t \<noteq> None \<and> t_user x = t_user t))) (participants d)
      then Inl (ErrDB UniqueViolation)
      else if \<not> exists_where (\<lambda>r. r_id r = t_pocket t) (pockets d) \<or> \<not> user_exists (t_user t) d
      then Inl (ErrDB ForeignKeyViolation)
      else Inr ((), d\<lparr>participants := participants d @ [t]\<rparr>))"

definition insert_event :: "event_row \<Rightarrow> (db, unit) tx" where
  "insert_event e d =
     (if \<not> actor_check (e_actor e) then Inl (ErrDB CheckViolation)
      else if \<not> exists_where (\<lambda>r. r_id r = e_pocket e) (pockets d)
      then Inl (ErrDB ForeignKeyViolation)
      else Inr ((), d\<lparr>events := events d @ [e]\<rparr>))"

text \<open>\<^verbatim>\<open>ON CONFLICT (pocket_id) DO NOTHING\<close>: a check is tested before the conflict.\<close>

definition insert_dispute :: "dispute_row \<Rightarrow> (db, unit) tx" where
  "insert_dispute x d =
     (if \<not> dispute_row_check x then Inl (ErrDB CheckViolation)
      else if exists_where (\<lambda>y. d_pocket y = d_pocket x) (disputes d) then Inr ((), d)
      else if \<not> exists_where (\<lambda>r. r_id r = d_pocket x) (pockets d)
      then Inl (ErrDB ForeignKeyViolation)
      else Inr ((), d\<lparr>disputes := disputes d @ [x]\<rparr>))"

text \<open>\<^verbatim>\<open>ON CONFLICT (idempotency_key) DO NOTHING\<close>: only the key's conflict is absorbed.\<close>

definition insert_settlement :: "settlement_row \<Rightarrow> (db, unit) tx" where
  "insert_settlement x d =
     (if \<not> settlement_row_check x then Inl (ErrDB CheckViolation)
      else if exists_where (\<lambda>y. s_key y = s_key x) (settlements d) then Inr ((), d)
      else if exists_where (\<lambda>y. s_pocket y = s_pocket x \<and> s_role y = s_role x \<and>
        s_direction y = s_direction x) (settlements d) then Inl (ErrDB UniqueViolation)
      else if \<not> exists_where (\<lambda>r. r_id r = s_pocket x) (pockets d) \<or> \<not> user_exists (s_user x) d
      then Inl (ErrDB ForeignKeyViolation)
      else Inr ((), d\<lparr>settlements := settlements d @ [x]\<rparr>))"

text \<open>
  Updates and the number of rows they report: of \<^verbatim>\<open>pockets\<close> with the row's constraints
  tested (\<open>update_pockets\<close>), and for assignments that touch no constrained column
  (\<open>modify_pockets\<close>).
\<close>

definition modify_pockets :: "(pocket_row \<Rightarrow> bool) \<Rightarrow> (pocket_row \<Rightarrow> pocket_row) \<Rightarrow> db \<Rightarrow> nat \<times> db" where
  "modify_pockets P f d =
     (rows_affected P (pockets d), d\<lparr>pockets := update_where P f (pockets d)\<rparr>)"

definition update_pockets :: "(pocket_row \<Rightarrow> bool) \<Rightarrow> (pocket_row \<Rightarrow> pocket_row) \<Rightarrow> (db, nat) tx" where
  "update_pockets P f d =
     (if exists_where (\<lambda>r. P r \<and> \<not> pocket_row_check (f r)) (pockets d)
      then Inl (ErrDB CheckViolation)
      else Inr (rows_affected P (pockets d), d\<lparr>pockets := update_where P f (pockets d)\<rparr>))"

definition update_settlements ::
    "(settlement_row \<Rightarrow> bool) \<Rightarrow> (settlement_row \<Rightarrow> settlement_row) \<Rightarrow> db \<Rightarrow> nat \<times> db" where
  "update_settlements P f d =
     (rows_affected P (settlements d), d\<lparr>settlements := update_where P f (settlements d)\<rparr>)"

end
