(* ===== verification/Store_Rows.thy ===== *)
theory Store_Rows
  imports Database
begin

text \<open>
  The row-level half of \<^verbatim>\<open>internal/store\<close> (\<^verbatim>\<open>store.go\<close>, \<^verbatim>\<open>models.go\<close>, \<^verbatim>\<open>pockets.go\<close>,
  \<^verbatim>\<open>participants.go\<close>, \<^verbatim>\<open>events.go\<close>, and the recording halves of \<^verbatim>\<open>settlements.go\<close> and
  \<^verbatim>\<open>disputes.go\<close>): reading a pocket row as the domain aggregate, writing the aggregate back
  under the version check, and the rows a transition records beside it.
\<close>

section \<open>The store and its policy\<close>

record store =
  fundingLinkTTL :: duration
  gracePeriod :: duration
  evidenceCaptureWindow :: duration

definition nullTime :: "gotime \<Rightarrow> gotime option" where
  "nullTime t = (if IsZero t then None else Some t)"

definition nullStr :: "string \<Rightarrow> string option" where
  "nullStr s = (if s = [] then None else Some s)"

definition derefStr :: "string option \<Rightarrow> string" where
  "derefStr p = (case p of None \<Rightarrow> [] | Some s \<Rightarrow> s)"

definition derefTime :: "gotime option \<Rightarrow> gotime" where
  "derefTime p = (case p of None \<Rightarrow> 0 | Some t \<Rightarrow> t)"

lemma deref_null [simp]: "derefTime (nullTime t) = t" "derefStr (nullStr s) = s"
  by (simp_all add: derefTime_def nullTime_def derefStr_def nullStr_def)

section \<open>Records\<close>

record pocket_record =
  rec_ID :: string
  rec_ShortCode :: string
  rec_Version :: int
  rec_ItemDescription :: string
  rec_Category :: string
  rec_DeliveryAddress :: string
  rec_FundingLinkRef :: string
  rec_FundingLinkURL :: string
  rec_FundingTxID :: string
  rec_ReleaseCodeHash :: string
  rec_ReleaseCodeEnc :: string
  rec_CreatedAt :: gotime
  rec_Pocket :: pocket

definition IsDraft :: "pocket_record \<Rightarrow> bool" where
  "IsDraft rec \<longleftrightarrow> p_State (rec_Pocket rec) = StateDraft"

text \<open>The surrogate id of a participant row is left out: the code only ever scans it.\<close>

record participant_record =
  part_Role :: role
  part_UserID :: string
  part_DisplayName :: string
  part_Phone :: string
  part_Accepted :: bool
  part_AcceptedAt :: gotime
  part_LinkTokenHash :: string

record pocket_draft =
  dr_Structure :: pocket_structure
  dr_CreatorRole :: role
  dr_Mode :: mode
  dr_InspectionWindow :: duration
  dr_DeliveryWindow :: duration
  dr_AmountKobo :: int
  dr_CommissionKobo :: int
  dr_PremiumKobo :: int
  dr_ItemDescription :: string
  dr_Category :: string

definition specFromRecord :: "store \<Rightarrow> pocket_record \<Rightarrow> spec" where
  "specFromRecord st rec = (let p = rec_Pocket rec in
     \<lparr>sp_Structure = p_Structure p, sp_CreatorRole = p_CreatorRole p, sp_Mode = p_Mode p,
      sp_InspectionWindow = p_InspectionWindow p, sp_DeliveryWindow = p_DeliveryWindow p,
      sp_AmountKobo = p_AmountKobo p, sp_CommissionKobo = p_CommissionKobo p,
      sp_PremiumKobo = p_PremiumKobo p, sp_FundingTTL = fundingLinkTTL st,
      sp_GracePeriod = gracePeriod st, sp_EvidenceCaptureWindow = evidenceCaptureWindow st\<rparr>)"

section \<open>Pocket rows\<close>

text \<open>The aggregate of a row; the dispute class has no column and reads back as none.\<close>

definition row_pocket :: "store \<Rightarrow> pocket_row \<Rightarrow> pocket" where
  "row_pocket st r =
     \<lparr>p_State = r_state r, p_Structure = r_structure r, p_CreatorRole = r_creator_role r,
      p_Mode = r_mode r,
      p_InspectionWindow = i64 (r_inspection_window_minutes r * time_Minute),
      p_DeliveryWindow = i64 (r_delivery_window_minutes r * time_Minute),
      p_AmountKobo = r_amount_kobo r, p_CommissionKobo = r_commission_kobo r,
      p_PremiumKobo = r_premium_kobo r,
      p_DeliveryDeadline = derefTime (r_delivery_deadline r),
      p_SettleAfter = derefTime (r_settle_after r),
      p_GraceDeadline = derefTime (r_grace_deadline r),
      p_FundingExpiresAt = derefTime (r_funding_expires_at r),
      p_CodeAttempts = r_code_attempts r, p_CodeLocked = r_code_locked r,
      p_DisputeClass = DisputeNone,
      p_GracePeriod = gracePeriod st, p_EvidenceCaptureWindow = evidenceCaptureWindow st\<rparr>"

definition scanPocket :: "store \<Rightarrow> pocket_row \<Rightarrow> pocket_record" where
  "scanPocket st r =
     \<lparr>rec_ID = r_id r, rec_ShortCode = r_short_code r, rec_Version = r_version r,
      rec_ItemDescription = r_item_description r, rec_Category = r_category r,
      rec_DeliveryAddress = derefStr (r_delivery_address r),
      rec_FundingLinkRef = derefStr (r_funding_link_ref r),
      rec_FundingLinkURL = derefStr (r_funding_link_url r),
      rec_FundingTxID = derefStr (r_funding_transaction_id r),
      rec_ReleaseCodeHash = derefStr (r_release_code_hash r),
      rec_ReleaseCodeEnc = derefStr (r_release_code_enc r),
      rec_CreatedAt = r_created_at r, rec_Pocket = row_pocket st r\<rparr>"

definition scan_found :: "store \<Rightarrow> pocket_row option \<Rightarrow> pocket_record res" where
  "scan_found st r = (case r of None \<Rightarrow> Inl ErrNotFound | Some x \<Rightarrow> Inr (scanPocket st x))"

definition GetByID :: "store \<Rightarrow> string \<Rightarrow> db \<Rightarrow> pocket_record res" where
  "GetByID st pid d = scan_found st (pocket_by_id pid d)"

definition GetByShortCode :: "store \<Rightarrow> string \<Rightarrow> db \<Rightarrow> pocket_record res" where
  "GetByShortCode st code d = scan_found st (select_one (\<lambda>r. r_short_code r = code) (pockets d))"

definition GetByFundingRef :: "store \<Rightarrow> string \<Rightarrow> db \<Rightarrow> pocket_record res" where
  "GetByFundingRef st ref d =
     (if ref = [] then Inl ErrNotFound
      else scan_found st (select_one (\<lambda>r. r_funding_link_ref r = Some ref) (pockets d)))"

definition selectPocketForUpdateTx :: "store \<Rightarrow> string \<Rightarrow> (db, pocket_record) tx" where
  "selectPocketForUpdateTx st pid = read_tx (GetByID st pid)"

text \<open>Go's integer division truncates towards zero.\<close>

definition minutes :: "duration \<Rightarrow> int" where
  "minutes d = sgn d * (\<bar>d\<bar> div time_Minute)"

definition insertPocketDraftTx ::
    "string res \<Rightarrow> string \<Rightarrow> pocket_draft \<Rightarrow> (db, string \<times> string) tx" where
  "insertPocketDraftTx shortCode_draw new_id dr =
     bind_tx (lift_tx shortCode_draw) (\<lambda>shortCode d.
       bind_tx (insert_pocket
         \<lparr>r_id = new_id, r_short_code = shortCode, r_version = 1,
          r_structure = dr_Structure dr, r_creator_role = dr_CreatorRole dr, r_mode = dr_Mode dr,
          r_amount_kobo = dr_AmountKobo dr, r_commission_kobo = dr_CommissionKobo dr,
          r_premium_kobo = dr_PremiumKobo dr,
          r_buyer_total_kobo = i64 (i64 (dr_AmountKobo dr + dr_CommissionKobo dr) + dr_PremiumKobo dr),
          r_item_description = dr_ItemDescription dr, r_category = dr_Category dr,
          r_delivery_address = None,
          r_inspection_window_minutes = minutes (dr_InspectionWindow dr),
          r_delivery_window_minutes = minutes (dr_DeliveryWindow dr),
          r_state = StateDraft, r_release_code_hash = None, r_code_attempts = 0,
          r_code_locked = False, r_delivery_deadline = None, r_settle_after = None,
          r_grace_deadline = None, r_funding_expires_at = None, r_funding_link_ref = None,
          r_funding_link_url = None, r_funding_transaction_id = None, r_release_code_enc = None,
          r_attested_at = None, r_created_at = db_clock d\<rparr>)
       (\<lambda>_. return_tx (new_id, shortCode)) d)"

definition write_pocket :: "pocket \<Rightarrow> pocket_row \<Rightarrow> pocket_row" where
  "write_pocket p r = r\<lparr>r_version := r_version r + 1, r_state := p_State p,
     r_code_attempts := p_CodeAttempts p, r_code_locked := p_CodeLocked p,
     r_delivery_deadline := nullTime (p_DeliveryDeadline p),
     r_settle_after := nullTime (p_SettleAfter p),
     r_grace_deadline := nullTime (p_GraceDeadline p),
     r_funding_expires_at := nullTime (p_FundingExpiresAt p)\<rparr>"

definition updatePocketTx :: "string \<Rightarrow> pocket \<Rightarrow> int \<Rightarrow> (db, unit) tx" where
  "updatePocketTx pid p expectedVersion d =
     (case modify_pockets (\<lambda>r. r_id r = pid \<and> r_version r = expectedVersion) (write_pocket p) d of
        (n, d') \<Rightarrow> if n = 0 then Inl ErrConflict else Inr ((), d'))"

definition setDeliveryAddressTx :: "string \<Rightarrow> string \<Rightarrow> (db, unit) tx" where
  "setDeliveryAddressTx pid address d =
     Inr ((), snd (modify_pockets (\<lambda>r. r_id r = pid)
       (\<lambda>r. r\<lparr>r_delivery_address := Some address\<rparr>) d))"

definition SetFundingLink :: "string \<Rightarrow> string \<Rightarrow> string \<Rightarrow> db \<Rightarrow> db" where
  "SetFundingLink pid ref url d = snd (modify_pockets (\<lambda>r. r_id r = pid)
     (\<lambda>r. r\<lparr>r_funding_link_ref := Some ref, r_funding_link_url := Some url\<rparr>) d)"

definition SetFundingTransaction :: "string \<Rightarrow> string \<Rightarrow> db \<Rightarrow> db" where
  "SetFundingTransaction pid txID d =
     (if txID = [] then d
      else snd (modify_pockets (\<lambda>r. r_id r = pid \<and> r_funding_transaction_id r = None)
        (\<lambda>r. r\<lparr>r_funding_transaction_id := Some txID\<rparr>) d))"

definition SetReleaseCode :: "string \<Rightarrow> string \<Rightarrow> string \<Rightarrow> db \<Rightarrow> db" where
  "SetReleaseCode pid hash enc d =
     snd (modify_pockets (\<lambda>r. r_id r = pid \<and> r_release_code_hash r = None)
       (\<lambda>r. r\<lparr>r_release_code_hash := Some hash, r_release_code_enc := Some enc\<rparr>) d)"

section \<open>Participants\<close>

definition insertParticipantTx ::
    "string \<Rightarrow> role \<Rightarrow> string option \<Rightarrow> string \<Rightarrow> gotime option \<Rightarrow> (db, unit) tx" where
  "insertParticipantTx pid role user hash accepted = insert_participant
     \<lparr>t_pocket = pid, t_role = role, t_user = user, t_hash = hash, t_accepted_at = accepted\<rparr>"

text \<open>
  A scanned row is the participant with the two text columns selected beside it: empty inside
  the executor (\<^verbatim>\<open>participantsTx\<close>), the display name and phone of the seat's account in
  the joined select.
\<close>

definition scanParticipantRow :: "string \<Rightarrow> string \<Rightarrow> participant_row \<Rightarrow> participant_record" where
  "scanParticipantRow name phone t =
     \<lparr>part_Role = t_role t, part_UserID = derefStr (t_user t),
      part_DisplayName = name, part_Phone = phone,
      part_Accepted = (t_accepted_at t \<noteq> None),
      part_AcceptedAt = derefTime (t_accepted_at t), part_LinkTokenHash = t_hash t\<rparr>"

definition participantSelect :: "db \<Rightarrow> participant_row \<Rightarrow> participant_record" where
  "participantSelect d t = (case select_one (\<lambda>u. Some (u_id u) = t_user t) (users d) of
       None \<Rightarrow> scanParticipantRow [] [] t
     | Some u \<Rightarrow> scanParticipantRow (u_display_name u) (derefStr (u_phone u)) t)"

lemma scanParticipantRow_simps [simp]:
  "part_Role (scanParticipantRow n ph t) = t_role t"
  "part_UserID (scanParticipantRow n ph t) = derefStr (t_user t)"
  "part_DisplayName (scanParticipantRow n ph t) = n" "part_Phone (scanParticipantRow n ph t) = ph"
  "part_Accepted (scanParticipantRow n ph t) \<longleftrightarrow> t_accepted_at t \<noteq> None"
  "part_AcceptedAt (scanParticipantRow n ph t) = derefTime (t_accepted_at t)"
  "part_LinkTokenHash (scanParticipantRow n ph t) = t_hash t"
  by (simp_all add: scanParticipantRow_def)

lemma participantSelect_simps [simp]:
  "part_Role (participantSelect d t) = t_role t"
  "part_UserID (participantSelect d t) = derefStr (t_user t)"
  "part_Accepted (participantSelect d t) \<longleftrightarrow> t_accepted_at t \<noteq> None"
  "part_AcceptedAt (participantSelect d t) = derefTime (t_accepted_at t)"
  "part_LinkTokenHash (participantSelect d t) = t_hash t"
  by (simp_all add: participantSelect_def split: option.split)

definition getParticipantTx :: "string \<Rightarrow> role \<Rightarrow> (db, participant_record) tx" where
  "getParticipantTx pid role = read_tx (\<lambda>d. case participant_by_role pid role d of
       None \<Rightarrow> Inl (ErrDB NoRows) | Some t \<Rightarrow> Inr (participantSelect d t))"

definition participantsTx :: "string \<Rightarrow> (db, participant_record list) tx" where
  "participantsTx pid = read_tx (\<lambda>d. Inr (map (scanParticipantRow [] []) (participants_of pid d)))"

definition bind_participant :: "string \<Rightarrow> role \<Rightarrow> string \<Rightarrow> (db, unit) tx" where
  "bind_participant pid role user d =
     (if exists_where (\<lambda>t. t_pocket t = pid \<and> t_role t = role) (participants d)
         \<and> exists_where (\<lambda>t. t_pocket t = pid \<and> t_role t \<noteq> role \<and> t_user t = Some user)
             (participants d)
      then Inl (ErrDB UniqueViolation)
      else if exists_where (\<lambda>t. t_pocket t = pid \<and> t_role t = role) (participants d)
         \<and> \<not> user_exists (Some user) d
      then Inl (ErrDB ForeignKeyViolation)
      else Inr ((), d\<lparr>participants := update_where (\<lambda>t. t_pocket t = pid \<and> t_role t = role)
              (\<lambda>t. t\<lparr>t_user := Some user\<rparr>) (participants d)\<rparr>))"

definition claimParticipantTx :: "string \<Rightarrow> role \<Rightarrow> string \<Rightarrow> (db, unit) tx" where
  "claimParticipantTx pid role userID =
     bind_tx (getParticipantTx pid role) (\<lambda>existing.
       if part_UserID existing \<noteq> [] then
         (if part_UserID existing = userID then return_tx () else fail_tx ErrAlreadyClaimed)
       else bind_tx (participantsTx pid) (\<lambda>parts.
         if list_ex (\<lambda>p. part_UserID p = userID) parts then fail_tx ErrRoleConflict
         else bind_participant pid role userID))"

definition markAcceptedTx :: "string \<Rightarrow> role \<Rightarrow> gotime \<Rightarrow> (db, bool) tx" where
  "markAcceptedTx pid role now d =
     (let P = (\<lambda>t. t_pocket t = pid \<and> t_role t = role \<and> t_accepted_at t = None) in
      Inr (rows_affected P (participants d) = 1,
           d\<lparr>participants := update_where P (\<lambda>t. t\<lparr>t_accepted_at := Some now\<rparr>) (participants d)\<rparr>))"

fun roleAccepted :: "participant_record list \<Rightarrow> role \<Rightarrow> bool" where
  "roleAccepted [] role = False"
| "roleAccepted (p # ps) role =
     (if part_Role p = role then part_Accepted p else roleAccepted ps role)"

definition allAccepted :: "participant_record list \<Rightarrow> bool" where
  "allAccepted parts \<longleftrightarrow> list_all part_Accepted parts \<and> 0 < length parts"

section \<open>Audit events, legs and disputes\<close>

text \<open>\<open>from_state\<close> and \<open>to_state\<close> are never empty where the executor writes them.\<close>

definition insertEventTx ::
    "string \<Rightarrow> role \<Rightarrow> state \<Rightarrow> state \<Rightarrow> string \<Rightarrow> payload \<Rightarrow> (db, unit) tx" where
  "insertEventTx pid actor from_state to_state kind pl = (\<lambda>d. insert_event
     \<lparr>e_pocket = pid, e_actor = actor, e_from = Some from_state, e_to = Some to_state,
      e_kind = kind, e_payload = pl, e_created_at = db_clock d\<rparr> d)"

fun role_text :: "role \<Rightarrow> string" where
  "role_text RoleBuyer = ''buyer''"
| "role_text RoleVendor = ''vendor''"
| "role_text RoleBroker = ''broker''"
| "role_text (RoleOther s) = s"

fun direction_text :: "direction \<Rightarrow> string" where
  "direction_text Payout = ''payout''"
| "direction_text Refund = ''refund''"

definition idempotencyKey :: "string \<Rightarrow> direction \<Rightarrow> role \<Rightarrow> string" where
  "idempotencyKey pid dir role = pid @ '':'' @ direction_text dir @ '':'' @ role_text role"

record settlement_leg =
  sl_PocketID :: string
  sl_Direction :: direction
  sl_BeneficiaryRole :: role
  sl_BeneficiaryUser :: string
  sl_AmountKobo :: int
  sl_IdempotencyKey :: string
  sl_UpdatedAt :: gotime

definition new_leg :: "string \<Rightarrow> direction \<Rightarrow> role \<Rightarrow> int \<Rightarrow> settlement_leg" where
  "new_leg pid dir role amount =
     \<lparr>sl_PocketID = pid, sl_Direction = dir, sl_BeneficiaryRole = role, sl_BeneficiaryUser = [],
      sl_AmountKobo = amount, sl_IdempotencyKey = idempotencyKey pid dir role, sl_UpdatedAt = 0\<rparr>"

definition insertSettlementLegTx :: "settlement_leg \<Rightarrow> (db, unit) tx" where
  "insertSettlementLegTx leg = (\<lambda>d. insert_settlement
     \<lparr>s_pocket = sl_PocketID leg, s_direction = sl_Direction leg, s_role = sl_BeneficiaryRole leg,
      s_user = nullStr (sl_BeneficiaryUser leg), s_amount_kobo = sl_AmountKobo leg,
      s_key = sl_IdempotencyKey leg, s_gateway_ref = None, s_status = LegPending,
      s_last_error = [], s_created_at = db_clock d, s_updated_at = db_clock d\<rparr> d)"

fun insert_legs :: "string \<Rightarrow> payout_leg list \<Rightarrow> (db, unit) tx" where
  "insert_legs pid [] = return_tx ()"
| "insert_legs pid (l # ls) =
     bind_tx (insertSettlementLegTx (new_leg pid Payout (leg_Role l) (leg_AmountKobo l)))
       (\<lambda>_. insert_legs pid ls)"

fun recordSettlementLegsTx :: "string \<Rightarrow> effect list \<Rightarrow> (db, unit) tx" where
  "recordSettlementLegsTx pid [] = return_tx ()"
| "recordSettlementLegsTx pid (SchedulePayout legs # es) =
     bind_tx (insert_legs pid legs) (\<lambda>_. recordSettlementLegsTx pid es)"
| "recordSettlementLegsTx pid (ExecuteRefund role amount # es) =
     bind_tx (insertSettlementLegTx (new_leg pid Refund role amount)) (\<lambda>_. recordSettlementLegsTx pid es)"
| "recordSettlementLegsTx pid (_ # es) = recordSettlementLegsTx pid es"

definition recordDisputeTx :: "string \<Rightarrow> role \<Rightarrow> state \<Rightarrow> pocket \<Rightarrow> (db, unit) tx" where
  "recordDisputeTx pid actor from_state out d =
     (let to_state = p_State out in
      if to_state = StateDisputed \<and> from_state \<noteq> StateDisputed then
        insert_dispute \<lparr>d_pocket = pid, d_class = p_DisputeClass out, d_opened_by = actor,
          d_state = DisputeOpen, d_resolution = None, d_notes = [],
          d_created_at = db_clock d, d_updated_at = db_clock d\<rparr> d
      else if from_state = StateDisputed \<and> (to_state = StateRefunded \<or> to_state = StateSettled) then
        Inr ((), d\<lparr>disputes := update_where (\<lambda>x. d_pocket x = pid \<and> d_state x = DisputeOpen)
          (\<lambda>x. x\<lparr>d_state := DisputeResolved,
             d_resolution := Some (if to_state = StateSettled then ResolvedPayout else ResolvedRefund),
             d_updated_at := db_clock d\<rparr>) (disputes d)\<rparr>)
      else Inr ((), d))"

end
