(* ===== verification/Store_Executor.thy ===== *)
theory Store_Executor
  imports Store_Rows
begin

text \<open>
  The single transactional write path (\<^verbatim>\<open>internal/store/executor.go\<close>, \<^verbatim>\<open>convert.go\<close> and the
  transition half of \<^verbatim>\<open>sweep.go\<close>): every operation is the body of one transaction run by
  \<open>run_tx\<close>, so a refused operation leaves the database as it was.  Row locks make the body
  of a transaction atomic; the rows held by other transactions are an argument of the sweep,
  which skips them.  Fresh identifiers, short codes and link tokens are drawn outside and
  passed in.
\<close>

type_synonym minter = "string \<Rightarrow> role \<Rightarrow> (string \<times> string) res"

fun kind_text :: "event_kind \<Rightarrow> string" where
  "kind_text EvFundingConfirmed = ''funding_confirmed''"
| "kind_text EvFundingExpired = ''funding_expired''"
| "kind_text EvCancel = ''cancel''"
| "kind_text EvVendorCancel = ''vendor_cancel''"
| "kind_text EvCodeAccepted = ''code_accepted''"
| "kind_text EvCodeRejected = ''code_rejected''"
| "kind_text EvDeliveryDeadlineLapsed = ''delivery_deadline_lapsed''"
| "kind_text EvRefundFrozen = ''refund_frozen''"
| "kind_text EvFrozenDispute = ''frozen_dispute''"
| "kind_text EvSettleDue = ''settle_due''"
| "kind_text EvBuyerReportIssue = ''buyer_report_issue''"
| "kind_text EvVendorConcede = ''vendor_concede''"
| "kind_text EvAdminForceRefund = ''admin_force_refund''"
| "kind_text EvAdminForcePayout = ''admin_force_payout''"
| "kind_text (EvOther s) = s"

section \<open>Results\<close>

record creator_input =
  ci_Role :: role
  ci_UserID :: string

record create_result =
  cr_PocketID :: string
  cr_ShortCode :: string
  cr_Tokens :: "(role \<times> string) list"

record accept_result =
  ar_PocketID :: string
  ar_Completed :: bool
  ar_State :: state
  ar_Outcome :: "outcome option"

record write_result =
  wr_PocketID :: string
  wr_FromState :: state
  wr_Outcome :: outcome

record convert_result =
  vr_PocketID :: string
  vr_Tokens :: "(role \<times> string) list"

section \<open>Creation\<close>

fun insertRolesTx :: "minter \<Rightarrow> creator_input \<Rightarrow> gotime \<Rightarrow> string \<Rightarrow> role list \<Rightarrow>
    (db, (role \<times> string) list) tx" where
  "insertRolesTx mint creator now pid [] = return_tx []"
| "insertRolesTx mint creator now pid (role # roles) =
     bind_tx (lift_tx (mint pid role)) (\<lambda>(token, hash).
     bind_tx (insertParticipantTx pid role
       (if role = ci_Role creator then Some (ci_UserID creator) else None) hash
       (if role = ci_Role creator then Some now else None)) (\<lambda>_.
     bind_tx (insertRolesTx mint creator now pid roles) (\<lambda>tokens.
       return_tx ((role, token) # tokens))))"

definition CreatePocket_tx :: "minter \<Rightarrow> string res \<Rightarrow> string \<Rightarrow> pocket_draft \<Rightarrow> creator_input \<Rightarrow>
    role list \<Rightarrow> gotime \<Rightarrow> (db, create_result) tx" where
  "CreatePocket_tx mint shortCode_draw new_id draft creator roles now =
     bind_tx (insertPocketDraftTx shortCode_draw new_id draft) (\<lambda>(pid, shortCode).
     bind_tx (insertRolesTx mint creator now pid roles) (\<lambda>tokens.
       return_tx \<lparr>cr_PocketID = pid, cr_ShortCode = shortCode, cr_Tokens = tokens\<rparr>))"

definition CreatePocket where
  "CreatePocket mint shortCode_draw new_id draft creator roles now =
     run_tx (CreatePocket_tx mint shortCode_draw new_id draft creator roles now)"

definition Claim_tx :: "store \<Rightarrow> string \<Rightarrow> role \<Rightarrow> string \<Rightarrow> (db, unit) tx" where
  "Claim_tx st pid role userID =
     bind_tx (selectPocketForUpdateTx st pid) (\<lambda>rec.
       if \<not> IsDraft rec then fail_tx ErrIllegalState else claimParticipantTx pid role userID)"

definition Claim where
  "Claim st pid role userID = run_tx (Claim_tx st pid role userID)"

section \<open>Acceptance\<close>

definition awaiting_vendor_tx :: "pocket_record \<Rightarrow> string \<Rightarrow> role \<Rightarrow> (db, unit) tx" where
  "awaiting_vendor_tx rec pid role =
     (if p_Structure (rec_Pocket rec) = StructureBrokered \<and> role = RoleBuyer then
        bind_tx (participantsTx pid) (\<lambda>parts.
          guard_tx (roleAccepted parts RoleVendor) ErrAwaitingVendor)
      else return_tx ())"

definition create_aggregate_tx :: "store \<Rightarrow> pocket_record \<Rightarrow> string \<Rightarrow> role \<Rightarrow> gotime \<Rightarrow>
    (db, accept_result) tx" where
  "create_aggregate_tx st rec pid actor now =
     bind_tx (lift_tx (New now (specFromRecord st rec))) (\<lambda>out.
     bind_tx (updatePocketTx pid (out_Pocket out) (rec_Version rec)) (\<lambda>_.
     bind_tx (insertEventTx pid actor StateDraft (p_State (out_Pocket out)) ''created'' NoPayload)
       (\<lambda>_. return_tx \<lparr>ar_PocketID = pid, ar_Completed = True,
              ar_State = p_State (out_Pocket out), ar_Outcome = Some out\<rparr>)))"

definition Accept_tx :: "store \<Rightarrow> string \<Rightarrow> role \<Rightarrow> string \<Rightarrow> role \<Rightarrow> gotime \<Rightarrow>
    (db, accept_result) tx" where
  "Accept_tx st pid role deliveryAddress actor now =
     bind_tx (selectPocketForUpdateTx st pid) (\<lambda>rec.
     bind_tx (guard_tx (IsDraft rec) ErrIllegalState) (\<lambda>_.
     bind_tx (getParticipantTx pid role) (\<lambda>part.
     bind_tx (guard_tx (part_UserID part \<noteq> []) ErrNotClaimed) (\<lambda>_.
     bind_tx (guard_tx (\<not> part_Accepted part) ErrAlreadyAccepted) (\<lambda>_.
     bind_tx (awaiting_vendor_tx rec pid role) (\<lambda>_.
     bind_tx (markAcceptedTx pid role now) (\<lambda>accepted.
     bind_tx (guard_tx accepted ErrAlreadyAccepted) (\<lambda>_.
     bind_tx (if role = RoleBuyer \<and> deliveryAddress \<noteq> []
              then setDeliveryAddressTx pid deliveryAddress else return_tx ()) (\<lambda>_.
     bind_tx (participantsTx pid) (\<lambda>parts.
       if \<not> allAccepted parts then
         return_tx \<lparr>ar_PocketID = pid, ar_Completed = False, ar_State = StateDraft,
           ar_Outcome = None\<rparr>
       else create_aggregate_tx st rec pid actor now))))))))))"

definition Accept where
  "Accept st pid role deliveryAddress actor now =
     run_tx (Accept_tx st pid role deliveryAddress actor now)"

section \<open>Transitions\<close>

definition eventPayload :: "event \<Rightarrow> payload" where
  "eventPayload ev =
     (if ev_Reason ev = [] \<and> \<not> ev_BadFaith ev then NoPayload
      else EventPayload (ev_Reason ev) (ev_BadFaith ev))"

definition applyTransitionTx :: "string \<Rightarrow> role \<Rightarrow> pocket_record \<Rightarrow> gotime \<Rightarrow> event \<Rightarrow>
    (db, write_result) tx" where
  "applyTransitionTx pid actor rec now ev =
     bind_tx (lift_tx (Transition (rec_Pocket rec) now ev)) (\<lambda>out.
     bind_tx (updatePocketTx pid (out_Pocket out) (rec_Version rec)) (\<lambda>_.
     bind_tx (insertEventTx pid actor (p_State (rec_Pocket rec)) (p_State (out_Pocket out))
       (kind_text (ev_Kind ev)) (eventPayload ev)) (\<lambda>_.
     bind_tx (recordSettlementLegsTx pid (out_Effects out)) (\<lambda>_.
     bind_tx (recordDisputeTx pid actor (p_State (rec_Pocket rec)) (out_Pocket out)) (\<lambda>_.
       return_tx \<lparr>wr_PocketID = pid, wr_FromState = p_State (rec_Pocket rec),
         wr_Outcome = out\<rparr>)))))"

definition RunTransition_tx :: "store \<Rightarrow> string \<Rightarrow> role \<Rightarrow> event \<Rightarrow> gotime \<Rightarrow>
    (db, write_result) tx" where
  "RunTransition_tx st pid actor ev now =
     bind_tx (selectPocketForUpdateTx st pid) (\<lambda>rec.
       if IsDraft rec then fail_tx ErrIllegalState
       else applyTransitionTx pid actor rec now ev)"

definition RunTransition where
  "RunTransition st pid actor ev now = run_tx (RunTransition_tx st pid actor ev now)"

definition cancel_draft_tx :: "string \<Rightarrow> role \<Rightarrow> pocket_record \<Rightarrow> (db, write_result) tx" where
  "cancel_draft_tx pid actor rec =
     (let next = (rec_Pocket rec)\<lparr>p_State := StateCancelled\<rparr> in
     bind_tx (updatePocketTx pid next (rec_Version rec)) (\<lambda>_.
     bind_tx (insertEventTx pid actor StateDraft StateCancelled ''cancel'' NoPayload) (\<lambda>_.
       return_tx \<lparr>wr_PocketID = pid, wr_FromState = StateDraft,
         wr_Outcome = \<lparr>out_Pocket = next, out_Effects = []\<rparr>\<rparr>)))"

definition Cancel_tx :: "store \<Rightarrow> string \<Rightarrow> role \<Rightarrow> gotime \<Rightarrow> (db, write_result) tx" where
  "Cancel_tx st pid actor now =
     bind_tx (selectPocketForUpdateTx st pid) (\<lambda>rec.
       if IsDraft rec then cancel_draft_tx pid actor rec
       else if p_State (rec_Pocket rec) = StateCreated
       then applyTransitionTx pid actor rec now (event_of EvCancel)
       else if p_State (rec_Pocket rec) = StateFunded
       then applyTransitionTx pid actor rec now (event_of EvVendorCancel)
       else fail_tx ErrIllegalState)"

definition Cancel where
  "Cancel st pid actor now = run_tx (Cancel_tx st pid actor now)"

section \<open>Conversion to a brokered pocket\<close>

definition split_pocket_tx :: "string \<Rightarrow> int \<Rightarrow> int \<Rightarrow> int \<Rightarrow> (db, unit) tx" where
  "split_pocket_tx pid vendorAmount commission expectedVersion =
     bind_tx (update_pockets (\<lambda>r. r_id r = pid \<and> r_version r = expectedVersion)
       (\<lambda>r. r\<lparr>r_structure := StructureBrokered, r_creator_role := RoleBroker,
              r_amount_kobo := vendorAmount, r_commission_kobo := commission,
              r_version := r_version r + 1\<rparr>))
       (\<lambda>n. guard_tx (n \<noteq> 0) ErrConflict)"

definition rekey_tx :: "string \<Rightarrow> role \<Rightarrow> string \<Rightarrow> (db, unit) tx" where
  "rekey_tx pid role hash d =
     Inr ((), d\<lparr>participants := update_where (\<lambda>t. t_pocket t = pid \<and> t_role t = role)
       (\<lambda>t. t\<lparr>t_hash := hash\<rparr>) (participants d)\<rparr>)"

definition ConvertToBrokered_tx :: "store \<Rightarrow> minter \<Rightarrow> string \<Rightarrow> string \<Rightarrow> int \<Rightarrow> gotime \<Rightarrow>
    (db, convert_result) tx" where
  "ConvertToBrokered_tx st mint pid brokerUserID vendorAmount now =
     bind_tx (selectPocketForUpdateTx st pid) (\<lambda>rec. let p = rec_Pocket rec in
     bind_tx (guard_tx (IsDraft rec \<and> p_Structure p = StructureP2P \<and> p_CreatorRole p = RoleBuyer)
       ErrIllegalState) (\<lambda>_.
     bind_tx (guard_tx (0 < vendorAmount \<and> vendorAmount < p_AmountKobo p) ErrInvalidSplit) (\<lambda>_.
     bind_tx (getParticipantTx pid RoleVendor) (\<lambda>vendorSeat.
     bind_tx (guard_tx (part_UserID vendorSeat = []) ErrAlreadyClaimed) (\<lambda>_.
     bind_tx (participantsTx pid) (\<lambda>parts.
     bind_tx (guard_tx (\<not> list_ex (\<lambda>x. part_UserID x = brokerUserID) parts) ErrRoleConflict) (\<lambda>_.
     let commission = p_AmountKobo p - vendorAmount in
     bind_tx (split_pocket_tx pid vendorAmount commission (rec_Version rec)) (\<lambda>_.
     bind_tx (lift_tx (mint pid RoleBroker)) (\<lambda>(brokerToken, brokerHash).
     bind_tx (insertParticipantTx pid RoleBroker (Some brokerUserID) brokerHash (Some now)) (\<lambda>_.
     bind_tx (lift_tx (mint pid RoleVendor)) (\<lambda>(vendorToken, vendorHash).
     bind_tx (rekey_tx pid RoleVendor vendorHash) (\<lambda>_.
     bind_tx (insertEventTx pid RoleBroker StateDraft StateDraft ''converted_to_brokered''
       (ConvertPayload vendorAmount commission)) (\<lambda>_.
       return_tx \<lparr>vr_PocketID = pid,
         vr_Tokens = [(RoleBroker, brokerToken), (RoleVendor, vendorToken)]\<rparr>)))))))))))))"

definition ConvertToBrokered where
  "ConvertToBrokered st mint pid brokerUserID vendorAmount now =
     run_tx (ConvertToBrokered_tx st mint pid brokerUserID vendorAmount now)"

section \<open>The sweep rules\<close>

definition due_at :: "gotime option \<Rightarrow> gotime \<Rightarrow> bool" where
  "due_at t now = (case t of None \<Rightarrow> False | Some x \<Rightarrow> x \<le> now)"

definition sweepOne :: "store \<Rightarrow> (string \<Rightarrow> bool) \<Rightarrow> (pocket_row \<Rightarrow> bool) \<Rightarrow> event \<Rightarrow> gotime \<Rightarrow>
    db \<Rightarrow> write_result option res \<times> db" where
  "sweepOne st locked due ev now = run_tx (\<lambda>d.
     case select_one (\<lambda>r. due r \<and> \<not> locked (r_id r)) (pockets d) of
       None \<Rightarrow> Inr (None, d)
     | Some r \<Rightarrow> bind_tx (applyTransitionTx (r_id r) RoleSystem (scanPocket st r) now ev)
                   (\<lambda>res. return_tx (Some res)) d)"

definition due_expired_funding :: "gotime \<Rightarrow> pocket_row \<Rightarrow> bool" where
  "due_expired_funding now r \<longleftrightarrow> r_state r = StateCreated \<and> due_at (r_funding_expires_at r) now"

definition due_delivery_deadline :: "gotime \<Rightarrow> pocket_row \<Rightarrow> bool" where
  "due_delivery_deadline now r \<longleftrightarrow> r_state r = StateFunded \<and> due_at (r_delivery_deadline r) now"

definition due_grace_refund :: "gotime \<Rightarrow> pocket_row \<Rightarrow> bool" where
  "due_grace_refund now r \<longleftrightarrow>
     r_state r = StateFrozen \<and> due_at (r_grace_deadline r) now \<and> r_attested_at r \<noteq> None"

definition due_settlement :: "gotime \<Rightarrow> pocket_row \<Rightarrow> bool" where
  "due_settlement now r \<longleftrightarrow> r_state r = StateDeliveredPending \<and> due_at (r_settle_after r) now"

definition SweepOneExpiredFunding where
  "SweepOneExpiredFunding st locked now =
     sweepOne st locked (due_expired_funding now) (event_of EvFundingExpired) now"

definition SweepOneDeliveryDeadline where
  "SweepOneDeliveryDeadline st locked now =
     sweepOne st locked (due_delivery_deadline now) (event_of EvDeliveryDeadlineLapsed) now"

definition SweepOneGraceRefund where
  "SweepOneGraceRefund st locked now =
     sweepOne st locked (due_grace_refund now)
       \<lparr>ev_Kind = EvRefundFrozen, ev_Reason = ''grace_nonreceipt'', ev_BadFaith = False\<rparr> now"

definition SweepOneDueSettlement where
  "SweepOneDueSettlement st locked now =
     sweepOne st locked (due_settlement now) (event_of EvSettleDue) now"

definition PocketsAwaitingFunding :: "gotime \<Rightarrow> db \<Rightarrow> string list" where
  "PocketsAwaitingFunding now d =
     take 100 (map r_id (sort_key r_created_at (filter (\<lambda>r. r_state r = StateCreated \<and>
       r_funding_link_ref r \<noteq> None \<and> \<not> due_at (r_funding_expires_at r) now) (pockets d))))"

definition AttestNonReceipt :: "string \<Rightarrow> gotime \<Rightarrow> db \<Rightarrow> unit res \<times> db" where
  "AttestNonReceipt pid now d =
     (case modify_pockets (\<lambda>r. r_id r = pid \<and> r_state r = StateFrozen)
        (\<lambda>r. r\<lparr>r_attested_at := Some (case r_attested_at r of None \<Rightarrow> now | Some t \<Rightarrow> t)\<rparr>) d of
        (n, d') \<Rightarrow> if n = 0 then (Inl ErrIllegalState, d') else (Inr (), d'))"

end
