(* ===== verification/Store_Inv.thy ===== *)
theory Store_Inv
  imports Store_Executor
begin

text \<open>
  What a transition does to the database, and the invariant of the store: unique well-formed
  pocket rows, and a settlement ledger that holds for every pocket exactly the legs its state
  calls for.  The write path's claims rest on the lemmas of this theory.
\<close>

section \<open>Leg recording as a list of legs\<close>

type_synonym leg_key = "direction \<times> role \<times> int"

fun effect_legs :: "effect \<Rightarrow> leg_key list" where
  "effect_legs (SchedulePayout legs) = map (\<lambda>l. (Payout, leg_Role l, leg_AmountKobo l)) legs"
| "effect_legs (ExecuteRefund role amount) = [(Refund, role, amount)]"
| "effect_legs _ = []"

definition effects_legs :: "effect list \<Rightarrow> leg_key list" where
  "effects_legs es = concat (map effect_legs es)"

lemma effects_legs_simps [simp]:
  "effects_legs [] = []"
  "effects_legs (e # es) = effect_legs e @ effects_legs es"
  by (simp_all add: effects_legs_def)

lemma effects_legs_money: "effects_legs es = effects_legs (money_effects es)"
proof (induction es)
  case (Cons e es)
  then show ?case by (cases e) simp_all
qed simp

definition leg_row :: "string \<Rightarrow> gotime \<Rightarrow> leg_key \<Rightarrow> settlement_row" where
  "leg_row pid clk = (\<lambda>(dir, role, amount).
     \<lparr>s_pocket = pid, s_direction = dir, s_role = role, s_user = None, s_amount_kobo = amount,
      s_key = idempotencyKey pid dir role, s_gateway_ref = None, s_status = LegPending,
      s_last_error = [], s_created_at = clk, s_updated_at = clk\<rparr>)"

fun record_all :: "string \<Rightarrow> leg_key list \<Rightarrow> (db, unit) tx" where
  "record_all pid [] = return_tx ()"
| "record_all pid (l # ls) =
     bind_tx (\<lambda>d. insert_settlement (leg_row pid (db_clock d) l) d) (\<lambda>_. record_all pid ls)"

lemma bind_tx_assoc: "bind_tx (bind_tx m f) g = bind_tx m (\<lambda>x. bind_tx (f x) g)"
  by (auto simp: bind_tx_def fun_eq_iff split: sum.splits)

lemma record_all_append:
  "record_all pid (xs @ ys) = bind_tx (record_all pid xs) (\<lambda>_. record_all pid ys)"
  by (induction xs) (simp_all add: bind_tx_assoc)

lemma insert_legs_record_all:
  "insert_legs pid ls = record_all pid (map (\<lambda>l. (Payout, leg_Role l, leg_AmountKobo l)) ls)"
  by (induction ls) (simp_all add: insertSettlementLegTx_def new_leg_def nullStr_def leg_row_def)

lemma record_is_record_all: "recordSettlementLegsTx pid es = record_all pid (effects_legs es)"
  by (induction pid es rule: recordSettlementLegsTx.induct)
    (simp_all add: insert_legs_record_all record_all_append insertSettlementLegTx_def new_leg_def
      nullStr_def leg_row_def)

section \<open>Keys\<close>

definition plain_id :: "string \<Rightarrow> bool" where
  "plain_id s \<longleftrightarrow> CHR '':'' \<notin> set s"

lemma append_colon_eq:
  "CHR '':'' \<notin> set a \<Longrightarrow> CHR '':'' \<notin> set b \<Longrightarrow> a @ CHR '':'' # x = b @ CHR '':'' # y \<longleftrightarrow> a = b \<and> x = y"
  using cut_at_append [of "CHR '':''" a x] cut_at_append [of "CHR '':''" b y]
  by (metis Pair_inject)

lemma idempotencyKey_inj:
  assumes "plain_id p" and "plain_id q"
    and "idempotencyKey p dir role = idempotencyKey q dir' role'"
    and "party_role role" and "party_role role'"
  shows "p = q \<and> dir = dir' \<and> role = role'"
  using assms
  by (cases dir; cases dir'; cases role; cases role')
    (auto simp: idempotencyKey_def plain_id_def append_colon_eq)

section \<open>The invariant\<close>

definition terminal_legs :: "pocket_row \<Rightarrow> leg_key list" where
  "terminal_legs r = (case r_state r of
       StateSettled \<Rightarrow> (Payout, RoleVendor, r_amount_kobo r) #
         (if r_structure r = StructureBrokered \<and> 0 < r_commission_kobo r
          then [(Payout, RoleBroker, r_commission_kobo r)] else [])
     | StateRefunded \<Rightarrow> [(Refund, RoleBuyer, r_buyer_total_kobo r)]
     | _ \<Rightarrow> [])"

definition leg_of :: "settlement_row \<Rightarrow> leg_key" where
  "leg_of s = (s_direction s, s_role s, s_amount_kobo s)"

definition legs_of :: "string \<Rightarrow> settlement_row list \<Rightarrow> leg_key list" where
  "legs_of pid ss = map leg_of (filter (\<lambda>s. s_pocket s = pid) ss)"

definition wf_rows :: "pocket_row list \<Rightarrow> bool" where
  "wf_rows rs \<longleftrightarrow> distinct (map r_id rs) \<and> (\<forall>r \<in> set rs. pocket_row_check r \<and> plain_id (r_id r))"

definition wf_ledger :: "pocket_row list \<Rightarrow> settlement_row list \<Rightarrow> bool" where
  "wf_ledger rs ss \<longleftrightarrow>
     (\<forall>r \<in> set rs. legs_of (r_id r) ss = terminal_legs r) \<and>
     (\<forall>s \<in> set ss. s_pocket s \<in> r_id ` set rs \<and> party_role (s_role s) \<and>
        s_key s = idempotencyKey (s_pocket s) (s_direction s) (s_role s))"

definition wf_db :: "db \<Rightarrow> bool" where
  "wf_db d \<longleftrightarrow> wf_rows (pockets d) \<and> wf_ledger (pockets d) (settlements d)"

lemma wf_empty: "wf_db (empty_db\<lparr>db_clock := t\<rparr>)"
  by (simp add: wf_db_def wf_rows_def wf_ledger_def empty_db_def)

lemma legs_of_append [simp]: "legs_of pid (xs @ ys) = legs_of pid xs @ legs_of pid ys"
  by (simp add: legs_of_def)

lemma legs_of_leg_rows [simp]:
  "legs_of q (map (leg_row pid clk) ls) = (if q = pid then ls else [])"
  by (induction ls) (auto simp: legs_of_def leg_of_def leg_row_def split: prod.splits)

lemma pocket_by_id_iff:
  assumes "wf_rows (pockets d)"
  shows "pocket_by_id pid d = Some r \<longleftrightarrow> r \<in> set (pockets d) \<and> r_id r = pid"
  using assms select_one_unique [of r_id "pockets d" r pid]
  by (auto simp: pocket_by_id_def wf_rows_def dest: select_one_Some)

lemma terminal_legs_row:
  assumes "pocket_row_check r"
  shows "effects_legs (terminal_money (row_pocket st r)) = terminal_legs r"
proof -
  have "in_i64 (r_amount_kobo r + r_commission_kobo r)"
    using assms by (auto simp: pocket_row_check_def in_i64_def)
  then have "BuyerTotalKobo (row_pocket st r) = r_buyer_total_kobo r"
    using assms by (simp add: BuyerTotalKobo_def row_pocket_def pocket_row_check_def i64_id)
  then show ?thesis
    by (auto simp: terminal_money_def terminal_legs_def PayoutLegs_def row_pocket_def
        split: state.splits)
qed

lemma terminal_legs_ok:
  assumes "pocket_row_check r" and "(dir, role, amount) \<in> set (terminal_legs r)"
  shows "party_role role \<and> 0 < amount"
  using assms
  by (auto simp: terminal_legs_def pocket_row_check_def split: state.splits if_splits)

lemma terminal_legs_distinct: "distinct (map (\<lambda>(dir, role, _). (dir, role)) (terminal_legs r))"
  by (auto simp: terminal_legs_def split: state.splits)

section \<open>Recording legs\<close>

lemma insert_settlement_fresh:
  assumes "party_role role" and "0 < amount" and "plain_id pid"
    and "exists_where (\<lambda>r. r_id r = pid) (pockets d)"
    and "\<forall>s \<in> set (settlements d). plain_id (s_pocket s) \<and> party_role (s_role s) \<and>
      s_key s = idempotencyKey (s_pocket s) (s_direction s) (s_role s)"
    and "\<forall>s \<in> set (settlements d). s_pocket s = pid \<longrightarrow> (s_direction s, s_role s) \<noteq> (dir, role)"
  shows "insert_settlement (leg_row pid clk (dir, role, amount)) d =
    Inr ((), d\<lparr>settlements := settlements d @ [leg_row pid clk (dir, role, amount)]\<rparr>)"
proof -
  have "s_key s \<noteq> idempotencyKey pid dir role" if "s \<in> set (settlements d)" for s
    using idempotencyKey_inj [of "s_pocket s" pid "s_direction s" "s_role s" dir role] assms that
    by auto
  then show ?thesis
    using assms by (auto simp: insert_settlement_def leg_row_def settlement_row_check_def
        user_exists_def exists_where_iff)
qed

lemma record_all_fresh:
  assumes "\<forall>(dir, role, amount) \<in> set ls. party_role role \<and> 0 < amount" and "plain_id pid"
    and "distinct (map (\<lambda>(dir, role, _). (dir, role)) ls)"
    and "exists_where (\<lambda>r. r_id r = pid) (pockets d)"
    and "\<forall>s \<in> set (settlements d). plain_id (s_pocket s) \<and> party_role (s_role s) \<and>
      s_key s = idempotencyKey (s_pocket s) (s_direction s) (s_role s)"
    and "\<forall>s \<in> set (settlements d). s_pocket s = pid \<longrightarrow>
      (s_direction s, s_role s) \<notin> (\<lambda>(dir, role, _). (dir, role)) ` set ls"
  shows "record_all pid ls d =
    Inr ((), d\<lparr>settlements := settlements d @ map (leg_row pid (db_clock d)) ls\<rparr>)"
  using assms
proof (induction ls arbitrary: d)
  case (Cons l ls)
  obtain dir role amount where l: "l = (dir, role, amount)" by (cases l)
  let ?d = "d\<lparr>settlements := settlements d @ [leg_row pid (db_clock d) l]\<rparr>"
  have step: "insert_settlement (leg_row pid (db_clock d) l) d = Inr ((), ?d)"
    unfolding l using Cons.prems l by (intro insert_settlement_fresh) auto
  have "record_all pid ls ?d =
      Inr ((), ?d\<lparr>settlements := settlements ?d @ map (leg_row pid (db_clock ?d)) ls\<rparr>)"
    using Cons.prems l
    by (intro Cons.IH) (auto simp: leg_row_def image_iff split: prod.splits)
  then show ?case by (simp add: bind_tx_def step)
qed (simp add: return_tx_def)

end
