(* ===== verification/Store_Path.thy ===== *)
theory Store_Path
  imports Store_Inv
begin

text \<open>
  The write path: what \<open>applyTransitionTx\<close> does to every table, in terms of the domain's
  \<open>Transition\<close> on the stored aggregate, and that it keeps the invariant of the store.
\<close>

section \<open>Writing the aggregate\<close>

lemma write_pocket_fields [simp]:
  "r_id (write_pocket p r) = r_id r"
  "r_version (write_pocket p r) = r_version r + 1"
  "r_state (write_pocket p r) = p_State p"
  "r_structure (write_pocket p r) = r_structure r"
  "r_creator_role (write_pocket p r) = r_creator_role r"
  "r_amount_kobo (write_pocket p r) = r_amount_kobo r"
  "r_commission_kobo (write_pocket p r) = r_commission_kobo r"
  "r_premium_kobo (write_pocket p r) = r_premium_kobo r"
  "r_buyer_total_kobo (write_pocket p r) = r_buyer_total_kobo r"
  "r_release_code_hash (write_pocket p r) = r_release_code_hash r"
  "r_attested_at (write_pocket p r) = r_attested_at r"
  "pocket_row_check (write_pocket p r) = pocket_row_check r"
  by (simp_all add: write_pocket_def pocket_row_check_def)

text \<open>What the row reads back as: the aggregate that was written, except that the dispute
  class has no column and the two policy durations are the store's.\<close>

definition stored :: "store \<Rightarrow> pocket \<Rightarrow> pocket" where
  "stored st p = p\<lparr>p_DisputeClass := DisputeNone, p_GracePeriod := gracePeriod st,
     p_EvidenceCaptureWindow := evidenceCaptureWindow st\<rparr>"

definition same_stored_terms :: "pocket \<Rightarrow> pocket \<Rightarrow> bool" where
  "same_stored_terms p q \<longleftrightarrow>
     p_Structure q = p_Structure p \<and> p_CreatorRole q = p_CreatorRole p \<and> p_Mode q = p_Mode p \<and>
     p_InspectionWindow q = p_InspectionWindow p \<and> p_DeliveryWindow q = p_DeliveryWindow p \<and>
     p_AmountKobo q = p_AmountKobo p \<and> p_CommissionKobo q = p_CommissionKobo p \<and>
     p_PremiumKobo q = p_PremiumKobo p"

lemma row_pocket_write:
  assumes "same_stored_terms (row_pocket st r) p"
  shows "row_pocket st (write_pocket p r) = stored st p"
  using assms by (simp add: same_stored_terms_def row_pocket_def write_pocket_def stored_def)

lemma same_terms_stored: "same_terms p q \<Longrightarrow> same_stored_terms p q"
  by (simp add: same_terms_def same_stored_terms_def)

lemma row_pocket_state [simp]: "p_State (row_pocket st r) = r_state r"
  by (simp add: row_pocket_def)

lemma scanPocket_simps [simp]:
  "rec_Pocket (scanPocket st r) = row_pocket st r"
  "rec_Version (scanPocket st r) = r_version r"
  "rec_ID (scanPocket st r) = r_id r"
  "IsDraft (scanPocket st r) \<longleftrightarrow> r_state r = StateDraft"
  by (simp_all add: scanPocket_def IsDraft_def)

definition replace_row :: "string \<Rightarrow> (pocket_row \<Rightarrow> pocket_row) \<Rightarrow> pocket_row list \<Rightarrow> pocket_row list" where
  "replace_row pid f rs = update_where (\<lambda>x. r_id x = pid) f rs"

text \<open>Inside the transaction that has just read the row the version check always passes.\<close>

lemma updatePocketTx_current:
  assumes "wf_rows (pockets d)" and "r \<in> set (pockets d)"
  shows "updatePocketTx (r_id r) p (r_version r) d =
    Inr ((), d\<lparr>pockets := replace_row (r_id r) (write_pocket p) (pockets d)\<rparr>)"
proof -
  have "(r_id x = r_id r \<and> r_version x = r_version r) \<longleftrightarrow> r_id x = r_id r" if "x \<in> set (pockets d)" for x
    using assms that by (auto simp: wf_rows_def distinct_map inj_on_def)
  then have upd: "update_where (\<lambda>x. r_id x = r_id r \<and> r_version x = r_version r) (write_pocket p) (pockets d)
      = replace_row (r_id r) (write_pocket p) (pockets d)"
    by (auto simp: update_where_def replace_row_def)
  have "rows_affected (\<lambda>x. r_id x = r_id r \<and> r_version x = r_version r) (pockets d) \<noteq> 0"
    using assms(2) by (auto simp: rows_affected_zero)
  then show ?thesis
    by (simp add: updatePocketTx_def modify_pockets_def upd)
qed

text \<open>A version that is not the row's is a conflict: the optimistic check.\<close>

lemma updatePocketTx_stale:
  assumes "\<forall>r \<in> set (pockets d). r_id r = pid \<longrightarrow> r_version r \<noteq> v"
  shows "updatePocketTx pid p v d = Inl ErrConflict"
proof -
  have "rows_affected (\<lambda>r. r_id r = pid \<and> r_version r = v) (pockets d) = 0"
    using assms by (simp add: rows_affected_zero)
  then show ?thesis by (simp add: updatePocketTx_def modify_pockets_def)
qed

lemma set_replace_row:
  "set (replace_row pid f rs) = (\<lambda>x. if r_id x = pid then f x else x) ` set rs"
  by (simp add: replace_row_def set_update_where)

lemma ids_replace_row:
  "(\<And>x. r_id (f x) = r_id x) \<Longrightarrow> map r_id (replace_row pid f rs) = map r_id rs"
  by (simp add: replace_row_def update_where_def)

lemma wf_rows_replace:
  assumes "wf_rows rs" and "\<And>x. r_id (f x) = r_id x"
    and "\<And>x. x \<in> set rs \<Longrightarrow> r_id x = pid \<Longrightarrow> pocket_row_check (f x)"
  shows "wf_rows (replace_row pid f rs)"
  using assms by (auto simp: wf_rows_def ids_replace_row set_replace_row)

section \<open>The result of a transition\<close>

definition transition_event :: "string \<Rightarrow> role \<Rightarrow> state \<Rightarrow> state \<Rightarrow> event \<Rightarrow> gotime \<Rightarrow> event_row" where
  "transition_event pid actor s t ev clk =
     \<lparr>e_pocket = pid, e_actor = actor, e_from = Some s, e_to = Some t,
      e_kind = kind_text (ev_Kind ev), e_payload = eventPayload ev, e_created_at = clk\<rparr>"

definition opens_dispute :: "event_kind \<Rightarrow> bool" where
  "opens_dispute k \<longleftrightarrow> k = EvFrozenDispute \<or> k = EvBuyerReportIssue"

lemma transition_dispute:
  assumes "Transition p now ev = Inr out"
  shows "p_State (out_Pocket out) = StateDisputed \<and> p_State p \<noteq> StateDisputed \<longleftrightarrow>
      opens_dispute (ev_Kind ev)"
    and "opens_dispute (ev_Kind ev) \<Longrightarrow> p_DisputeClass (out_Pocket out) \<noteq> DisputeNone"
  using assms by (cases "ev_Kind ev"; auto simp: transition_defs opens_dispute_def Let_def
      split: if_splits)+

definition actor_fits :: "role \<Rightarrow> event_kind \<Rightarrow> bool" where
  "actor_fits actor k \<longleftrightarrow> actor_check actor \<and>
     (opens_dispute k \<longrightarrow> actor \<in> {RoleBuyer, RoleVendor, RoleSystem})"

lemma recordDispute_frame:
  "recordDisputeTx pid actor s q d = Inr ((), d') \<Longrightarrow> \<exists>ds. d' = d\<lparr>disputes := ds\<rparr>"
  by (auto simp: recordDisputeTx_def insert_dispute_def Let_def split: if_splits
      intro: exI [of _ "disputes d"])

lemma recordDispute_ok_iff:
  assumes "Transition p now ev = Inr out" and "actor_check actor"
    and "exists_where (\<lambda>r. r_id r = pid) (pockets d)"
  shows "is_ok (recordDisputeTx pid actor (p_State p) (out_Pocket out) d) \<longleftrightarrow>
    actor_fits actor (ev_Kind ev)"
  using assms transition_dispute [OF assms(1)]
  by (auto simp: recordDisputeTx_def insert_dispute_def Let_def dispute_row_check_def actor_fits_def)

text \<open>The version-checked write is a keyed update of the pockets table.\<close>

interpretation pocket_write: keyed_update r_id "write_pocket p" for p
  by unfold_locales simp

lemma pocket_by_id_write:
  "pocket_by_id k (d\<lparr>pockets := replace_row pid (write_pocket p) (pockets d)\<rparr>) =
     map_option (\<lambda>r. if k = pid then write_pocket p r else r) (pocket_by_id k d)"
proof -
  have "select_one (\<lambda>r. r_id r = k) (replace_row pid (write_pocket p) (pockets d)) =
      map_option (\<lambda>r. if r_id r = pid then write_pocket p r else r)
        (select_one (\<lambda>r. r_id r = k) (pockets d))"
    unfolding replace_row_def by (rule pocket_write.find_update_where)
  then show ?thesis
    by (cases "select_one (\<lambda>r. r_id r = k) (pockets d)")
      (auto simp: pocket_by_id_def dest: select_one_Some)
qed

lemma wf_ledger_no_legs:
  assumes "wf_ledger rs ss" and "r \<in> set rs" and "\<not> IsTerminal (r_state r)"
    and "s \<in> set ss"
  shows "s_pocket s \<noteq> r_id r"
proof -
  have "terminal_legs r = []"
    using assms(3) by (auto simp: terminal_legs_def split: state.splits)
  then have "filter (\<lambda>s. s_pocket s = r_id r) ss = []"
    using assms(1,2) by (auto simp: wf_ledger_def legs_of_def)
  with assms(4) show ?thesis by (auto simp: filter_empty_conv)
qed

lemma legs_of_transition:
  assumes "pocket_row_check r" and "Transition (row_pocket st r) now ev = Inr out"
  shows "effects_legs (out_Effects out) = terminal_legs (write_pocket (out_Pocket out) r)"
proof -
  have "same_stored_terms (row_pocket st r) (out_Pocket out)"
    using Transition_same_terms [OF assms(2)] by (rule same_terms_stored)
  then have row: "row_pocket st (write_pocket (out_Pocket out) r) = stored st (out_Pocket out)"
    by (rule row_pocket_write)
  have "terminal_money (stored st p) = terminal_money p" for p
    by (simp add: terminal_money_def stored_def PayoutLegs_def BuyerTotalKobo_def split: state.splits)
  then have "effects_legs (out_Effects out) =
      effects_legs (terminal_money (row_pocket st (write_pocket (out_Pocket out) r)))"
    by (subst effects_legs_money) (simp add: Transition_money [OF assms(2)] row)
  also have "\<dots> = terminal_legs (write_pocket (out_Pocket out) r)"
    using assms(1) by (intro terminal_legs_row) simp
  finally show ?thesis .
qed

lemma wf_db_key_facts:
  assumes "wf_db d" and "s \<in> set (settlements d)"
  shows "plain_id (s_pocket s) \<and> party_role (s_role s) \<and>
    s_key s = idempotencyKey (s_pocket s) (s_direction s) (s_role s)"
  using assms by (auto simp: wf_db_def wf_ledger_def wf_rows_def)

lemma exists_replaced [simp]:
  "(\<And>x. r_id (f x) = r_id x) \<Longrightarrow>
     exists_where (\<lambda>r. r_id r = k) (replace_row pid f rs) = exists_where (\<lambda>r. r_id r = k) rs"
  by (auto simp: exists_where_iff set_replace_row)

text \<open>The four writes of a transition, run on a well-formed database.\<close>

lemma transition_writes:
  assumes wf: "wf_db d" and r: "r \<in> set (pockets d)"
    and T: "Transition (row_pocket st r) now ev = Inr out" and "actor_check actor"
  shows "applyTransitionTx (r_id r) actor (scanPocket st r) now ev d =
    (let d1 = d\<lparr>pockets := replace_row (r_id r) (write_pocket (out_Pocket out)) (pockets d),
               events := events d @ [transition_event (r_id r) actor (r_state r)
                 (p_State (out_Pocket out)) ev (db_clock d)],
               settlements := settlements d @ map (leg_row (r_id r) (db_clock d))
                 (terminal_legs (write_pocket (out_Pocket out) r))\<rparr>
     in bind_tx (recordDisputeTx (r_id r) actor (r_state r) (out_Pocket out))
          (\<lambda>_. return_tx \<lparr>wr_PocketID = r_id r, wr_FromState = r_state r, wr_Outcome = out\<rparr>) d1)"
proof -
  let ?row = "write_pocket (out_Pocket out) r"
  let ?d1 = "d\<lparr>pockets := replace_row (r_id r) (write_pocket (out_Pocket out)) (pockets d)\<rparr>"
  let ?e = "transition_event (r_id r) actor (r_state r) (p_State (out_Pocket out)) ev (db_clock d)"
  let ?d2 = "?d1\<lparr>events := events d @ [?e]\<rparr>"
  have rows: "wf_rows (pockets d)" and led: "wf_ledger (pockets d) (settlements d)"
    and check: "pocket_row_check r" and plain: "plain_id (r_id r)"
    using wf r by (auto simp: wf_db_def wf_rows_def)
  have here: "exists_where (\<lambda>x. r_id x = r_id r) (pockets d)"
    using r by (auto simp: exists_where_iff)
  have live: "\<not> IsTerminal (r_state r)"
    using T Transition_ok_iff [of "row_pocket st r" now ev] by simp
  have upd: "updatePocketTx (r_id r) (out_Pocket out) (r_version r) d = Inr ((), ?d1)"
    by (rule updatePocketTx_current [OF rows r])
  have ev: "insertEventTx (r_id r) actor (r_state r) (p_State (out_Pocket out))
      (kind_text (ev_Kind ev)) (eventPayload ev) ?d1 = Inr ((), ?d2)"
    using here assms(4) by (simp add: insertEventTx_def insert_event_def transition_event_def)
  have legs: "recordSettlementLegsTx (r_id r) (out_Effects out) ?d2 =
      Inr ((), ?d2\<lparr>settlements := settlements ?d2 @
        map (leg_row (r_id r) (db_clock ?d2)) (terminal_legs ?row)\<rparr>)"
    unfolding record_is_record_all legs_of_transition [OF check T]
  proof (rule record_all_fresh)
    show "\<forall>(dir, role, amount) \<in> set (terminal_legs ?row). party_role role \<and> 0 < amount"
      using terminal_legs_ok [of ?row] check by auto
    show "\<forall>s \<in> set (settlements ?d2). s_pocket s = r_id r \<longrightarrow>
        (s_direction s, s_role s) \<notin> (\<lambda>(dir, role, _). (dir, role)) ` set (terminal_legs ?row)"
      using wf_ledger_no_legs [OF led r live] by auto
    show "\<forall>s \<in> set (settlements ?d2). plain_id (s_pocket s) \<and> party_role (s_role s) \<and>
        s_key s = idempotencyKey (s_pocket s) (s_direction s) (s_role s)"
      using wf_db_key_facts [OF wf] by simp
  qed (use plain here in \<open>simp_all add: terminal_legs_distinct\<close>)
  show ?thesis
    by (simp add: applyTransitionTx_def bind_tx_def lift_tx_def T upd ev legs)
qed

end
