(* ===== verification/Store_Effect.thy ===== *)
theory Store_Effect
  imports Store_Path
begin

text \<open>
  The result of the transaction bodies over a well-formed database: exactly which tables change
  and how, that the invariant is kept, and when a body fails.
\<close>

definition after_transition ::
    "db \<Rightarrow> pocket_row \<Rightarrow> role \<Rightarrow> event \<Rightarrow> pocket \<Rightarrow> dispute_row list \<Rightarrow> db" where
  "after_transition d r actor ev q ds =
     d\<lparr>pockets := replace_row (r_id r) (write_pocket q) (pockets d),
       events := events d @ [transition_event (r_id r) actor (r_state r) (p_State q) ev (db_clock d)],
       settlements := settlements d @
         map (leg_row (r_id r) (db_clock d)) (terminal_legs (write_pocket q r)),
       disputes := ds\<rparr>"

lemma transition_result:
  assumes "wf_db d" and "r \<in> set (pockets d)"
    and run: "applyTransitionTx (r_id r) actor (scanPocket st r) now ev d = Inr (res, d')"
  shows "\<exists>out ds. Transition (row_pocket st r) now ev = Inr out \<and> actor_fits actor (ev_Kind ev) \<and>
    res = \<lparr>wr_PocketID = r_id r, wr_FromState = r_state r, wr_Outcome = out\<rparr> \<and>
    d' = after_transition d r actor ev (out_Pocket out) ds"
proof -
  obtain out where T: "Transition (row_pocket st r) now ev = Inr out"
    using run by (auto simp: applyTransitionTx_def res_simps)
  have actor: "actor_check actor"
    using run by (auto simp: applyTransitionTx_def insertEventTx_def insert_event_def res_simps
        split: if_splits)
  define d1 where "d1 = d\<lparr>pockets := replace_row (r_id r) (write_pocket (out_Pocket out)) (pockets d),
    events := events d @ [transition_event (r_id r) actor (r_state r) (p_State (out_Pocket out)) ev
      (db_clock d)],
    settlements := settlements d @ map (leg_row (r_id r) (db_clock d))
      (terminal_legs (write_pocket (out_Pocket out) r))\<rparr>"
  have body: "bind_tx (recordDisputeTx (r_id r) actor (r_state r) (out_Pocket out))
      (\<lambda>_. return_tx \<lparr>wr_PocketID = r_id r, wr_FromState = r_state r, wr_Outcome = out\<rparr>) d1 =
      Inr (res, d')"
    using run transition_writes [OF assms(1,2) T actor] by (simp add: Let_def d1_def)
  then have disp: "recordDisputeTx (r_id r) actor (r_state r) (out_Pocket out) d1 = Inr ((), d')"
    and res: "res = \<lparr>wr_PocketID = r_id r, wr_FromState = r_state r, wr_Outcome = out\<rparr>"
    by (auto simp: res_simps)
  obtain ds where ds: "d' = d1\<lparr>disputes := ds\<rparr>"
    using recordDispute_frame [OF disp] by blast
  have "exists_where (\<lambda>x. r_id x = r_id r) (pockets d1)"
    using assms(2) by (simp add: d1_def) (auto simp: exists_where_iff)
  from recordDispute_ok_iff [OF T actor this] have "actor_fits actor (ev_Kind ev)"
    by (simp add: disp)
  with T res ds show ?thesis by (auto simp: d1_def after_transition_def)
qed

lemma transition_succeeds:
  assumes "wf_db d" and "r \<in> set (pockets d)"
    and "Transition (row_pocket st r) now ev = Inr out" and "actor_fits actor (ev_Kind ev)"
  shows "\<exists>ds. applyTransitionTx (r_id r) actor (scanPocket st r) now ev d =
    Inr (\<lparr>wr_PocketID = r_id r, wr_FromState = r_state r, wr_Outcome = out\<rparr>,
      after_transition d r actor ev (out_Pocket out) ds)"
proof -
  have actor: "actor_check actor" using assms(4) by (simp add: actor_fits_def)
  define d1 where "d1 = d\<lparr>pockets := replace_row (r_id r) (write_pocket (out_Pocket out)) (pockets d),
    events := events d @ [transition_event (r_id r) actor (r_state r) (p_State (out_Pocket out)) ev
      (db_clock d)],
    settlements := settlements d @ map (leg_row (r_id r) (db_clock d))
      (terminal_legs (write_pocket (out_Pocket out) r))\<rparr>"
  have "exists_where (\<lambda>x. r_id x = r_id r) (pockets d1)"
    using assms(2) by (simp add: d1_def) (auto simp: exists_where_iff)
  then have "is_ok (recordDisputeTx (r_id r) actor (r_state r) (out_Pocket out) d1)"
    using recordDispute_ok_iff [OF assms(3) actor] assms(4) by simp
  then obtain d' where d': "recordDisputeTx (r_id r) actor (r_state r) (out_Pocket out) d1 = Inr ((), d')"
    by (auto simp: is_ok_iff)
  from recordDispute_frame [OF d'] obtain ds where "d' = d1\<lparr>disputes := ds\<rparr>" by blast
  then show ?thesis
    using transition_writes [OF assms(1,2,3) actor] d'
    by (auto simp: Let_def d1_def [symmetric] bind_tx_def return_tx_def)
      (auto simp: d1_def after_transition_def)
qed

lemma wf_ledger_after:
  assumes "wf_db d" and "r \<in> set (pockets d)" and "\<not> IsTerminal (r_state r)"
    and "r_id r' = r_id r" and "pocket_row_check r'"
  shows "wf_ledger (replace_row (r_id r) (\<lambda>_. r') (pockets d))
    (settlements d @ map (leg_row (r_id r) clk) (terminal_legs r'))"
proof -
  let ?rs = "replace_row (r_id r) (\<lambda>_. r') (pockets d)"
    and ?new = "map (leg_row (r_id r) clk) (terminal_legs r')"
  have rows: "wf_rows (pockets d)" and led: "wf_ledger (pockets d) (settlements d)"
    using assms(1) by (simp_all add: wf_db_def)
  have none: "legs_of (r_id r) (settlements d) = []"
    using wf_ledger_no_legs [OF led assms(2,3)] by (auto simp: legs_of_def filter_empty_conv)
  have ids: "r_id ` set ?rs = r_id ` set (pockets d)"
    unfolding set_replace_row image_image using assms(4) by (intro image_cong) auto
  have "\<forall>x \<in> set ?rs. legs_of (r_id x) (settlements d @ ?new) = terminal_legs x"
    using led none assms(4) by (auto simp: set_replace_row wf_ledger_def)
  moreover have "\<forall>s \<in> set ?new. s_pocket s \<in> r_id ` set (pockets d) \<and> party_role (s_role s) \<and>
      s_key s = idempotencyKey (s_pocket s) (s_direction s) (s_role s)"
    using assms(2) terminal_legs_ok [OF assms(5)]
    by (auto simp: leg_row_def split: prod.splits)
  moreover have "\<forall>s \<in> set (settlements d). s_pocket s \<in> r_id ` set (pockets d) \<and>
      party_role (s_role s) \<and> s_key s = idempotencyKey (s_pocket s) (s_direction s) (s_role s)"
    using led by (simp add: wf_ledger_def)
  ultimately show ?thesis
    unfolding wf_ledger_def ids set_append ball_Un by blast
qed

lemma replace_row_const:
  assumes "wf_rows rs" and "r \<in> set rs"
  shows "replace_row (r_id r) f rs = replace_row (r_id r) (\<lambda>_. f r) rs"
proof -
  have "x = r" if "x \<in> set rs" "r_id x = r_id r" for x
    using assms that by (auto simp: wf_rows_def distinct_map inj_on_def)
  then show ?thesis by (auto simp: replace_row_def update_where_def)
qed

lemma after_transition_wf:
  assumes "wf_db d" and "r \<in> set (pockets d)"
    and "Transition (row_pocket st r) now ev = Inr out"
  shows "wf_db (after_transition d r actor ev (out_Pocket out) ds)"
proof -
  have rows: "wf_rows (pockets d)" and check: "pocket_row_check r"
    using assms(1,2) by (auto simp: wf_db_def wf_rows_def)
  have live: "\<not> IsTerminal (r_state r)"
    using assms(3) Transition_ok_iff [of "row_pocket st r" now ev] by simp
  have "wf_rows (replace_row (r_id r) (write_pocket (out_Pocket out)) (pockets d))"
    using rows by (rule wf_rows_replace) (use rows in \<open>auto simp: wf_rows_def\<close>)
  then show ?thesis
    using wf_ledger_after [OF assms(1,2) live, of "write_pocket (out_Pocket out) r"] check
    by (simp add: wf_db_def after_transition_def
        replace_row_const [OF rows assms(2), of "write_pocket (out_Pocket out)"])
qed

lemma after_transition_tables [simp]:
  "users (after_transition d r actor ev q ds) = users d"
  "participants (after_transition d r actor ev q ds) = participants d"
  "sessions (after_transition d r actor ev q ds) = sessions d"
  "webhooks (after_transition d r actor ev q ds) = webhooks d"
  "evidence (after_transition d r actor ev q ds) = evidence d"
  "db_clock (after_transition d r actor ev q ds) = db_clock d"
  by (simp_all add: after_transition_def)

lemma after_transition_pocket:
  "pocket_by_id k (after_transition d r actor ev q ds) =
     map_option (\<lambda>x. if k = r_id r then write_pocket q x else x) (pocket_by_id k d)"
proof -
  have "pocket_by_id k (after_transition d r actor ev q ds) =
      pocket_by_id k (d\<lparr>pockets := replace_row (r_id r) (write_pocket q) (pockets d)\<rparr>)"
    by (simp add: pocket_by_id_def after_transition_def)
  then show ?thesis by (simp add: pocket_by_id_write)
qed

end
