(* ===== verification/Store_Legs.thy ===== *)
theory Store_Legs
  imports Store_Effect
begin

text \<open>
  The status machine of a settlement leg (\<^verbatim>\<open>internal/store/settlements.go\<close>): pending legs are
  claimed to inflight before the gateway call and confirmed, released or failed after it.
  Each operation is one conditional \<^verbatim>\<open>UPDATE\<close> outside any larger transaction.
\<close>

definition scanSettlementLeg :: "settlement_row \<Rightarrow> settlement_leg" where
  "scanSettlementLeg s =
     \<lparr>sl_PocketID = s_pocket s, sl_Direction = s_direction s, sl_BeneficiaryRole = s_role s,
      sl_BeneficiaryUser = derefStr (s_user s), sl_AmountKobo = s_amount_kobo s, sl_IdempotencyKey = s_key s, sl_UpdatedAt = s_updated_at s\<rparr>"

text \<open>\<^verbatim>\<open>ORDER BY created_at, id\<close>: rows are appended in creation order, so sorting by the
  creation time is stable on the heap order.\<close>

definition legs_where :: "(settlement_row \<Rightarrow> bool) \<Rightarrow> db \<Rightarrow> settlement_leg list" where
  "legs_where P d = map scanSettlementLeg (sort_key s_created_at (filter P (settlements d)))"

definition PendingSettlementLegs :: "db \<Rightarrow> settlement_leg list" where
  "PendingSettlementLegs d = legs_where (\<lambda>s. s_status s = LegPending) d"

definition PendingSettlementLegsForPocket :: "string \<Rightarrow> db \<Rightarrow> settlement_leg list" where
  "PendingSettlementLegsForPocket pid d =
     legs_where (\<lambda>s. s_status s = LegPending \<and> s_pocket s = pid) d"

definition InflightSettlementLegs :: "db \<Rightarrow> settlement_leg list" where
  "InflightSettlementLegs d = legs_where (\<lambda>s. s_status s = LegInflight) d"

definition set_status :: "leg_status \<Rightarrow> gotime \<Rightarrow> settlement_row \<Rightarrow> settlement_row" where
  "set_status st clk s = s\<lparr>s_status := st, s_updated_at := clk\<rparr>"

definition ClaimSettlementLeg :: "string \<Rightarrow> db \<Rightarrow> bool \<times> db" where
  "ClaimSettlementLeg key d =
     (case update_settlements (\<lambda>s. s_key s = key \<and> s_status s = LegPending)
        (set_status LegInflight (db_clock d)) d of (n, d') \<Rightarrow> (n = 1, d'))"

definition ReleaseSettlementLeg :: "string \<Rightarrow> string \<Rightarrow> db \<Rightarrow> db" where
  "ReleaseSettlementLeg key reason d =
     snd (update_settlements (\<lambda>s. s_key s = key \<and> s_status s = LegInflight)
        (\<lambda>s. (set_status LegPending (db_clock d) s)\<lparr>s_last_error := reason\<rparr>) d)"

definition FailSettlementLeg :: "string \<Rightarrow> string \<Rightarrow> db \<Rightarrow> db" where
  "FailSettlementLeg key reason d =
     snd (update_settlements (\<lambda>s. s_key s = key \<and> s_status s \<in> {LegPending, LegInflight, LegConfirmed})
        (\<lambda>s. (set_status LegFailed (db_clock d) s)\<lparr>s_last_error := reason\<rparr>) d)"

definition ConfirmSettlement :: "string \<Rightarrow> string \<Rightarrow> db \<Rightarrow> db" where
  "ConfirmSettlement key gatewayRef d =
     snd (update_settlements (\<lambda>s. s_key s = key \<and> s_status s \<in> {LegPending, LegInflight})
        (\<lambda>s. (set_status LegConfirmed (db_clock d) s)\<lparr>s_gateway_ref := Some gatewayRef\<rparr>) d)"

section \<open>The status of one leg\<close>

definition leg_by_key :: "string \<Rightarrow> db \<Rightarrow> settlement_row option" where
  "leg_by_key key d = select_one (\<lambda>s. s_key s = key) (settlements d)"

definition leg_status_of :: "string \<Rightarrow> db \<Rightarrow> leg_status option" where
  "leg_status_of key d = map_option s_status (leg_by_key key d)"

definition keeps_leg :: "(settlement_row \<Rightarrow> settlement_row) \<Rightarrow> bool" where
  "keeps_leg f \<longleftrightarrow> (\<forall>s. s_pocket (f s) = s_pocket s \<and> s_direction (f s) = s_direction s \<and>
     s_role (f s) = s_role s \<and> s_amount_kobo (f s) = s_amount_kobo s \<and> s_key (f s) = s_key s)"

text \<open>The four status updates are keyed updates of the settlements table.\<close>

interpretation leg_claim: keyed_update s_key "set_status st clk" for st clk
  by unfold_locales (simp add: set_status_def)

interpretation leg_release: keyed_update s_key "\<lambda>s. (set_status st clk s)\<lparr>s_last_error := reason\<rparr>"
  for st clk reason
  by unfold_locales (simp add: set_status_def)

interpretation leg_confirm: keyed_update s_key "\<lambda>s. (set_status st clk s)\<lparr>s_gateway_ref := Some ref\<rparr>"
  for st clk ref
  by unfold_locales (simp add: set_status_def)

definition unique_legs :: "db \<Rightarrow> bool" where
  "unique_legs d \<longleftrightarrow> distinct (map s_key (settlements d))"

lemma unique_legs_ops [simp]:
  "unique_legs (snd (ClaimSettlementLeg key d)) = unique_legs d"
  "unique_legs (ReleaseSettlementLeg key reason d) = unique_legs d"
  "unique_legs (FailSettlementLeg key reason d) = unique_legs d"
  "unique_legs (ConfirmSettlement key ref d) = unique_legs d"
  by (simp_all add: unique_legs_def ClaimSettlementLeg_def ReleaseSettlementLeg_def
      FailSettlementLeg_def ConfirmSettlement_def update_settlements_def)

lemma rows_affected_key:
  assumes "unique_legs d"
  shows "rows_affected (\<lambda>s. s_key s = key \<and> Q s) (settlements d) =
    (case leg_by_key key d of None \<Rightarrow> 0 | Some s \<Rightarrow> if Q s then 1 else 0)"
proof -
  have "rows_affected (\<lambda>s. s_key s = key \<and> Q s) t =
      (case select_one (\<lambda>s. s_key s = key) t of None \<Rightarrow> 0 | Some s \<Rightarrow> if Q s then 1 else 0)"
    if "distinct (map s_key t)" for t
    using that
  proof (induction t)
    case (Cons a t)
    show ?case
    proof (cases "s_key a = key")
      case True
      then have "filter (\<lambda>s. s_key s = key \<and> Q s) t = []"
        using Cons.prems by (intro filter_False) (auto simp: image_iff)
      with True show ?thesis by (simp add: rows_affected_def select_one_def)
    next
      case False
      with Cons show ?thesis by (simp add: rows_affected_def select_one_def)
    qed
  qed (simp add: rows_affected_def select_one_def)
  then show ?thesis using assms by (simp add: unique_legs_def leg_by_key_def)
qed

lemma status_of_ops:
  "leg_status_of k (snd (ClaimSettlementLeg key d)) =
     (if k = key \<and> leg_status_of k d = Some LegPending then Some LegInflight else leg_status_of k d)"
  "leg_status_of k (ReleaseSettlementLeg key reason d) =
     (if k = key \<and> leg_status_of k d = Some LegInflight then Some LegPending else leg_status_of k d)"
  "leg_status_of k (FailSettlementLeg key reason d) =
     (if k = key \<and> leg_status_of k d \<noteq> None then Some LegFailed else leg_status_of k d)"
  "leg_status_of k (ConfirmSettlement key ref d) =
     (if k = key \<and> leg_status_of k d \<in> {Some LegPending, Some LegInflight} then Some LegConfirmed
      else leg_status_of k d)"
proof -
  note defs = leg_status_of_def leg_by_key_def ClaimSettlementLeg_def ReleaseSettlementLeg_def
    FailSettlementLeg_def ConfirmSettlement_def update_settlements_def
  let ?r = "select_one (\<lambda>s. s_key s = k) (settlements d)"
  have key: "s_key x = k" if "?r = Some x" for x
    using that by (auto dest: select_one_Some)
  show "leg_status_of k (snd (ClaimSettlementLeg key d)) =
     (if k = key \<and> leg_status_of k d = Some LegPending then Some LegInflight else leg_status_of k d)"
    using key by (cases ?r; simp add: defs leg_claim.find_update_where)
      (auto simp: set_status_def)
  show "leg_status_of k (ReleaseSettlementLeg key reason d) =
     (if k = key \<and> leg_status_of k d = Some LegInflight then Some LegPending else leg_status_of k d)"
    using key by (cases ?r; simp add: defs leg_release.find_update_where)
      (auto simp: set_status_def)
  show "leg_status_of k (FailSettlementLeg key reason d) =
     (if k = key \<and> leg_status_of k d \<noteq> None then Some LegFailed else leg_status_of k d)"
  proof (cases ?r)
    case (Some x)
    then show ?thesis
      using key [OF Some]
      by (cases "s_status x"; simp add: defs leg_release.find_update_where)
        (auto simp: set_status_def)
  qed (simp add: defs leg_release.find_update_where)
  show "leg_status_of k (ConfirmSettlement key ref d) =
     (if k = key \<and> leg_status_of k d \<in> {Some LegPending, Some LegInflight} then Some LegConfirmed
      else leg_status_of k d)"
    using key by (cases ?r; simp add: defs leg_confirm.find_update_where)
      (auto simp: set_status_def)
qed

lemma claim_wins_iff:
  assumes "unique_legs d"
  shows "fst (ClaimSettlementLeg key d) \<longleftrightarrow> leg_status_of key d = Some LegPending"
  using rows_affected_key [OF assms, of key "\<lambda>s. s_status s = LegPending"]
  by (cases "leg_by_key key d")
    (auto simp: ClaimSettlementLeg_def update_settlements_def leg_status_of_def)

section \<open>The ledger is untouched\<close>

lemma wf_ledger_update:
  assumes "keeps_leg f"
  shows "wf_ledger rs (update_where P f ss) = wf_ledger rs ss"
proof -
  have same: "s_pocket (f s) = s_pocket s" "leg_of (f s) = leg_of s" "s_role (f s) = s_role s"
    "s_direction (f s) = s_direction s" "s_key (f s) = s_key s" for s
    using assms by (auto simp: keeps_leg_def leg_of_def)
  have "legs_of pid (update_where P f ss) = legs_of pid ss" for pid
    by (induction ss) (auto simp: legs_of_def update_where_def same)
  moreover have "(\<forall>s \<in> set (update_where P f ss). R (s_pocket s) (s_role s) (s_direction s) (s_key s)) \<longleftrightarrow>
      (\<forall>s \<in> set ss. R (s_pocket s) (s_role s) (s_direction s) (s_key s))" for R
    unfolding set_update_where ball_simps(9) by (intro ball_cong) (simp_all add: same)
  from this [of "\<lambda>p role dir key. p \<in> r_id ` set rs \<and> party_role role \<and>
      key = idempotencyKey p dir role"] calculation
  show ?thesis by (simp add: wf_ledger_def)
qed

lemma keeps_leg_set_status [simp]:
  "keeps_leg (set_status st clk)"
  "keeps_leg (\<lambda>s. (set_status st clk s)\<lparr>s_last_error := reason\<rparr>)"
  "keeps_leg (\<lambda>s. (set_status st clk s)\<lparr>s_gateway_ref := ref\<rparr>)"
  by (simp_all add: keeps_leg_def set_status_def)

lemma wf_db_legs [simp]:
  "wf_db (snd (ClaimSettlementLeg key d)) = wf_db d"
  "wf_db (ReleaseSettlementLeg key reason d) = wf_db d"
  "wf_db (FailSettlementLeg key reason d) = wf_db d"
  "wf_db (ConfirmSettlement key ref d) = wf_db d"
  by (simp_all add: wf_db_def ClaimSettlementLeg_def ReleaseSettlementLeg_def
      FailSettlementLeg_def ConfirmSettlement_def update_settlements_def wf_ledger_update)

lemma distinct_by_parts:
  "(\<And>p. distinct (map g (filter (\<lambda>s. h s = p) ss))) \<Longrightarrow> distinct (map (\<lambda>s. (h s, g s)) ss)"
proof (induction ss)
  case (Cons a ss)
  have "distinct (map g (filter (\<lambda>s. h s = p) ss))" for p
    using Cons.prems [of p] by (auto split: if_splits)
  moreover have "(h a, g a) \<notin> set (map (\<lambda>s. (h s, g s)) ss)"
    using Cons.prems [of "h a"] by auto
  ultimately show ?case using Cons.IH by simp
qed simp

lemma wf_unique_legs:
  assumes "wf_db d"
  shows "unique_legs d"
proof -
  let ?ss = "settlements d"
  let ?g = "\<lambda>s. (s_direction s, s_role s)"
  let ?key = "\<lambda>(p, dir, role). idempotencyKey p dir role"
  have led: "wf_ledger (pockets d) ?ss" using assms by (simp add: wf_db_def)
  have "distinct (map ?g (filter (\<lambda>s. s_pocket s = p) ?ss))" for p
  proof (cases "p \<in> r_id ` set (pockets d)")
    case True
    then obtain r where r: "r \<in> set (pockets d)" "p = r_id r" by auto
    have "map ?g (filter (\<lambda>s. s_pocket s = p) ?ss) =
        map (\<lambda>(dir, role, _). (dir, role)) (legs_of p ?ss)"
      by (simp add: legs_of_def leg_of_def)
    also have "legs_of p ?ss = terminal_legs r" using led r by (auto simp: wf_ledger_def)
    finally show ?thesis by (simp add: terminal_legs_distinct)
  next
    case False
    then have "filter (\<lambda>s. s_pocket s = p) ?ss = []"
      using led by (auto simp: wf_ledger_def filter_empty_conv)
    then show ?thesis by simp
  qed
  then have "distinct (map (\<lambda>s. (s_pocket s, ?g s)) ?ss)" by (rule distinct_by_parts)
  moreover have "inj_on ?key (set (map (\<lambda>s. (s_pocket s, ?g s)) ?ss))"
  proof (rule inj_onI)
    fix x y
    assume "x \<in> set (map (\<lambda>s. (s_pocket s, ?g s)) ?ss)" "y \<in> set (map (\<lambda>s. (s_pocket s, ?g s)) ?ss)"
      and eq: "?key x = ?key y"
    then obtain s s' where s: "s \<in> set ?ss" "x = (s_pocket s, ?g s)"
        and s': "s' \<in> set ?ss" "y = (s_pocket s', ?g s')" by auto
    with eq show "x = y"
      using idempotencyKey_inj [of "s_pocket s" "s_pocket s'" "s_direction s" "s_role s"
          "s_direction s'" "s_role s'"]
        wf_db_key_facts [OF assms s(1)] wf_db_key_facts [OF assms s'(1)] by simp
  qed
  ultimately have "distinct (map ?key (map (\<lambda>s. (s_pocket s, ?g s)) ?ss))"
    by (simp only: distinct_map)
  moreover have "map ?key (map (\<lambda>s. (s_pocket s, ?g s)) ?ss) = map s_key ?ss"
    using wf_db_key_facts [OF assms] by simp
  ultimately show ?thesis unfolding unique_legs_def by metis
qed

end
