(* ===== verification/Store_Identity.thy ===== *)
theory Store_Identity
  imports Store_Rows
begin

text \<open>
  The tables beside the write path (\<^verbatim>\<open>internal/store\<close>: \<^verbatim>\<open>users.go\<close>, \<^verbatim>\<open>sessions.go\<close>,
  \<^verbatim>\<open>webhooks.go\<close>, \<^verbatim>\<open>evidence.go\<close>, the reads of \<^verbatim>\<open>disputes.go\<close>, \<^verbatim>\<open>events.go\<close>,
  \<^verbatim>\<open>participants.go\<close> and \<^verbatim>\<open>pockets.go\<close>): accounts and their upserts, server-side sessions,
  the webhook inbox, evidence rows and the query methods.
\<close>

section \<open>Users\<close>

record user_record =
  ur_ID :: string
  ur_Phone :: string
  ur_DisplayName :: string
  ur_Email :: string
  ur_AvatarURL :: string
  ur_IsAdmin :: bool
  ur_TrustTier :: int
  ur_Strikes :: int

definition scanUser :: "user_row \<Rightarrow> user_record" where
  "scanUser u = \<lparr>ur_ID = u_id u, ur_Phone = derefStr (u_phone u),
     ur_DisplayName = u_display_name u, ur_Email = derefStr (u_email u),
     ur_AvatarURL = u_avatar_url u, ur_IsAdmin = u_is_admin u, ur_TrustTier = u_trust_tier u,
     ur_Strikes = u_strikes u\<rparr>"

definition GetUser :: "string \<Rightarrow> db \<Rightarrow> user_record res" where
  "GetUser uid d = (case select_one (\<lambda>u. u_id u = uid) (users d) of
       None \<Rightarrow> Inl ErrNotFound | Some u \<Rightarrow> Inr (scanUser u))"

definition set_users :: "(user_row \<Rightarrow> bool) \<Rightarrow> (user_row \<Rightarrow> user_row) \<Rightarrow> db \<Rightarrow> db" where
  "set_users P f d = d\<lparr>users := update_where P f (users d)\<rparr>"

definition users_collide :: "user_row \<Rightarrow> user_row \<Rightarrow> bool" where
  "users_collide x u \<longleftrightarrow> u_id x = u_id u \<or> (u_phone u \<noteq> None \<and> u_phone x = u_phone u) \<or>
     (u_email u \<noteq> None \<and> u_email x = u_email u) \<or>
     (u_google_sub u \<noteq> None \<and> u_google_sub x = u_google_sub u)"

definition insert_user :: "user_row \<Rightarrow> (db, unit) tx" where
  "insert_user u d =
     (if exists_where (\<lambda>x. users_collide x u) (users d) then Inl (ErrDB UniqueViolation)
      else Inr ((), d\<lparr>users := users d @ [u]\<rparr>))"

definition new_user :: "string \<Rightarrow> user_row" where
  "new_user uid = \<lparr>u_id = uid, u_phone = None, u_display_name = [], u_email = None,
     u_google_sub = None, u_avatar_url = [], u_is_admin = False, u_trust_tier = 0, u_strikes = 0,
     u_last_login_at = None\<rparr>"

text \<open>\<^verbatim>\<open>ON CONFLICT (phone) DO UPDATE\<close>; \<open>new_id\<close> is the generated key.\<close>

definition upsertUserTx :: "string \<Rightarrow> string \<Rightarrow> string \<Rightarrow> (db, string) tx" where
  "upsertUserTx new_id phone displayName d =
     (case select_one (\<lambda>u. u_phone u = Some phone) (users d) of
        Some u \<Rightarrow> Inr (u_id u, set_users (\<lambda>x. u_phone x = Some phone)
          (\<lambda>x. x\<lparr>u_display_name := if displayName = [] then u_display_name x else displayName\<rparr>) d)
      | None \<Rightarrow> bind_tx (insert_user ((new_user new_id)\<lparr>u_phone := Some phone,
                   u_display_name := displayName\<rparr>)) (\<lambda>_. return_tx new_id) d)"

definition modify_users_tx :: "(user_row \<Rightarrow> bool) \<Rightarrow> (user_row \<Rightarrow> user_row) \<Rightarrow> (db, unit) tx" where
  "modify_users_tx P f d = Inr ((), set_users P f d)"

definition stamp_login :: "gotime \<Rightarrow> user_row \<Rightarrow> user_row" where
  "stamp_login clk u = u\<lparr>u_last_login_at := Some clk\<rparr>"

definition UpsertUserByPhone_tx :: "string \<Rightarrow> string \<Rightarrow> string \<Rightarrow> (db, user_record) tx" where
  "UpsertUserByPhone_tx new_id phone displayName =
     bind_tx (upsertUserTx new_id phone displayName) (\<lambda>uid.
     bind_tx (\<lambda>d. modify_users_tx (\<lambda>u. u_id u = uid) (stamp_login (db_clock d)) d) (\<lambda>_.
       read_tx (GetUser uid)))"

definition UpsertUserByPhone where
  "UpsertUserByPhone new_id phone displayName = run_tx (UpsertUserByPhone_tx new_id phone displayName)"

definition SetAdmin :: "string \<Rightarrow> bool \<Rightarrow> db \<Rightarrow> db" where
  "SetAdmin uid isAdmin = set_users (\<lambda>u. u_id u = uid) (\<lambda>u. u\<lparr>u_is_admin := isAdmin\<rparr>)"

text \<open>The three attempts of \<^verbatim>\<open>UpsertUserByGoogle\<close>: the subject, then an account with the
  same email and no subject yet, then a fresh row.\<close>

definition google_id_tx :: "string \<Rightarrow> string \<Rightarrow> string \<Rightarrow> string \<Rightarrow> string \<Rightarrow> (db, string) tx" where
  "google_id_tx new_id sub email displayName avatarURL d =
     (case select_one (\<lambda>u. u_google_sub u = Some sub) (users d) of
        Some u \<Rightarrow> Inr (u_id u, d)
      | None \<Rightarrow>
        (case (if email \<noteq> [] then select_one (\<lambda>u. u_email u = Some email \<and> u_google_sub u = None)
                 (users d) else None) of
           Some u \<Rightarrow> Inr (u_id u, set_users (\<lambda>x. u_email x = Some email \<and> u_google_sub x = None)
                       (\<lambda>x. x\<lparr>u_google_sub := Some sub\<rparr>) d)
         | None \<Rightarrow> bind_tx (insert_user ((new_user new_id)\<lparr>u_google_sub := Some sub,
                      u_email := nullStr email, u_display_name := displayName,
                      u_avatar_url := avatarURL\<rparr>)) (\<lambda>_. return_tx new_id) d))"

definition refresh_profile :: "string \<Rightarrow> string \<Rightarrow> gotime \<Rightarrow> user_row \<Rightarrow> user_row" where
  "refresh_profile displayName avatarURL clk u =
     u\<lparr>u_display_name := if u_display_name u = [] then displayName else u_display_name u,
       u_avatar_url := if avatarURL \<noteq> [] then avatarURL else u_avatar_url u,
       u_last_login_at := Some clk\<rparr>"

definition UpsertUserByGoogle_tx :: "string \<Rightarrow> string \<Rightarrow> string \<Rightarrow> string \<Rightarrow> string \<Rightarrow>
    (db, user_record) tx" where
  "UpsertUserByGoogle_tx new_id sub email displayName avatarURL =
     bind_tx (google_id_tx new_id sub email displayName avatarURL) (\<lambda>uid.
     bind_tx (\<lambda>d. modify_users_tx (\<lambda>u. u_id u = uid)
       (refresh_profile displayName avatarURL (db_clock d)) d) (\<lambda>_.
       read_tx (GetUser uid)))"

definition UpsertUserByGoogle where
  "UpsertUserByGoogle new_id sub email displayName avatarURL =
     run_tx (UpsertUserByGoogle_tx new_id sub email displayName avatarURL)"

definition RecordSanction :: "string \<Rightarrow> role \<Rightarrow> db \<Rightarrow> db" where
  "RecordSanction pid role d =
     (case participant_by_role pid role d of
        None \<Rightarrow> d
      | Some t \<Rightarrow> set_users (\<lambda>u. Some (u_id u) = t_user t) (\<lambda>u. u\<lparr>u_strikes := u_strikes u + 1\<rparr>) d)"

section \<open>Sessions\<close>

definition InsertSession :: "string \<Rightarrow> string \<Rightarrow> gotime \<Rightarrow> string \<Rightarrow> string \<Rightarrow> db \<Rightarrow> unit res \<times> db" where
  "InsertSession userID tokenHash expiresAt ip userAgent d =
     (if exists_where (\<lambda>n. n_token_hash n = tokenHash) (sessions d)
      then (Inl (ErrDB UniqueViolation), d)
      else if \<not> user_exists (Some userID) d then (Inl (ErrDB ForeignKeyViolation), d)
      else (Inr (), d\<lparr>sessions := sessions d @ [\<lparr>n_user = userID, n_token_hash = tokenHash,
             n_expires_at = expiresAt, n_last_seen_at = db_clock d, n_ip = ip,
             n_user_agent = userAgent, n_revoked_at = None\<rparr>]\<rparr>))"

definition session_live :: "string \<Rightarrow> gotime \<Rightarrow> session_row \<Rightarrow> bool" where
  "session_live tokenHash now n \<longleftrightarrow>
     n_token_hash n = tokenHash \<and> n_revoked_at n = None \<and> now < n_expires_at n"

definition SessionUser :: "string \<Rightarrow> gotime \<Rightarrow> db \<Rightarrow> user_record res \<times> db" where
  "SessionUser tokenHash now d =
     (case select_one (session_live tokenHash now) (sessions d) of
        None \<Rightarrow> (Inl ErrSessionInvalid, d)
      | Some n \<Rightarrow> let d' = d\<lparr>sessions := update_where (session_live tokenHash now)
                      (\<lambda>n. n\<lparr>n_last_seen_at := now\<rparr>) (sessions d)\<rparr>
                 in (GetUser (n_user n) d', d'))"

definition RevokeSession :: "string \<Rightarrow> db \<Rightarrow> db" where
  "RevokeSession tokenHash d =
     d\<lparr>sessions := update_where (\<lambda>n. n_token_hash n = tokenHash \<and> n_revoked_at n = None)
       (\<lambda>n. n\<lparr>n_revoked_at := Some (db_clock d)\<rparr>) (sessions d)\<rparr>"

section \<open>The webhook inbox\<close>

definition RecordWebhookEvent :: "string \<Rightarrow> string \<Rightarrow> db \<Rightarrow> bool \<times> db" where
  "RecordWebhookEvent event_id body d =
     (case select_one (\<lambda>w. w_event_id w = event_id) (webhooks d) of
        Some w \<Rightarrow> (w_processed_at w = None, d)
      | None \<Rightarrow> (True, d\<lparr>webhooks := webhooks d @ [\<lparr>w_event_id = event_id,
                   w_payload = (if body = [] then ''{}'' else body), w_processed_at = None\<rparr>]\<rparr>))"

definition MarkWebhookProcessed :: "string \<Rightarrow> db \<Rightarrow> db" where
  "MarkWebhookProcessed event_id d =
     d\<lparr>webhooks := update_where (\<lambda>w. w_event_id w = event_id \<and> w_processed_at w = None)
       (\<lambda>w. w\<lparr>w_processed_at := Some (db_clock d)\<rparr>) (webhooks d)\<rparr>"

section \<open>Evidence, disputes and the read side\<close>

record evidence_record =
  ver_ID :: string
  ver_Party :: role
  ver_Type :: evidence_type
  ver_StorageRef :: string
  ver_CapturedInApp :: bool
  ver_CapturedAt :: gotime
  ver_WithinWindow :: "bool option"
  ver_CreatedAt :: gotime

definition InsertEvidence :: "string \<Rightarrow> string \<Rightarrow> evidence_record \<Rightarrow> db \<Rightarrow> string res \<times> db" where
  "InsertEvidence new_id pid ev d =
     (let row = \<lparr>v_id = new_id, v_pocket = pid, v_party = ver_Party ev, v_type = ver_Type ev,
          v_storage_ref = ver_StorageRef ev, v_captured_in_app = ver_CapturedInApp ev,
          v_captured_at = ver_CapturedAt ev, v_within_window = ver_WithinWindow ev,
          v_created_at = db_clock d\<rparr> in
      if \<not> evidence_row_check row then (Inl (ErrDB CheckViolation), d)
      else if exists_where (\<lambda>v. v_id v = new_id) (evidence d) then (Inl (ErrDB UniqueViolation), d)
      else if \<not> exists_where (\<lambda>r. r_id r = pid) (pockets d)
      then (Inl (ErrDB ForeignKeyViolation), d)
      else (Inr new_id, d\<lparr>evidence := evidence d @ [row]\<rparr>))"

definition scanEvidence :: "evidence_row \<Rightarrow> evidence_record" where
  "scanEvidence v = \<lparr>ver_ID = v_id v, ver_Party = v_party v, ver_Type = v_type v,
     ver_StorageRef = v_storage_ref v, ver_CapturedInApp = v_captured_in_app v,
     ver_CapturedAt = v_captured_at v, ver_WithinWindow = v_within_window v,
     ver_CreatedAt = v_created_at v\<rparr>"

definition EvidenceForPocket :: "string \<Rightarrow> db \<Rightarrow> evidence_record list" where
  "EvidenceForPocket pid d =
     map scanEvidence (sort_key v_created_at (filter (\<lambda>v. v_pocket v = pid) (evidence d)))"

definition GetDispute :: "string \<Rightarrow> db \<Rightarrow> dispute_row res" where
  "GetDispute pid d = (case select_one (\<lambda>x. d_pocket x = pid) (disputes d) of
       None \<Rightarrow> Inl ErrNotFound | Some x \<Rightarrow> Inr x)"

record dispute_queue_item =
  qi_PocketID :: string
  qi_ShortCode :: string
  qi_State :: state
  qi_Class :: dispute_class
  qi_OpenedBy :: role
  qi_CreatedAt :: gotime

definition dispute_item :: "db \<Rightarrow> dispute_row \<Rightarrow> dispute_queue_item option" where
  "dispute_item d x = map_option (\<lambda>r. \<lparr>qi_PocketID = d_pocket x, qi_ShortCode = r_short_code r,
     qi_State = r_state r, qi_Class = d_class x, qi_OpenedBy = d_opened_by x,
     qi_CreatedAt = d_created_at x\<rparr>) (pocket_by_id (d_pocket x) d)"

definition ListOpenDisputes :: "db \<Rightarrow> dispute_queue_item list" where
  "ListOpenDisputes d = List.map_filter (dispute_item d)
     (sort_key d_created_at (filter (\<lambda>x. d_state x = DisputeOpen) (disputes d)))"

definition Events :: "string \<Rightarrow> db \<Rightarrow> event_row list" where
  "Events pid d = filter (\<lambda>e. e_pocket e = pid) (events d)"

definition CountEvents :: "string \<Rightarrow> db \<Rightarrow> nat" where
  "CountEvents pid d = length (filter (\<lambda>e. e_pocket e = pid) (events d))"

fun role_order :: "role \<Rightarrow> nat" where
  "role_order RoleBroker = 0"
| "role_order RoleBuyer = 1"
| "role_order RoleVendor = 2"
| "role_order (RoleOther _) = 3"

definition Participants :: "string \<Rightarrow> db \<Rightarrow> participant_record list" where
  "Participants pid d =
     map (participantSelect d) (sort_key (role_order \<circ> t_role) (participants_of pid d))"

text \<open>The email and name on a payment receipt; an unclaimed buyer gives two empty strings.\<close>

definition FundingContact :: "string \<Rightarrow> db \<Rightarrow> string \<times> string" where
  "FundingContact pid d =
     (case participant_by_role pid RoleBuyer d of
        None \<Rightarrow> ([], [])
      | Some t \<Rightarrow> (case select_one (\<lambda>u. Some (u_id u) = t_user t) (users d) of
           None \<Rightarrow> ([], []) | Some u \<Rightarrow> (derefStr (u_email u), u_display_name u)))"

record user_pocket =
  up_Record :: pocket_record
  up_Role :: role

definition PocketsForUser :: "store \<Rightarrow> string \<Rightarrow> nat \<Rightarrow> db \<Rightarrow> user_pocket list" where
  "PocketsForUser st userID limit d =
     (let n = (if limit = 0 \<or> 200 < limit then 200 else limit);
          rows = concat (map (\<lambda>r. map (\<lambda>t. (r, t_role t))
            (filter (\<lambda>t. t_pocket t = r_id r \<and> t_user t = Some userID) (participants d))) (pockets d))
      in map (\<lambda>(r, role). \<lparr>up_Record = scanPocket st r, up_Role = role\<rparr>)
           (take n (sort_key (\<lambda>(r, _). - r_created_at r) rows)))"

end
