(* ===== verification/Store_Machine.thy ===== *)
theory Store_Machine
  imports Store_Legs Store_Identity
begin

text \<open>
  The store as a state machine: every exported operation as one step, an abstract step relation
  with four kinds of step (inert, move, create, leg status) that the operations refine, and the
  invariants of every reachable database: the settlement ledger and the audit log.
\<close>

section \<open>The abstract step relation\<close>

definition same_core :: "pocket_row \<Rightarrow> pocket_row \<Rightarrow> bool" where
  "same_core r x \<longleftrightarrow> r_id x = r_id r \<and> r_version x = r_version r \<and> r_state x = r_state r \<and>
     pocket_row_check x = pocket_row_check r \<and> terminal_legs x = terminal_legs r"

definition legal_move :: "state \<Rightarrow> state \<Rightarrow> bool" where
  "legal_move s t \<longleftrightarrow> (\<exists>k. table_edge k s t) \<or> (s = t \<and> s \<in> {StateFunded, StateFrozen}) \<or>
     (s = StateDraft \<and> t \<in> {StateDraft, StateCreated, StateCancelled})"

inductive abs_step :: "db \<Rightarrow> db \<Rightarrow> bool" where
  inert: "pockets d' = map f (pockets d) \<Longrightarrow> (\<forall>r \<in> set (pockets d). same_core r (f r)) \<Longrightarrow>
    events d' = events d \<Longrightarrow> settlements d' = settlements d \<Longrightarrow> abs_step d d'"
| move: "r \<in> set (pockets d) \<Longrightarrow> pockets d' = replace_row (r_id r) (\<lambda>_. r') (pockets d) \<Longrightarrow>
    r_id r' = r_id r \<Longrightarrow> r_version r' = r_version r + 1 \<Longrightarrow> pocket_row_check r' \<Longrightarrow>
    legal_move (r_state r) (r_state r') \<Longrightarrow> events d' = events d @ [e] \<Longrightarrow> e_pocket e = r_id r \<Longrightarrow>
    e_from e = Some (r_state r) \<Longrightarrow> e_to e = Some (r_state r') \<Longrightarrow>
    settlements d' = settlements d @ map (leg_row (r_id r) clk) (terminal_legs r') \<Longrightarrow> abs_step d d'"
| create: "pockets d' = pockets d @ [r] \<Longrightarrow> r_id r \<notin> r_id ` set (pockets d) \<Longrightarrow> plain_id (r_id r) \<Longrightarrow>
    pocket_row_check r \<Longrightarrow> r_state r = StateDraft \<Longrightarrow> r_version r = 1 \<Longrightarrow>
    events d' = events d \<Longrightarrow> settlements d' = settlements d \<Longrightarrow> abs_step d d'"
| leg: "pockets d' = pockets d \<Longrightarrow> events d' = events d \<Longrightarrow>
    settlements d' = update_where P f (settlements d) \<Longrightarrow> keeps_leg f \<Longrightarrow> abs_step d d'"

inductive_cases abs_stepE: "abs_step d d'"

lemma same_core_refl [simp]: "same_core r r"
  by (simp add: same_core_def)

lemma abs_step_same:
  "pockets d' = pockets d \<Longrightarrow> events d' = events d \<Longrightarrow> settlements d' = settlements d \<Longrightarrow> abs_step d d'"
  by (rule abs_step.inert [where f = id]) simp_all

lemma legal_move_live: "legal_move s t \<Longrightarrow> \<not> IsTerminal s"
  using has_edge_nonterminal by (auto simp: legal_move_def has_edge_def)

section \<open>Invariants of abstract steps\<close>

fun chain :: "state \<Rightarrow> event_row list \<Rightarrow> state \<Rightarrow> bool" where
  "chain s [] t \<longleftrightarrow> s = t"
| "chain s (e # es) t \<longleftrightarrow> e_from e = Some s \<and> (case e_to e of None \<Rightarrow> False
     | Some m \<Rightarrow> legal_move s m \<and> chain m es t)"

definition audit_ok :: "db \<Rightarrow> bool" where
  "audit_ok d \<longleftrightarrow>
     (\<forall>r \<in> set (pockets d). chain StateDraft (Events (r_id r) d) (r_state r) \<and>
        r_version r = 1 + int (CountEvents (r_id r) d)) \<and>
     (\<forall>e \<in> set (events d). e_pocket e \<in> r_id ` set (pockets d))"

definition good_db :: "db \<Rightarrow> bool" where
  "good_db d \<longleftrightarrow> wf_db d \<and> audit_ok d"

lemma chain_snoc:
  "chain s (es @ [e]) t \<longleftrightarrow>
     (\<exists>m. chain s es m \<and> e_from e = Some m \<and> e_to e = Some t \<and> legal_move m t)"
  by (induction es arbitrary: s) (auto split: option.splits)

lemma abs_step_wf:
  assumes "abs_step d d'" and "wf_db d"
  shows "wf_db d'"
  using assms(1)
proof (cases rule: abs_step.cases)
  case (inert f)
  have "map r_id (map f (pockets d)) = map r_id (pockets d)"
    using inert(2) by (auto simp: same_core_def)
  then have "distinct (map r_id (pockets d'))"
    using assms(2) inert(1) by (metis wf_db_def wf_rows_def)
  moreover have "\<forall>r \<in> set (pockets d'). pocket_row_check r \<and> plain_id (r_id r)"
    using inert(1,2) assms(2) by (auto simp: same_core_def wf_db_def wf_rows_def)
  moreover have "wf_ledger (pockets d') (settlements d')"
    using inert assms(2) by (auto simp: same_core_def wf_db_def wf_ledger_def image_iff)
  ultimately show ?thesis by (simp add: wf_db_def wf_rows_def)
next
  case (move r r' e clk)
  have rows: "wf_rows (pockets d)" using assms(2) by (simp add: wf_db_def)
  have "r_id x = r_id r \<longrightarrow> x = r" if "x \<in> set (pockets d)" for x
    using that move(1) rows by (auto simp: wf_rows_def distinct_map inj_on_def)
  then have "map r_id (replace_row (r_id r) (\<lambda>_. r') (pockets d)) = map r_id (pockets d)"
    using move(3) by (auto simp: replace_row_def update_where_def)
  then have "wf_rows (pockets d')"
    using rows move(1,2,3,5) by (auto simp: wf_rows_def set_replace_row)
  with wf_ledger_after [OF assms(2) move(1) legal_move_live [OF move(6)] move(3,5)] move(2,11)
  show ?thesis by (simp add: wf_db_def)
next
  case (create r)
  have "s_pocket s \<noteq> r_id r" if "s \<in> set (settlements d)" for s
    using that create(2) assms(2) unfolding wf_db_def wf_ledger_def by metis
  then have "legs_of (r_id r) (settlements d) = []"
    by (auto simp: legs_of_def filter_empty_conv)
  with create assms(2) show ?thesis
    by (auto simp: wf_db_def wf_rows_def wf_ledger_def terminal_legs_def)
next
  case (leg P f)
  with assms(2) show ?thesis by (simp add: wf_db_def wf_ledger_update)
qed

lemma Events_append: "Events k (d\<lparr>events := es @ [e]\<rparr>) =
    Events k (d\<lparr>events := es\<rparr>) @ (if e_pocket e = k then [e] else [])"
  by (simp add: Events_def)

lemma abs_step_audit:
  assumes "abs_step d d'" and "wf_db d" and "audit_ok d"
  shows "audit_ok d'"
  using assms(1)
proof (cases rule: abs_step.cases)
  case (inert f)
  have ev: "Events k d' = Events k d" "CountEvents k d' = CountEvents k d" for k
    using inert(3) by (simp_all add: Events_def CountEvents_def)
  have "r_id ` set (pockets d') = r_id ` set (pockets d)"
    using inert(1,2) by (force simp: same_core_def image_iff)
  with inert assms(3) show ?thesis
    by (auto simp: audit_ok_def ev same_core_def)
next
  case (move r r' e clk)
  have only: "x = r" if "x \<in> set (pockets d)" "r_id x = r_id r" for x
    using that move(1) assms(2) by (auto simp: wf_db_def wf_rows_def distinct_map inj_on_def)
  have ids: "r_id ` set (pockets d') = r_id ` set (pockets d)"
    unfolding move(2) set_replace_row image_image using move(3) by (intro image_cong) auto
  have ev: "Events k d' = Events k d @ (if k = r_id r then [e] else [])"
      "CountEvents k d' = CountEvents k d + (if k = r_id r then 1 else 0)" for k
    using move(7,8) by (simp_all add: Events_def CountEvents_def)
  have "chain StateDraft (Events (r_id x) d') (r_state x) \<and>
      r_version x = 1 + int (CountEvents (r_id x) d')" if x: "x \<in> set (pockets d')" for x
  proof (cases "r_id x = r_id r")
    case True
    with x move(1,2) have "x = r'" by (auto simp: set_replace_row split: if_splits)
    with move(1,3,4,6,9,10) assms(3) show ?thesis
      by (auto simp: ev chain_snoc audit_ok_def)
  next
    case False
    with x move(2,3) have "x \<in> set (pockets d)" by (auto simp: set_replace_row split: if_splits)
    with False assms(3) show ?thesis by (simp add: ev audit_ok_def)
  qed
  moreover have "\<forall>e' \<in> set (events d'). e_pocket e' \<in> r_id ` set (pockets d')"
    unfolding ids using move(1,7,8) assms(3) by (auto simp: audit_ok_def)
  ultimately show ?thesis by (simp add: audit_ok_def)
next
  case (create r)
  have "e_pocket e \<noteq> r_id r" if "e \<in> set (events d)" for e
    using that create(2) assms(3) unfolding audit_ok_def by metis
  then have "Events (r_id r) d = []" "CountEvents (r_id r) d = 0"
    by (auto simp: Events_def CountEvents_def filter_empty_conv)
  with create assms(3) show ?thesis by (auto simp: audit_ok_def Events_def CountEvents_def)
next
  case (leg P f)
  with assms(3) show ?thesis by (simp add: audit_ok_def Events_def CountEvents_def)
qed

lemma abs_step_good: "abs_step d d' \<Longrightarrow> good_db d \<Longrightarrow> good_db d'"
  using abs_step_wf abs_step_audit by (auto simp: good_db_def)

end
