(* ===== verification/Store_Refine.thy ===== *)
theory Store_Refine
  imports Store_Machine
begin

text \<open>
  Every operation of the store, success or failure, is a step of the abstract relation; hence
  every database the store can reach from an empty one satisfies the ledger and the audit
  invariants.
\<close>

section \<open>Moves\<close>

lemma Transition_legal_move:
  "Transition p now ev = Inr out \<Longrightarrow> legal_move (p_State p) (p_State (out_Pocket out))"
  using Transition_edge by (fastforce simp: legal_move_def)

lemma transition_step:
  assumes "wf_db d" and "r \<in> set (pockets d)"
    and "applyTransitionTx (r_id r) actor (scanPocket st r) now ev d = Inr (res, d')"
  shows "abs_step d d'"
proof -
  obtain out ds where T: "Transition (row_pocket st r) now ev = Inr out"
      and d': "d' = after_transition d r actor ev (out_Pocket out) ds"
    using transition_result [OF assms] by blast
  have rows: "wf_rows (pockets d)" and check: "pocket_row_check r"
    using assms(1,2) by (auto simp: wf_db_def wf_rows_def)
  show ?thesis
    using assms(2) check Transition_legal_move [OF T]
    by (intro abs_step.move [where r = r and r' = "write_pocket (out_Pocket out) r"
          and clk = "db_clock d"
          and e = "transition_event (r_id r) actor (r_state r) (p_State (out_Pocket out)) ev (db_clock d)"])
      (simp_all add: d' after_transition_def transition_event_def
        replace_row_const [OF rows assms(2), of "write_pocket (out_Pocket out)"])
qed

lemma run_tx_step:
  assumes "\<And>x d'. f d = Inr (x, d') \<Longrightarrow> abs_step d d'"
  shows "abs_step d (snd (run_tx f d))"
  using assms by (auto simp: run_tx_def abs_step_same split: sum.splits)

lemma selected_tx:
  assumes "wf_db d" and "bind_tx (selectPocketForUpdateTx st pid) k d = Inr y"
  obtains r where "r \<in> set (pockets d)" "r_id r = pid" "k (scanPocket st r) d = Inr y"
  using assms pocket_by_id_iff
  by (auto simp: selectPocketForUpdateTx_def GetByID_def scan_found_def res_simps wf_db_def
      split: option.splits)

lemma RunTransition_step:
  assumes "wf_db d"
  shows "abs_step d (snd (RunTransition st pid actor ev now d))"
  unfolding RunTransition_def
proof (rule run_tx_step)
  fix x d'
  assume "RunTransition_tx st pid actor ev now d = Inr (x, d')"
  then obtain r where "r \<in> set (pockets d)" "r_id r = pid"
      "(if IsDraft (scanPocket st r) then fail_tx ErrIllegalState
        else applyTransitionTx pid actor (scanPocket st r) now ev) d = Inr (x, d')"
    unfolding RunTransition_tx_def by (rule selected_tx [OF assms])
  then show "abs_step d d'"
    using transition_step [OF assms] by (auto simp: res_simps split: if_splits)
qed

section \<open>Draft moves\<close>

text \<open>Writing an aggregate over a draft row with one audit event: the cancellation of a draft
  and the last acceptance.\<close>

lemma insertEvent_result:
  "insertEventTx pid actor s t kind pl d = Inr (u, d') \<Longrightarrow>
     d' = d\<lparr>events := events d @ [\<lparr>e_pocket = pid, e_actor = actor, e_from = Some s, e_to = Some t,
       e_kind = kind, e_payload = pl, e_created_at = db_clock d\<rparr>]\<rparr>"
  by (auto simp: insertEventTx_def insert_event_def split: if_splits)

lemma draft_write_step:
  assumes "wf_db d" and r: "r \<in> set (pockets d)" and "r_state r = StateDraft"
    and "p_State p = StateCreated \<or> p_State p = StateCancelled"
    and same: "pockets dd = replace_row (r_id r) g (pockets d)" "events dd = events d"
      "settlements dd = settlements d"
    and g: "\<And>x. r_id (g x) = r_id x \<and> r_version (g x) = r_version x \<and>
      pocket_row_check (g x) = pocket_row_check x"
    and run: "bind_tx (updatePocketTx (r_id r) p (r_version r)) (\<lambda>_.
      insertEventTx (r_id r) actor StateDraft (p_State p) kind pl) dd = Inr (u, d')"
  shows "abs_step d d'"
proof -
  have rows: "wf_rows (pockets d)" and check: "pocket_row_check r"
    using assms(1) r by (auto simp: wf_db_def wf_rows_def)
  have rows1: "wf_rows (pockets dd)"
    unfolding same using rows g by (intro wf_rows_replace) (auto simp: wf_rows_def)
  have "g r \<in> set (pockets dd)" using r same by (auto simp: set_replace_row)
  from updatePocketTx_current [OF rows1 this, of p]
  have "updatePocketTx (r_id r) p (r_version r) dd =
      Inr ((), dd\<lparr>pockets := replace_row (r_id r) (write_pocket p) (pockets dd)\<rparr>)"
    using g by simp
  with run have d': "d' = dd\<lparr>pockets := replace_row (r_id r) (write_pocket p) (pockets dd),
      events := events dd @ [\<lparr>e_pocket = r_id r, e_actor = actor, e_from = Some StateDraft,
        e_to = Some (p_State p), e_kind = kind, e_payload = pl, e_created_at = db_clock dd\<rparr>]\<rparr>"
    by (auto simp: bind_tx_def dest!: insertEvent_result)
  have comp: "replace_row (r_id r) (write_pocket p) (replace_row (r_id r) g (pockets d)) =
      replace_row (r_id r) (\<lambda>_. write_pocket p (g r)) (pockets d)"
  proof -
    have "x = r" if "x \<in> set (pockets d)" "r_id x = r_id r" for x
      using that r rows by (auto simp: wf_rows_def distinct_map inj_on_def)
    then show ?thesis using g by (auto simp: replace_row_def update_where_def)
  qed
  show ?thesis
    using r check g assms(3,4)
    by (intro abs_step.move [where r = r and r' = "write_pocket p (g r)" and clk = 0
          and e = "\<lparr>e_pocket = r_id r, e_actor = actor, e_from = Some StateDraft,
            e_to = Some (p_State p), e_kind = kind, e_payload = pl, e_created_at = db_clock dd\<rparr>"])
      (auto simp: d' same comp legal_move_def terminal_legs_def)
qed

lemma Cancel_step:
  assumes "wf_db d"
  shows "abs_step d (snd (Cancel st pid actor now d))"
  unfolding Cancel_def
proof (rule run_tx_step)
  fix x d'
  assume run: "Cancel_tx st pid actor now d = Inr (x, d')"
  obtain r where r: "r \<in> set (pockets d)" "r_id r = pid" and body:
      "(if IsDraft (scanPocket st r) then cancel_draft_tx pid actor (scanPocket st r)
        else if p_State (rec_Pocket (scanPocket st r)) = StateCreated
        then applyTransitionTx pid actor (scanPocket st r) now (event_of EvCancel)
        else if p_State (rec_Pocket (scanPocket st r)) = StateFunded
        then applyTransitionTx pid actor (scanPocket st r) now (event_of EvVendorCancel)
        else fail_tx ErrIllegalState) d = Inr (x, d')"
    using run unfolding Cancel_tx_def by (rule selected_tx [OF assms])
  show "abs_step d d'"
  proof (cases "r_state r = StateDraft")
    case True
    let ?p = "(row_pocket st r)\<lparr>p_State := StateCancelled\<rparr>"
    have "bind_tx (updatePocketTx (r_id r) ?p (r_version r)) (\<lambda>_.
        insertEventTx (r_id r) actor StateDraft (p_State ?p) ''cancel'' NoPayload) d = Inr ((), d')"
      using body True r by (auto simp: cancel_draft_tx_def Let_def res_simps)
    then show ?thesis
      by (rule draft_write_step [OF assms r(1) True, where dd = d and g = "\<lambda>x. x", rotated -1])
        (simp_all add: replace_row_def update_where_def)
  next
    case False
    with body r show ?thesis
      by (auto simp: fail_tx_def split: if_splits intro: transition_step [OF assms r(1)])
  qed
qed

section \<open>Statements that leave the core tables alone\<close>

definition same_tables :: "db \<Rightarrow> db \<Rightarrow> bool" where
  "same_tables d d' \<longleftrightarrow>
     pockets d' = pockets d \<and> events d' = events d \<and> settlements d' = settlements d"

lemma same_tables_refl [simp]: "same_tables d d"
  by (simp add: same_tables_def)

lemma same_tables_trans: "same_tables d d1 \<Longrightarrow> same_tables d1 d2 \<Longrightarrow> same_tables d d2"
  by (simp add: same_tables_def)

lemma same_tables_step: "same_tables d d' \<Longrightarrow> abs_step d d'"
  by (auto simp: same_tables_def intro: abs_step_same)

definition aside :: "(db, 'a) tx \<Rightarrow> bool" where
  "aside f \<longleftrightarrow> (\<forall>d x d'. f d = Inr (x, d') \<longrightarrow> same_tables d d')"

lemma aside_bind [intro]: "aside f \<Longrightarrow> (\<And>x. aside (g x)) \<Longrightarrow> aside (bind_tx f g)"
  by (fastforce simp: aside_def res_simps intro: same_tables_trans)

lemma aside_basic [intro, simp]:
  "aside (return_tx x)" "aside (fail_tx e)" "aside (guard_tx b e)" "aside (read_tx f)"
  "aside (lift_tx r)"
  by (auto simp: aside_def res_simps)

lemma aside_statements [intro, simp]:
  "aside (insertParticipantTx pid role user hash at)"
  "aside (getParticipantTx pid role)"
  "aside (participantsTx pid)"
  "aside (bind_participant pid role uid)"
  "aside (markAcceptedTx pid role now)"
  "aside (rekey_tx pid role hash)"
  by (auto simp: aside_def insertParticipantTx_def insert_participant_def getParticipantTx_def
      participantsTx_def bind_participant_def markAcceptedTx_def rekey_tx_def same_tables_def
      res_simps Let_def split: if_splits)

lemma aside_if [intro]: "aside f \<Longrightarrow> aside g \<Longrightarrow> aside (if b then f else g)"
  by simp

lemma aside_claimParticipant [intro, simp]: "aside (claimParticipantTx pid role userID)"
  unfolding claimParticipantTx_def by (intro aside_bind aside_if aside_statements aside_basic)

lemma aside_awaiting [intro, simp]: "aside (awaiting_vendor_tx rec pid role)"
  unfolding awaiting_vendor_tx_def by (intro aside_bind aside_if aside_statements aside_basic)

lemma aside_insertRoles [intro, simp]: "aside (insertRolesTx mint creator now pid roles)"
proof (induction roles)
  case (Cons role roles)
  then show ?case by (auto intro!: aside_bind split: prod.splits)
qed simp

lemma asideD: "aside f \<Longrightarrow> f d = Inr (x, d') \<Longrightarrow> same_tables d d'"
  by (auto simp: aside_def)

section \<open>The draft operations\<close>

lemma Claim_step:
  assumes "wf_db d"
  shows "abs_step d (snd (Claim st pid role userID d))"
  unfolding Claim_def
proof (rule run_tx_step)
  fix x d'
  assume "Claim_tx st pid role userID d = Inr (x, d')"
  then obtain r where "(if \<not> IsDraft (scanPocket st r) then fail_tx ErrIllegalState
      else claimParticipantTx pid role userID) d = Inr (x, d')"
    unfolding Claim_tx_def by (rule selected_tx [OF assms])
  then show "abs_step d d'"
    by (auto simp: res_simps split: if_splits intro: same_tables_step asideD)
qed

lemma CreatePocket_step:
  assumes "wf_db d" and "plain_id new_id"
  shows "abs_step d (snd (CreatePocket mint sc new_id draft creator roles now d))"
  unfolding CreatePocket_def
proof (rule run_tx_step)
  fix x d'
  assume "CreatePocket_tx mint sc new_id draft creator roles now d = Inr (x, d')"
  then obtain pid code d1 tokens d2 where ins:
      "insertPocketDraftTx sc new_id draft d = Inr ((pid, code), d1)"
      "insertRolesTx mint creator now pid roles d1 = Inr (tokens, d2)" "d' = d2"
    by (auto simp: CreatePocket_tx_def res_simps)
  then have same: "same_tables d1 d'" by (auto intro: asideD)
  from ins(1) obtain r where r: "insert_pocket r d = Inr ((), d1)" "r_id r = new_id"
      "r_state r = StateDraft" "r_version r = 1"
    by (auto simp: insertPocketDraftTx_def res_simps)
  then have "d1 = d\<lparr>pockets := pockets d @ [r]\<rparr>" "pocket_row_check r"
      "r_id r \<notin> r_id ` set (pockets d)"
    by (auto simp: insert_pocket_def exists_where_iff split: if_splits)
  with same r(2-) assms(2) show "abs_step d d'"
    by (intro abs_step.create [where r = r]) (simp_all add: same_tables_def)
qed

text \<open>A row assignment that keeps the core columns is inert.\<close>

lemma modify_inert:
  assumes "\<And>r. P r \<Longrightarrow> same_core r (f r)"
  shows "abs_step d (snd (modify_pockets P f d))"
  using assms
  by (intro abs_step.inert [where f = "\<lambda>r. if P r then f r else r"])
    (simp_all add: modify_pockets_def update_where_def)

lemma same_core_simps [simp]:
  "same_core r (r\<lparr>r_delivery_address := a\<rparr>)"
  "same_core r (r\<lparr>r_funding_link_ref := x, r_funding_link_url := y\<rparr>)"
  "same_core r (r\<lparr>r_funding_transaction_id := x\<rparr>)"
  "same_core r (r\<lparr>r_release_code_hash := x, r_release_code_enc := y\<rparr>)"
  "same_core r (r\<lparr>r_attested_at := t\<rparr>)"
  by (cases "r_state r"; simp add: same_core_def pocket_row_check_def terminal_legs_def)+

lemma row_update_steps:
  "abs_step d (SetFundingLink pid ref url d)"
  "abs_step d (SetFundingTransaction pid txID d)"
  "abs_step d (SetReleaseCode pid hash enc d)"
  "abs_step d (snd (AttestNonReceipt pid now d))"
proof -
  show "abs_step d (SetFundingLink pid ref url d)" "abs_step d (SetReleaseCode pid hash enc d)"
    unfolding SetFundingLink_def SetReleaseCode_def by (rule modify_inert, simp)+
  show "abs_step d (SetFundingTransaction pid txID d)"
    unfolding SetFundingTransaction_def by (auto intro: modify_inert abs_step_same)
  have "snd (AttestNonReceipt pid now d) = snd (modify_pockets (\<lambda>r. r_id r = pid \<and> r_state r = StateFrozen)
      (\<lambda>r. r\<lparr>r_attested_at := Some (case r_attested_at r of None \<Rightarrow> now | Some t \<Rightarrow> t)\<rparr>) d)"
    by (simp add: AttestNonReceipt_def split: prod.splits)
  then show "abs_step d (snd (AttestNonReceipt pid now d))"
    by (simp add: modify_inert)
qed

end
