(* ===== verification/Store_Reach.thy ===== *)
theory Store_Reach
  imports Store_Refine
begin

text \<open>
  The remaining operations (acceptance, conversion, sweep) refine the abstract step; the store's
  operations as one datatype; and the invariants of every reachable database.
\<close>

section \<open>Acceptance\<close>

definition set_address :: "role \<Rightarrow> string \<Rightarrow> pocket_row \<Rightarrow> pocket_row" where
  "set_address role a r =
     (if role = RoleBuyer \<and> a \<noteq> [] then r\<lparr>r_delivery_address := Some a\<rparr> else r)"

lemma set_address_core [simp]: "same_core r (set_address role a r)"
  by (simp add: set_address_def)

lemma address_result:
  assumes "(if role = RoleBuyer \<and> a \<noteq> [] then setDeliveryAddressTx pid a else return_tx ()) d =
    Inr (u, d')"
  shows "pockets d' = replace_row pid (set_address role a) (pockets d)" and "events d' = events d"
    and "settlements d' = settlements d"
  using assms
  by (auto simp: setDeliveryAddressTx_def return_tx_def modify_pockets_def replace_row_def
      set_address_def [abs_def] update_where_def map_idI split: if_splits)

lemma Accept_body:
  assumes "wf_db d" and "Accept_tx st pid role a actor now d = Inr (x, d')"
  obtains r part s2 u1 ok d1 d2 u parts where "r \<in> set (pockets d)" "r_id r = pid"
    "r_state r = StateDraft" "getParticipantTx pid role d = Inr (part, d)"
    "awaiting_vendor_tx (scanPocket st r) pid role d = Inr (u1, s2)"
    "markAcceptedTx pid role now s2 = Inr (ok, d1)" "ok"
    "(if role = RoleBuyer \<and> a \<noteq> [] then setDeliveryAddressTx pid a else return_tx ()) d1 = Inr (u, d2)"
    "parts = map (scanParticipantRow [] []) (participants_of pid d2)"
    "(if \<not> allAccepted parts then
        return_tx \<lparr>ar_PocketID = pid, ar_Completed = False, ar_State = StateDraft,
          ar_Outcome = None\<rparr>
      else create_aggregate_tx st (scanPocket st r) pid actor now) d2 = Inr (x, d')"
proof -
  obtain r where r: "r \<in> set (pockets d)" "r_id r = pid" and body:
      "bind_tx (guard_tx (IsDraft (scanPocket st r)) ErrIllegalState) (\<lambda>_.
       bind_tx (getParticipantTx pid role) (\<lambda>part.
       bind_tx (guard_tx (part_UserID part \<noteq> []) ErrNotClaimed) (\<lambda>_.
       bind_tx (guard_tx (\<not> part_Accepted part) ErrAlreadyAccepted) (\<lambda>_.
       bind_tx (awaiting_vendor_tx (scanPocket st r) pid role) (\<lambda>_.
       bind_tx (markAcceptedTx pid role now) (\<lambda>accepted.
       bind_tx (guard_tx accepted ErrAlreadyAccepted) (\<lambda>_.
       bind_tx (if role = RoleBuyer \<and> a \<noteq> [] then setDeliveryAddressTx pid a else return_tx ()) (\<lambda>_.
       bind_tx (participantsTx pid) (\<lambda>parts.
         if \<not> allAccepted parts then
           return_tx \<lparr>ar_PocketID = pid, ar_Completed = False, ar_State = StateDraft,
             ar_Outcome = None\<rparr>
         else create_aggregate_tx st (scanPocket st r) pid actor now))))))))) d = Inr (x, d')"
    using assms(2) unfolding Accept_tx_def by (rule selected_tx [OF assms(1)])
  show ?thesis
    using body r that
    unfolding bind_tx_Inr_iff guard_tx_Inr_iff participantsTx_def getParticipantTx_def
      read_tx_Inr_iff scanPocket_simps
    by blast
qed

lemma Accept_step:
  assumes "wf_db d"
  shows "abs_step d (snd (Accept st pid role a actor now d))"
  unfolding Accept_def
proof (rule run_tx_step)
  fix x d'
  assume "Accept_tx st pid role a actor now d = Inr (x, d')"
  then obtain r part s2 u1 ok d1 d2 u parts where r: "r \<in> set (pockets d)" "r_id r = pid"
      and draft: "r_state r = StateDraft"
      and s2: "awaiting_vendor_tx (scanPocket st r) pid role d = Inr (u1, s2)"
      and s3: "markAcceptedTx pid role now s2 = Inr (ok, d1)"
      and addr: "(if role = RoleBuyer \<and> a \<noteq> [] then setDeliveryAddressTx pid a else return_tx ()) d1 =
        Inr (u, d2)"
      and rest: "(if \<not> allAccepted parts then
           return_tx \<lparr>ar_PocketID = pid, ar_Completed = False, ar_State = StateDraft,
             ar_Outcome = None\<rparr>
         else create_aggregate_tx st (scanPocket st r) pid actor now) d2 = Inr (x, d')"
    by (rule Accept_body [OF assms])
  have d1: "same_tables d d1"
    using asideD [of "awaiting_vendor_tx (scanPocket st r) pid role", OF _ s2]
      asideD [of "markAcceptedTx pid role now", OF _ s3]
    by (auto intro: same_tables_trans)
  have d2: "pockets d2 = replace_row pid (set_address role a) (pockets d)" "events d2 = events d"
      "settlements d2 = settlements d"
    using address_result [OF addr] d1 by (simp_all add: same_tables_def)
  show "abs_step d d'"
  proof (cases "allAccepted parts")
    case False
    then have "d' = d2" using rest by (simp add: res_simps)
    then show ?thesis
      using d2 by (intro abs_step.inert [where f = "\<lambda>x. if r_id x = pid then set_address role a x else x"])
        (simp_all add: replace_row_def update_where_def)
  next
    case True
    with rest obtain out u where new: "New now (specFromRecord st (scanPocket st r)) = Inr out"
        and w: "bind_tx (updatePocketTx (r_id r) (out_Pocket out) (r_version r)) (\<lambda>_.
          insertEventTx (r_id r) actor StateDraft (p_State (out_Pocket out)) ''created'' NoPayload) d2 =
          Inr (u, d')"
      using r by (auto simp: create_aggregate_tx_def res_simps)
    show ?thesis
      by (rule draft_write_step [where g = "set_address role a", OF assms r(1) draft _ _ _ _ _ w])
        (use d2 r new set_address_core in \<open>auto simp: same_core_def\<close>)
  qed
qed

section \<open>Conversion\<close>

lemma split_pocket_result:
  assumes "split_pocket_tx pid v c ver d = Inr (u, d')" and "wf_rows (pockets d)"
    and "r \<in> set (pockets d)" and "r_id r = pid" and "r_version r = ver"
  shows "\<exists>r'. pockets d' = replace_row pid (\<lambda>_. r') (pockets d) \<and> pocket_row_check r' \<and>
    r_id r' = pid \<and> r_version r' = ver + 1 \<and> r_state r' = r_state r \<and>
    r_structure r' = StructureBrokered \<and> r_amount_kobo r' = v \<and> r_commission_kobo r' = c \<and>
    r_premium_kobo r' = r_premium_kobo r \<and> r_buyer_total_kobo r' = r_buyer_total_kobo r \<and>
    events d' = events d \<and> settlements d' = settlements d \<and> participants d' = participants d"
proof -
  let ?f = "\<lambda>r. r\<lparr>r_structure := StructureBrokered, r_creator_role := RoleBroker,
    r_amount_kobo := v, r_commission_kobo := c, r_version := r_version r + 1\<rparr>"
  have only: "x = r" if "x \<in> set (pockets d)" "r_id x = pid" for x
    using that assms(2-4) by (auto simp: wf_rows_def distinct_map inj_on_def)
  have "update_where (\<lambda>x. r_id x = pid \<and> r_version x = ver) ?f (pockets d) =
      replace_row pid (\<lambda>_. ?f r) (pockets d)"
    using only assms(4,5) by (auto simp: replace_row_def update_where_def)
  moreover have "pocket_row_check (?f r)"
    using assms by (auto simp: split_pocket_tx_def update_pockets_def res_simps exists_where_iff
        split: if_splits)
  ultimately show ?thesis
    using assms by (intro exI [of _ "?f r"])
      (auto simp: split_pocket_tx_def update_pockets_def res_simps split: if_splits)
qed

lemma Convert_body:
  assumes "wf_db d" and "ConvertToBrokered_tx st mint pid broker v now d = Inr (x, d')"
  obtains r seat d1 d2 d3 u u1 u2 u3 bt bh vt vh where "r \<in> set (pockets d)" "r_id r = pid"
    "r_state r = StateDraft" "r_structure r = StructureP2P" "r_creator_role r = RoleBuyer"
    "0 < v" "v < r_amount_kobo r" "getParticipantTx pid RoleVendor d = Inr (seat, d)"
    "part_UserID seat = []"
    "split_pocket_tx pid v (r_amount_kobo r - v) (r_version r) d = Inr (u, d1)"
    "mint pid RoleBroker = Inr (bt, bh)"
    "insertParticipantTx pid RoleBroker (Some broker) bh (Some now) d1 = Inr (u1, d2)"
    "mint pid RoleVendor = Inr (vt, vh)" "rekey_tx pid RoleVendor vh d2 = Inr (u2, d3)"
    "insertEventTx pid RoleBroker StateDraft StateDraft ''converted_to_brokered''
      (ConvertPayload v (r_amount_kobo r - v)) d3 = Inr (u3, d')"
    "vr_Tokens x = [(RoleBroker, bt), (RoleVendor, vt)]"
proof -
  obtain r where r: "r \<in> set (pockets d)" "r_id r = pid" and body:
      "(let p = rec_Pocket (scanPocket st r) in
     bind_tx (guard_tx (IsDraft (scanPocket st r) \<and> p_Structure p = StructureP2P \<and>
       p_CreatorRole p = RoleBuyer) ErrIllegalState) (\<lambda>_.
     bind_tx (guard_tx (0 < v \<and> v < p_AmountKobo p) ErrInvalidSplit) (\<lambda>_.
     bind_tx (getParticipantTx pid RoleVendor) (\<lambda>vendorSeat.
     bind_tx (guard_tx (part_UserID vendorSeat = []) ErrAlreadyClaimed) (\<lambda>_.
     bind_tx (participantsTx pid) (\<lambda>parts.
     bind_tx (guard_tx (\<not> list_ex (\<lambda>x. part_UserID x = broker) parts) ErrRoleConflict) (\<lambda>_.
     let commission = p_AmountKobo p - v in
     bind_tx (split_pocket_tx pid v commission (rec_Version (scanPocket st r))) (\<lambda>_.
     bind_tx (lift_tx (mint pid RoleBroker)) (\<lambda>(brokerToken, brokerHash).
     bind_tx (insertParticipantTx pid RoleBroker (Some broker) brokerHash (Some now)) (\<lambda>_.
     bind_tx (lift_tx (mint pid RoleVendor)) (\<lambda>(vendorToken, vendorHash).
     bind_tx (rekey_tx pid RoleVendor vendorHash) (\<lambda>_.
     bind_tx (insertEventTx pid RoleBroker StateDraft StateDraft ''converted_to_brokered''
       (ConvertPayload v commission)) (\<lambda>_.
       return_tx \<lparr>vr_PocketID = pid,
         vr_Tokens = [(RoleBroker, brokerToken), (RoleVendor, vendorToken)]\<rparr>))))))))))))) d = Inr (x, d')"
    using assms(2) unfolding ConvertToBrokered_tx_def by (rule selected_tx [OF assms(1)])
  have amount: "p_AmountKobo (row_pocket st r) = r_amount_kobo r"
      "p_Structure (row_pocket st r) = r_structure r" "p_CreatorRole (row_pocket st r) = r_creator_role r"
    by (simp_all add: row_pocket_def)
  from body r that show ?thesis
    by (auto simp: Let_def bind_tx_Inr_iff guard_tx_Inr_iff participantsTx_def getParticipantTx_def
        read_tx_Inr_iff lift_tx_Inr_iff return_tx_Inr_iff amount split: prod.splits)
qed

lemma Convert_step:
  assumes "wf_db d"
  shows "abs_step d (snd (ConvertToBrokered st mint pid broker v now d))"
  unfolding ConvertToBrokered_def
proof (rule run_tx_step)
  fix x d'
  assume "ConvertToBrokered_tx st mint pid broker v now d = Inr (x, d')"
  then obtain r seat d1 d2 d3 u u1 u2 u3 bt bh vt vh where r: "r \<in> set (pockets d)" "r_id r = pid"
      and draft: "r_state r = StateDraft"
      and sp: "split_pocket_tx pid v (r_amount_kobo r - v) (r_version r) d = Inr (u, d1)"
      and s1: "insertParticipantTx pid RoleBroker (Some broker) bh (Some now) d1 = Inr (u1, d2)"
      and s2: "rekey_tx pid RoleVendor vh d2 = Inr (u2, d3)"
      and ev: "insertEventTx pid RoleBroker StateDraft StateDraft ''converted_to_brokered''
        (ConvertPayload v (r_amount_kobo r - v)) d3 = Inr (u3, d')"
    by (rule Convert_body [OF assms])
  let ?e = "\<lparr>e_pocket = pid, e_actor = RoleBroker, e_from = Some StateDraft, e_to = Some StateDraft,
    e_kind = ''converted_to_brokered'', e_payload = ConvertPayload v (r_amount_kobo r - v),
    e_created_at = db_clock d3\<rparr>"
  have "same_tables d1 d3"
    using asideD [of "insertParticipantTx pid RoleBroker (Some broker) bh (Some now)", OF _ s1]
      asideD [of "rekey_tx pid RoleVendor vh", OF _ s2]
    by (auto intro: same_tables_trans)
  moreover obtain r' where r': "pockets d1 = replace_row pid (\<lambda>_. r') (pockets d)"
      "pocket_row_check r'" "r_id r' = pid" "r_version r' = r_version r + 1" "r_state r' = r_state r"
      "events d1 = events d" "settlements d1 = settlements d"
    using split_pocket_result [OF sp _ r] assms by (auto simp: wf_db_def)
  moreover have "d' = d3\<lparr>events := events d3 @ [?e]\<rparr>"
    using ev by (rule insertEvent_result)
  ultimately show "abs_step d d'"
    using r draft
    by (intro abs_step.move [where r = r and r' = r' and clk = 0 and e = ?e])
      (simp_all add: same_tables_def legal_move_def terminal_legs_def)
qed

section \<open>Sweeps\<close>

lemma sweepOne_step:
  assumes "wf_db d"
  shows "abs_step d (snd (sweepOne st locked due ev now d))"
  unfolding sweepOne_def
proof (rule run_tx_step)
  fix x d'
  assume run: "(case select_one (\<lambda>r. due r \<and> \<not> locked (r_id r)) (pockets d) of
       None \<Rightarrow> Inr (None, d)
     | Some r \<Rightarrow> bind_tx (applyTransitionTx (r_id r) RoleSystem (scanPocket st r) now ev)
                   (\<lambda>res. return_tx (Some res)) d) = Inr (x, d')"
  show "abs_step d d'"
  proof (cases "select_one (\<lambda>r. due r \<and> \<not> locked (r_id r)) (pockets d)")
    case None
    with run show ?thesis by (simp add: abs_step_same)
  next
    case (Some r)
    then have "r \<in> set (pockets d)" by (auto dest: select_one_Some)
    with run Some show ?thesis
      by (auto simp: res_simps intro: transition_step [OF assms])
  qed
qed

section \<open>The operations\<close>

datatype sweep_rule = RuleExpiredFunding | RuleDeliveryDeadline | RuleGraceRefund | RuleDueSettlement

fun run_rule :: "store \<Rightarrow> sweep_rule \<Rightarrow> (string \<Rightarrow> bool) \<Rightarrow> gotime \<Rightarrow> db \<Rightarrow> write_result option res \<times> db" where
  "run_rule st RuleExpiredFunding locked now = SweepOneExpiredFunding st locked now"
| "run_rule st RuleDeliveryDeadline locked now = SweepOneDeliveryDeadline st locked now"
| "run_rule st RuleGraceRefund locked now = SweepOneGraceRefund st locked now"
| "run_rule st RuleDueSettlement locked now = SweepOneDueSettlement st locked now"

datatype store_op =
    OpCreate minter "string res" string pocket_draft creator_input "role list" gotime
  | OpClaim string role string
  | OpAccept string role string role gotime
  | OpTransition string role event gotime
  | OpCancel string role gotime
  | OpConvert minter string string int gotime
  | OpSweep sweep_rule "string \<Rightarrow> bool" gotime
  | OpAttest string gotime
  | OpFundingLink string string string
  | OpFundingTransaction string string
  | OpReleaseCode string string string
  | OpClaimLeg string
  | OpReleaseLeg string string
  | OpFailLeg string string
  | OpConfirmLeg string string
  | OpUserByPhone string string string
  | OpUserByGoogle string string string string string
  | OpSetAdmin string bool
  | OpSanction string role
  | OpInsertSession string string gotime string string
  | OpSessionUser string gotime
  | OpRevokeSession string
  | OpRecordWebhook string string
  | OpMarkWebhook string
  | OpEvidence string string evidence_record
  | OpClock gotime

fun exec_op :: "store \<Rightarrow> store_op \<Rightarrow> db \<Rightarrow> db" where
  "exec_op st (OpCreate mint sc i dr cr roles now) d = snd (CreatePocket mint sc i dr cr roles now d)"
| "exec_op st (OpClaim pid role uid) d = snd (Claim st pid role uid d)"
| "exec_op st (OpAccept pid role a actor now) d = snd (Accept st pid role a actor now d)"
| "exec_op st (OpTransition pid actor ev now) d = snd (RunTransition st pid actor ev now d)"
| "exec_op st (OpCancel pid actor now) d = snd (Cancel st pid actor now d)"
| "exec_op st (OpConvert mint pid b v now) d = snd (ConvertToBrokered st mint pid b v now d)"
| "exec_op st (OpSweep rule locked now) d = snd (run_rule st rule locked now d)"
| "exec_op st (OpAttest pid now) d = snd (AttestNonReceipt pid now d)"
| "exec_op st (OpFundingLink pid ref url) d = SetFundingLink pid ref url d"
| "exec_op st (OpFundingTransaction pid tx) d = SetFundingTransaction pid tx d"
| "exec_op st (OpReleaseCode pid hash enc) d = SetReleaseCode pid hash enc d"
| "exec_op st (OpClaimLeg key) d = snd (ClaimSettlementLeg key d)"
| "exec_op st (OpReleaseLeg key reason) d = ReleaseSettlementLeg key reason d"
| "exec_op st (OpFailLeg key reason) d = FailSettlementLeg key reason d"
| "exec_op st (OpConfirmLeg key ref) d = ConfirmSettlement key ref d"
| "exec_op st (OpUserByPhone i phone name) d = snd (UpsertUserByPhone i phone name d)"
| "exec_op st (OpUserByGoogle i sub email name av) d = snd (UpsertUserByGoogle i sub email name av d)"
| "exec_op st (OpSetAdmin uid b) d = SetAdmin uid b d"
| "exec_op st (OpSanction pid role) d = RecordSanction pid role d"
| "exec_op st (OpInsertSession uid h e ip ua) d = snd (InsertSession uid h e ip ua d)"
| "exec_op st (OpSessionUser h now) d = snd (SessionUser h now d)"
| "exec_op st (OpRevokeSession h) d = RevokeSession h d"
| "exec_op st (OpRecordWebhook i body) d = snd (RecordWebhookEvent i body d)"
| "exec_op st (OpMarkWebhook i) d = MarkWebhookProcessed i d"
| "exec_op st (OpEvidence i pid ev) d = snd (InsertEvidence i pid ev d)"
| "exec_op st (OpClock t) d = d\<lparr>db_clock := t\<rparr>"

text \<open>Generated keys are UUIDs: hexadecimal digits and dashes, so free of the colon that
  separates the parts of an idempotency key.\<close>

fun op_ids_ok :: "store_op \<Rightarrow> bool" where
  "op_ids_ok (OpCreate _ _ i _ _ _ _) = plain_id i"
| "op_ids_ok _ = True"

inductive db_reach :: "store \<Rightarrow> db \<Rightarrow> bool" for st :: store where
  start: "db_reach st empty_db"
| op: "db_reach st d \<Longrightarrow> op_ids_ok op \<Longrightarrow> db_reach st (exec_op st op d)"

lemma side_tables_step:
  "abs_step d (snd (UpsertUserByPhone i phone name d))"
  "abs_step d (snd (UpsertUserByGoogle i sub email name' av d))"
  "abs_step d (SetAdmin uid b d)"
  "abs_step d (RecordSanction pid role d)"
  "abs_step d (snd (InsertSession uid h e ip ua d))"
  "abs_step d (snd (SessionUser h now d))"
  "abs_step d (RevokeSession h d)"
  "abs_step d (snd (RecordWebhookEvent i body d))"
  "abs_step d (MarkWebhookProcessed i d)"
  "abs_step d (snd (InsertEvidence i pid ev d))"
proof -
  show "abs_step d (snd (UpsertUserByPhone i phone name d))"
    unfolding UpsertUserByPhone_def
    by (rule run_tx_step)
      (auto simp: UpsertUserByPhone_tx_def upsertUserTx_def insert_user_def set_users_def
        modify_users_tx_def res_simps intro!: abs_step_same split: option.splits if_splits)
  show "abs_step d (snd (UpsertUserByGoogle i sub email name' av d))"
    unfolding UpsertUserByGoogle_def
    by (rule run_tx_step)
      (auto simp: UpsertUserByGoogle_tx_def google_id_tx_def insert_user_def set_users_def
        modify_users_tx_def res_simps intro!: abs_step_same split: option.splits if_splits)
qed (auto simp: SetAdmin_def RecordSanction_def set_users_def InsertSession_def SessionUser_def
    RevokeSession_def RecordWebhookEvent_def MarkWebhookProcessed_def InsertEvidence_def Let_def
    intro!: abs_step_same split: option.splits)

lemma leg_steps:
  "abs_step d (snd (ClaimSettlementLeg key d))"
  "abs_step d (ReleaseSettlementLeg key reason d)"
  "abs_step d (FailSettlementLeg key reason d)"
  "abs_step d (ConfirmSettlement key ref d)"
proof -
  note defs = ClaimSettlementLeg_def ReleaseSettlementLeg_def FailSettlementLeg_def
    ConfirmSettlement_def update_settlements_def
  show "abs_step d (snd (ClaimSettlementLeg key d))"
    by (rule abs_step.leg [where P = "\<lambda>s. s_key s = key \<and> s_status s = LegPending"
          and f = "set_status LegInflight (db_clock d)"]) (simp_all add: defs)
  show "abs_step d (ReleaseSettlementLeg key reason d)"
    by (rule abs_step.leg [where P = "\<lambda>s. s_key s = key \<and> s_status s = LegInflight"
          and f = "\<lambda>s. (set_status LegPending (db_clock d) s)\<lparr>s_last_error := reason\<rparr>"])
      (simp_all add: defs)
  show "abs_step d (FailSettlementLeg key reason d)"
    by (rule abs_step.leg [where P = "\<lambda>s. s_key s = key \<and>
            s_status s \<in> {LegPending, LegInflight, LegConfirmed}"
          and f = "\<lambda>s. (set_status LegFailed (db_clock d) s)\<lparr>s_last_error := reason\<rparr>"])
      (simp_all add: defs)
  show "abs_step d (ConfirmSettlement key ref d)"
    by (rule abs_step.leg [where P = "\<lambda>s. s_key s = key \<and> s_status s \<in> {LegPending, LegInflight}"
          and f = "\<lambda>s. (set_status LegConfirmed (db_clock d) s)\<lparr>s_gateway_ref := Some ref\<rparr>"])
      (simp_all add: defs)
qed

lemma exec_op_step:
  assumes "wf_db d" and "op_ids_ok op"
  shows "abs_step d (exec_op st op d)"
proof (cases op)
  case (OpSweep rule locked now)
  then show ?thesis
    by (cases rule) (simp_all add: SweepOneExpiredFunding_def SweepOneDeliveryDeadline_def
        SweepOneGraceRefund_def SweepOneDueSettlement_def sweepOne_step [OF assms(1)])
qed (use assms in \<open>simp_all add: CreatePocket_step Claim_step Accept_step RunTransition_step
  Cancel_step Convert_step row_update_steps leg_steps side_tables_step abs_step_same\<close>)

lemma good_empty: "good_db empty_db"
  using wf_empty [of 0] by (simp add: good_db_def audit_ok_def empty_db_def)

lemma db_reach_good: "db_reach st d \<Longrightarrow> good_db d"
proof (induction rule: db_reach.induct)
  case (op d op)
  then show ?case
    using exec_op_step [of d op st] abs_step_good by (auto simp: good_db_def)
qed (rule good_empty)

end
