(* ===== verification/Store_Parties.thy ===== *)
theory Store_Parties
  imports Store_Reach
begin

text \<open>
  The seats of a pocket: one row per role, and no account in two seats.  Every statement of the
  store keeps this, so it holds in every reachable database; the escrow's guarantees assume it.
\<close>

definition parties_ok :: "db \<Rightarrow> bool" where
  "parties_ok d \<longleftrightarrow>
     distinct (map (\<lambda>t. (t_pocket t, t_role t)) (participants d)) \<and>
     (\<forall>t \<in> set (participants d). \<forall>t' \<in> set (participants d).
        t_pocket t = t_pocket t' \<and> t_user t = t_user t' \<and> t_user t \<noteq> None \<longrightarrow> t = t')"

lemma parties_okI:
  assumes "distinct (map (\<lambda>t. (t_pocket t, t_role t)) (participants d))"
    and "\<And>t t'. t \<in> set (participants d) \<Longrightarrow> t' \<in> set (participants d) \<Longrightarrow>
      t_pocket t = t_pocket t' \<Longrightarrow> t_user t = t_user t' \<Longrightarrow> t_user t \<noteq> None \<Longrightarrow> t = t'"
  shows "parties_ok d"
  using assms unfolding parties_ok_def by blast

lemma parties_user:
  "parties_ok d \<Longrightarrow> t \<in> set (participants d) \<Longrightarrow> t' \<in> set (participants d) \<Longrightarrow>
     t_pocket t = t_pocket t' \<Longrightarrow> t_user t = t_user t' \<Longrightarrow> t_user t \<noteq> None \<Longrightarrow> t = t'"
  unfolding parties_ok_def by blast

lemma parties_role:
  "parties_ok d \<Longrightarrow> t \<in> set (participants d) \<Longrightarrow> t' \<in> set (participants d) \<Longrightarrow>
     t_pocket t = t_pocket t' \<Longrightarrow> t_role t = t_role t' \<Longrightarrow> t = t'"
  unfolding parties_ok_def distinct_map inj_on_def by blast

lemma parties_side:
  "participants d' = participants d \<Longrightarrow> parties_ok d \<Longrightarrow> parties_ok d'"
  unfolding parties_ok_def by (erule ssubst)

definition keeps_parties :: "(db, 'a) tx \<Rightarrow> bool" where
  "keeps_parties f \<longleftrightarrow> (\<forall>d x d'. parties_ok d \<longrightarrow> f d = Inr (x, d') \<longrightarrow> parties_ok d')"

lemma keeps_bind [intro]:
  "keeps_parties f \<Longrightarrow> (\<And>x. keeps_parties (g x)) \<Longrightarrow> keeps_parties (bind_tx f g)"
  unfolding keeps_parties_def bind_tx_Inr_iff by blast

lemma keeps_if [intro]: "keeps_parties f \<Longrightarrow> keeps_parties g \<Longrightarrow> keeps_parties (if b then f else g)"
  by simp

lemma keeps_basic [intro, simp]:
  "keeps_parties (return_tx x)" "keeps_parties (fail_tx e)" "keeps_parties (guard_tx b e)"
  "keeps_parties (read_tx h)" "keeps_parties (lift_tx r)"
  by (auto simp: keeps_parties_def res_simps)

lemma keeps_frame: "(\<And>d x d'. f d = Inr (x, d') \<Longrightarrow> participants d' = participants d) \<Longrightarrow> keeps_parties f"
  unfolding keeps_parties_def using parties_side by blast

lemma keeps_reads [intro, simp]:
  "keeps_parties (selectPocketForUpdateTx st pid)"
  "keeps_parties (getParticipantTx pid role)"
  "keeps_parties (participantsTx pid)"
  by (simp_all add: selectPocketForUpdateTx_def getParticipantTx_def participantsTx_def)

lemma keeps_writes [intro, simp]:
  "keeps_parties (insertPocketDraftTx sc i dr)"
  "keeps_parties (updatePocketTx pid p v)"
  "keeps_parties (setDeliveryAddressTx pid a)"
  "keeps_parties (insertEventTx pid actor s t k pl)"
  "keeps_parties (insertSettlementLegTx leg)"
  "keeps_parties (recordDisputeTx pid actor s q)"
  "keeps_parties (split_pocket_tx pid v c ver)"
  by (rule keeps_frame; auto simp: insertPocketDraftTx_def insert_pocket_def updatePocketTx_def
      modify_pockets_def setDeliveryAddressTx_def insertEventTx_def insert_event_def
      insertSettlementLegTx_def insert_settlement_def recordDisputeTx_def insert_dispute_def
      split_pocket_tx_def update_pockets_def Let_def res_simps split: if_splits)+

lemma keeps_insertParticipant [intro, simp]: "keeps_parties (insertParticipantTx pid role u h at)"
proof -
  have "parties_ok d'" if ok: "parties_ok d" and run: "insert_participant t d = Inr (x, d')" for d x d' t
  proof -
    have d': "participants d' = participants d @ [t]"
      and fresh: "\<not> exists_where (\<lambda>y. t_pocket y = t_pocket t \<and>
        (t_role y = t_role t \<or> (t_user t \<noteq> None \<and> t_user y = t_user t))) (participants d)"
      using run by (auto simp: insert_participant_def split: if_splits)
    have "(t_pocket t, t_role t) \<notin> set (map (\<lambda>t. (t_pocket t, t_role t)) (participants d))"
      using fresh by (auto simp: exists_where_iff)
    moreover have "t' = t''" if two: "t' \<in> set (participants d')" "t'' \<in> set (participants d')"
      "t_pocket t' = t_pocket t''" "t_user t' = t_user t''" "t_user t' \<noteq> None" for t' t''
      using two fresh parties_user [OF ok, of t' t''] unfolding d' exists_where_iff by auto
    ultimately show ?thesis
      using ok by (intro parties_okI) (auto simp: d' parties_ok_def)
  qed
  then show ?thesis by (auto simp: keeps_parties_def insertParticipantTx_def)
qed

lemma update_seat_ok:
  assumes ok: "parties_ok d"
    and d': "participants d' = update_where P f (participants d)"
    and seat: "\<And>t. t_pocket (f t) = t_pocket t \<and> t_role (f t) = t_role t"
    and user: "\<And>t t'. t \<in> set (participants d) \<Longrightarrow> t' \<in> set (participants d) \<Longrightarrow> P t \<Longrightarrow>
      t_pocket t = t_pocket t' \<Longrightarrow> t_user (f t) = (if P t' then t_user (f t') else t_user t') \<Longrightarrow>
      t_user (f t) \<noteq> None \<Longrightarrow> t = t'"
  shows "parties_ok d'"
proof -
  have "map (\<lambda>t. (t_pocket t, t_role t)) (participants d') =
      map (\<lambda>t. (t_pocket t, t_role t)) (participants d)"
    using seat by (simp add: d' update_where_def)
  then have "distinct (map (\<lambda>t. (t_pocket t, t_role t)) (participants d'))"
    using ok by (simp only: parties_ok_def)
  moreover have "x = y" if xy: "x \<in> set (participants d')" "y \<in> set (participants d')"
    "t_pocket x = t_pocket y" "t_user x = t_user y" "t_user x \<noteq> None" for x y
  proof -
    obtain t t' where t: "t \<in> set (participants d)" "x = (if P t then f t else t)"
        and t': "t' \<in> set (participants d)" "y = (if P t' then f t' else t')"
      using xy(1,2) by (auto simp: d' set_update_where)
    have p: "t_pocket t = t_pocket t'" using xy(3) t(2) t'(2) seat by (auto split: if_splits)
    have "t = t'"
    proof (cases "P t")
      case True
      then have "t_user (f t) = (if P t' then t_user (f t') else t_user t')" "t_user (f t) \<noteq> None"
        using xy(4,5) t(2) t'(2) by (simp_all split: if_splits)
      with user [OF t(1) t'(1) True p] show ?thesis by blast
    next
      case False
      show ?thesis
      proof (cases "P t'")
        case True
        with False have "t_user (f t') = (if P t then t_user (f t) else t_user t)" "t_user (f t') \<noteq> None"
          using xy(4,5) t(2) t'(2) by simp_all
        with user [OF t'(1) t(1) True p [symmetric]] show ?thesis by blast
      next
        case False
        with \<open>\<not> P t\<close> parties_user [OF ok t(1) t'(1) p] t(2) t'(2) xy(4,5) show ?thesis by simp
      qed
    qed
    with t(2) t'(2) show ?thesis by simp
  qed
  ultimately show ?thesis by (rule parties_okI)
qed

lemma keeps_seat_updates [intro, simp]:
  "keeps_parties (markAcceptedTx pid role now)"
  "keeps_parties (rekey_tx pid role h)"
  "keeps_parties (bind_participant pid role uid)"
proof -
  have kept: "parties_ok d'"
    if "parties_ok d" "participants d' = update_where P f (participants d)"
      "\<And>t. t_pocket (f t) = t_pocket t \<and> t_role (f t) = t_role t \<and> t_user (f t) = t_user t"
    for d d' P f
  proof (rule update_seat_ok [OF that(1,2)])
    show "t_pocket (f t) = t_pocket t \<and> t_role (f t) = t_role t" for t using that(3) by simp
    show "t = t'" if "t \<in> set (participants d)" "t' \<in> set (participants d)" "P t"
      "t_pocket t = t_pocket t'" "t_user (f t) = (if P t' then t_user (f t') else t_user t')"
      "t_user (f t) \<noteq> None" for t t'
      using that \<open>\<And>t. t_pocket (f t) = t_pocket t \<and> t_role (f t) = t_role t \<and> t_user (f t) = t_user t\<close>
        parties_user [OF \<open>parties_ok d\<close>, of t t'] by (simp split: if_splits)
  qed
  show "keeps_parties (markAcceptedTx pid role now)" "keeps_parties (rekey_tx pid role h)"
    unfolding keeps_parties_def markAcceptedTx_def rekey_tx_def Let_def by (auto intro: kept)
  show "keeps_parties (bind_participant pid role uid)"
    unfolding keeps_parties_def bind_participant_def
  proof (intro allI impI)
    fix d x d'
    assume ok: "parties_ok d"
      and run: "(if exists_where (\<lambda>t. t_pocket t = pid \<and> t_role t = role) (participants d)
         \<and> exists_where (\<lambda>t. t_pocket t = pid \<and> t_role t \<noteq> role \<and> t_user t = Some uid)
             (participants d)
      then Inl (ErrDB UniqueViolation)
      else if exists_where (\<lambda>t. t_pocket t = pid \<and> t_role t = role) (participants d)
         \<and> \<not> user_exists (Some uid) d
      then Inl (ErrDB ForeignKeyViolation)
      else Inr ((), d\<lparr>participants := update_where (\<lambda>t. t_pocket t = pid \<and> t_role t = role)
              (\<lambda>t. t\<lparr>t_user := Some uid\<rparr>) (participants d)\<rparr>)) = Inr (x, d')"
    have free: "t_role t' = role" if "t \<in> set (participants d)" "t_pocket t = pid" "t_role t = role"
      "t' \<in> set (participants d)" "t_pocket t' = pid" "t_user t' = Some uid" for t t'
      using run that by (auto simp: exists_where_iff split: if_splits)
    let ?P = "\<lambda>t. t_pocket t = pid \<and> t_role t = role"
    have d': "participants d' = update_where ?P (\<lambda>t. t\<lparr>t_user := Some uid\<rparr>) (participants d)"
      using run by (auto split: if_splits)
    show "parties_ok d'"
    proof (rule update_seat_ok [OF ok d'])
      fix t t'
      assume t: "t \<in> set (participants d)" "t' \<in> set (participants d)" "?P t" "t_pocket t = t_pocket t'"
        "t_user (t\<lparr>t_user := Some uid\<rparr>) =
          (if ?P t' then t_user (t'\<lparr>t_user := Some uid\<rparr>) else t_user t')"
      then have "t_role t' = role" using free [OF t(1) _ _ t(2)] by (simp split: if_splits)
      with t parties_role [OF ok t(1,2,4)] show "t = t'" by simp
    qed simp
  qed
qed

section \<open>Whole transactions\<close>

lemma keeps_record [intro, simp]: "keeps_parties (recordSettlementLegsTx pid es)"
proof -
  have "keeps_parties (insert_legs pid ls)" for ls
    by (induction ls) auto
  then show ?thesis
    by (induction pid es rule: recordSettlementLegsTx.induct) auto
qed

lemma keeps_transition [intro, simp]: "keeps_parties (applyTransitionTx pid actor rec now ev)"
  unfolding applyTransitionTx_def by (intro keeps_bind keeps_basic keeps_writes keeps_record)

lemma keeps_roles [intro, simp]: "keeps_parties (insertRolesTx mint creator now pid roles)"
  by (induction roles) (auto intro!: keeps_bind split: prod.splits)

lemma keeps_bodies [intro, simp]:
  "keeps_parties (CreatePocket_tx mint sc i dr cr roles now)"
  "keeps_parties (Claim_tx st pid role uid)"
  "keeps_parties (Accept_tx st pid role a actor now)"
  "keeps_parties (RunTransition_tx st pid actor ev now)"
  "keeps_parties (Cancel_tx st pid actor now)"
  "keeps_parties (ConvertToBrokered_tx st mint pid b v now)"
  unfolding CreatePocket_tx_def Claim_tx_def claimParticipantTx_def Accept_tx_def
    awaiting_vendor_tx_def create_aggregate_tx_def RunTransition_tx_def Cancel_tx_def
    cancel_draft_tx_def ConvertToBrokered_tx_def Let_def
  by (auto intro!: keeps_bind split: prod.splits)

lemma keeps_run: "keeps_parties f \<Longrightarrow> parties_ok d \<Longrightarrow> parties_ok (snd (run_tx f d))"
  by (auto simp: run_tx_def keeps_parties_def split: sum.splits)

lemma keeps_sweep: "parties_ok d \<Longrightarrow> parties_ok (snd (sweepOne st locked due ev now d))"
proof -
  have "keeps_parties (bind_tx (applyTransitionTx pid a rec now ev) (\<lambda>res. return_tx (Some res)))"
    for pid a rec by auto
  then have "keeps_parties (\<lambda>d. case select_one (\<lambda>r. due r \<and> \<not> locked (r_id r)) (pockets d) of
       None \<Rightarrow> Inr (None, d)
     | Some r \<Rightarrow> bind_tx (applyTransitionTx (r_id r) RoleSystem (scanPocket st r) now ev)
                   (\<lambda>res. return_tx (Some res)) d)"
    unfolding keeps_parties_def by (auto split: option.splits)
  then show "parties_ok d \<Longrightarrow> parties_ok (snd (sweepOne st locked due ev now d))"
    unfolding sweepOne_def by (rule keeps_run)
qed

lemma exec_op_parties:
  assumes "parties_ok d"
  shows "parties_ok (exec_op st op d)"
proof (cases op)
  case (OpSweep rule locked now)
  then show ?thesis
    using assms by (cases rule) (simp_all add: SweepOneExpiredFunding_def SweepOneDeliveryDeadline_def
        SweepOneGraceRefund_def SweepOneDueSettlement_def keeps_sweep)
next
  case (OpUserByPhone i phone name)
  have "keeps_parties (UpsertUserByPhone_tx i phone name)"
    by (rule keeps_frame) (auto simp: UpsertUserByPhone_tx_def upsertUserTx_def insert_user_def
        set_users_def modify_users_tx_def res_simps split: option.splits if_splits)
  with OpUserByPhone assms show ?thesis by (simp add: UpsertUserByPhone_def keeps_run)
next
  case (OpUserByGoogle i sub email name av)
  have "keeps_parties (UpsertUserByGoogle_tx i sub email name av)"
    by (rule keeps_frame) (auto simp: UpsertUserByGoogle_tx_def google_id_tx_def insert_user_def
        set_users_def modify_users_tx_def res_simps split: option.splits if_splits)
  with OpUserByGoogle assms show ?thesis by (simp add: UpsertUserByGoogle_def keeps_run)
qed (use assms in \<open>auto simp: CreatePocket_def Claim_def Accept_def RunTransition_def Cancel_def
    ConvertToBrokered_def keeps_run SetAdmin_def RecordSanction_def set_users_def InsertSession_def
    SessionUser_def RevokeSession_def RecordWebhookEvent_def MarkWebhookProcessed_def
    InsertEvidence_def AttestNonReceipt_def SetFundingLink_def SetFundingTransaction_def
    SetReleaseCode_def modify_pockets_def ClaimSettlementLeg_def ReleaseSettlementLeg_def
    FailSettlementLeg_def ConfirmSettlement_def update_settlements_def Let_def
    intro: parties_side split: option.splits\<close>)

lemma db_reach_parties: "db_reach st d \<Longrightarrow> parties_ok d"
proof (induction rule: db_reach.induct)
  case start
  show ?case by (simp add: parties_ok_def empty_db_def)
next
  case (op d op)
  then show ?case by (simp add: exec_op_parties)
qed

end
