(* ===== verification/Store_Demo.thy ===== *)
theory Store_Demo
  imports Store_Parties
begin

text \<open>
  A small deployment the claims about the store are applied to: a vendor creates a pocket, the
  buyer claims and accepts it, the payment arrives, the code is entered and the sweeper settles.
\<close>

definition run_ops :: "store \<Rightarrow> store_op list \<Rightarrow> db \<Rightarrow> db" where
  "run_ops st ops d = fold (exec_op st) ops d"

lemma run_ops_reach:
  "db_reach st d \<Longrightarrow> list_all op_ids_ok ops \<Longrightarrow> db_reach st (run_ops st ops d)"
  unfolding run_ops_def by (induction ops arbitrary: d) (auto intro: db_reach.op)

definition demo_store :: store where
  "demo_store = \<lparr>fundingLinkTTL = 72 * time_Hour, gracePeriod = 24 * time_Hour,
     evidenceCaptureWindow = time_Hour\<rparr>"

definition demo_mint :: minter where
  "demo_mint pid role = Inr (''token:'' @ pid @ role_text role, ''hash:'' @ pid @ role_text role)"

definition demo_draft :: pocket_draft where
  "demo_draft = \<lparr>dr_Structure = StructureP2P, dr_CreatorRole = RoleVendor, dr_Mode = ModeCooldown,
     dr_InspectionWindow = time_Hour, dr_DeliveryWindow = 48 * time_Hour, dr_AmountKobo = 5000000,
     dr_CommissionKobo = 0, dr_PremiumKobo = 20000, dr_ItemDescription = ''phone'', dr_Category = []\<rparr>"

definition demo_ops :: "store_op list" where
  "demo_ops =
     [OpUserByPhone ''u1'' ''0801'' ''Ada'', OpUserByPhone ''u2'' ''0802'' ''Bayo'',
      OpCreate demo_mint (Inr ''sc1'') ''p1'' demo_draft \<lparr>ci_Role = RoleVendor, ci_UserID = ''u1''\<rparr>
        [RoleBuyer, RoleVendor] 100,
      OpClaim ''p1'' RoleBuyer ''u2'',
      OpAccept ''p1'' RoleBuyer ''12 Marina'' RoleBuyer 200,
      OpTransition ''p1'' RoleSystem (event_of EvFundingConfirmed) 300,
      OpTransition ''p1'' RoleVendor (event_of EvCodeAccepted) 400,
      OpSweep RuleDueSettlement (\<lambda>_. False) (400 + time_Hour)]"

text \<open>The database after the first \<open>n\<close> operations: 3 drafts the pocket, 5 accepts it, 6 funds
  it, 7 enters the code and 8 settles.\<close>

definition demo_db :: "nat \<Rightarrow> db" where
  "demo_db n = run_ops demo_store (take n demo_ops) empty_db"

lemma demo_reach: "db_reach demo_store (demo_db n)"
proof -
  have "list_all op_ids_ok demo_ops"
    by (simp add: demo_ops_def plain_id_def)
  then have "list_all op_ids_ok (take n demo_ops)"
    by (auto simp: list_all_iff dest: in_set_takeD)
  then show ?thesis unfolding demo_db_def by (intro run_ops_reach db_reach.start)
qed

end
