(* ===== verification/Store_Claims.thy ===== *)
theory Store_Claims
  imports Store_Demo
begin

text \<open>
  The claims about the store: the ledger, the audit log and the seats of every reachable
  database, the refinement of the domain's transition function by the write path, and the
  operations of a draft.
\<close>

section \<open>Every reachable database\<close>

text \<open>C8: The settlement ledger of every reachable database holds for each pocket exactly the
  legs its state calls for (the payout plan when SETTLED, one full refund when REFUNDED, none
  otherwise), and no idempotency key occurs twice.\<close>

theorem reachable_ledger:
  assumes "db_reach st d" and "r \<in> set (pockets d)"
  shows "map leg_of (filter (\<lambda>s. s_pocket s = r_id r) (settlements d)) = terminal_legs r \<and>
    distinct (map s_key (settlements d))"
proof -
  have "wf_db d" using db_reach_good [OF assms(1)] by (simp add: good_db_def)
  then show ?thesis
    using wf_unique_legs [of d] assms(2)
    by (auto simp: wf_db_def wf_ledger_def legs_of_def unique_legs_def)
qed

theorem reachable_ledger_witness:
  "\<exists>r \<in> set (pockets (demo_db 8)). r_state r = StateSettled \<and>
     map leg_of (filter (\<lambda>s. s_pocket s = r_id r) (settlements (demo_db 8))) =
       [(Payout, RoleVendor, 5000000)]"
proof -
  have "\<exists>r \<in> set (pockets (demo_db 8)). r_state r = StateSettled \<and>
      terminal_legs r = [(Payout, RoleVendor, 5000000)]"
    by code_simp
  with reachable_ledger [OF demo_reach] show ?thesis by metis
qed

text \<open>C9: Conservation in the database: for a SETTLED pocket the amounts of its legs plus the
  premium add up to the buyer's total, for a REFUNDED one they are the buyer's total.\<close>

theorem ledger_conserves_money:
  assumes "db_reach st d" and "r \<in> set (pockets d)"
    and "r_state r = StateSettled \<or> r_state r = StateRefunded"
  shows "sum_list (map s_amount_kobo (filter (\<lambda>s. s_pocket s = r_id r) (settlements d))) =
    (if r_state r = StateSettled then r_buyer_total_kobo r - r_premium_kobo r
     else r_buyer_total_kobo r)"
proof -
  have wf: "wf_db d" using db_reach_good [OF assms(1)] by (simp add: good_db_def)
  have check: "pocket_row_check r" using wf assms(2) by (auto simp: wf_db_def wf_rows_def)
  have "map s_amount_kobo (filter (\<lambda>s. s_pocket s = r_id r) (settlements d)) =
      map (\<lambda>(_, _, a). a) (legs_of (r_id r) (settlements d))"
    by (simp add: legs_of_def leg_of_def)
  also have "legs_of (r_id r) (settlements d) = terminal_legs r"
    using wf assms(2) by (auto simp: wf_db_def wf_ledger_def)
  finally show ?thesis
    using check assms(3) by (auto simp: terminal_legs_def pocket_row_check_def)
qed

theorem ledger_conserves_money_witness:
  "\<exists>r \<in> set (pockets (demo_db 8)). r_state r = StateSettled \<and>
     sum_list (map s_amount_kobo (filter (\<lambda>s. s_pocket s = r_id r) (settlements (demo_db 8)))) =
       r_buyer_total_kobo r - r_premium_kobo r"
proof -
  have "\<exists>r \<in> set (pockets (demo_db 8)). r_state r = StateSettled" by code_simp
  then obtain r where r: "r \<in> set (pockets (demo_db 8))" "r_state r = StateSettled" by blast
  with ledger_conserves_money [OF demo_reach r(1)] show ?thesis by (intro bexI [of _ r]) simp_all
qed

text \<open>C16: The audit log is a gap-free history: in every reachable database the events of a
  pocket form a path of legal moves from DRAFT to its current state, and its version is one
  more than their number.\<close>

theorem reachable_audit:
  assumes "db_reach st d" and "r \<in> set (pockets d)"
  shows "chain StateDraft (Events (r_id r) d) (r_state r) \<and>
    r_version r = 1 + int (CountEvents (r_id r) d)"
  using db_reach_good [OF assms(1)] assms(2) by (auto simp: good_db_def audit_ok_def)

theorem reachable_audit_witness:
  "\<exists>r \<in> set (pockets (demo_db 8)). r_version r = 5 \<and>
     chain StateDraft (Events (r_id r) (demo_db 8)) StateSettled"
proof -
  have "\<exists>r \<in> set (pockets (demo_db 8)). r_version r = 5 \<and> r_state r = StateSettled" by code_simp
  with reachable_audit [OF demo_reach] show ?thesis by metis
qed

text \<open>C20: The parties of a pocket are distinct in every reachable database: one row per role,
  and no account holds two roles of the same pocket.\<close>

theorem parties_distinct:
  assumes "db_reach st d" and "t \<in> set (participants d)" and "t' \<in> set (participants d)"
    and "t_pocket t = t_pocket t'" and "t_role t = t_role t' \<or> (t_user t = t_user t' \<and> t_user t \<noteq> None)"
  shows "t = t'"
  using assms(5) parties_role [OF db_reach_parties [OF assms(1)] assms(2-4)]
    parties_user [OF db_reach_parties [OF assms(1)] assms(2-4)] by blast

theorem parties_distinct_witness:
  "{t \<in> set (participants (demo_db 8)). t_pocket t = ''p1'' \<and> t_role t = RoleBuyer} =
     {participants (demo_db 8) ! 0}"
proof -
  let ?t = "participants (demo_db 8) ! 0"
  have two: "length (participants (demo_db 8)) = 2" by code_simp
  have at: "t_pocket ?t = ''p1''" "t_role ?t = RoleBuyer" by code_simp+
  have mem: "?t \<in> set (participants (demo_db 8))" using two by simp
  have "t = ?t"
    if "t \<in> set (participants (demo_db 8))" "t_pocket t = ''p1''" "t_role t = RoleBuyer" for t
    by (rule parties_distinct [OF demo_reach that(1) mem]) (use that at in simp_all)
  with mem at show ?thesis by blast
qed

section \<open>The write path refines the domain\<close>

text \<open>C6: \<open>RunTransition\<close> implements the domain's \<open>Transition\<close> on the stored aggregate: on a
  reachable database, for a live pocket and an actor the schema admits, it fails exactly when
  the domain refuses the event, with the domain's error and an unchanged database; otherwise
  the pocket's row reads back as the domain's outcome with the version advanced by one, one
  audit event is appended, and every other pocket is as before.\<close>

theorem transition_refines_domain:
  assumes "db_reach st d" and "pocket_by_id pid d = Some r" and "r_state r \<noteq> StateDraft"
    and "actor_fits actor (ev_Kind ev)"
  shows "case Transition (row_pocket st r) now ev of
      Inl e \<Rightarrow> RunTransition st pid actor ev now d = (Inl e, d)
    | Inr out \<Rightarrow> \<exists>d' r'. RunTransition st pid actor ev now d =
          (Inr \<lparr>wr_PocketID = pid, wr_FromState = r_state r, wr_Outcome = out\<rparr>, d') \<and>
        pocket_by_id pid d' = Some r' \<and> row_pocket st r' = stored st (out_Pocket out) \<and>
        r_version r' = r_version r + 1 \<and> CountEvents pid d' = CountEvents pid d + 1 \<and>
        (\<forall>k. k \<noteq> pid \<longrightarrow> pocket_by_id k d' = pocket_by_id k d)"
proof -
  have wf: "wf_db d" using db_reach_good [OF assms(1)] by (simp add: good_db_def)
  have r: "r \<in> set (pockets d)" "r_id r = pid"
    using assms(2) by (auto simp: pocket_by_id_def dest: select_one_Some)
  have body: "RunTransition st pid actor ev now d =
      run_tx (applyTransitionTx (r_id r) actor (scanPocket st r) now ev) d"
    using assms(2,3) r(2)
    by (simp add: RunTransition_def RunTransition_tx_def selectPocketForUpdateTx_def GetByID_def
        scan_found_def run_tx_def bind_tx_def read_tx_def)
  show ?thesis
  proof (cases "Transition (row_pocket st r) now ev")
    case (Inl e)
    then show ?thesis
      by (simp add: body run_tx_def applyTransitionTx_def bind_tx_def lift_tx_def)
  next
    case (Inr out)
    obtain ds where run: "applyTransitionTx (r_id r) actor (scanPocket st r) now ev d =
        Inr (\<lparr>wr_PocketID = r_id r, wr_FromState = r_state r, wr_Outcome = out\<rparr>,
          after_transition d r actor ev (out_Pocket out) ds)"
      using transition_succeeds [OF wf r(1) Inr assms(4)] by blast
    have "same_stored_terms (row_pocket st r) (out_Pocket out)"
      using Transition_same_terms [OF Inr] by (rule same_terms_stored)
    note readback = row_pocket_write [OF this]
    have "CountEvents pid (after_transition d r actor ev (out_Pocket out) ds) = CountEvents pid d + 1"
      using r(2) by (simp add: CountEvents_def after_transition_def transition_event_def)
    with run readback assms(2) r(2) show ?thesis
      by (simp add: Inr body run_tx_def after_transition_pocket option.map_ident)
  qed
qed

theorem transition_refines_domain_witness:
  "\<exists>r d' r' out. pocket_by_id ''p1'' (demo_db 6) = Some r \<and>
     Transition (row_pocket demo_store r) 400 (event_of EvCodeAccepted) = Inr out \<and>
     pocket_by_id ''p1'' d' = Some r' \<and> row_pocket demo_store r' = stored demo_store (out_Pocket out) \<and>
     snd (RunTransition demo_store ''p1'' RoleVendor (event_of EvCodeAccepted) 400 (demo_db 6)) = d'"
proof -
  have "(case pocket_by_id ''p1'' (demo_db 6) of None \<Rightarrow> False
      | Some r \<Rightarrow> r_state r = StateFunded \<and> \<not> r_code_locked r)"
    by code_simp
  then obtain r where r: "pocket_by_id ''p1'' (demo_db 6) = Some r" "r_state r = StateFunded"
      "\<not> r_code_locked r" by (auto split: option.splits)
  have "is_ok (Transition (row_pocket demo_store r) 400 (event_of EvCodeAccepted))"
    using r by (simp add: Transition_ok_iff has_edge_def row_pocket_def)
  then obtain out where out: "Transition (row_pocket demo_store r) 400 (event_of EvCodeAccepted) = Inr out"
    by (auto simp: is_ok_iff)
  have "actor_fits RoleVendor (ev_Kind (event_of EvCodeAccepted))"
    by (simp add: actor_fits_def actor_check_def opens_dispute_def)
  from transition_refines_domain [OF demo_reach r(1) _ this, of 400] r(2) out
  obtain d' r' where "RunTransition demo_store ''p1'' RoleVendor (event_of EvCodeAccepted) 400 (demo_db 6) =
      (Inr \<lparr>wr_PocketID = ''p1'', wr_FromState = r_state r, wr_Outcome = out\<rparr>, d')"
      "pocket_by_id ''p1'' d' = Some r'" "row_pocket demo_store r' = stored demo_store (out_Pocket out)"
    by auto
  with r(1) out show ?thesis by (metis snd_conv)
qed

end
