(* ===== verification/Store_Draft_Claims.thy ===== *)
theory Store_Draft_Claims
  imports Store_Demo
begin

text \<open>
  The claims about the draft operations (acceptance, conversion to a brokered pocket) and the
  sweep rules.
\<close>

section \<open>Acceptance\<close>

lemma pocket_by_id_wf:
  "wf_db d \<Longrightarrow> pocket_by_id pid d = Some r \<longleftrightarrow> r \<in> set (pockets d) \<and> r_id r = pid"
  by (simp add: pocket_by_id_iff wf_db_def)

lemma pocket_after_replace:
  assumes "wf_rows (pockets d)" and "r \<in> set (pockets d)"
    and "pockets d' = replace_row (r_id r) f (pockets d)" and "\<And>x. r_id (f x) = r_id x"
  shows "pocket_by_id (r_id r) d' = Some (f r)"
proof -
  have "wf_rows (pockets d) \<Longrightarrow> distinct (map r_id (pockets d'))"
    using assms(3,4) by (simp add: ids_replace_row wf_rows_def)
  moreover have "f r \<in> set (pockets d')"
    using assms(2,3) by (auto simp: set_replace_row)
  ultimately show ?thesis
    using assms(1,4) select_one_unique [of r_id "pockets d'" "f r" "r_id r"]
    by (simp add: pocket_by_id_def)
qed

lemma roleAccepted_iff:
  assumes "roleAccepted (map (scanParticipantRow [] []) ts) role"
  shows "\<exists>t \<in> set ts. t_role t = role \<and> t_accepted_at t \<noteq> None"
  using assms by (induction ts) (auto split: if_splits)

lemma vendor_first:
  assumes "awaiting_vendor_tx (scanPocket st r) pid role d = Inr (u, d')"
    and "r_structure r = StructureBrokered" and "role = RoleBuyer"
  shows "\<exists>t \<in> set (participants d). t_pocket t = pid \<and> t_role t = RoleVendor \<and> t_accepted_at t \<noteq> None"
proof -
  have "roleAccepted (map (scanParticipantRow [] []) (participants_of pid d)) RoleVendor"
    using assms by (auto simp: awaiting_vendor_tx_def res_simps participantsTx_def row_pocket_def)
  from roleAccepted_iff [OF this] show ?thesis by (auto simp: participants_of_def)
qed

lemma accepted_all_iff:
  assumes "markAcceptedTx pid role now d = Inr (True, d1)"
  shows "allAccepted (map (scanParticipantRow [] []) (participants_of pid d1)) \<longleftrightarrow>
    (\<forall>t \<in> set (participants_of pid d1). t_accepted_at t \<noteq> None)"
proof -
  let ?P = "\<lambda>t. t_pocket t = pid \<and> t_role t = role \<and> t_accepted_at t = None"
  have "rows_affected ?P (participants d) = 1"
    and d1: "participants d1 = update_where ?P (\<lambda>t. t\<lparr>t_accepted_at := Some now\<rparr>) (participants d)"
    using assms by (auto simp: markAcceptedTx_def Let_def)
  then obtain t where "t \<in> set (participants d)" "?P t"
    using rows_affected_zero [of ?P "participants d"] by auto
  then have "t\<lparr>t_accepted_at := Some now\<rparr> \<in> set (participants_of pid d1)"
    by (auto simp: participants_of_def d1 set_update_where image_iff intro!: bexI [of _ t])
  then have "participants_of pid d1 \<noteq> []" by auto
  then show ?thesis
    by (auto simp: allAccepted_def list_all_iff)
qed

lemma create_aggregate_frame:
  assumes "create_aggregate_tx st rec pid actor now d = Inr (x, d')"
  shows "participants d' = participants d \<and> ar_Completed x"
  using assms
  by (auto simp: create_aggregate_tx_def res_simps updatePocketTx_def modify_pockets_def
      insertEventTx_def insert_event_def split: if_splits)

lemma set_address_keeps:
  "r_id (set_address role a x) = r_id x" "r_version (set_address role a x) = r_version x"
  "r_state (set_address role a x) = r_state x"
  using set_address_core [of x role a] by (simp_all add: same_core_def)

lemma aggregate_creates:
  assumes rows: "wf_rows (pockets d)" and r: "r \<in> set (pockets d)" "r_id r = pid"
    and d2: "pockets d2 = replace_row (r_id r) (set_address role a) (pockets d)"
    and run: "create_aggregate_tx st (scanPocket st r) pid actor now d2 = Inr (res, d')"
  shows "\<exists>r'. pocket_by_id pid d' = Some r' \<and> r_state r' = StateCreated"
proof -
  let ?r = "set_address role a r"
  obtain out d3 where new: "New now (specFromRecord st (scanPocket st r)) = Inr out"
      and upd: "updatePocketTx pid (out_Pocket out) (r_version r) d2 = Inr ((), d3)"
      and d': "pockets d' = pockets d3"
    using run by (auto simp: create_aggregate_tx_def res_simps insertEventTx_def insert_event_def split: if_splits)
  have rows2: "wf_rows (pockets d2)"
    unfolding d2 using rows set_address_core
    by (intro wf_rows_replace) (auto simp: wf_rows_def same_core_def)
  moreover have mem: "?r \<in> set (pockets d2)"
    using r(1) by (auto simp: d2 set_replace_row)
  ultimately have "pockets d' = replace_row (r_id ?r) (write_pocket (out_Pocket out)) (pockets d2)"
    using updatePocketTx_current [OF rows2, of ?r "out_Pocket out"] set_address_keeps r(2) upd d' by auto
  from pocket_after_replace [OF rows2 mem this] show ?thesis
    using set_address_keeps r(2) new by simp
qed

text \<open>C18: Acceptance fires transition 1 exactly when it is the last one outstanding: a successful
  \<open>Accept\<close> started from a draft, a brokered buyer's only after the vendor's, and leaves the
  pocket CREATED when every seat has accepted and a DRAFT otherwise.\<close>

theorem accept_completes:
  assumes "db_reach st d" and "Accept st pid role a actor now d = (Inr res, d')"
  shows "(ar_Completed res \<longleftrightarrow> (\<forall>t \<in> set (participants_of pid d'). t_accepted_at t \<noteq> None)) \<and>
    (\<exists>r. pocket_by_id pid d = Some r \<and> r_state r = StateDraft \<and>
       (r_structure r = StructureBrokered \<and> role = RoleBuyer \<longrightarrow>
          (\<exists>t \<in> set (participants d). t_pocket t = pid \<and> t_role t = RoleVendor \<and> t_accepted_at t \<noteq> None))) \<and>
    (\<exists>r'. pocket_by_id pid d' = Some r' \<and>
       r_state r' = (if ar_Completed res then StateCreated else StateDraft))"
proof -
  have wf: "wf_db d" using db_reach_good [OF assms(1)] by (simp add: good_db_def)
  then have rows: "wf_rows (pockets d)" by (simp add: wf_db_def)
  have "Accept_tx st pid role a actor now d = Inr (res, d')"
    using assms(2) by (simp add: Accept_def res_simps)
  then obtain r part s2 u1 ok d1 d2 u parts where r: "r \<in> set (pockets d)" "r_id r = pid"
      and draft: "r_state r = StateDraft"
      and s2: "awaiting_vendor_tx (scanPocket st r) pid role d = Inr (u1, s2)"
      and s3: "markAcceptedTx pid role now s2 = Inr (ok, d1)" "ok"
      and addr: "(if role = RoleBuyer \<and> a \<noteq> [] then setDeliveryAddressTx pid a else return_tx ()) d1 =
        Inr (u, d2)"
      and parts: "parts = map (scanParticipantRow [] []) (participants_of pid d2)"
      and rest: "(if \<not> allAccepted parts then
           return_tx \<lparr>ar_PocketID = pid, ar_Completed = False, ar_State = StateDraft,
             ar_Outcome = None\<rparr>
         else create_aggregate_tx st (scanPocket st r) pid actor now) d2 = Inr (res, d')"
    by (rule Accept_body [OF wf])
  have "s2 = d"
    using s2 by (auto simp: awaiting_vendor_tx_def participantsTx_def res_simps split: if_splits)
  then have "same_tables d d1"
    using asideD [of "markAcceptedTx pid role now", OF _ s3(1)] by simp
  with address_result [OF addr]
  have d2: "pockets d2 = replace_row (r_id r) (set_address role a) (pockets d)"
    by (simp add: same_tables_def r)
  have seats: "participants d2 = participants d1"
    using addr by (auto simp: setDeliveryAddressTx_def modify_pockets_def return_tx_def split: if_splits)
  have all: "allAccepted parts \<longleftrightarrow> (\<forall>t \<in> set (participants_of pid d2). t_accepted_at t \<noteq> None)"
    using accepted_all_iff [of pid role now s2 d1] s3 seats parts by (simp add: participants_of_def)
  have fin: "ar_Completed res = allAccepted parts \<and> participants d' = participants d2"
    using rest create_aggregate_frame by (cases "allAccepted parts") (auto simp: res_simps)
  moreover have "\<exists>r'. pocket_by_id pid d' = Some r' \<and>
      r_state r' = (if ar_Completed res then StateCreated else StateDraft)"
  proof (cases "allAccepted parts")
    case False
    then have "d' = d2" using rest by (simp add: res_simps)
    with False fin draft pocket_after_replace [OF rows r(1) d2] set_address_keeps r(2) show ?thesis by simp
  next
    case True
    with aggregate_creates [OF rows r d2] rest fin show ?thesis by auto
  qed
  moreover have "pocket_by_id pid d = Some r" using r pocket_by_id_wf [OF wf] by simp
  ultimately show ?thesis
    using draft all vendor_first [OF s2] by (auto simp: participants_of_def)
qed

theorem accept_completes_witness:
  "\<exists>res d' r'. Accept demo_store ''p1'' RoleBuyer [] RoleBuyer 200 (demo_db 4) = (Inr res, d') \<and>
     ar_Completed res \<and> pocket_by_id ''p1'' d' = Some r' \<and> r_state r' = StateCreated"
proof -
  let ?run = "Accept demo_store ''p1'' RoleBuyer [] RoleBuyer 200 (demo_db 4)"
  have "(case ?run of (Inl e, _) \<Rightarrow> False | (Inr res, _) \<Rightarrow> ar_Completed res)"
    by code_simp
  then obtain res d' where run: "?run = (Inr res, d')" and c: "ar_Completed res"
    by (cases ?run) (auto split: sum.splits)
  from accept_completes [OF demo_reach run] c obtain r' where
      "pocket_by_id ''p1'' d' = Some r'" "r_state r' = StateCreated" by auto
  with run c show ?thesis by blast
qed

end
