(* ===== verification/Link_Token.thy ===== *)
theory Link_Token
  imports Go_Strings
begin

text \<open>
  Role-scoped link tokens (\<^verbatim>\<open>internal/linktoken\<close>).  A token is
  \<^verbatim>\<open>pocketID.role.nonce.signature\<close>, signed with HMAC-SHA256 under the minter's secret;
  \<open>hmac\<close> (key, message to digest bytes) and \<open>sha\<close> are parameters, the nonce draw an
  argument.  Roles are the texts the token carries.
\<close>

record claims =
  cl_PocketID :: string
  cl_Role :: string

definition dot_join :: "string list \<Rightarrow> string" where
  "dot_join = join_with (CHR ''.'')"

definition sign_token :: "(string \<Rightarrow> string \<Rightarrow> string) \<Rightarrow> string \<Rightarrow> string \<Rightarrow> string" where
  "sign_token hmac secret payload = hex_encode (hmac secret payload)"

definition token_hash :: "(string \<Rightarrow> string) \<Rightarrow> string \<Rightarrow> string" where
  "token_hash sha token = hex_encode (sha token)"

definition EqualHash :: "string \<Rightarrow> string \<Rightarrow> bool" where
  "EqualHash a b \<longleftrightarrow> a = b"

text \<open>\<open>draw\<close> is the outcome of filling the 16-byte nonce.\<close>

definition Mint :: "(string \<Rightarrow> string \<Rightarrow> string) \<Rightarrow> (string \<Rightarrow> string) \<Rightarrow> string \<Rightarrow> string res \<Rightarrow>
    string \<Rightarrow> string \<Rightarrow> (string \<times> string) res" where
  "Mint hmac sha secret draw pocketID role =
     bind_res draw (\<lambda>nonce.
       let payload = dot_join [pocketID, role, hex_encode nonce];
           token = payload @ ''.'' @ sign_token hmac secret payload
       in Inr (token, token_hash sha token))"

definition Parse :: "(string \<Rightarrow> string \<Rightarrow> string) \<Rightarrow> string \<Rightarrow> string \<Rightarrow> claims res" where
  "Parse hmac secret token = (case split_on (CHR ''.'') token of
       [pocketID, role, nonce, sig] \<Rightarrow>
         (if pocketID = [] \<or> role = [] \<or> nonce = [] then Inl ErrInvalidToken
          else if sig \<noteq> sign_token hmac secret (dot_join [pocketID, role, nonce]) then Inl ErrInvalidToken
          else Inr \<lparr>cl_PocketID = pocketID, cl_Role = role\<rparr>)
     | _ \<Rightarrow> Inl ErrInvalidToken)"

section \<open>What a token proves\<close>

abbreviation plain_part :: "string \<Rightarrow> bool" where
  "plain_part s \<equiv> s \<noteq> [] \<and> CHR ''.'' \<notin> set s"

lemma sign_token_plain [simp]: "CHR ''.'' \<notin> set (sign_token hmac secret payload)"
  by (simp add: sign_token_def)

lemma token_parts:
  "dot_join [p, r, n] @ ''.'' @ s = dot_join [p, r, n, s]"
  by (simp add: dot_join_def)

lemma split_token:
  assumes "plain_part p" and "plain_part r" and "plain_part n" and "CHR ''.'' \<notin> set s"
  shows "split_on (CHR ''.'') (dot_join [p, r, n, s]) = [p, r, n, s]"
  unfolding dot_join_def by (rule split_join) (use assms in auto)

lemma Parse_iff:
  "Parse hmac secret token = Inr c \<longleftrightarrow>
     (\<exists>nonce. plain_part (cl_PocketID c) \<and> plain_part (cl_Role c) \<and> plain_part nonce \<and>
       token = dot_join [cl_PocketID c, cl_Role c, nonce,
         sign_token hmac secret (dot_join [cl_PocketID c, cl_Role c, nonce])])"
  (is "?L \<longleftrightarrow> ?R")
proof
  assume ?L
  then obtain p r n s where parts: "split_on (CHR ''.'') token = [p, r, n, s]"
      and ok: "p \<noteq> []" "r \<noteq> []" "n \<noteq> []" "s = sign_token hmac secret (dot_join [p, r, n])"
      and c: "c = \<lparr>cl_PocketID = p, cl_Role = r\<rparr>"
    by (auto simp: Parse_def split: list.splits if_splits)
  have "CHR ''.'' \<notin> set x" if "x \<in> {p, r, n}" for x
    using split_on_parts [of x "CHR ''.''" token] that parts by auto
  moreover have "token = dot_join [p, r, n, s]"
    using join_split [of "CHR ''.''" token] parts by (simp add: dot_join_def)
  ultimately show ?R using ok c by auto
next
  assume ?R
  then obtain n where "plain_part (cl_PocketID c)" "plain_part (cl_Role c)" "plain_part n"
      "token = dot_join [cl_PocketID c, cl_Role c, n,
         sign_token hmac secret (dot_join [cl_PocketID c, cl_Role c, n])]" by blast
  then show ?L by (simp add: Parse_def split_token)
qed

text \<open>A token that parses carries the keyed digest of its own three claims.\<close>

lemma Parse_signed:
  assumes "Parse hmac secret token = Inr c"
  obtains nonce where "token = dot_join [cl_PocketID c, cl_Role c, nonce] @ ''.'' @
    hex_encode (hmac secret (dot_join [cl_PocketID c, cl_Role c, nonce]))"
  using assms unfolding Parse_iff token_parts [symmetric] sign_token_def by blast

text \<open>Link tokens round-trip and cannot be forged from parts: a minted token parses to exactly
  the pocket and role it was minted for, and any text that parses is, up to the choice of nonce,
  a minted one -- its last segment is the keyed digest of its first three.\<close>

theorem token_round_trip:
  assumes "plain_part pocketID" and "plain_part role" and "nonce \<noteq> []"
  shows "\<exists>token. Mint hmac sha secret (Inr nonce) pocketID role = Inr (token, token_hash sha token) \<and>
    Parse hmac secret token = Inr \<lparr>cl_PocketID = pocketID, cl_Role = role\<rparr> \<and>
    (\<forall>other c. Parse hmac secret other = Inr c \<longrightarrow>
      (\<exists>n. other = dot_join [cl_PocketID c, cl_Role c, n] @ ''.'' @
        hex_encode (hmac secret (dot_join [cl_PocketID c, cl_Role c, n]))))"
proof -
  have "hex_encode nonce \<noteq> []" using assms(3) by (cases nonce) simp_all
  then have nonce: "plain_part (hex_encode nonce)" by simp
  let ?payload = "dot_join [pocketID, role, hex_encode nonce]"
  let ?token = "?payload @ ''.'' @ sign_token hmac secret ?payload"
  have "Mint hmac sha secret (Inr nonce) pocketID role = Inr (?token, token_hash sha ?token)"
    by (simp add: Mint_def Let_def)
  moreover have "Parse hmac secret ?token = Inr \<lparr>cl_PocketID = pocketID, cl_Role = role\<rparr>"
    unfolding token_parts Parse_iff using assms nonce by auto
  ultimately show ?thesis using Parse_signed by metis
qed

theorem token_round_trip_witness:
  "\<exists>token. Mint (\<lambda>k m. take 2 (k @ rev m)) id ''k'' (Inr ''n'') ''p1'' ''buyer'' = Inr (token, hex_encode token) \<and>
     Parse (\<lambda>k m. take 2 (k @ rev m)) ''k'' token = Inr \<lparr>cl_PocketID = ''p1'', cl_Role = ''buyer''\<rparr>"
  using token_round_trip [of "''p1''" "''buyer''" "''n''" "\<lambda>k m. take 2 (k @ rev m)" id "''k''"]
  by (auto simp: token_hash_def)

end
