(* ===== verification/Link_Minter.thy ===== *)
theory Link_Minter
  imports Store_Executor Link_Token
begin

text \<open>
  The minter the application hands to the store (\<^verbatim>\<open>linktoken.Minter\<close> as \<^verbatim>\<open>executor.go\<close> and
  \<^verbatim>\<open>convert.go\<close> call it), and why minting again withdraws an invitation: a token under a new
  nonce is a new text, so the persisted hash of the new one accepts the old one only on a
  collision of the digest.
\<close>

text \<open>\<open>draws\<close> holds the outcome of the nonce draw for each role minted in one call.\<close>

definition link_minter :: "(string \<Rightarrow> string \<Rightarrow> string) \<Rightarrow> (string \<Rightarrow> string) \<Rightarrow> string \<Rightarrow>
    (role \<Rightarrow> string res) \<Rightarrow> minter" where
  "link_minter hmac sha secret draws pid role = Mint hmac sha secret (draws role) pid (role_text role)"

lemma Mint_eq_Inr:
  "Mint hmac sha secret draw pid role = Inr (token, h) \<longleftrightarrow>
     (\<exists>nonce. draw = Inr nonce \<and> h = token_hash sha token \<and>
       token = dot_join [pid, role, hex_encode nonce,
         sign_token hmac secret (dot_join [pid, role, hex_encode nonce])])"
  unfolding Mint_def token_parts [symmetric] by (cases draw) (auto simp: Let_def)

lemma append_separator_eq:
  "x \<notin> set as \<Longrightarrow> x \<notin> set bs \<Longrightarrow> as @ x # cs = bs @ x # ds \<longleftrightarrow> as = bs \<and> cs = ds"
  by (induction as bs rule: list_induct2') auto

lemma hex_encode_eq_iff [simp]: "hex_encode as = hex_encode bs \<longleftrightarrow> as = bs"
  by (metis hex_round_trip option.inject)

lemma token_hash_eq_iff [simp]: "token_hash sha a = token_hash sha b \<longleftrightarrow> sha a = sha b"
  by (simp add: token_hash_def)

lemma Mint_fresh:
  assumes "Mint hmac sha secret (Inr n) pid role = Inr (token, h)"
    and "Mint hmac sha secret (Inr n0) pid role = Inr (old, h0)" and "n0 \<noteq> n"
  shows "old \<noteq> token"
  using assms by (auto simp: Mint_eq_Inr dot_join_def append_separator_eq)

end
