(* ===== verification/Store_Sweep_Claims.thy ===== *)
theory Store_Sweep_Claims
  imports Store_Draft_Claims Link_Minter
begin

text \<open>
  The claims about conversion and the sweep rules of the store.
\<close>

section \<open>Conversion\<close>

lemma replaced_row_found:
  assumes "wf_rows (pockets d)" and "r \<in> set (pockets d)" and "r_id r = pid" and "r_id r' = pid"
    and "pockets d' = replace_row pid (\<lambda>_. r') (pockets d)"
  shows "pocket_by_id pid d' = Some r'"
proof -
  have "map r_id (pockets d') = map r_id (pockets d)" and "r' \<in> set (pockets d')"
    using assms by (auto simp: replace_row_def update_where_def)
  then show ?thesis
    using assms select_one_unique [of r_id "pockets d'" r' pid]
    by (simp add: pocket_by_id_def wf_rows_def)
qed

lemma rekeyed_select:
  assumes "select_one P ts \<noteq> None" and "\<And>t. P (f t) = P t"
  shows "select_one P (update_where P f (ts @ [b])) = map_option f (select_one P ts)"
  using assms(1) by (induction ts) (auto simp: select_one_def update_where_def assms(2))

lemma rekeyed_seat:
  assumes "participant_by_role pid role d = Some t"
    and "participants d' = update_where (\<lambda>t. t_pocket t = pid \<and> t_role t = role) (\<lambda>t. t\<lparr>t_hash := h\<rparr>)
      (participants d @ [b])"
  shows "participant_by_role pid role d' = Some (t\<lparr>t_hash := h\<rparr>)"
  using assms(1) rekeyed_select [of "\<lambda>t. t_pocket t = pid \<and> t_role t = role" "participants d" "\<lambda>t. t\<lparr>t_hash := h\<rparr>" b]
  by (simp add: participant_by_role_def assms(2))

text \<open>C19: Conversion keeps what the buyer agreed to, and withdraws the vendor's invitation: it splits
  the item amount into a positive vendor allocation and a positive commission that add up to it,
  leaves the premium and the buyer's total alone, keeps the pocket a draft, seats the broker as
  accepted, and re-keys the vendor's unclaimed seat with the hash of the token minted from the
  nonce drawn now.  A token minted for that seat from any other nonce is another text, and its
  hash compares equal to the seat's only where SHA-256 collides on the two.\<close>

theorem convert_keeps_total:
  assumes "db_reach st d" and "pocket_by_id pid d = Some r"
    and "ConvertToBrokered st (link_minter hmac sha secret draws) pid broker v now d = (Inr res, d')"
  shows "\<exists>r' t b vt bt n. pocket_by_id pid d' = Some r' \<and> r_state r' = StateDraft \<and>
    r_structure r' = StructureBrokered \<and> 0 < r_amount_kobo r' \<and> 0 < r_commission_kobo r' \<and>
    r_amount_kobo r' + r_commission_kobo r' = r_amount_kobo r \<and>
    r_premium_kobo r' = r_premium_kobo r \<and> r_buyer_total_kobo r' = r_buyer_total_kobo r \<and>
    b \<in> set (participants d') \<and> t_pocket b = pid \<and> t_role b = RoleBroker \<and>
    t_user b = Some broker \<and> t_accepted_at b = Some now \<and>
    link_minter hmac sha secret draws pid RoleBroker = Inr (bt, t_hash b) \<and>
    vr_Tokens res = [(RoleBroker, bt), (RoleVendor, vt)] \<and>
    participant_by_role pid RoleVendor d' = Some t \<and> derefStr (t_user t) = [] \<and>
    draws RoleVendor = Inr n \<and> Mint hmac sha secret (Inr n) pid ''vendor'' = Inr (vt, t_hash t) \<and>
    (\<forall>n0 old h0. Mint hmac sha secret (Inr n0) pid ''vendor'' = Inr (old, h0) \<and> n0 \<noteq> n \<longrightarrow>
      old \<noteq> vt \<and> (EqualHash (t_hash t) (token_hash sha old) \<longleftrightarrow> sha old = sha vt))"
proof -
  have wf: "wf_db d" using db_reach_good [OF assms(1)] by (simp add: good_db_def)
  then have rows: "wf_rows (pockets d)" by (simp add: wf_db_def)
  let ?mint = "link_minter hmac sha secret draws"
  have "ConvertToBrokered_tx st ?mint pid broker v now d = Inr (res, d')"
    using assms(3) by (simp add: ConvertToBrokered_def res_simps)
  then obtain r0 seat d1 d2 d3 u u1 u2 u3 bt bh vt vh where r: "r0 \<in> set (pockets d)" "r_id r0 = pid"
      and draft: "r_state r0 = StateDraft" and v: "0 < v" "v < r_amount_kobo r0"
      and seat: "getParticipantTx pid RoleVendor d = Inr (seat, d)" "part_UserID seat = []"
      and sp: "split_pocket_tx pid v (r_amount_kobo r0 - v) (r_version r0) d = Inr (u, d1)"
      and bm: "?mint pid RoleBroker = Inr (bt, bh)"
      and ins: "insertParticipantTx pid RoleBroker (Some broker) bh (Some now) d1 = Inr (u1, d2)"
      and vm: "?mint pid RoleVendor = Inr (vt, vh)" and rk: "rekey_tx pid RoleVendor vh d2 = Inr (u2, d3)"
      and ev: "insertEventTx pid RoleBroker StateDraft StateDraft ''converted_to_brokered''
        (ConvertPayload v (r_amount_kobo r0 - v)) d3 = Inr (u3, d')"
      and tok: "vr_Tokens res = [(RoleBroker, bt), (RoleVendor, vt)]"
    by (rule Convert_body [OF wf])
  have "pocket_by_id pid d = Some r0" using r pocket_by_id_wf [OF wf] by simp
  then have "r0 = r" using assms(2) by simp
  note r = r [unfolded this] and sp = sp [unfolded this] and v = v [unfolded this]
  obtain r' where r': "pockets d1 = replace_row (r_id r) (\<lambda>_. r') (pockets d)" "r_id r' = pid"
      "r_state r' = r_state r" "r_structure r' = StructureBrokered" "r_amount_kobo r' = v"
      "r_commission_kobo r' = r_amount_kobo r - v" "r_premium_kobo r' = r_premium_kobo r"
      "r_buyer_total_kobo r' = r_buyer_total_kobo r" "participants d1 = participants d"
    using split_pocket_result [OF sp rows r] r(2) by auto
  have d2: "pockets d2 = pockets d1"
      "participants d2 = participants d @ [\<lparr>t_pocket = pid, t_role = RoleBroker,
        t_user = Some broker, t_hash = bh, t_accepted_at = Some now\<rparr>]" (is "_ = _ @ [?b]")
    using ins r'(9) by (auto simp: insertParticipantTx_def insert_participant_def split: if_splits)
  let ?V = "\<lambda>t. t_pocket t = pid \<and> t_role t = RoleVendor"
  have d': "pockets d' = pockets d1"
      "participants d' = update_where ?V (\<lambda>t. t\<lparr>t_hash := vh\<rparr>) (participants d2)"
    using rk insertEvent_result [OF ev] d2 by (auto simp: rekey_tx_def)
  have "pocket_by_id pid d' = Some r'"
    using replaced_row_found [OF rows r r'(2), of d'] r'(1) d'(1) r(2) by simp
  moreover obtain t where t: "participant_by_role pid RoleVendor d = Some t" "t_user t = None \<or> t_user t = Some []"
    using seat by (auto simp: getParticipantTx_def res_simps derefStr_def
        split: option.splits)
  then have "participant_by_role pid RoleVendor d' = Some (t\<lparr>t_hash := vh\<rparr>)"
    using rekeyed_seat [OF t(1), of d' vh ?b] d'(2) d2(2) by simp
  moreover have "?b \<in> set (participants d')"
    by (auto simp: d'(2) d2(2) set_update_where image_iff)
  moreover have "derefStr (t_user (t\<lparr>t_hash := vh\<rparr>)) = []"
    using t(2) by (auto simp: derefStr_def)
  moreover obtain n where n: "draws RoleVendor = Inr n" "Mint hmac sha secret (Inr n) pid ''vendor'' = Inr (vt, vh)"
      "vh = token_hash sha vt"
    using vm by (auto simp: link_minter_def Mint_eq_Inr)
  moreover have "old \<noteq> vt \<and> (EqualHash vh (token_hash sha old) \<longleftrightarrow> sha old = sha vt)"
    if "Mint hmac sha secret (Inr n0) pid ''vendor'' = Inr (old, h0) \<and> n0 \<noteq> n" for n0 old h0
    using Mint_fresh [OF n(2)] that n(3) by (auto simp: EqualHash_def)
  ultimately show ?thesis
    using r' v draft \<open>r0 = r\<close> bm tok
    by (intro exI [of _ r'] exI [of _ "t\<lparr>t_hash := vh\<rparr>"] exI [of _ ?b] exI [of _ vt] exI [of _ bt] exI [of _ n])
      simp
qed

definition buyer_draft :: pocket_draft where
  "buyer_draft = demo_draft\<lparr>dr_CreatorRole := RoleBuyer\<rparr>"

definition demo_tokens :: "string \<Rightarrow> minter" where
  "demo_tokens nonce = link_minter (\<lambda>k m. take 2 (k @ rev m)) id ''k'' (\<lambda>_. Inr nonce)"

definition convert_ops :: "store_op list" where
  "convert_ops =
     [OpUserByPhone ''u1'' ''0801'' ''Ada'', OpUserByPhone ''u2'' ''0802'' ''Bayo'',
      OpCreate (demo_tokens ''A'') (Inr ''sc1'') ''p1'' buyer_draft
        \<lparr>ci_Role = RoleBuyer, ci_UserID = ''u1''\<rparr> [RoleBuyer, RoleVendor] 100]"

lemma convert_reach: "db_reach demo_store (run_ops demo_store convert_ops empty_db)"
  by (rule run_ops_reach [OF db_reach.start]) (simp add: convert_ops_def plain_id_def)

text \<open>The invitation minted with the pocket is not the one the seat answers to afterwards.\<close>

theorem convert_keeps_total_witness:
  "\<exists>r res d' r' t t'. pocket_by_id ''p1'' (run_ops demo_store convert_ops empty_db) = Some r \<and>
     participant_by_role ''p1'' RoleVendor (run_ops demo_store convert_ops empty_db) = Some t \<and>
     ConvertToBrokered demo_store (demo_tokens ''B'') ''p1'' ''u2'' 4500000 150
       (run_ops demo_store convert_ops empty_db) = (Inr res, d') \<and>
     pocket_by_id ''p1'' d' = Some r' \<and> r_amount_kobo r' + r_commission_kobo r' = r_amount_kobo r \<and>
     participant_by_role ''p1'' RoleVendor d' = Some t' \<and> \<not> EqualHash (t_hash t') (t_hash t)"
proof -
  let ?d = "run_ops demo_store convert_ops empty_db"
  let ?run = "ConvertToBrokered demo_store (demo_tokens ''B'') ''p1'' ''u2'' 4500000 150 ?d"
  let ?seat = "participant_by_role ''p1'' RoleVendor ?d"
  have "is_ok (fst ?run)" "pocket_by_id ''p1'' ?d \<noteq> None" by code_simp+
  moreover have old: "map_option (\<lambda>t. Inr (t_hash t)) ?seat =
      Some (map_sum id snd (demo_tokens ''A'' ''p1'' RoleVendor))" by code_simp
  ultimately obtain r res d' t where d: "pocket_by_id ''p1'' ?d = Some r" "?run = (Inr res, d')" "?seat = Some t"
    by (cases ?run) (auto simp: is_ok_iff)
  from convert_keeps_total [OF convert_reach d(1) d(2) [unfolded demo_tokens_def [of "''B''"]]]
  obtain r' t' vt n where r': "pocket_by_id ''p1'' d' = Some r'" "r_amount_kobo r' + r_commission_kobo r' = r_amount_kobo r"
      "participant_by_role ''p1'' RoleVendor d' = Some t'" and n: "(Inr ''B'' :: string res) = Inr n"
      and fresh: "\<forall>n0 old h0. Mint (\<lambda>k m. take 2 (k @ rev m)) id ''k'' (Inr n0) ''p1'' ''vendor'' = Inr (old, h0) \<and> n0 \<noteq> n \<longrightarrow>
        old \<noteq> vt \<and> (EqualHash (t_hash t') (token_hash id old) \<longleftrightarrow> id old = id vt)"
    by (elim exE conjE) (rule that, assumption+)
  obtain old where tk: "Mint (\<lambda>k m. take 2 (k @ rev m)) id ''k'' (Inr ''A'') ''p1'' ''vendor'' = Inr (old, token_hash id old)"
    by (simp add: Mint_def Let_def)
  with old d(3) have "t_hash t = token_hash id old" by (simp add: demo_tokens_def link_minter_def)
  moreover have "\<not> EqualHash (t_hash t') (token_hash id old)" using fresh tk n by auto
  ultimately show ?thesis using d r' by auto
qed

section \<open>Sweep rules\<close>

fun rule_due :: "sweep_rule \<Rightarrow> gotime \<Rightarrow> pocket_row \<Rightarrow> bool" where
  "rule_due RuleExpiredFunding = due_expired_funding"
| "rule_due RuleDeliveryDeadline = due_delivery_deadline"
| "rule_due RuleGraceRefund = due_grace_refund"
| "rule_due RuleDueSettlement = due_settlement"

fun rule_event :: "sweep_rule \<Rightarrow> event" where
  "rule_event RuleExpiredFunding = event_of EvFundingExpired"
| "rule_event RuleDeliveryDeadline = event_of EvDeliveryDeadlineLapsed"
| "rule_event RuleGraceRefund =
     \<lparr>ev_Kind = EvRefundFrozen, ev_Reason = ''grace_nonreceipt'', ev_BadFaith = False\<rparr>"
| "rule_event RuleDueSettlement = event_of EvSettleDue"

lemma run_rule_sweep: "run_rule st rule locked now = sweepOne st locked (rule_due rule now) (rule_event rule) now"
  by (cases rule) (simp_all add: SweepOneExpiredFunding_def SweepOneDeliveryDeadline_def
      SweepOneGraceRefund_def SweepOneDueSettlement_def)

text \<open>The SQL predicate of a rule implies the guard of its event: a claimed row always moves.\<close>

lemma rule_due_ok:
  assumes "rule_due rule now r"
  shows "\<exists>out. Transition (row_pocket st r) now (rule_event rule) = Inr out \<and>
    r_state r \<noteq> p_State (out_Pocket out)"
proof -
  have "is_ok (Transition (row_pocket st r) now (rule_event rule))"
    using assms
    by (cases rule) (auto simp: Transition_ok_iff has_edge_def row_pocket_def derefTime_def due_at_def
        due_expired_funding_def due_delivery_deadline_def due_grace_refund_def due_settlement_def
        split: option.splits)
  then obtain out where out: "Transition (row_pocket st r) now (rule_event rule) = Inr out"
    by (auto simp: is_ok_iff)
  have "r_state r \<noteq> p_State (out_Pocket out)"
    using Transition_edge [OF out] by (cases rule) auto
  with out show ?thesis by blast
qed

lemma rule_due_state:
  "rule_due rule now r \<Longrightarrow> rule_due rule now r' \<Longrightarrow> r_state r' = r_state r"
  by (cases rule) (simp_all add: due_expired_funding_def due_delivery_deadline_def
      due_grace_refund_def due_settlement_def)

definition due_count :: "sweep_rule \<Rightarrow> gotime \<Rightarrow> db \<Rightarrow> nat" where
  "due_count rule now d = length (filter (rule_due rule now) (pockets d))"

lemma filter_replace_less:
  assumes "r \<in> set rs" and "P r" and "\<And>x. r_id x = pid \<Longrightarrow> x \<in> set rs \<Longrightarrow> \<not> P (f x)" and "r_id r = pid"
  shows "length (filter P (replace_row pid f rs)) < length (filter P rs)"
proof -
  have le: "length (filter P (replace_row pid f xs)) \<le> length (filter P xs)"
    if "set xs \<subseteq> set rs" for xs
    using that assms(3) by (induction xs) (auto simp: replace_row_def update_where_def)
  obtain xs ys where rs: "rs = xs @ r # ys" using assms(1) by (auto simp: in_set_conv_decomp)
  have "length (filter P (replace_row pid f xs)) \<le> length (filter P xs)"
      "length (filter P (replace_row pid f ys)) \<le> length (filter P ys)"
    using rs by (auto intro!: le)
  moreover have "\<not> P (f r)" using assms by blast
  ultimately show ?thesis
    using assms(2,4) by (simp add: rs replace_row_def update_where_def)
qed

lemma rule_quiet:
  assumes "rule_due rule now r" and "Transition (row_pocket st r) now (rule_event rule) = Inr out"
  shows "recordDisputeTx pid actor (r_state r) (out_Pocket out) = return_tx ()"
proof -
  have "r_state r \<noteq> StateDisputed"
    using assms(1) by (cases rule) (simp_all add: due_expired_funding_def due_delivery_deadline_def
        due_grace_refund_def due_settlement_def)
  moreover have "\<not> opens_dispute (ev_Kind (rule_event rule))" by (cases rule) (simp_all add: opens_dispute_def)
  ultimately show ?thesis
    using transition_dispute(1) [OF assms(2)] by (auto simp: recordDisputeTx_def return_tx_def Let_def)
qed

lemma run_rule_Some:
  assumes "wf_db d" and "select_one (\<lambda>r. rule_due rule now r \<and> \<not> locked (r_id r)) (pockets d) = Some r"
  obtains out where "Transition (row_pocket st r) now (rule_event rule) = Inr out"
    "run_rule st rule locked now d = (Inr (Some \<lparr>wr_PocketID = r_id r, wr_FromState = r_state r,
       wr_Outcome = out\<rparr>), after_transition d r RoleSystem (rule_event rule) (out_Pocket out) (disputes d))"
proof -
  have r: "r \<in> set (pockets d)" "rule_due rule now r"
    using assms(2) by (auto dest: select_one_Some)
  obtain out where out: "Transition (row_pocket st r) now (rule_event rule) = Inr out"
    using rule_due_ok [OF r(2)] by blast
  have "applyTransitionTx (r_id r) RoleSystem (scanPocket st r) now (rule_event rule) d =
      Inr (\<lparr>wr_PocketID = r_id r, wr_FromState = r_state r, wr_Outcome = out\<rparr>,
        after_transition d r RoleSystem (rule_event rule) (out_Pocket out) (disputes d))"
    using transition_writes [OF assms(1) r(1) out] rule_quiet [OF r(2) out]
    by (simp add: actor_check_def bind_tx_def return_tx_def after_transition_def)
  with assms(2) that [OF out] show ?thesis
    by (simp add: run_rule_sweep sweepOne_def run_tx_def bind_tx_def return_tx_def)
qed

text \<open>C34: A sweep rule never fails on a reachable database, does nothing but its one step, and always
  makes progress: it answers with nothing exactly when every due pocket is locked by another
  transaction, and then leaves the database as it is; otherwise it advances one pocket that was due
  and not locked by the domain's transition for the rule, as the system, and writes that pocket's
  row, one audit event and its closing settlement legs, and nothing else; strictly fewer pockets
  are due afterwards, so draining a rule ends.\<close>

definition rule_step :: "store \<Rightarrow> sweep_rule \<Rightarrow> (string \<Rightarrow> bool) \<Rightarrow> gotime \<Rightarrow> db \<Rightarrow> write_result \<Rightarrow> db \<Rightarrow> bool" where
  "rule_step st rule locked now d res d' \<longleftrightarrow>
     (\<exists>r \<in> set (pockets d). rule_due rule now r \<and> \<not> locked (r_id r) \<and>
       Transition (row_pocket st r) now (rule_event rule) = Inr (wr_Outcome res) \<and>
       wr_PocketID res = r_id r \<and> wr_FromState res = r_state r \<and>
       d' = d\<lparr>pockets := replace_row (r_id r) (write_pocket (out_Pocket (wr_Outcome res))) (pockets d),
         events := events d @ [transition_event (r_id r) RoleSystem (r_state r)
           (p_State (out_Pocket (wr_Outcome res))) (rule_event rule) (db_clock d)],
         settlements := settlements d @ map (leg_row (r_id r) (db_clock d))
           (terminal_legs (write_pocket (out_Pocket (wr_Outcome res)) r))\<rparr>)"

theorem sweep_makes_progress:
  assumes "db_reach st d"
  shows "\<exists>res d'. run_rule st rule locked now d = (Inr res, d') \<and>
    (case res of
       None \<Rightarrow> d' = d \<and> (\<forall>r \<in> set (pockets d). rule_due rule now r \<longrightarrow> locked (r_id r))
     | Some wr \<Rightarrow> rule_step st rule locked now d wr d' \<and> due_count rule now d' < due_count rule now d)"
proof -
  have wf: "wf_db d" using db_reach_good [OF assms] by (simp add: good_db_def)
  show ?thesis
  proof (cases "select_one (\<lambda>r. rule_due rule now r \<and> \<not> locked (r_id r)) (pockets d)")
    case None
    then have "\<forall>r \<in> set (pockets d). rule_due rule now r \<longrightarrow> locked (r_id r)"
      by (simp add: select_one_None_iff)
    with None show ?thesis by (simp add: run_rule_sweep sweepOne_def run_tx_def)
  next
    case (Some r)
    then have r: "r \<in> set (pockets d)" "rule_due rule now r" "\<not> locked (r_id r)"
      by (auto dest: select_one_Some)
    obtain out where T: "Transition (row_pocket st r) now (rule_event rule) = Inr out"
        and run: "run_rule st rule locked now d = (Inr (Some \<lparr>wr_PocketID = r_id r,
          wr_FromState = r_state r, wr_Outcome = out\<rparr>),
          after_transition d r RoleSystem (rule_event rule) (out_Pocket out) (disputes d))"
      by (rule run_rule_Some [OF wf Some])
    have "r_state r \<noteq> p_State (out_Pocket out)" using rule_due_ok [OF r(2), of st] T by auto
    then have "\<not> rule_due rule now (write_pocket (out_Pocket out) x)" for x
      using rule_due_state [OF r(2), of "write_pocket (out_Pocket out) x"] by auto
    then have "due_count rule now (after_transition d r RoleSystem (rule_event rule) (out_Pocket out) (disputes d)) <
        due_count rule now d"
      unfolding due_count_def after_transition_def
      using filter_replace_less [of r "pockets d" "rule_due rule now" "r_id r"
          "write_pocket (out_Pocket out)"] r by simp
    moreover have "rule_step st rule locked now d
        \<lparr>wr_PocketID = r_id r, wr_FromState = r_state r, wr_Outcome = out\<rparr>
        (after_transition d r RoleSystem (rule_event rule) (out_Pocket out) (disputes d))"
      unfolding rule_step_def by (rule bexI [of _ r]) (use r T in \<open>simp_all add: after_transition_def\<close>)
    ultimately show ?thesis using run by simp
  qed
qed

theorem sweep_makes_progress_witness:
  "\<exists>res d'. run_rule demo_store RuleDueSettlement (\<lambda>_. False) (400 + time_Hour) (demo_db 7) =
     (Inr (Some res), d') \<and> rule_step demo_store RuleDueSettlement (\<lambda>_. False) (400 + time_Hour) (demo_db 7) res d' \<and>
     due_count RuleDueSettlement (400 + time_Hour) d' < 1"
proof -
  let ?d = "demo_db 7" and ?now = "400 + time_Hour"
  have one: "due_count RuleDueSettlement ?now ?d = 1" by code_simp
  then have "filter (rule_due RuleDueSettlement ?now) (pockets ?d) \<noteq> []"
    unfolding due_count_def by (metis length_0_conv zero_neq_one)
  then obtain r where "r \<in> set (pockets ?d)" "rule_due RuleDueSettlement ?now r"
    unfolding filter_empty_conv by blast
  with sweep_makes_progress [OF demo_reach [of 7], of RuleDueSettlement "\<lambda>_. False" ?now] one
  show ?thesis by (auto split: option.splits)
qed

text \<open>C35: No refund is automatic: a sweep that ends in REFUNDED was the grace rule, on a FROZEN
  pocket whose grace deadline had passed and whose buyer had attested non-receipt.\<close>

theorem sweep_refund_attested:
  assumes "db_reach st d" and "run_rule st rule locked now d = (Inr (Some res), d')"
    and "p_State (out_Pocket (wr_Outcome res)) = StateRefunded"
  shows "rule = RuleGraceRefund \<and> (\<exists>r. pocket_by_id (wr_PocketID res) d = Some r \<and>
    r_state r = StateFrozen \<and> due_at (r_grace_deadline r) now \<and> r_attested_at r \<noteq> None)"
proof -
  have wf: "wf_db d" using db_reach_good [OF assms(1)] by (simp add: good_db_def)
  show ?thesis
  proof (cases "select_one (\<lambda>r. rule_due rule now r \<and> \<not> locked (r_id r)) (pockets d)")
    case None
    with assms(2) show ?thesis by (simp add: run_rule_sweep sweepOne_def run_tx_def)
  next
    case (Some r)
    then have r: "r \<in> set (pockets d)" "rule_due rule now r"
      by (auto dest: select_one_Some)
    obtain out where T: "Transition (row_pocket st r) now (rule_event rule) = Inr out"
        and run: "run_rule st rule locked now d = (Inr (Some \<lparr>wr_PocketID = r_id r,
          wr_FromState = r_state r, wr_Outcome = out\<rparr>),
          after_transition d r RoleSystem (rule_event rule) (out_Pocket out) (disputes d))"
      by (rule run_rule_Some [OF wf Some])
    have "p_State (out_Pocket out) = StateRefunded" using run assms(2,3) by auto
    then have "rule = RuleGraceRefund" using Transition_edge [OF T] by (cases rule) auto
    moreover have "pocket_by_id (wr_PocketID res) d = Some r"
      using run assms(2) r(1) pocket_by_id_wf [OF wf] by auto
    ultimately show ?thesis using r(2) by (auto simp: due_grace_refund_def)
  qed
qed

definition refund_ops :: "store_op list" where
  "refund_ops = take 6 demo_ops @
     [OpSweep RuleDeliveryDeadline (\<lambda>_. False) (300 + 48 * time_Hour),
      OpAttest ''p1'' (301 + 48 * time_Hour)]"

lemma refund_reach: "db_reach demo_store (run_ops demo_store refund_ops empty_db)"
  by (rule run_ops_reach [OF db_reach.start]) (simp add: refund_ops_def demo_ops_def plain_id_def)

theorem sweep_refund_attested_witness:
  "\<exists>res d' r. run_rule demo_store RuleGraceRefund (\<lambda>_. False) (300 + 72 * time_Hour)
       (run_ops demo_store refund_ops empty_db) = (Inr (Some res), d') \<and>
     pocket_by_id (wr_PocketID res) (run_ops demo_store refund_ops empty_db) = Some r \<and>
     r_attested_at r \<noteq> None"
proof -
  let ?d = "run_ops demo_store refund_ops empty_db"
  let ?run = "run_rule demo_store RuleGraceRefund (\<lambda>_. False) (300 + 72 * time_Hour) ?d"
  have "(case ?run of (Inr (Some res), _) \<Rightarrow> p_State (out_Pocket (wr_Outcome res)) = StateRefunded
      | _ \<Rightarrow> False)" by code_simp
  then obtain res d' where run: "?run = (Inr (Some res), d')"
      and "p_State (out_Pocket (wr_Outcome res)) = StateRefunded"
    by (cases ?run) (auto split: sum.splits option.splits)
  from sweep_refund_attested [OF refund_reach this] run show ?thesis by blast
qed

end
