(* ===== verification/Gateway.thy ===== *)
theory Gateway
  imports Store_Rows
begin

text \<open>
  The payment boundary (\<^verbatim>\<open>internal/gateway\<close>): funding references, the request and answer
  types, the contract of an idempotent provider as a locale, and the mock provider
  (\<^verbatim>\<open>internal/gateway/mock\<close>), which satisfies it.
\<close>

section \<open>Funding references\<close>

definition fundingRefPrefix :: string where
  "fundingRefPrefix = ''escrowpay-''"

definition FundingRef :: "string \<Rightarrow> string" where
  "FundingRef pocketID = fundingRefPrefix @ pocketID"

definition is_hex :: "char \<Rightarrow> bool" where
  "is_hex c \<longleftrightarrow> (let n = (of_char c :: nat) in
     (48 \<le> n \<and> n \<le> 57) \<or> (97 \<le> n \<and> n \<le> 102) \<or> (65 \<le> n \<and> n \<le> 70))"

fun uuid_from :: "nat \<Rightarrow> string \<Rightarrow> bool" where
  "uuid_from i [] = True"
| "uuid_from i (c # cs) =
     ((if i \<in> {8, 13, 18, 23} then c = CHR ''-'' else is_hex c) \<and> uuid_from (Suc i) cs)"

definition looksLikeUUID :: "string \<Rightarrow> bool" where
  "looksLikeUUID s \<longleftrightarrow> length s = 36 \<and> uuid_from 0 s"

definition PocketIDFromRef :: "string \<Rightarrow> string option" where
  "PocketIDFromRef ref = (case cut_prefix fundingRefPrefix ref of
       None \<Rightarrow> None | Some i \<Rightarrow> if looksLikeUUID i then Some i else None)"

lemma PocketIDFromRef_iff: "PocketIDFromRef ref = Some i \<longleftrightarrow> ref = FundingRef i \<and> looksLikeUUID i"
  by (auto simp: PocketIDFromRef_def FundingRef_def cut_prefix_Some_iff split: option.splits if_splits)

section \<open>Requests and answers\<close>

text \<open>The texts of the two definite failures, which the leg keeps as its last error.\<close>

definition ErrRejected_text :: string where
  "ErrRejected_text = ''gateway: request rejected by provider''"

definition ErrNotSubmitted_text :: string where
  "ErrNotSubmitted_text = ''gateway: request not submitted''"

record funding_link =
  fl_Ref :: string
  fl_URL :: string
  fl_ExpiresAt :: gotime

record funding_request =
  fr_PocketID :: string
  fr_ShortCode :: string
  fr_AmountKobo :: int
  fr_CustomerEmail :: string
  fr_ExpiresAt :: gotime

record payout_request =
  pq_PocketID :: string
  pq_BeneficiaryRole :: role
  pq_BeneficiaryAccountRef :: string
  pq_AmountKobo :: int
  pq_IdempotencyKey :: string

record refund_request =
  rq_PocketID :: string
  rq_AmountKobo :: int
  rq_IdempotencyKey :: string

record funding_status =
  fs_Paid :: bool
  fs_PaymentRef :: string
  fs_AmountKobo :: int

datatype payout_status = PayoutStatusUnknown | PayoutStatusConfirmed | PayoutStatusAbsent

text \<open>A gateway over its own state \<open>'g\<close>; the two optional interfaces are options.\<close>

record 'g gateway =
  gw_CreateFundingLink :: "funding_request \<Rightarrow> 'g \<Rightarrow> funding_link res \<times> 'g"
  gw_Payout :: "payout_request \<Rightarrow> 'g \<Rightarrow> string res \<times> 'g"
  gw_Refund :: "refund_request \<Rightarrow> 'g \<Rightarrow> string res \<times> 'g"
  gw_VerifyFunding :: "(string \<Rightarrow> 'g \<Rightarrow> funding_status res \<times> 'g) option"
  gw_PayoutStatus :: "(string \<Rightarrow> 'g \<Rightarrow> (payout_status \<times> string) res \<times> 'g) option"

section \<open>The contract of an idempotent provider\<close>

text \<open>
  \<open>moved g k\<close> counts the money movements the provider has executed under key \<open>k\<close>.  The
  interface documentation promises that submitting the same key twice does not move money
  twice; the client lemma is that any list of submissions moves each key at most once.
\<close>

locale idempotent_provider =
  fixes submit :: "'r \<Rightarrow> 'g \<Rightarrow> string res \<times> 'g"
    and key_of :: "'r \<Rightarrow> string"
    and moved :: "'g \<Rightarrow> string \<Rightarrow> nat"
    and good :: "'g \<Rightarrow> bool"
  assumes good_submit: "good g \<Longrightarrow> good (snd (submit r g))"
    and once: "good g \<Longrightarrow> moved (snd (submit r g)) (key_of r) \<le> 1"
    and other: "good g \<Longrightarrow> k \<noteq> key_of r \<Longrightarrow> moved (snd (submit r g)) k = moved g k"
begin

definition submits :: "'r list \<Rightarrow> 'g \<Rightarrow> 'g" where
  "submits rs g = fold (\<lambda>r g. snd (submit r g)) rs g"

lemma good_submits: "good g \<Longrightarrow> good (submits rs g)"
  unfolding submits_def by (induction rs arbitrary: g) (auto intro: good_submit)

lemma moved_submits: "good g \<Longrightarrow> moved g k \<le> 1 \<Longrightarrow> moved (submits rs g) k \<le> 1"
  unfolding submits_def
proof (induction rs arbitrary: g)
  case (Cons r rs)
  have "moved (snd (submit r g)) k \<le> 1"
    using once [OF Cons.prems(1), of r] other [OF Cons.prems(1), of k r] Cons.prems(2)
    by (cases "k = key_of r") auto
  with Cons show ?case by (simp add: good_submit)
qed simp

end

section \<open>The mock provider\<close>

datatype gw_method = MethodCreateFundingLink | MethodPayout | MethodRefund | MethodVerifyFunding

record gw_call =
  gc_Method :: gw_method
  gc_PocketID :: string
  gc_AmountKobo :: int
  gc_IdempotencyKey :: string

record mock =
  m_calls :: "gw_call list"
  m_byKey :: "string \<Rightarrow> string option"
  m_funding :: "string \<Rightarrow> funding_status option"

definition mock_New :: mock where
  "mock_New = \<lparr>m_calls = [], m_byKey = Map.empty, m_funding = Map.empty\<rparr>"

fun method_text :: "gw_method \<Rightarrow> string" where
  "method_text MethodPayout = ''Payout''"
| "method_text MethodRefund = ''Refund''"
| "method_text MethodCreateFundingLink = ''CreateFundingLink''"
| "method_text MethodVerifyFunding = ''VerifyFunding''"

text \<open>\<open>sha\<close> is \<^verbatim>\<open>sha256.Sum256\<close>.\<close>

definition deriveRef :: "(string \<Rightarrow> string) \<Rightarrow> string \<Rightarrow> string \<Rightarrow> string" where
  "deriveRef sha kind seed = ''mock_'' @ hex_encode (take 8 (sha (kind @ '':'' @ seed)))"

definition mock_CreateFundingLink :: "(string \<Rightarrow> string) \<Rightarrow> funding_request \<Rightarrow> mock \<Rightarrow>
    funding_link res \<times> mock" where
  "mock_CreateFundingLink sha req g =
     (let ref = deriveRef sha ''fund'' (fr_PocketID req) in
      (Inr \<lparr>fl_Ref = ref, fl_URL = ''https://sandbox.invalid/pay/'' @ ref,
            fl_ExpiresAt = fr_ExpiresAt req\<rparr>,
       g\<lparr>m_calls := m_calls g @ [\<lparr>gc_Method = MethodCreateFundingLink,
         gc_PocketID = fr_PocketID req, gc_AmountKobo = fr_AmountKobo req,
         gc_IdempotencyKey = []\<rparr>]\<rparr>))"

definition mock_execute :: "(string \<Rightarrow> string) \<Rightarrow> gw_method \<Rightarrow> string \<Rightarrow> int \<Rightarrow> string \<Rightarrow> mock \<Rightarrow>
    string res \<times> mock" where
  "mock_execute sha how pocketID amount key g =
     (case m_byKey g key of
        Some ref \<Rightarrow> (Inr ref, g)
      | None \<Rightarrow> (let ref = deriveRef sha (method_text how) key in
          (Inr ref, g\<lparr>m_byKey := (m_byKey g)(key \<mapsto> ref),
             m_calls := m_calls g @ [\<lparr>gc_Method = how, gc_PocketID = pocketID,
               gc_AmountKobo = amount, gc_IdempotencyKey = key\<rparr>]\<rparr>)))"

definition mock_Payout :: "(string \<Rightarrow> string) \<Rightarrow> payout_request \<Rightarrow> mock \<Rightarrow> string res \<times> mock" where
  "mock_Payout sha req =
     mock_execute sha MethodPayout (pq_PocketID req) (pq_AmountKobo req) (pq_IdempotencyKey req)"

definition mock_Refund :: "(string \<Rightarrow> string) \<Rightarrow> refund_request \<Rightarrow> mock \<Rightarrow> string res \<times> mock" where
  "mock_Refund sha req =
     mock_execute sha MethodRefund (rq_PocketID req) (rq_AmountKobo req) (rq_IdempotencyKey req)"

definition mock_SetFundingStatus :: "string \<Rightarrow> funding_status \<Rightarrow> mock \<Rightarrow> mock" where
  "mock_SetFundingStatus ref status g = g\<lparr>m_funding := (m_funding g)(ref \<mapsto> status)\<rparr>"

definition mock_VerifyFunding :: "string \<Rightarrow> mock \<Rightarrow> funding_status res \<times> mock" where
  "mock_VerifyFunding ref g =
     (Inr (case m_funding g ref of
             None \<Rightarrow> \<lparr>fs_Paid = False, fs_PaymentRef = [], fs_AmountKobo = 0\<rparr> | Some s \<Rightarrow> s),
      g\<lparr>m_calls := m_calls g @ [\<lparr>gc_Method = MethodVerifyFunding, gc_PocketID = [],
         gc_AmountKobo = 0, gc_IdempotencyKey = ref\<rparr>]\<rparr>)"

text \<open>The log of calls, copied so that a reader never holds the provider's own list.\<close>

definition mock_Calls :: "mock \<Rightarrow> gw_call list" where
  [simp]: "mock_Calls g = m_calls g"

definition mock_gateway :: "(string \<Rightarrow> string) \<Rightarrow> mock gateway" where
  "mock_gateway sha = \<lparr>gw_CreateFundingLink = mock_CreateFundingLink sha,
     gw_Payout = mock_Payout sha, gw_Refund = mock_Refund sha,
     gw_VerifyFunding = Some mock_VerifyFunding, gw_PayoutStatus = None\<rparr>"

section \<open>The mock meets the contract\<close>

definition is_movement :: "string \<Rightarrow> gw_call \<Rightarrow> bool" where
  "is_movement k c \<longleftrightarrow> (gc_Method c = MethodPayout \<or> gc_Method c = MethodRefund) \<and> gc_IdempotencyKey c = k"

definition mock_moved :: "mock \<Rightarrow> string \<Rightarrow> nat" where
  "mock_moved g k = length (filter (is_movement k) (mock_Calls g))"

definition mock_good :: "mock \<Rightarrow> bool" where
  "mock_good g \<longleftrightarrow> (\<forall>k. mock_moved g k = (if m_byKey g k = None then 0 else 1))"

datatype movement = PayoutMove payout_request | RefundMove refund_request

fun movement_key :: "movement \<Rightarrow> string" where
  "movement_key (PayoutMove r) = pq_IdempotencyKey r"
| "movement_key (RefundMove r) = rq_IdempotencyKey r"

fun mock_submit :: "(string \<Rightarrow> string) \<Rightarrow> movement \<Rightarrow> mock \<Rightarrow> string res \<times> mock" where
  "mock_submit sha (PayoutMove r) = mock_Payout sha r"
| "mock_submit sha (RefundMove r) = mock_Refund sha r"

lemma mock_execute_moved:
  assumes "how = MethodPayout \<or> how = MethodRefund"
  shows "mock_moved (snd (mock_execute sha how p a k g)) k' =
    (if k' = k \<and> m_byKey g k = None then Suc (mock_moved g k) else mock_moved g k')"
  using assms by (auto simp: mock_execute_def mock_moved_def is_movement_def Let_def split: option.splits)

lemma mock_execute_good:
  assumes "how = MethodPayout \<or> how = MethodRefund" and "mock_good g"
  shows "mock_good (snd (mock_execute sha how p a k g))"
  using assms(2) unfolding mock_good_def mock_execute_moved [OF assms(1)]
  by (auto simp: mock_execute_def Let_def split: option.splits)

lemma mock_submit_execute:
  obtains how p a where "how = MethodPayout \<or> how = MethodRefund"
    "mock_submit sha r = mock_execute sha how p a (movement_key r)"
  by (cases r) (auto simp: mock_Payout_def mock_Refund_def)

interpretation mock_provider: idempotent_provider "mock_submit sha" movement_key mock_moved mock_good
  for sha
proof unfold_locales
  fix g r k
  assume good: "mock_good g"
  obtain how p a where m: "how = MethodPayout \<or> how = MethodRefund"
      and s: "mock_submit sha r = mock_execute sha how p a (movement_key r)"
    by (rule mock_submit_execute)
  show "mock_good (snd (mock_submit sha r g))" using mock_execute_good [OF m good] by (simp add: s)
  show "mock_moved (snd (mock_submit sha r g)) (movement_key r) \<le> 1"
    using good by (auto simp: s mock_execute_moved [OF m] mock_good_def)
  show "mock_moved (snd (mock_submit sha r g)) k = mock_moved g k" if "k \<noteq> movement_key r"
    using that by (simp add: s mock_execute_moved [OF m])
qed

lemma mock_New_good: "mock_good mock_New"
  by (simp add: mock_good_def mock_New_def mock_moved_def)

end
