(* ===== verification/App.thy ===== *)
theory App
  imports Gateway Store_Reach Premium Link_Minter
begin

text \<open>
  The application layer's core (\<^verbatim>\<open>internal/pocketapp\<close>: \<^verbatim>\<open>app.go\<close>, \<^verbatim>\<open>effects.go\<close>,
  \<^verbatim>\<open>lifecycle.go\<close>): use cases over the store, the gateway and the notifier.  A use case is a
  function on the world, which holds the database, the gateway's state, the sent
  notifications, the clock readings still to come and the random draws still to come: for a
  release code, and for the link tokens of the roles.  The world keeps its changes when a use case fails: only the store's transactions roll back.
\<close>

section \<open>The world\<close>

record notification =
  nt_PocketID :: string
  nt_Role :: role
  nt_Kind :: string
  nt_Message :: string

record 'g world =
  w_db :: db
  w_gw :: 'g
  w_sent :: "notification list"
  w_clock :: "nat \<Rightarrow> gotime"
  w_tick :: nat
  w_draws :: "nat \<Rightarrow> int res \<times> string res"
  w_drawn :: nat
  w_nonces :: "nat \<Rightarrow> role \<Rightarrow> string res"
  w_minted :: nat

type_synonym ('g, 'a) io = "'g world \<Rightarrow> 'a res \<times> 'g world"

definition return_io :: "'a \<Rightarrow> ('g, 'a) io" where
  "return_io x w = (Inr x, w)"

definition fail_io :: "error \<Rightarrow> ('g, 'a) io" where
  "fail_io e w = (Inl e, w)"

definition bind_io :: "('g, 'a) io \<Rightarrow> ('a \<Rightarrow> ('g, 'b) io) \<Rightarrow> ('g, 'b) io" where
  "bind_io m f w = (case m w of (Inl e, w') \<Rightarrow> (Inl e, w') | (Inr x, w') \<Rightarrow> f x w')"

definition db_io :: "(db \<Rightarrow> 'a res \<times> db) \<Rightarrow> ('g, 'a) io" where
  "db_io f w = (case f (w_db w) of (r, d) \<Rightarrow> (r, w\<lparr>w_db := d\<rparr>))"

definition db_read :: "(db \<Rightarrow> 'a res) \<Rightarrow> ('g, 'a) io" where
  "db_read f w = (f (w_db w), w)"

definition db_do :: "(db \<Rightarrow> db) \<Rightarrow> ('g, unit) io" where
  "db_do f w = (Inr (), w\<lparr>w_db := f (w_db w)\<rparr>)"

definition gw_io :: "('g \<Rightarrow> 'a res \<times> 'g) \<Rightarrow> ('g, 'a) io" where
  "gw_io f w = (case f (w_gw w) of (r, g) \<Rightarrow> (r, w\<lparr>w_gw := g\<rparr>))"

text \<open>\<^verbatim>\<open>a.now()\<close>: each call takes the next reading of the clock.\<close>

definition now_io :: "('g, gotime) io" where
  "now_io w = (Inr (w_clock w (w_tick w)), w\<lparr>w_tick := Suc (w_tick w)\<rparr>)"

definition try_io :: "('g, 'a) io \<Rightarrow> (error + 'a \<Rightarrow> ('g, 'b) io) \<Rightarrow> ('g, 'b) io" where
  "try_io m f w = (case m w of (r, w') \<Rightarrow> f r w')"

section \<open>The application\<close>

record 'g app =
  a_store :: store
  a_gateway :: "'g gateway"
  a_linkSecret :: string
  a_hmac :: "string \<Rightarrow> string \<Rightarrow> string"
  a_sha :: "string \<Rightarrow> string"
  a_seal :: "string \<Rightarrow> string \<Rightarrow> string \<Rightarrow> string"
  a_unseal :: "string \<Rightarrow> string \<Rightarrow> string \<Rightarrow> string option"
  a_releaseCodeSecret :: string
  a_fundingLinkTTL :: duration
  a_gracePeriod :: duration
  a_evidenceCaptureWindow :: duration
  a_evidenceMaxBytes :: int
  a_sandbox :: bool
  a_realGateway :: bool
  a_disableSimulateFunding :: bool

definition Sandbox :: "'g app \<Rightarrow> bool" where
  [simp]: "Sandbox a = a_sandbox a"

definition RealGateway :: "'g app \<Rightarrow> bool" where
  [simp]: "RealGateway a = a_realGateway a"

definition EvidenceMaxBytes :: "'g app \<Rightarrow> int" where
  [simp]: "EvidenceMaxBytes a = a_evidenceMaxBytes a"

definition CanSimulateFunding :: "'g app \<Rightarrow> bool" where
  "CanSimulateFunding a \<longleftrightarrow> a_sandbox a \<and> \<not> a_disableSimulateFunding a"

definition participantRoles :: "pocket_structure \<Rightarrow> role list" where
  "participantRoles s =
     (if s = StructureBrokered then [RoleBuyer, RoleVendor, RoleBroker] else [RoleBuyer, RoleVendor])"

section \<open>Effects\<close>

fun notify_text :: "notify_kind \<Rightarrow> string" where
  "notify_text NotifyFundsSecured = ''funds_secured''"
| "notify_text NotifyDeliveryConfirmed = ''delivery_confirmed''"
| "notify_text NotifyHandoffConfirmed = ''handoff_confirmed''"
| "notify_text NotifyCodeLocked = ''code_locked''"
| "notify_text NotifyFundingExpired = ''funding_expired''"
| "notify_text NotifyCancelled = ''cancelled''"
| "notify_text NotifyRefundIssued = ''refund_issued''"
| "notify_text NotifyDeliveryWindowClosed = ''delivery_window_closed''"
| "notify_text NotifyDisputeOpened = ''dispute_opened''"
| "notify_text NotifySettled = ''settled''"

fun messageFor :: "notify_kind \<Rightarrow> string" where
  "messageFor NotifyFundsSecured =
     ''Funds are secured in escrow. Deliver the item and collect the buyer's Release Code.''"
| "messageFor NotifyDeliveryConfirmed = ''Delivery confirmed. Your inspection window has started.''"
| "messageFor NotifyHandoffConfirmed =
     ''Handoff confirmed. Settlement follows once the inspection window closes.''"
| "messageFor NotifyCodeLocked =
     ''The Release Code is locked after too many attempts. Support has been notified.''"
| "messageFor NotifyFundingExpired = ''The funding window expired and the pocket was closed.''"
| "messageFor NotifyCancelled = ''The pocket was cancelled.''"
| "messageFor NotifyRefundIssued = ''A refund has been issued to the buyer.''"
| "messageFor NotifyDeliveryWindowClosed =
     ''The delivery window closed without a Release Code. A grace period has started.''"
| "messageFor NotifyDisputeOpened = ''A dispute was opened. Please upload your evidence.''"
| "messageFor NotifySettled = ''The pocket settled and funds were released.''"

text \<open>The notifier is the log stub: it records the event and never fails.\<close>

definition logstub_Send :: "notification \<Rightarrow> ('g, unit) io" where
  "logstub_Send e w = (Inr (), w\<lparr>w_sent := w_sent w @ [e]\<rparr>)"

definition send :: "string \<Rightarrow> role \<Rightarrow> string \<Rightarrow> string \<Rightarrow> ('g, unit) io" where
  "send pid role kind msg =
     logstub_Send \<lparr>nt_PocketID = pid, nt_Role = role, nt_Kind = kind, nt_Message = msg\<rparr>"

definition generateReleaseCode :: "'g app \<Rightarrow> string \<Rightarrow> ('g, unit) io" where
  "generateReleaseCode a pid w =
     (case w_draws w (w_drawn w) of (code_draw, nonce_draw) \<Rightarrow>
      case bind_res (Generate code_draw) (\<lambda>code.
             bind_res (Seal (a_sha a) (a_seal a) code (a_releaseCodeSecret a) nonce_draw) (\<lambda>enc.
               Inr (Hash (a_hmac a) code (a_releaseCodeSecret a), enc))) of
        Inl e \<Rightarrow> (Inl e, w\<lparr>w_drawn := Suc (w_drawn w)\<rparr>)
      | Inr (hash, enc) \<Rightarrow>
          db_do (SetReleaseCode pid hash enc) (w\<lparr>w_drawn := Suc (w_drawn w)\<rparr>))"

definition createFundingLink :: "'g app \<Rightarrow> string \<Rightarrow> int \<Rightarrow> gotime \<Rightarrow> ('g, unit) io" where
  "createFundingLink a pid buyerTotal expiresAt =
     bind_io (db_read (GetByID (a_store a) pid)) (\<lambda>rec.
     bind_io (db_read (\<lambda>d. Inr (fst (FundingContact pid d)))) (\<lambda>email.
     bind_io (gw_io (gw_CreateFundingLink (a_gateway a)
       \<lparr>fr_PocketID = pid, fr_ShortCode = rec_ShortCode rec, fr_AmountKobo = buyerTotal,
        fr_CustomerEmail = email, fr_ExpiresAt = expiresAt\<rparr>)) (\<lambda>link.
       db_do (SetFundingLink pid (fl_Ref link) (fl_URL link)))))"

fun executeEffect :: "'g app \<Rightarrow> string \<Rightarrow> int \<Rightarrow> effect \<Rightarrow> ('g, unit) io" where
  "executeEffect a pid buyerTotal (CreateFundingLink expiresAt) =
     createFundingLink a pid buyerTotal expiresAt"
| "executeEffect a pid buyerTotal GenerateReleaseCode = generateReleaseCode a pid"
| "executeEffect a pid buyerTotal (Notify role kind) =
     send pid role (notify_text kind) (messageFor kind)"
| "executeEffect a pid buyerTotal (PromptEvidence window) =
     send pid RoleBuyer ''record_unboxing''
       ''Record your unboxing video now to protect your purchase.''"
| "executeEffect a pid buyerTotal (SchedulePayout legs) = return_io ()"
| "executeEffect a pid buyerTotal (ExecuteRefund role amount) = return_io ()"
| "executeEffect a pid buyerTotal (StartGrace deadline) = return_io ()"
| "executeEffect a pid buyerTotal (Sanction role kind) = db_do (RecordSanction pid role)"

text \<open>A failed effect is logged and the next one runs.\<close>

definition executeEffects :: "'g app \<Rightarrow> string \<Rightarrow> outcome \<Rightarrow> 'g world \<Rightarrow> 'g world" where
  "executeEffects a pid out w =
     fold (\<lambda>e w. snd (executeEffect a pid (BuyerTotalKobo (out_Pocket out)) e w)) (out_Effects out) w"

definition movesMoney :: "outcome \<Rightarrow> bool" where
  "movesMoney out \<longleftrightarrow> list_ex is_money (out_Effects out)"

section \<open>Disbursement\<close>

definition submit_leg :: "'g app \<Rightarrow> settlement_leg \<Rightarrow> ('g, string) io" where
  "submit_leg a leg = (case sl_Direction leg of
       Payout \<Rightarrow> gw_io (gw_Payout (a_gateway a)
         \<lparr>pq_PocketID = sl_PocketID leg, pq_BeneficiaryRole = sl_BeneficiaryRole leg,
          pq_BeneficiaryAccountRef = [], pq_AmountKobo = sl_AmountKobo leg,
          pq_IdempotencyKey = sl_IdempotencyKey leg\<rparr>)
     | Refund \<Rightarrow> gw_io (gw_Refund (a_gateway a)
         \<lparr>rq_PocketID = sl_PocketID leg, rq_AmountKobo = sl_AmountKobo leg,
          rq_IdempotencyKey = sl_IdempotencyKey leg\<rparr>))"

text \<open>What \<^verbatim>\<open>payLeg\<close> does with the gateway's answer.\<close>

definition finish_leg :: "string \<Rightarrow> error + string \<Rightarrow> ('g, unit) io" where
  "finish_leg key r = (case r of
       Inr ref \<Rightarrow> db_do (ConfirmSettlement key ref)
     | Inl e \<Rightarrow>
         (if e = ErrRejected then
            bind_io (db_do (FailSettlementLeg key ErrRejected_text)) (\<lambda>_. fail_io e)
          else if e = ErrNotSubmitted then
            bind_io (db_do (ReleaseSettlementLeg key ErrNotSubmitted_text)) (\<lambda>_. fail_io e)
          else fail_io e))"

definition payLeg :: "'g app \<Rightarrow> settlement_leg \<Rightarrow> ('g, unit) io" where
  "payLeg a leg w =
     (case ClaimSettlementLeg (sl_IdempotencyKey leg) (w_db w) of (claimed, d) \<Rightarrow>
        let w1 = w\<lparr>w_db := d\<rparr> in
        if \<not> claimed then (Inr (), w1)
        else try_io (submit_leg a leg) (finish_leg (sl_IdempotencyKey leg)) w1)"

fun pay_legs :: "'g app \<Rightarrow> settlement_leg list \<Rightarrow> ('g, unit) io" where
  "pay_legs a [] = return_io ()"
| "pay_legs a (leg # legs) = bind_io (payLeg a leg) (\<lambda>_. pay_legs a legs)"

definition paySettlements :: "'g app \<Rightarrow> string \<Rightarrow> ('g, unit) io" where
  "paySettlements a pid w = pay_legs a (PendingSettlementLegsForPocket pid (w_db w)) w"

definition applyOutcome :: "'g app \<Rightarrow> string \<Rightarrow> outcome \<Rightarrow> 'g world \<Rightarrow> 'g world" where
  "applyOutcome a pid out w =
     (let w1 = executeEffects a pid out w in
      if movesMoney out then snd (paySettlements a pid w1) else w1)"

definition after_io :: "('g world \<Rightarrow> 'g world) \<Rightarrow> ('g, unit) io" where
  "after_io f w = (Inr (), f w)"

section \<open>Lifecycle\<close>

record create_input =
  in_Structure :: pocket_structure
  in_CreatorRole :: role
  in_Mode :: mode
  in_InspectionWindow :: duration
  in_DeliveryWindow :: duration
  in_AmountKobo :: int
  in_CommissionKobo :: int
  in_ItemDescription :: string
  in_Category :: string
  in_CreatorUserID :: string

record create_output =
  co_PocketID :: string
  co_ShortCode :: string
  co_CreatorRole :: role
  co_CounterpartyRole :: "role option"
  co_Tokens :: "(role \<times> string) list"

definition counterpartyRole :: "pocket_structure \<Rightarrow> role \<Rightarrow> role option" where
  "counterpartyRole structure creator =
     (if structure \<noteq> StructureP2P then None
      else if creator = RoleVendor then Some RoleBuyer else Some RoleVendor)"

definition create_premium :: "create_input \<Rightarrow> int" where
  "create_premium i = ProtectionPremiumKobo (i64 (in_AmountKobo i + in_CommissionKobo i))"

definition create_spec :: "'g app \<Rightarrow> create_input \<Rightarrow> spec" where
  "create_spec a i = \<lparr>sp_Structure = in_Structure i, sp_CreatorRole = in_CreatorRole i,
     sp_Mode = in_Mode i, sp_InspectionWindow = in_InspectionWindow i,
     sp_DeliveryWindow = in_DeliveryWindow i, sp_AmountKobo = in_AmountKobo i,
     sp_CommissionKobo = in_CommissionKobo i, sp_PremiumKobo = create_premium i,
     sp_FundingTTL = a_fundingLinkTTL a, sp_GracePeriod = a_gracePeriod a,
     sp_EvidenceCaptureWindow = a_evidenceCaptureWindow a\<rparr>"

definition create_draft :: "create_input \<Rightarrow> pocket_draft" where
  "create_draft i = \<lparr>dr_Structure = in_Structure i, dr_CreatorRole = in_CreatorRole i,
     dr_Mode = in_Mode i, dr_InspectionWindow = in_InspectionWindow i,
     dr_DeliveryWindow = in_DeliveryWindow i, dr_AmountKobo = in_AmountKobo i,
     dr_CommissionKobo = in_CommissionKobo i, dr_PremiumKobo = create_premium i,
     dr_ItemDescription = in_ItemDescription i, dr_Category = in_Category i\<rparr>"

text \<open>\<^verbatim>\<open>a.minter\<close>: a use case that mints draws fresh nonces, one for each role it mints for.\<close>

definition with_minter :: "'g app \<Rightarrow> (minter \<Rightarrow> ('g, 'a) io) \<Rightarrow> ('g, 'a) io" where
  "with_minter a f w = f (link_minter (a_hmac a) (a_sha a) (a_linkSecret a) (w_nonces w (w_minted w)))
     (w\<lparr>w_minted := Suc (w_minted w)\<rparr>)"

text \<open>\<open>sc\<close> and \<open>new_id\<close> are the short code drawn and the key generated by the insert.\<close>

definition Create :: "'g app \<Rightarrow> string res \<Rightarrow> string \<Rightarrow> create_input \<Rightarrow> ('g, create_output) io" where
  "Create a sc new_id i =
     (case ValidateSpec (create_spec a i) of
        Inl (ErrInvalidSpec f) \<Rightarrow> fail_io (ErrInvalidInput (SpecFault f))
      | Inl e \<Rightarrow> fail_io e
      | Inr _ \<Rightarrow>
          (if in_CreatorUserID i = [] then fail_io (ErrInvalidInput CreatorAccountRequired)
           else if in_ItemDescription i = [] then fail_io (ErrInvalidInput ItemDescriptionRequired)
           else
             bind_io now_io (\<lambda>now.
             bind_io (with_minter a (\<lambda>mint. db_io (CreatePocket mint sc new_id (create_draft i)
               \<lparr>ci_Role = in_CreatorRole i, ci_UserID = in_CreatorUserID i\<rparr>
               (participantRoles (in_Structure i)) now))) (\<lambda>res.
               return_io \<lparr>co_PocketID = cr_PocketID res, co_ShortCode = cr_ShortCode res,
                 co_CreatorRole = in_CreatorRole i,
                 co_CounterpartyRole = counterpartyRole (in_Structure i) (in_CreatorRole i),
                 co_Tokens = cr_Tokens res\<rparr>))))"

definition app_Claim :: "'g app \<Rightarrow> string \<Rightarrow> role \<Rightarrow> string \<Rightarrow> ('g, unit) io" where
  "app_Claim a pid role userID =
     (if userID = [] then fail_io (ErrInvalidInput ClaimAccountRequired)
      else db_io (Claim (a_store a) pid role userID))"

definition app_ConvertToBrokered :: "'g app \<Rightarrow> string \<Rightarrow> string \<Rightarrow> int \<Rightarrow> ('g, convert_result) io" where
  "app_ConvertToBrokered a pid userID vendorAmount =
     (if userID = [] then fail_io (ErrInvalidInput BrokerAccountRequired)
      else if vendorAmount \<le> 0 then fail_io (ErrInvalidInput VendorAllocationNotPositive)
      else bind_io now_io (\<lambda>now.
        with_minter a (\<lambda>mint. db_io (ConvertToBrokered (a_store a) mint pid userID vendorAmount now))))"

definition app_Accept :: "'g app \<Rightarrow> string \<Rightarrow> role \<Rightarrow> string \<Rightarrow> ('g, accept_result) io" where
  "app_Accept a pid role deliveryAddress =
     bind_io now_io (\<lambda>now.
     bind_io (db_io (Accept (a_store a) pid role deliveryAddress role now)) (\<lambda>res.
     bind_io (case ar_Outcome res of
         Some out \<Rightarrow> (if ar_Completed res then after_io (applyOutcome a (ar_PocketID res) out)
                     else return_io ())
       | None \<Rightarrow> return_io ()) (\<lambda>_. return_io res)))"

text \<open>The shape most use cases share: one transition, then its effects.\<close>

definition run_and_apply :: "'g app \<Rightarrow> string \<Rightarrow> role \<Rightarrow> event \<Rightarrow> ('g, write_result) io" where
  "run_and_apply a pid actor ev =
     bind_io now_io (\<lambda>now.
     bind_io (db_io (RunTransition (a_store a) pid actor ev now)) (\<lambda>res.
     bind_io (after_io (applyOutcome a (wr_PocketID res) (wr_Outcome res))) (\<lambda>_. return_io res)))"

definition SimulateFunding :: "'g app \<Rightarrow> string \<Rightarrow> ('g, write_result) io" where
  "SimulateFunding a pid =
     (if \<not> CanSimulateFunding a then fail_io ErrForbidden
      else run_and_apply a pid RoleSystem (event_of EvFundingConfirmed))"

text \<open>The check reads the pocket outside the transaction that cancels it.\<close>

definition cancel_check :: "'g app \<Rightarrow> string \<Rightarrow> role \<Rightarrow> ('g, unit) io" where
  "cancel_check a pid actorRole =
     bind_io (db_read (GetByID (a_store a) pid)) (\<lambda>rec.
       if p_State (rec_Pocket rec) = StateFunded \<and> actorRole \<noteq> RoleVendor then fail_io ErrForbidden
       else return_io ())"

definition cancel_write :: "'g app \<Rightarrow> string \<Rightarrow> role \<Rightarrow> ('g, write_result) io" where
  "cancel_write a pid actorRole =
     bind_io now_io (\<lambda>now.
     bind_io (db_io (Cancel (a_store a) pid actorRole now)) (\<lambda>res.
     bind_io (after_io (applyOutcome a (wr_PocketID res) (wr_Outcome res))) (\<lambda>_.
       return_io res)))"

definition app_Cancel :: "'g app \<Rightarrow> string \<Rightarrow> role \<Rightarrow> ('g, write_result) io" where
  "app_Cancel a pid actorRole =
     bind_io (cancel_check a pid actorRole) (\<lambda>_. cancel_write a pid actorRole)"

end
