(* ===== verification/App_Cases.thy ===== *)
theory App_Cases
  imports App
begin

text \<open>
  The use cases of a live pocket (\<^verbatim>\<open>internal/pocketapp\<close>: \<^verbatim>\<open>verification.go\<close>,
  \<^verbatim>\<open>disputes.go\<close>, \<^verbatim>\<open>views.go\<close>): release-code entry, the buyer's and vendor's reports,
  arbitration, evidence and the read side.
\<close>

section \<open>Release-code entry\<close>

record code_entry_result =
  ce_Accepted :: bool
  ce_State :: state
  ce_Locked :: bool
  ce_AttemptsRemaining :: int

definition code_accepted_result :: "state \<Rightarrow> code_entry_result" where
  "code_accepted_result s =
     \<lparr>ce_Accepted = True, ce_State = s, ce_Locked = False, ce_AttemptsRemaining = 0\<rparr>"

text \<open>The synchronous settlement of an instant pocket: \<open>ErrNotYetDue\<close> is not an error here.\<close>

definition settle_now :: "'g app \<Rightarrow> string \<Rightarrow> role \<Rightarrow> state \<Rightarrow> ('g, code_entry_result) io" where
  "settle_now a pid role s =
     bind_io now_io (\<lambda>now.
     try_io (db_io (RunTransition (a_store a) pid role (event_of EvSettleDue) now)) (\<lambda>r.
       case r of
         Inl e \<Rightarrow> if e = ErrNotYetDue then return_io (code_accepted_result s) else fail_io e
       | Inr settled \<Rightarrow>
           bind_io (after_io (applyOutcome a pid (wr_Outcome settled))) (\<lambda>_.
             return_io (code_accepted_result (p_State (out_Pocket (wr_Outcome settled)))))))"

definition acceptCode :: "'g app \<Rightarrow> string \<Rightarrow> role \<Rightarrow> ('g, code_entry_result) io" where
  "acceptCode a pid role =
     bind_io now_io (\<lambda>now.
     bind_io (db_io (RunTransition (a_store a) pid role (event_of EvCodeAccepted) now)) (\<lambda>res.
     let p = out_Pocket (wr_Outcome res) in
     bind_io (after_io (applyOutcome a pid (wr_Outcome res))) (\<lambda>_.
     bind_io now_io (\<lambda>later.
       if DueForSettlement p later then settle_now a pid role (p_State p)
       else return_io (code_accepted_result (p_State p))))))"

definition rejectCode :: "'g app \<Rightarrow> string \<Rightarrow> role \<Rightarrow> ('g, code_entry_result) io" where
  "rejectCode a pid role =
     bind_io now_io (\<lambda>now.
     bind_io (db_io (RunTransition (a_store a) pid role (event_of EvCodeRejected) now)) (\<lambda>res.
     let p = out_Pocket (wr_Outcome res); remaining = MaxAttempts - p_CodeAttempts p in
     bind_io (after_io (applyOutcome a pid (wr_Outcome res))) (\<lambda>_.
       return_io \<lparr>ce_Accepted = False, ce_State = p_State p, ce_Locked = p_CodeLocked p,
         ce_AttemptsRemaining = (if remaining < 0 then 0 else remaining)\<rparr>)))"

definition EnterCode :: "'g app \<Rightarrow> string \<Rightarrow> role \<Rightarrow> string \<Rightarrow> ('g, code_entry_result) io" where
  "EnterCode a pid role code =
     (if role \<noteq> RoleVendor then fail_io ErrForbidden
      else bind_io (db_read (GetByID (a_store a) pid)) (\<lambda>rec.
        if rec_ReleaseCodeHash rec = [] then fail_io ErrCodeNotReady
        else if Verify (a_hmac a) (rec_ReleaseCodeHash rec) code (a_releaseCodeSecret a)
        then acceptCode a pid role else rejectCode a pid role))"

section \<open>Reports\<close>

definition ReportIssue :: "'g app \<Rightarrow> string \<Rightarrow> role \<Rightarrow> ('g, write_result) io" where
  "ReportIssue a pid role =
     (if role \<noteq> RoleBuyer then fail_io ErrForbidden
      else run_and_apply a pid role (event_of EvBuyerReportIssue))"

definition ConfirmDispatchFailure :: "'g app \<Rightarrow> string \<Rightarrow> role \<Rightarrow> ('g, write_result) io" where
  "ConfirmDispatchFailure a pid role =
     (if role \<noteq> RoleVendor then fail_io ErrForbidden
      else run_and_apply a pid role
        \<lparr>ev_Kind = EvRefundFrozen, ev_Reason = ''vendor_failure'', ev_BadFaith = False\<rparr>)"

definition app_AttestNonReceipt :: "'g app \<Rightarrow> string \<Rightarrow> role \<Rightarrow> ('g, unit) io" where
  "app_AttestNonReceipt a pid role =
     (if role \<noteq> RoleBuyer then fail_io ErrForbidden
      else bind_io now_io (\<lambda>now. db_io (AttestNonReceipt pid now)))"

section \<open>Disputes\<close>

definition runDispute :: "'g app \<Rightarrow> string \<Rightarrow> role \<Rightarrow> event \<Rightarrow> ('g, write_result) io" where
  "runDispute a pid actor ev =
     bind_io now_io (\<lambda>now.
     bind_io (db_io (RunTransition (a_store a) pid actor ev now)) (\<lambda>res.
     bind_io (after_io (applyOutcome a pid (wr_Outcome res))) (\<lambda>_. return_io res)))"

definition OpenFrozenDispute :: "'g app \<Rightarrow> string \<Rightarrow> role \<Rightarrow> ('g, write_result) io" where
  "OpenFrozenDispute a pid role =
     (if role \<noteq> RoleBuyer then fail_io ErrForbidden
      else runDispute a pid role (event_of EvFrozenDispute))"

definition Concede :: "'g app \<Rightarrow> string \<Rightarrow> role \<Rightarrow> ('g, write_result) io" where
  "Concede a pid role =
     (if role \<noteq> RoleVendor then fail_io ErrForbidden
      else runDispute a pid role (event_of EvVendorConcede))"

definition ForceRefund :: "'g app \<Rightarrow> string \<Rightarrow> ('g, write_result) io" where
  "ForceRefund a pid = runDispute a pid RoleAdmin (event_of EvAdminForceRefund)"

definition ForcePayout :: "'g app \<Rightarrow> string \<Rightarrow> bool \<Rightarrow> ('g, write_result) io" where
  "ForcePayout a pid badFaith = runDispute a pid RoleAdmin
     \<lparr>ev_Kind = EvAdminForcePayout, ev_Reason = [], ev_BadFaith = badFaith\<rparr>"

section \<open>Evidence\<close>

fun evidenceTypes :: "evidence_type \<Rightarrow> bool" where
  "evidenceTypes (EvidenceOther _) = False"
| "evidenceTypes _ = True"

fun evidence_text :: "evidence_type \<Rightarrow> string" where
  "evidence_text UnboxingVideo = ''unboxing_video''"
| "evidence_text DispatchProof = ''dispatch_proof''"
| "evidence_text PackingMedia = ''packing_media''"
| "evidence_text Photo = ''photo''"
| "evidence_text (EvidenceOther s) = s"

definition evidenceAllowed :: "state \<Rightarrow> bool" where
  "evidenceAllowed s \<longleftrightarrow> s = StateDeliveredPending \<or> s = StateDisputed \<or> s = StateFrozen"

text \<open>\<^verbatim>\<open>Time.Sub\<close> saturates at the extreme durations.\<close>

definition time_Sub :: "gotime \<Rightarrow> gotime \<Rightarrow> duration" where
  "time_Sub t u = max (- (2 ^ 63)) (min (2 ^ 63 - 1) (t - u))"

definition unboxingWithinWindow ::
    "'g app \<Rightarrow> pocket \<Rightarrow> evidence_type \<Rightarrow> gotime \<Rightarrow> bool option" where
  "unboxingWithinWindow a p evType capturedAt =
     (if evType \<noteq> UnboxingVideo \<or> IsZero (p_SettleAfter p) then None
      else (let handoff = p_SettleAfter p + i64 (- p_InspectionWindow p) in
        Some (time_Sub capturedAt handoff \<le> a_evidenceCaptureWindow a)))"

text \<open>\<open>put\<close> is the evidence store's answer, \<open>new_id\<close> the key generated by the insert.\<close>

definition UploadEvidence :: "'g app \<Rightarrow> string res \<Rightarrow> string \<Rightarrow> string \<Rightarrow> role \<Rightarrow> evidence_type \<Rightarrow>
    ('g, evidence_record) io" where
  "UploadEvidence a put new_id pid role evType =
     (if \<not> evidenceTypes evType then fail_io (ErrInvalidInput (UnknownEvidenceType (evidence_text evType)))
      else bind_io (db_read (GetByID (a_store a) pid)) (\<lambda>rec.
        if \<not> evidenceAllowed (p_State (rec_Pocket rec)) then fail_io (ErrInvalidInput EvidenceNotAccepted)
        else (case put of
          Inl e \<Rightarrow> fail_io e
        | Inr ref \<Rightarrow>
            bind_io now_io (\<lambda>capturedAt.
            let ev = \<lparr>ver_ID = [], ver_Party = role, ver_Type = evType, ver_StorageRef = ref,
              ver_CapturedInApp = True, ver_CapturedAt = capturedAt,
              ver_WithinWindow = unboxingWithinWindow a (rec_Pocket rec) evType capturedAt,
              ver_CreatedAt = 0\<rparr> in
            bind_io (db_io (InsertEvidence new_id pid ev)) (\<lambda>i.
              return_io (ev\<lparr>ver_ID := i\<rparr>))))))"

definition DisputeView :: "string \<Rightarrow> ('g, dispute_row \<times> evidence_record list) io" where
  "DisputeView pid =
     bind_io (db_read (GetDispute pid)) (\<lambda>dispute.
     bind_io (db_read (\<lambda>d. Inr (EvidenceForPocket pid d))) (\<lambda>ev. return_io (dispute, ev)))"

section \<open>Views\<close>

definition Load :: "'g app \<Rightarrow> string \<Rightarrow> ('g, pocket_record \<times> participant_record list) io" where
  "Load a pid =
     bind_io (db_read (GetByID (a_store a) pid)) (\<lambda>rec.
     bind_io (db_read (\<lambda>d. Inr (Participants pid d))) (\<lambda>parts. return_io (rec, parts)))"

definition LoadByShortCode ::
    "'g app \<Rightarrow> string \<Rightarrow> ('g, pocket_record \<times> participant_record list) io" where
  "LoadByShortCode a shortCode =
     bind_io (db_read (GetByShortCode (a_store a) shortCode)) (\<lambda>rec.
     bind_io (db_read (\<lambda>d. Inr (Participants (rec_ID rec) d))) (\<lambda>parts. return_io (rec, parts)))"

definition Detail ::
    "'g app \<Rightarrow> string \<Rightarrow> ('g, pocket_record \<times> participant_record list \<times> event_row list) io" where
  "Detail a pid =
     bind_io (Load a pid) (\<lambda>(rec, parts).
     bind_io (db_read (\<lambda>d. Inr (Events pid d))) (\<lambda>evs. return_io (rec, parts, evs)))"

definition MyPockets :: "'g app \<Rightarrow> string \<Rightarrow> ('g, user_pocket list) io" where
  "MyPockets a userID = db_read (\<lambda>d. Inr (PocketsForUser (a_store a) userID 0 d))"

definition app_ReleaseCode :: "'g app \<Rightarrow> string \<Rightarrow> ('g, string) io" where
  "app_ReleaseCode a pid =
     bind_io (db_read (GetByID (a_store a) pid)) (\<lambda>rec w.
       if rec_ReleaseCodeEnc rec = [] then (Inl ErrCodeNotReady, w)
       else (Open (a_sha a) (a_unseal a) (rec_ReleaseCodeEnc rec) (a_releaseCodeSecret a), w))"

end
