(* ===== verification/App_Funding.thy ===== *)
theory App_Funding
  imports App_Cases
begin

text \<open>
  Crediting a payment (\<^verbatim>\<open>internal/pocketapp\<close>: \<^verbatim>\<open>ingest.go\<close>, \<^verbatim>\<open>funding.go\<close>): provider
  notifications with replay protection, the shared crediting path, and the pull-side
  verification of orders whose notification never arrived.
\<close>

section \<open>Crediting\<close>

definition fundingApplied :: "state \<Rightarrow> bool" where
  "fundingApplied s \<longleftrightarrow> s = StateFunded \<or> s = StateDeliveredPending \<or> s = StateSettled \<or>
     s = StateDisputed \<or> s = StateFrozen \<or> s = StateRefunded"

definition stamp_funding :: "string \<Rightarrow> string \<Rightarrow> ('g, bool) io" where
  "stamp_funding pid paymentRef =
     bind_io (db_do (SetFundingTransaction pid paymentRef)) (\<lambda>_. return_io True)"

definition creditFunding :: "'g app \<Rightarrow> pocket_record \<Rightarrow> int \<Rightarrow> string \<Rightarrow> ('g, bool) io" where
  "creditFunding a rec amountKobo paymentRef =
     (if 0 < amountKobo \<and> amountKobo < BuyerTotalKobo (rec_Pocket rec) then return_io False
      else bind_io now_io (\<lambda>now.
        try_io (db_io (RunTransition (a_store a) (rec_ID rec) RoleSystem
            (event_of EvFundingConfirmed) now)) (\<lambda>r. case r of
          Inr res \<Rightarrow>
            bind_io (after_io (applyOutcome a (wr_PocketID res) (wr_Outcome res))) (\<lambda>_.
              stamp_funding (rec_ID rec) paymentRef)
        | Inl e \<Rightarrow>
            (if e = ErrIllegalTransition \<or> e = ErrTerminal \<or> e = ErrIllegalState then
               bind_io (db_read (GetByID (a_store a) (rec_ID rec))) (\<lambda>current.
                 if \<not> fundingApplied (p_State (rec_Pocket current)) then return_io False
                 else stamp_funding (rec_ID rec) paymentRef)
             else fail_io e))))"

section \<open>Pull-side verification\<close>

record funding_check =
  fc_Funded :: bool
  fc_State :: state

text \<open>One paid answer ends the loop over the order's references.\<close>

definition verify_credit :: "'g app \<Rightarrow> pocket_record \<Rightarrow> funding_status \<Rightarrow> ('g, funding_check) io" where
  "verify_credit a rec status =
     bind_io (creditFunding a rec (fs_AmountKobo status) (fs_PaymentRef status)) (\<lambda>funded.
     try_io (db_read (GetByID (a_store a) (rec_ID rec))) (\<lambda>r. case r of
         Inl e \<Rightarrow> return_io \<lparr>fc_Funded = funded, fc_State = p_State (rec_Pocket rec)\<rparr>
       | Inr current \<Rightarrow> return_io \<lparr>fc_Funded = funded, fc_State = p_State (rec_Pocket current)\<rparr>))"

fun verify_refs :: "'g app \<Rightarrow> (string \<Rightarrow> 'g \<Rightarrow> funding_status res \<times> 'g) \<Rightarrow> pocket_record \<Rightarrow>
    string list \<Rightarrow> ('g, funding_check) io" where
  "verify_refs a verifier rec [] =
     return_io \<lparr>fc_Funded = False, fc_State = p_State (rec_Pocket rec)\<rparr>"
| "verify_refs a verifier rec (ref # refs) =
     (if ref = [] then verify_refs a verifier rec refs
      else try_io (gw_io (verifier ref)) (\<lambda>r. case r of
          Inl e \<Rightarrow> verify_refs a verifier rec refs
        | Inr status \<Rightarrow>
            (if fs_Paid status then verify_credit a rec status
             else verify_refs a verifier rec refs)))"

definition order_refs :: "pocket_record \<Rightarrow> string list" where
  "order_refs rec = rec_FundingLinkRef rec #
     (if FundingRef (rec_ID rec) \<noteq> rec_FundingLinkRef rec then [FundingRef (rec_ID rec)] else [])"

definition VerifyFunding :: "'g app \<Rightarrow> string \<Rightarrow> ('g, funding_check) io" where
  "VerifyFunding a pid =
     bind_io (db_read (GetByID (a_store a) pid)) (\<lambda>rec.
     let s = p_State (rec_Pocket rec) in
       if fundingApplied s then return_io \<lparr>fc_Funded = True, fc_State = s\<rparr>
       else if s \<noteq> StateCreated then return_io \<lparr>fc_Funded = False, fc_State = s\<rparr>
       else (case gw_VerifyFunding (a_gateway a) of
           None \<Rightarrow> return_io \<lparr>fc_Funded = False, fc_State = s\<rparr>
         | Some verifier \<Rightarrow> verify_refs a verifier rec (order_refs rec)))"

text \<open>The sweep over open orders; a failed item is skipped (the context is not cancelled).\<close>

fun verify_all :: "'g app \<Rightarrow> string list \<Rightarrow> int \<Rightarrow> ('g, int) io" where
  "verify_all a [] funded = return_io funded"
| "verify_all a (pid # pids) funded =
     try_io (VerifyFunding a pid) (\<lambda>r. case r of
         Inl e \<Rightarrow> verify_all a pids funded
       | Inr check \<Rightarrow> verify_all a pids (if fc_Funded check then funded + 1 else funded))"

definition SweepPendingFundingVerification :: "'g app \<Rightarrow> ('g, int) io" where
  "SweepPendingFundingVerification a =
     (case gw_VerifyFunding (a_gateway a) of
        None \<Rightarrow> return_io 0
      | Some _ \<Rightarrow>
          bind_io now_io (\<lambda>now.
          bind_io (db_read (\<lambda>d. Inr (PocketsAwaitingFunding now d))) (\<lambda>pids.
            verify_all a pids 0)))"

section \<open>Provider notifications\<close>

datatype gateway_event_kind =
    GatewayFundingSucceeded | GatewayFundingFailed | GatewayPayoutSucceeded
  | GatewayPayoutFailed | GatewayEventUnknown

record gateway_event =
  ge_ProviderEventID :: string
  ge_Kind :: gateway_event_kind
  ge_RawType :: string
  ge_OrderRef :: string
  ge_MerchantTxRef :: string
  ge_PaymentRef :: string
  ge_AmountKobo :: int
  ge_Payload :: string

text \<open>The pocket of an order reference: by the stored reference, then by the id a reference of
  our own encodes.\<close>

definition resolve_order :: "store \<Rightarrow> string \<Rightarrow> db \<Rightarrow> pocket_record res" where
  "resolve_order st ref d = (case GetByFundingRef st ref d of
       Inr rec \<Rightarrow> Inr rec
     | Inl e \<Rightarrow>
         (if e = ErrNotFound then
            (case PocketIDFromRef ref of None \<Rightarrow> Inl ErrNotFound | Some pid \<Rightarrow> GetByID st pid d)
          else Inl e))"

definition applyFundingEvent :: "'g app \<Rightarrow> gateway_event \<Rightarrow> ('g, bool) io" where
  "applyFundingEvent a ev =
     (if ge_OrderRef ev = [] then return_io False
      else try_io (db_read (resolve_order (a_store a) (ge_OrderRef ev))) (\<lambda>r. case r of
          Inl e \<Rightarrow> if e = ErrNotFound then return_io False else fail_io e
        | Inr rec \<Rightarrow> creditFunding a rec (ge_AmountKobo ev) (ge_PaymentRef ev)))"

definition processGatewayEvent :: "'g app \<Rightarrow> gateway_event \<Rightarrow> ('g, bool) io" where
  "processGatewayEvent a ev = (case ge_Kind ev of
       GatewayFundingSucceeded \<Rightarrow> applyFundingEvent a ev
     | GatewayPayoutSucceeded \<Rightarrow>
         (if ge_MerchantTxRef ev = [] then return_io False
          else bind_io (db_do (ConfirmSettlement (ge_MerchantTxRef ev) (ge_PaymentRef ev)))
            (\<lambda>_. return_io True))
     | GatewayPayoutFailed \<Rightarrow>
         (if ge_MerchantTxRef ev = [] then return_io False
          else bind_io (db_do (FailSettlementLeg (ge_MerchantTxRef ev)
            ''provider reported payout failure'')) (\<lambda>_. return_io True))
     | GatewayFundingFailed \<Rightarrow> return_io True
     | GatewayEventUnknown \<Rightarrow> return_io True)"

definition record_webhook :: "string \<Rightarrow> string \<Rightarrow> ('g, bool) io" where
  "record_webhook event_id body = db_io (\<lambda>d. case RecordWebhookEvent event_id body d of
     (needs, d') \<Rightarrow> (Inr needs, d'))"

definition IngestGatewayEvent :: "'g app \<Rightarrow> gateway_event \<Rightarrow> ('g, unit) io" where
  "IngestGatewayEvent a ev =
     (if ge_ProviderEventID ev = [] then fail_io (ErrInvalidInput EventIdRequired)
      else bind_io (record_webhook (ge_ProviderEventID ev) (ge_Payload ev)) (\<lambda>needs.
        if \<not> needs then return_io ()
        else bind_io (processGatewayEvent a ev) (\<lambda>finished.
          if finished then db_do (MarkWebhookProcessed (ge_ProviderEventID ev))
          else return_io ())))"

end
