(* ===== verification/App_Sweep.thy ===== *)
theory App_Sweep
  imports App_Funding
begin

text \<open>
  The sweeper's use cases (\<^verbatim>\<open>internal/pocketapp/sweep.go\<close>): draining the clock-triggered
  rules, disbursing pending legs and reconciling inflight ones.  The loop of \<open>drainRule\<close> has
  no bound of its own, so it is a partial function: None is a loop that never returns.
\<close>

section \<open>Draining a rule\<close>

text \<open>\<open>locked\<close> gives, per clock reading, the pockets other transactions hold then.\<close>

type_synonym locks = "nat \<Rightarrow> string \<Rightarrow> bool"

definition claim_one :: "'g app \<Rightarrow> sweep_rule \<Rightarrow> locks \<Rightarrow> ('g, write_result option) io" where
  "claim_one a rule locked w =
     bind_io now_io (\<lambda>now. db_io (run_rule (a_store a) rule (locked (w_tick w)) now)) w"

partial_function (option) drain_loop ::
    "'g app \<Rightarrow> sweep_rule \<Rightarrow> locks \<Rightarrow> int \<Rightarrow> 'g world \<Rightarrow> (int \<times> error option \<times> 'g world) option" where
  "drain_loop a rule locked processed w =
     (case claim_one a rule locked w of
        (Inl e, w') \<Rightarrow> Some (processed, Some e, w')
      | (Inr None, w') \<Rightarrow> Some (processed, None, w')
      | (Inr (Some res), w') \<Rightarrow>
          drain_loop a rule locked (processed + 1)
            (applyOutcome a (wr_PocketID res) (wr_Outcome res) w'))"

definition drainRule ::
    "'g app \<Rightarrow> sweep_rule \<Rightarrow> locks \<Rightarrow> 'g world \<Rightarrow> (int \<times> error option \<times> 'g world) option" where
  "drainRule a rule locked w = drain_loop a rule locked 0 w"

definition SweepExpiredFunding where
  "SweepExpiredFunding a locked = drainRule a RuleExpiredFunding locked"

definition SweepDeliveryDeadlines where
  "SweepDeliveryDeadlines a locked = drainRule a RuleDeliveryDeadline locked"

definition SweepGraceRefunds where
  "SweepGraceRefunds a locked = drainRule a RuleGraceRefund locked"

definition SweepDueSettlements where
  "SweepDueSettlements a locked = drainRule a RuleDueSettlement locked"

section \<open>Pending legs\<close>

text \<open>The count is returned beside the first error.\<close>

fun sweep_pending :: "'g app \<Rightarrow> settlement_leg list \<Rightarrow> int \<Rightarrow> 'g world \<Rightarrow>
    int \<times> error option \<times> 'g world" where
  "sweep_pending a [] paid w = (paid, None, w)"
| "sweep_pending a (leg # legs) paid w = (case payLeg a leg w of
       (Inl e, w') \<Rightarrow> (paid, Some e, w')
     | (Inr _, w') \<Rightarrow> sweep_pending a legs (paid + 1) w')"

definition SweepPendingSettlementLegs :: "'g app \<Rightarrow> 'g world \<Rightarrow> int \<times> error option \<times> 'g world" where
  "SweepPendingSettlementLegs a w = sweep_pending a (PendingSettlementLegs (w_db w)) 0 w"

section \<open>Inflight legs\<close>

definition inflightAlertAge :: duration where
  "inflightAlertAge = 10 * time_Minute"

text \<open>A leg the pass cannot resolve is flagged for operators once it is old enough.\<close>

definition needs_alert :: "gotime \<Rightarrow> settlement_leg \<Rightarrow> bool" where
  "needs_alert now leg \<longleftrightarrow> inflightAlertAge \<le> time_Sub now (sl_UpdatedAt leg)"

datatype leg_outcome = LegResolved | LegFlagged | LegLeft

definition leave_leg :: "settlement_leg \<Rightarrow> 'g world \<Rightarrow> leg_outcome \<times> 'g world" where
  "leave_leg leg w =
     (if needs_alert (w_clock w (w_tick w)) leg then LegFlagged else LegLeft,
      w\<lparr>w_tick := Suc (w_tick w)\<rparr>)"

definition resolve_leg :: "'g app \<Rightarrow> settlement_leg \<Rightarrow> 'g world \<Rightarrow> leg_outcome \<times> 'g world" where
  "resolve_leg a leg w = (case gw_PayoutStatus (a_gateway a) of
       None \<Rightarrow> leave_leg leg w
     | Some query \<Rightarrow>
         (case gw_io (query (sl_IdempotencyKey leg)) w of
            (Inl e, w') \<Rightarrow> leave_leg leg w'
          | (Inr (status, ref), w') \<Rightarrow>
             (case status of
                PayoutStatusConfirmed \<Rightarrow>
                  (LegResolved, w'\<lparr>w_db := ConfirmSettlement (sl_IdempotencyKey leg) ref (w_db w')\<rparr>)
              | PayoutStatusAbsent \<Rightarrow>
                  (LegResolved, w'\<lparr>w_db := ReleaseSettlementLeg (sl_IdempotencyKey leg)
                     ''provider has no record of the submission'' (w_db w')\<rparr>)
              | PayoutStatusUnknown \<Rightarrow> leave_leg leg w')))"

fun resolve_legs :: "'g app \<Rightarrow> settlement_leg list \<Rightarrow> int \<Rightarrow> 'g world \<Rightarrow> int \<times> 'g world" where
  "resolve_legs a [] resolved w = (resolved, w)"
| "resolve_legs a (leg # legs) resolved w = (case resolve_leg a leg w of (outcome, w') \<Rightarrow>
     resolve_legs a legs (if outcome = LegResolved then resolved + 1 else resolved) w')"

definition SweepInflightSettlementLegs :: "'g app \<Rightarrow> 'g world \<Rightarrow> int \<times> 'g world" where
  "SweepInflightSettlementLegs a w = resolve_legs a (InflightSettlementLegs (w_db w)) 0 w"

end
