(* ===== verification/App_Invariant.thy ===== *)
theory App_Invariant
  imports App_Sweep
begin

text \<open>
  Invariants of the running application.  The interface of an invariant is a locale: a
  predicate on the database and the provider's state that every single store operation, every
  provider query and the two composite steps on a settlement leg keep.  The client lemmas,
  proved once inside the locale, are that every use case keeps it; \<open>app_reach\<close> then gives it
  for every world the application reaches.
\<close>

section \<open>The application's operations\<close>

datatype app_op =
    AppStore store_op
  | AppCreate "string res" string create_input
  | AppClaim string role string
  | AppConvert string string int
  | AppAccept string role string
  | AppSimulateFunding string
  | AppCancel string role
  | AppEnterCode string role string
  | AppReportIssue string role
  | AppConfirmFailure string role
  | AppAttest string role
  | AppOpenDispute string role
  | AppConcede string role
  | AppForceRefund string
  | AppForcePayout string bool
  | AppUpload "string res" string string role evidence_type
  | AppVerifyFunding string
  | AppSweepFunding
  | AppIngest gateway_event
  | AppSweepPending
  | AppSweepInflight

text \<open>The operations of the store the other layers call directly: accounts, sessions, the
  attestation and evidence inserts and the clock; never a claim or a release of a leg.\<close>

fun quiet_op :: "store_op \<Rightarrow> bool" where
  "quiet_op (OpClaimLeg _) = False"
| "quiet_op (OpReleaseLeg _ _) = False"
| "quiet_op _ = True"

fun exec_app :: "'g app \<Rightarrow> app_op \<Rightarrow> 'g world \<Rightarrow> 'g world" where
  "exec_app a (AppStore op) w = w\<lparr>w_db := exec_op (a_store a) op (w_db w)\<rparr>"
| "exec_app a (AppCreate sc i inp) w = snd (Create a sc i inp w)"
| "exec_app a (AppClaim pid role uid) w = snd (app_Claim a pid role uid w)"
| "exec_app a (AppConvert pid uid v) w = snd (app_ConvertToBrokered a pid uid v w)"
| "exec_app a (AppAccept pid role addr) w = snd (app_Accept a pid role addr w)"
| "exec_app a (AppSimulateFunding pid) w = snd (SimulateFunding a pid w)"
| "exec_app a (AppCancel pid role) w = snd (app_Cancel a pid role w)"
| "exec_app a (AppEnterCode pid role code) w = snd (EnterCode a pid role code w)"
| "exec_app a (AppReportIssue pid role) w = snd (ReportIssue a pid role w)"
| "exec_app a (AppConfirmFailure pid role) w = snd (ConfirmDispatchFailure a pid role w)"
| "exec_app a (AppAttest pid role) w = snd (app_AttestNonReceipt a pid role w)"
| "exec_app a (AppOpenDispute pid role) w = snd (OpenFrozenDispute a pid role w)"
| "exec_app a (AppConcede pid role) w = snd (Concede a pid role w)"
| "exec_app a (AppForceRefund pid) w = snd (ForceRefund a pid w)"
| "exec_app a (AppForcePayout pid b) w = snd (ForcePayout a pid b w)"
| "exec_app a (AppUpload put i pid role ty) w = snd (UploadEvidence a put i pid role ty w)"
| "exec_app a (AppVerifyFunding pid) w = snd (VerifyFunding a pid w)"
| "exec_app a AppSweepFunding w = snd (SweepPendingFundingVerification a w)"
| "exec_app a (AppIngest ev) w = snd (IngestGatewayEvent a ev w)"
| "exec_app a AppSweepPending w = snd (snd (SweepPendingSettlementLegs a w))"
| "exec_app a AppSweepInflight w = snd (SweepInflightSettlementLegs a w)"

fun app_op_ok :: "app_op \<Rightarrow> bool" where
  "app_op_ok (AppStore op) = (quiet_op op \<and> op_ids_ok op)"
| "app_op_ok (AppCreate _ i _) = plain_id i"
| "app_op_ok _ = True"

inductive app_reach :: "'g app \<Rightarrow> 'g \<Rightarrow> 'g world \<Rightarrow> bool" for a :: "'g app" and g0 :: 'g where
  start: "w_db w = empty_db \<Longrightarrow> w_gw w = g0 \<Longrightarrow> app_reach a g0 w"
| op: "app_reach a g0 w \<Longrightarrow> app_op_ok op \<Longrightarrow> app_reach a g0 (exec_app a op w)"
| drain: "app_reach a g0 w \<Longrightarrow> drainRule a rule locked w = Some (n, e, w') \<Longrightarrow> app_reach a g0 w'"

section \<open>Keeping a predicate of the database and the provider\<close>

definition holds :: "(db \<Rightarrow> 'g \<Rightarrow> bool) \<Rightarrow> 'g world \<Rightarrow> bool" where
  "holds J w \<longleftrightarrow> J (w_db w) (w_gw w)"

definition keeps_io :: "(db \<Rightarrow> 'g \<Rightarrow> bool) \<Rightarrow> ('g, 'a) io \<Rightarrow> bool" where
  "keeps_io J m \<longleftrightarrow> (\<forall>w. holds J w \<longrightarrow> holds J (snd (m w)))"

named_theorems keeps \<open>use cases that keep a predicate\<close>

lemma keeps_ioD: "keeps_io J m \<Longrightarrow> holds J w \<Longrightarrow> holds J (snd (m w))"
  by (simp add: keeps_io_def)

lemma keeps_return [keeps]: "keeps_io J (return_io x)"
  by (simp add: keeps_io_def return_io_def)

lemma keeps_fail [keeps]: "keeps_io J (fail_io e)"
  by (simp add: keeps_io_def fail_io_def)

lemma keeps_read [keeps]: "keeps_io J (db_read f)"
  by (simp add: keeps_io_def db_read_def)

lemma keeps_now [keeps]: "keeps_io J now_io"
  by (simp add: keeps_io_def now_io_def holds_def)

lemma keeps_send [keeps]: "keeps_io J (send pid role kind msg)"
  by (simp add: keeps_io_def send_def logstub_Send_def holds_def)

lemma keeps_bind_io [keeps]:
  assumes "keeps_io J m" and "\<And>x. keeps_io J (f x)"
  shows "keeps_io J (bind_io m f)"
  using assms unfolding keeps_io_def bind_io_def by (auto split: prod.splits sum.splits)

lemma keeps_try_io [keeps]:
  assumes "keeps_io J m" and "\<And>r. keeps_io J (f r)"
  shows "keeps_io J (try_io m f)"
  using assms unfolding keeps_io_def try_io_def by (auto split: prod.splits)

lemma keeps_minter [keeps]: "(\<And>mint. keeps_io J (f mint)) \<Longrightarrow> keeps_io J (with_minter a f)"
  by (simp add: keeps_io_def with_minter_def holds_def)

lemma keeps_if_io [keeps]:
  "keeps_io J m \<Longrightarrow> keeps_io J m' \<Longrightarrow> keeps_io J (if b then m else m')"
  by simp

lemma keeps_sum_io [keeps]:
  "(\<And>e. keeps_io J (f e)) \<Longrightarrow> (\<And>x. keeps_io J (h x)) \<Longrightarrow>
     keeps_io J (case r of Inl e \<Rightarrow> f e | Inr x \<Rightarrow> h x)"
  by (cases r) auto

lemma keeps_option_io [keeps]:
  "keeps_io J m \<Longrightarrow> (\<And>x. keeps_io J (h x)) \<Longrightarrow>
     keeps_io J (case r of None \<Rightarrow> m | Some x \<Rightarrow> h x)"
  by (cases r) auto

lemma keeps_let_io [keeps]: "keeps_io J (f x) \<Longrightarrow> keeps_io J (Let x f)"
  by simp

lemma keeps_after [keeps]: "(\<And>w. holds J w \<Longrightarrow> holds J (f w)) \<Longrightarrow> keeps_io J (after_io f)"
  by (simp add: keeps_io_def after_io_def)

lemma keeps_db_io:
  "(\<And>d g. J d g \<Longrightarrow> J (snd (f d)) g) \<Longrightarrow> keeps_io J (db_io f)"
  by (auto simp: keeps_io_def db_io_def holds_def split: prod.splits) (metis snd_conv)

lemma keeps_db_do: "(\<And>d g. J d g \<Longrightarrow> J (f d) g) \<Longrightarrow> keeps_io J (db_do f)"
  by (simp add: keeps_io_def db_do_def holds_def)

lemma keeps_gw_io: "(\<And>d g. J d g \<Longrightarrow> J d (snd (f g))) \<Longrightarrow> keeps_io J (gw_io f)"
  by (auto simp: keeps_io_def gw_io_def holds_def split: prod.splits) (metis snd_conv)

section \<open>The contract of an invariant of the effects\<close>

text \<open>What a committed transition's effects write to the database.\<close>

fun effect_op :: "store_op \<Rightarrow> bool" where
  "effect_op (OpFundingLink _ _ _) = True"
| "effect_op (OpReleaseCode _ _ _) = True"
| "effect_op (OpSanction _ _) = True"
| "effect_op _ = False"

lemma effect_op_quiet: "effect_op sop \<Longrightarrow> quiet_op sop \<and> op_ids_ok sop"
  by (cases sop) simp_all

locale effect_invariant =
  fixes a :: "'g app" and J :: "db \<Rightarrow> 'g \<Rightarrow> bool"
  assumes effect_write: "J d g \<Longrightarrow> effect_op sop \<Longrightarrow> J (exec_op (a_store a) sop d) g"
    and link: "J d g \<Longrightarrow> J d (snd (gw_CreateFundingLink (a_gateway a) req g))"
    and pay: "holds J w \<Longrightarrow> holds J (snd (payLeg a leg w))"
begin

lemma io_pay [keeps]: "keeps_io J (payLeg a leg)"
  by (simp add: keeps_io_def pay)

lemma io_pay_legs [keeps]: "keeps_io J (pay_legs a legs)"
  by (induction legs) (auto intro!: keeps)

lemma io_paySettlements [keeps]: "keeps_io J (paySettlements a pid)"
  using keeps_ioD [OF io_pay_legs] by (auto simp: keeps_io_def paySettlements_def)

lemma io_effect_writes [keeps]:
  "keeps_io J (db_do (SetFundingLink pid ref url))"
  "keeps_io J (db_do (SetReleaseCode pid hash enc))"
  "keeps_io J (db_do (RecordSanction pid role))"
  using effect_write [of _ _ "OpFundingLink pid ref url"]
    effect_write [of _ _ "OpReleaseCode pid hash enc"] effect_write [of _ _ "OpSanction pid role"]
  by (auto intro!: keeps_db_do)

lemma io_link [keeps]: "keeps_io J (gw_io (gw_CreateFundingLink (a_gateway a) req))"
  by (rule keeps_gw_io) (rule link)

lemma io_generate [keeps]: "keeps_io J (generateReleaseCode a pid)"
proof -
  have "holds J (w\<lparr>w_drawn := n\<rparr>) \<longleftrightarrow> holds J w" for w :: "'g world" and n
    by (simp add: holds_def)
  then show ?thesis
    using keeps_ioD [OF io_effect_writes(2)]
    by (auto simp: keeps_io_def generateReleaseCode_def split: prod.splits sum.splits)
qed

lemma io_effect [keeps]: "keeps_io J (executeEffect a pid amount e)"
  by (cases e) (auto intro!: keeps simp: createFundingLink_def)

lemma io_effects: "holds J w \<Longrightarrow> holds J (executeEffects a pid out w)"
proof -
  have "holds J w \<Longrightarrow> holds J (fold (\<lambda>e w. snd (executeEffect a pid t e w)) es w)" for es t
    by (induction es arbitrary: w) (auto intro: keeps_ioD [OF io_effect])
  then show "holds J w \<Longrightarrow> holds J (executeEffects a pid out w)"
    by (simp add: executeEffects_def)
qed

lemma io_outcome: "holds J w \<Longrightarrow> holds J (applyOutcome a pid out w)"
  using io_effects keeps_ioD [OF io_paySettlements] by (simp add: applyOutcome_def Let_def)

lemma io_apply [keeps]: "keeps_io J (after_io (applyOutcome a pid out))"
  by (rule keeps_after) (rule io_outcome)

end

section \<open>The contract of an invariant of the application\<close>

locale app_invariant =
  fixes a :: "'g app" and J :: "db \<Rightarrow> 'g \<Rightarrow> bool"
  assumes exec: "J d g \<Longrightarrow> quiet_op sop \<Longrightarrow> op_ids_ok sop \<Longrightarrow> J (exec_op (a_store a) sop d) g"
    and create_link: "J d g \<Longrightarrow> J d (snd (gw_CreateFundingLink (a_gateway a) req g))"
    and verify: "gw_VerifyFunding (a_gateway a) = Some v \<Longrightarrow> J d g \<Longrightarrow> J d (snd (v ref g))"
    and pay_leg: "holds J w \<Longrightarrow> holds J (snd (payLeg a leg w))"
    and resolve: "holds J w \<Longrightarrow> holds J (snd (resolve_leg a leg w))"

sublocale app_invariant \<subseteq> effect_invariant
proof unfold_locales
  fix d g sop
  assume "J d g" and "effect_op sop"
  then show "J (exec_op (a_store a) sop d) g" using effect_op_quiet exec by blast
qed (rule create_link pay_leg; assumption)+

context app_invariant
begin

text \<open>Every database statement of a use case is one of the store's operations.\<close>

lemma io_transition [keeps]: "keeps_io J (db_io (RunTransition (a_store a) pid role ev now))"
  by (rule keeps_db_io) (use exec [of _ _ "OpTransition pid role ev now"] in simp)

lemma io_store_writes [keeps]:
  "keeps_io J (db_io (Claim (a_store a) pid role uid))"
  "keeps_io J (db_io (Accept (a_store a) pid role addr actor now))"
  "keeps_io J (db_io (Cancel (a_store a) pid role now))"
  "keeps_io J (db_io (ConvertToBrokered (a_store a) mint pid uid v now))"
  "keeps_io J (db_io (AttestNonReceipt pid now))"
  "keeps_io J (db_io (InsertEvidence i pid ev))"
  "keeps_io J (db_io (run_rule (a_store a) rule lk now))"
  using exec [of _ _ "OpClaim pid role uid"] exec [of _ _ "OpAccept pid role addr actor now"]
    exec [of _ _ "OpCancel pid role now"] exec [of _ _ "OpConvert mint pid uid v now"]
    exec [of _ _ "OpAttest pid now"] exec [of _ _ "OpEvidence i pid ev"]
    exec [of _ _ "OpSweep rule lk now"]
  by (auto intro!: keeps_db_io)

lemma io_create [keeps]:
  assumes "plain_id i"
  shows "keeps_io J (db_io (CreatePocket mint sc i dr cr roles now))"
  by (rule keeps_db_io) (use assms exec [of _ _ "OpCreate mint sc i dr cr roles now"] in simp)

lemma io_db_updates [keeps]:
  "keeps_io J (db_do (SetFundingTransaction pid ref))"
  "keeps_io J (db_do (ConfirmSettlement key ref))"
  "keeps_io J (db_do (FailSettlementLeg key reason))"
  "keeps_io J (db_do (MarkWebhookProcessed i))"
  using exec [of _ _ "OpFundingTransaction pid ref"]
    exec [of _ _ "OpConfirmLeg key ref"] exec [of _ _ "OpFailLeg key reason"]
    exec [of _ _ "OpMarkWebhook i"]
  by (auto intro!: keeps_db_do)

lemma io_webhook [keeps]: "keeps_io J (record_webhook i body)"
  unfolding record_webhook_def
proof (rule keeps_db_io)
  fix d g
  assume "J d g"
  then show "J (snd (case RecordWebhookEvent i body d of (needs, d') \<Rightarrow> (Inr needs, d'))) g"
    using exec [of d g "OpRecordWebhook i body"] by (cases "RecordWebhookEvent i body d") simp
qed

subsection \<open>Use cases\<close>

lemma io_run_and_apply [keeps]: "keeps_io J (run_and_apply a pid role ev)"
  unfolding run_and_apply_def by (intro keeps)

lemma io_runDispute [keeps]: "keeps_io J (runDispute a pid role ev)"
  unfolding runDispute_def by (intro keeps)

lemma io_app_create [keeps]: "plain_id i \<Longrightarrow> keeps_io J (Create a sc i inp)"
  unfolding Create_def by (auto intro!: keeps split: sum.split error.split)

lemma io_lifecycle [keeps]:
  "keeps_io J (app_Claim a pid role uid)"
  "keeps_io J (app_ConvertToBrokered a pid uid v)"
  "keeps_io J (app_Accept a pid role addr)"
  "keeps_io J (SimulateFunding a pid)"
  "keeps_io J (app_Cancel a pid role)"
  unfolding app_Claim_def app_ConvertToBrokered_def app_Accept_def SimulateFunding_def app_Cancel_def
    cancel_check_def cancel_write_def
  by (intro keeps)+

lemma io_cases [keeps]:
  "keeps_io J (EnterCode a pid role code)"
  "keeps_io J (ReportIssue a pid role)"
  "keeps_io J (ConfirmDispatchFailure a pid role)"
  "keeps_io J (app_AttestNonReceipt a pid role)"
  "keeps_io J (OpenFrozenDispute a pid role)"
  "keeps_io J (Concede a pid role)"
  "keeps_io J (ForceRefund a pid)"
  "keeps_io J (ForcePayout a pid b)"
  "keeps_io J (UploadEvidence a put i pid role ty)"
  unfolding EnterCode_def acceptCode_def rejectCode_def settle_now_def ReportIssue_def
    ConfirmDispatchFailure_def app_AttestNonReceipt_def OpenFrozenDispute_def Concede_def
    ForceRefund_def ForcePayout_def UploadEvidence_def
  by (intro keeps)+

lemma io_credit [keeps]: "keeps_io J (creditFunding a rec amount ref)"
  unfolding creditFunding_def stamp_funding_def by (intro keeps)

lemma io_verify_refs:
  assumes "gw_VerifyFunding (a_gateway a) = Some v"
  shows "keeps_io J (verify_refs a v rec refs)"
proof (induction refs)
  case (Cons ref refs)
  have "keeps_io J (gw_io (v ref))" by (rule keeps_gw_io) (rule verify [OF assms])
  with Cons show ?case
    by (auto intro!: keeps simp: verify_credit_def)
qed (simp add: keeps_return)

lemma io_verify [keeps]: "keeps_io J (VerifyFunding a pid)"
proof (cases "gw_VerifyFunding (a_gateway a)")
  case None
  show ?thesis unfolding VerifyFunding_def None option.case by (intro keeps)
next
  case (Some v)
  show ?thesis unfolding VerifyFunding_def Some option.case by (intro keeps io_verify_refs Some)
qed

lemma io_verify_all [keeps]: "keeps_io J (verify_all a pids n)"
  by (induction pids arbitrary: n) (auto intro!: keeps)

lemma io_sweep_funding [keeps]: "keeps_io J (SweepPendingFundingVerification a)"
  unfolding SweepPendingFundingVerification_def by (intro keeps)

lemma io_ingest [keeps]: "keeps_io J (IngestGatewayEvent a ev)"
proof -
  have "keeps_io J (processGatewayEvent a ev)"
    by (cases "ge_Kind ev") (auto intro!: keeps simp: processGatewayEvent_def applyFundingEvent_def)
  then show ?thesis unfolding IngestGatewayEvent_def by (intro keeps)
qed

subsection \<open>Sweeps\<close>

lemma io_sweep_pending: "holds J w \<Longrightarrow> holds J (snd (snd (sweep_pending a legs n w)))"
proof (induction legs arbitrary: n w)
  case (Cons leg legs)
  from pay [OF Cons.prems] have "holds J (snd (payLeg a leg w))" .
  with Cons.IH show ?case by (auto split: prod.split sum.split)
qed simp

lemma io_resolve_legs: "holds J w \<Longrightarrow> holds J (snd (resolve_legs a legs n w))"
proof (induction legs arbitrary: n w)
  case (Cons leg legs)
  from resolve [OF Cons.prems] have "holds J (snd (resolve_leg a leg w))" .
  with Cons.IH show ?case by (auto split: prod.split)
qed simp

lemma io_claim_one: "keeps_io J (claim_one a rule locked)"
proof -
  have "keeps_io J (bind_io now_io (\<lambda>now. db_io (run_rule (a_store a) rule lk now)))" for lk
    by (intro keeps)
  from keeps_ioD [OF this] show ?thesis by (simp add: keeps_io_def claim_one_def)
qed

lemma io_drain_loop:
  assumes "drain_loop app rule locked n w = Some z"
  shows "app = a \<longrightarrow> holds J w \<longrightarrow> holds J (snd (snd z))"
proof (rule drain_loop.raw_induct [OF _ assms], intro impI)
  fix f app rule locked n w z
  assume IH: "\<And>app rule locked n w z. f app rule locked n w = Some z \<Longrightarrow>
      app = a \<longrightarrow> holds J w \<longrightarrow> holds J (snd (snd z))"
    and step: "(case claim_one app rule locked w of
        (Inl e, w') \<Rightarrow> Some (n, Some e, w')
      | (Inr None, w') \<Rightarrow> Some (n, None, w')
      | (Inr (Some res), w') \<Rightarrow>
          f app rule locked (n + 1) (applyOutcome app (wr_PocketID res) (wr_Outcome res) w')) = Some z"
    and w: "app = a" "holds J w"
  from keeps_ioD [OF io_claim_one w(2), of rule locked]
  have "holds J (snd (claim_one app rule locked w))" by (simp add: w)
  with step w IH io_outcome show "holds J (snd (snd z))"
    by (auto split: prod.splits sum.splits option.splits)
qed

lemma io_drain: "drainRule a rule locked w = Some (m, e, w') \<Longrightarrow> holds J w \<Longrightarrow> holds J w'"
  unfolding drainRule_def by (drule io_drain_loop) simp

lemma io_exec_app:
  assumes "app_op_ok op" and "holds J w"
  shows "holds J (exec_app a op w)"
proof (cases op)
  case (AppStore sop)
  with assms show ?thesis using exec by (simp add: holds_def)
next
  case AppSweepPending
  with assms show ?thesis using io_sweep_pending by (simp add: SweepPendingSettlementLegs_def)
next
  case AppSweepInflight
  with assms show ?thesis using io_resolve_legs by (simp add: SweepInflightSettlementLegs_def)
qed (use assms in \<open>auto intro!: keeps_ioD [OF _ assms(2)] keeps\<close>)

lemma reach_holds:
  assumes "app_reach a g0 w" and "J empty_db g0"
  shows "J (w_db w) (w_gw w)"
proof -
  from assms(1) have "holds J w"
  proof (induction rule: app_reach.induct)
    case (start w)
    then show ?case using assms(2) by (simp add: holds_def)
  qed (auto intro: io_exec_app io_drain)
  then show ?thesis by (simp add: holds_def)
qed

end

end
