(* ===== verification/App_Legs.thy ===== *)
theory App_Legs
  imports App_Invariant
begin

text \<open>
  How often a settlement leg is submitted.  The provider need not be idempotent: the gateway is
  wrapped so that its state also counts, per idempotency key, the submissions and the licences
  to submit again (an answer \<open>ErrNotSubmitted\<close> to a submission, or \<open>PayoutStatusAbsent\<close> to a
  status query).  The claim protocol keeps submissions at most one above the licences.
\<close>

section \<open>Statements that only append legs\<close>

text \<open>The transactions of the write path: they append legs and leave the webhook inbox alone.\<close>

definition extends_legs :: "(db, 'a) tx \<Rightarrow> bool" where
  "extends_legs f \<longleftrightarrow> (\<forall>d x d'. f d = Inr (x, d') \<longrightarrow>
     (\<exists>xs. settlements d' = settlements d @ xs) \<and> webhooks d' = webhooks d)"

lemma extends_bind [intro]:
  assumes "extends_legs f" and "\<And>x. extends_legs (g x)"
  shows "extends_legs (bind_tx f g)"
  unfolding extends_legs_def bind_tx_Inr_iff
proof (intro allI impI, elim exE conjE)
  fix d y d' x s
  assume "f d = Inr (x, s)" "g x s = Inr (y, d')"
  with assms obtain xs ys where "settlements s = settlements d @ xs" "settlements d' = settlements s @ ys"
      "webhooks s = webhooks d" "webhooks d' = webhooks s"
    unfolding extends_legs_def by metis
  then show "(\<exists>xs. settlements d' = settlements d @ xs) \<and> webhooks d' = webhooks d" by auto
qed

lemma extends_if [intro]: "extends_legs f \<Longrightarrow> extends_legs g \<Longrightarrow> extends_legs (if b then f else g)"
  by simp

lemma extends_frame:
  "(\<And>d x d'. f d = Inr (x, d') \<Longrightarrow> settlements d' = settlements d \<and> webhooks d' = webhooks d) \<Longrightarrow>
     extends_legs f"
  unfolding extends_legs_def by (metis append_Nil2)

lemma extends_basic [intro, simp]:
  "extends_legs (return_tx x)" "extends_legs (fail_tx e)" "extends_legs (guard_tx b e)"
  "extends_legs (read_tx h)" "extends_legs (lift_tx r)"
  by (rule extends_frame; simp add: res_simps)+

lemma extends_statements [intro, simp]:
  "extends_legs (selectPocketForUpdateTx st pid)"
  "extends_legs (getParticipantTx pid role)"
  "extends_legs (participantsTx pid)"
  "extends_legs (insertPocketDraftTx sc i dr)"
  "extends_legs (updatePocketTx pid p v)"
  "extends_legs (setDeliveryAddressTx pid addr)"
  "extends_legs (insertEventTx pid actor s t k pl)"
  "extends_legs (recordDisputeTx pid actor s q)"
  "extends_legs (split_pocket_tx pid v c ver)"
  "extends_legs (insertParticipantTx pid role u h acc)"
  "extends_legs (markAcceptedTx pid role now)"
  "extends_legs (rekey_tx pid role h)"
  "extends_legs (bind_participant pid role uid)"
  by (rule extends_frame; auto simp: selectPocketForUpdateTx_def getParticipantTx_def
      participantsTx_def insertPocketDraftTx_def insert_pocket_def updatePocketTx_def
      modify_pockets_def setDeliveryAddressTx_def insertEventTx_def insert_event_def
      recordDisputeTx_def insert_dispute_def split_pocket_tx_def update_pockets_def
      insertParticipantTx_def insert_participant_def markAcceptedTx_def rekey_tx_def
      bind_participant_def Let_def res_simps split: if_splits)+

lemma extends_leg [intro, simp]: "extends_legs (insertSettlementLegTx leg)"
  by (auto simp: extends_legs_def insertSettlementLegTx_def insert_settlement_def split: if_splits)

lemma extends_record [intro, simp]: "extends_legs (recordSettlementLegsTx pid es)"
proof -
  have "extends_legs (insert_legs pid ls)" for ls
    by (induction ls) auto
  then show ?thesis
    by (induction pid es rule: recordSettlementLegsTx.induct) auto
qed

lemma extends_apply [intro, simp]: "extends_legs (applyTransitionTx pid actor rec now ev)"
  unfolding applyTransitionTx_def by (intro extends_bind extends_basic extends_statements extends_record)

lemma extends_roles [intro, simp]: "extends_legs (insertRolesTx mint creator now pid roles)"
  by (induction roles) (auto intro!: extends_bind split: prod.splits)

lemma extends_bodies [intro, simp]:
  "extends_legs (CreatePocket_tx mint sc i dr cr roles now)"
  "extends_legs (Claim_tx st pid role uid)"
  "extends_legs (Accept_tx st pid role addr actor now)"
  "extends_legs (RunTransition_tx st pid actor ev now)"
  "extends_legs (Cancel_tx st pid actor now)"
  "extends_legs (ConvertToBrokered_tx st mint pid b v now)"
  unfolding CreatePocket_tx_def Claim_tx_def claimParticipantTx_def Accept_tx_def
    awaiting_vendor_tx_def create_aggregate_tx_def RunTransition_tx_def Cancel_tx_def
    cancel_draft_tx_def ConvertToBrokered_tx_def Let_def
  by (auto intro!: extends_bind split: prod.splits)

section \<open>Payable legs\<close>

text \<open>A key is payable while it has no leg yet or its leg is pending.\<close>

definition payable :: "string \<Rightarrow> db \<Rightarrow> bool" where
  "payable key d \<longleftrightarrow> leg_status_of key d = None \<or> leg_status_of key d = Some LegPending"

lemma payable_extends:
  "settlements d' = settlements d @ xs \<Longrightarrow> payable k d' \<Longrightarrow> payable k d"
proof -
  have "select_one P (ys @ xs) = (case select_one P ys of None \<Rightarrow> select_one P xs | Some r \<Rightarrow> Some r)"
    for P and ys xs :: "settlement_row list"
    by (induction ys) (auto simp: select_one_def)
  then show "settlements d' = settlements d @ xs \<Longrightarrow> payable k d' \<Longrightarrow> payable k d"
    by (auto simp: payable_def leg_status_of_def leg_by_key_def split: option.splits)
qed

lemma payable_leg_ops:
  "payable k (FailSettlementLeg key reason d) \<Longrightarrow> payable k d"
  "payable k (ConfirmSettlement key ref d) \<Longrightarrow> payable k d"
  "payable k (snd (ClaimSettlementLeg key d)) \<Longrightarrow> payable k d \<and> (k = key \<longrightarrow> leg_status_of k d = None)"
  "payable k (ReleaseSettlementLeg key reason d) \<Longrightarrow>
     payable k d \<or> (k = key \<and> leg_status_of k d = Some LegInflight)"
  by (auto simp: payable_def status_of_ops split: if_splits)

text \<open>The operations that neither write a leg's status nor the webhook inbox.\<close>

fun plain_op :: "store_op \<Rightarrow> bool" where
  "plain_op (OpClaimLeg _) = False"
| "plain_op (OpReleaseLeg _ _) = False"
| "plain_op (OpFailLeg _ _) = False"
| "plain_op (OpConfirmLeg _ _) = False"
| "plain_op (OpRecordWebhook _ _) = False"
| "plain_op (OpMarkWebhook _) = False"
| "plain_op _ = True"

definition extends_db :: "db \<Rightarrow> db \<Rightarrow> bool" where
  "extends_db d d' \<longleftrightarrow> (\<exists>xs. settlements d' = settlements d @ xs) \<and> webhooks d' = webhooks d"

lemma extends_run: "extends_legs f \<Longrightarrow> extends_db d (snd (run_tx f d))"
  by (auto simp: run_tx_def extends_legs_def extends_db_def split: sum.splits)

lemma extends_same: "settlements d' = settlements d \<Longrightarrow> webhooks d' = webhooks d \<Longrightarrow> extends_db d d'"
  by (simp add: extends_db_def)

lemma extends_sweep: "extends_db d (snd (sweepOne st locked due ev now d))"
proof -
  have "extends_legs (bind_tx (applyTransitionTx pid b rec now ev) (\<lambda>res. return_tx (Some res)))"
    for pid b rec by auto
  then have "extends_legs (\<lambda>d. case select_one (\<lambda>r. due r \<and> \<not> locked (r_id r)) (pockets d) of
       None \<Rightarrow> Inr (None, d)
     | Some r \<Rightarrow> bind_tx (applyTransitionTx (r_id r) RoleSystem (scanPocket st r) now ev)
                   (\<lambda>res. return_tx (Some res)) d)"
    unfolding extends_legs_def by (auto split: option.splits)
  then show ?thesis unfolding sweepOne_def by (rule extends_run)
qed

lemma extends_users [intro, simp]:
  "extends_legs (UpsertUserByPhone_tx i phone name)"
  "extends_legs (UpsertUserByGoogle_tx i sub email name av)"
  by (rule extends_frame; auto simp: UpsertUserByPhone_tx_def upsertUserTx_def
      UpsertUserByGoogle_tx_def google_id_tx_def insert_user_def set_users_def modify_users_tx_def
      res_simps split: option.splits if_splits)+

lemma plain_op_extends:
  assumes "plain_op op"
  shows "extends_db d (exec_op st op d)"
proof (cases op)
  case (OpSweep rule locked now)
  then show ?thesis
    by (cases rule) (simp_all add: SweepOneExpiredFunding_def SweepOneDeliveryDeadline_def
        SweepOneGraceRefund_def SweepOneDueSettlement_def extends_sweep)
qed (use assms in \<open>simp_all add: CreatePocket_def Claim_def Accept_def RunTransition_def Cancel_def
    ConvertToBrokered_def UpsertUserByPhone_def UpsertUserByGoogle_def extends_run\<close>,
    (rule extends_same; simp add: SetAdmin_def RecordSanction_def
    set_users_def InsertSession_def SessionUser_def RevokeSession_def
    InsertEvidence_def AttestNonReceipt_def SetFundingLink_def
    SetFundingTransaction_def SetReleaseCode_def modify_pockets_def Let_def
    split: option.splits)+)

lemma payable_quiet:
  assumes "quiet_op op" and "payable k (exec_op st op d)"
  shows "payable k d"
proof (cases "plain_op op")
  case True
  from plain_op_extends [OF this] assms(2) show ?thesis
    unfolding extends_db_def by (blast intro: payable_extends)
next
  case False
  have inbox: "payable k (snd (RecordWebhookEvent i body d)) = payable k d"
      "payable k (MarkWebhookProcessed i d) = payable k d" for i body
    by (simp_all add: payable_def leg_status_of_def leg_by_key_def RecordWebhookEvent_def
        MarkWebhookProcessed_def split: option.split)
  from False assms show ?thesis
    by (cases op) (auto simp: inbox dest: payable_leg_ops(1,2))
qed

section \<open>Counting submissions\<close>

record 'g counted =
  cn_inner :: 'g
  cn_submissions :: "string \<Rightarrow> nat"
  cn_licences :: "string \<Rightarrow> nat"

definition bump :: "string \<Rightarrow> (string \<Rightarrow> nat) \<Rightarrow> string \<Rightarrow> nat" where
  "bump k f = f(k := Suc (f k))"

definition counted_submit :: "('r \<Rightarrow> 'g \<Rightarrow> string res \<times> 'g) \<Rightarrow> ('r \<Rightarrow> string) \<Rightarrow> 'r \<Rightarrow> 'g counted \<Rightarrow>
    string res \<times> 'g counted" where
  "counted_submit submit key req s = (case submit req (cn_inner s) of (r, g) \<Rightarrow>
     (r, s\<lparr>cn_inner := g, cn_submissions := bump (key req) (cn_submissions s),
           cn_licences := if r = Inl ErrNotSubmitted then bump (key req) (cn_licences s)
             else cn_licences s\<rparr>))"

definition counted_query :: "(string \<Rightarrow> 'g \<Rightarrow> (payout_status \<times> string) res \<times> 'g) \<Rightarrow> string \<Rightarrow>
    'g counted \<Rightarrow> (payout_status \<times> string) res \<times> 'g counted" where
  "counted_query query key s = (case query key (cn_inner s) of (r, g) \<Rightarrow>
     (r, s\<lparr>cn_inner := g,
           cn_licences := (case r of Inr (PayoutStatusAbsent, _) \<Rightarrow> bump key (cn_licences s)
             | _ \<Rightarrow> cn_licences s)\<rparr>))"

definition on_inner :: "('g \<Rightarrow> 'b \<times> 'g) \<Rightarrow> 'g counted \<Rightarrow> 'b \<times> 'g counted" where
  "on_inner f s = (case f (cn_inner s) of (r, g) \<Rightarrow> (r, s\<lparr>cn_inner := g\<rparr>))"

definition counted_gateway :: "'g gateway \<Rightarrow> 'g counted gateway" where
  "counted_gateway gw =
     \<lparr>gw_CreateFundingLink = (\<lambda>req. on_inner (gw_CreateFundingLink gw req)),
      gw_Payout = counted_submit (gw_Payout gw) pq_IdempotencyKey,
      gw_Refund = counted_submit (gw_Refund gw) rq_IdempotencyKey,
      gw_VerifyFunding = map_option (\<lambda>v ref. on_inner (v ref)) (gw_VerifyFunding gw),
      gw_PayoutStatus = map_option counted_query (gw_PayoutStatus gw)\<rparr>"

definition fresh_counts :: "'g \<Rightarrow> 'g counted" where
  "fresh_counts g = \<lparr>cn_inner = g, cn_submissions = (\<lambda>_. 0), cn_licences = (\<lambda>_. 0)\<rparr>"

definition within_licences :: "db \<Rightarrow> 'g counted \<Rightarrow> bool" where
  "within_licences d s \<longleftrightarrow>
     (\<forall>k. cn_submissions s k \<le> cn_licences s k + (if payable k d then 0 else 1))"

lemma within_licencesD:
  assumes "within_licences d s"
  shows "cn_submissions s k \<le> cn_licences s k + (if payable k d then 0 else 1)"
    and "cn_submissions s k \<le> cn_licences s k + 1"
proof -
  show *: "cn_submissions s k \<le> cn_licences s k + (if payable k d then 0 else 1)"
    using assms unfolding within_licences_def by (rule spec)
  show "cn_submissions s k \<le> cn_licences s k + 1" by (rule order_trans [OF *]) simp
qed

lemma within_mono:
  assumes "within_licences d s" and "\<And>k. payable k d' \<Longrightarrow> payable k d"
  shows "within_licences d' s"
  unfolding within_licences_def
proof
  fix k
  from assms(1) have "cn_submissions s k \<le> cn_licences s k + (if payable k d then 0 else 1)"
    by (simp add: within_licences_def)
  with assms(2) [of k] show "cn_submissions s k \<le> cn_licences s k + (if payable k d' then 0 else 1)"
    by (auto split: if_splits)
qed

lemma within_counts:
  "cn_submissions s' = cn_submissions s \<Longrightarrow> (\<And>k. cn_licences s k \<le> cn_licences s' k) \<Longrightarrow>
     within_licences d s \<Longrightarrow> within_licences d s'"
  unfolding within_licences_def by (metis (no_types, lifting) add_le_mono1 order_trans)

lemma on_inner_counts [simp]:
  "cn_submissions (snd (on_inner f s)) = cn_submissions s"
  "cn_licences (snd (on_inner f s)) = cn_licences s"
  by (auto simp: on_inner_def split: prod.split)

lemma on_inner_within [simp]: "within_licences d (snd (on_inner f s)) = within_licences d s"
  by (simp add: within_licences_def)

text \<open>One submission of a leg just claimed, and what the answer licenses.\<close>

lemma submit_leg_counts:
  assumes "a_gateway a = counted_gateway gw" and "submit_leg a leg w = (r, w')"
  shows "w_db w' = w_db w \<and>
    cn_submissions (w_gw w') = bump (sl_IdempotencyKey leg) (cn_submissions (w_gw w)) \<and>
    cn_licences (w_gw w') = (if r = Inl ErrNotSubmitted
      then bump (sl_IdempotencyKey leg) (cn_licences (w_gw w)) else cn_licences (w_gw w))"
  using assms
  by (cases "sl_Direction leg") (auto simp: submit_leg_def gw_io_def counted_gateway_def
      counted_submit_def split: prod.splits)

lemma finish_leg_payable:
  assumes "payable k (w_db (snd (finish_leg key r w)))"
  shows "payable k (w_db w) \<or> (k = key \<and> r = Inl ErrNotSubmitted)"
  using assms
  by (cases r) (auto simp: finish_leg_def db_do_def bind_io_def fail_io_def
      dest: payable_leg_ops(1,2,4) split: if_splits)

lemma finish_leg_gw [simp]: "w_gw (snd (finish_leg key r w)) = w_gw w"
  by (auto simp: finish_leg_def db_do_def bind_io_def fail_io_def split: sum.splits)

lemma payLeg_within:
  assumes gw: "a_gateway a = counted_gateway gw" and u: "unique_legs (w_db w)"
    and J: "within_licences (w_db w) (w_gw w)"
  shows "within_licences (w_db (snd (payLeg a leg w))) (w_gw (snd (payLeg a leg w)))"
proof -
  let ?k = "sl_IdempotencyKey leg"
  obtain won d where c: "ClaimSettlementLeg ?k (w_db w) = (won, d)" by fastforce
  have d: "payable k d \<Longrightarrow> payable k (w_db w) \<and> (k = ?k \<longrightarrow> leg_status_of k (w_db w) = None)" for k
    using payable_leg_ops(3) [of k ?k "w_db w"] c by simp
  show ?thesis
  proof (cases won)
    case False
    with c d J show ?thesis by (auto simp: payLeg_def intro: within_mono)
  next
    case True
    then have p: "leg_status_of ?k (w_db w) = Some LegPending"
      using claim_wins_iff [OF u, of ?k] c by simp
    obtain r w2 where s: "submit_leg a leg (w\<lparr>w_db := d\<rparr>) = (r, w2)" by fastforce
    note counts = submit_leg_counts [OF gw s]
    let ?w3 = "snd (finish_leg ?k r w2)"
    have run: "snd (payLeg a leg w) = ?w3"
      using True s by (simp add: payLeg_def c try_io_def)
    have "cn_submissions (w_gw w2) k \<le> cn_licences (w_gw w2) k + (if payable k (w_db ?w3) then 0 else 1)"
      for k
    proof (cases "k = ?k")
      case True
      have "cn_submissions (w_gw w) ?k \<le> cn_licences (w_gw w) ?k"
        using within_licencesD(1) [OF J, of ?k] p by (simp add: payable_def)
      moreover have "payable ?k (w_db ?w3) \<Longrightarrow> r = Inl ErrNotSubmitted"
        using finish_leg_payable [of ?k ?k r w2] d [of ?k] counts p by auto
      ultimately show ?thesis using True counts by (auto simp: bump_def)
    next
      case False
      then have "payable k (w_db ?w3) \<Longrightarrow> payable k (w_db w)"
        using finish_leg_payable [of k ?k r w2] d counts by auto
      moreover have "cn_submissions (w_gw w2) k = cn_submissions (w_gw w) k"
          "cn_licences (w_gw w) k \<le> cn_licences (w_gw w2) k"
        using False counts by (auto simp: bump_def)
      ultimately show ?thesis using within_licencesD [OF J, of k] by (auto split: if_splits)
    qed
    then show ?thesis by (simp add: run within_licences_def)
  qed
qed

lemma resolve_leg_within:
  assumes gw: "a_gateway a = counted_gateway gw" and J: "within_licences (w_db w) (w_gw w)"
  shows "within_licences (w_db (snd (resolve_leg a leg w))) (w_gw (snd (resolve_leg a leg w)))"
proof (cases "gw_PayoutStatus gw")
  case None
  with gw J show ?thesis by (simp add: resolve_leg_def counted_gateway_def leave_leg_def)
next
  case (Some q)
  let ?k = "sl_IdempotencyKey leg"
  obtain r g where q: "q ?k (cn_inner (w_gw w)) = (r, g)" by fastforce
  let ?s = "snd (counted_query q ?k (w_gw w))"
  have io: "gw_io (counted_query q ?k) w = (r, w\<lparr>w_gw := ?s\<rparr>)"
    by (simp add: gw_io_def counted_query_def q)
  have sub: "cn_submissions ?s = cn_submissions (w_gw w)" by (simp add: counted_query_def q)
  have lic: "cn_licences ?s k = cn_licences (w_gw w) k +
      (if k = ?k \<and> (\<exists>ref. r = Inr (PayoutStatusAbsent, ref)) then 1 else 0)" for k
    by (auto simp: counted_query_def q bump_def split: sum.split payout_status.split prod.split)
  have same: "within_licences (w_db w) ?s"
    by (rule within_counts [OF sub _ J]) (simp add: lic)
  have "within_licences (ReleaseSettlementLeg ?k reason (w_db w)) ?s"
    if "r = Inr (PayoutStatusAbsent, ref)" for ref reason
    unfolding within_licences_def
  proof
    fix k
    have "cn_submissions (w_gw w) k \<le> cn_licences (w_gw w) k + 1"
      by (rule within_licencesD [OF J])
    moreover have "payable k (ReleaseSettlementLeg ?k reason (w_db w)) \<Longrightarrow>
        payable k (w_db w) \<or> k = ?k"
      using payable_leg_ops(4) by blast
    ultimately show "cn_submissions ?s k \<le> cn_licences ?s k +
        (if payable k (ReleaseSettlementLeg ?k reason (w_db w)) then 0 else 1)"
      using that within_licencesD(1) [OF J, of k] by (auto simp: sub lic split: if_splits)
  qed
  moreover have "within_licences (ConfirmSettlement ?k ref (w_db w)) ?s" for ref
    using same payable_leg_ops(2) by (rule within_mono)
  ultimately show ?thesis
    using gw Some io same
    by (auto simp: resolve_leg_def counted_gateway_def leave_leg_def split: sum.split payout_status.split)
qed

section \<open>Two invariants of the application\<close>

text \<open>Every use case is a sequence of the store's operations.\<close>

definition reached_db :: "'g app \<Rightarrow> db \<Rightarrow> 'g \<Rightarrow> bool" where
  "reached_db a d g \<longleftrightarrow> db_reach (a_store a) d"

lemma finish_leg_reach:
  "db_reach st (w_db w) \<Longrightarrow> db_reach st (w_db (snd (finish_leg key r w)))"
  using db_reach.op [of st _ "OpConfirmLeg key ref" for ref] db_reach.op [of st _ "OpFailLeg key reason" for reason]
    db_reach.op [of st _ "OpReleaseLeg key reason" for reason]
  by (auto simp: finish_leg_def db_do_def bind_io_def fail_io_def split: sum.splits)

lemma submit_leg_db [simp]: "w_db (snd (submit_leg a leg w)) = w_db w"
  by (cases "sl_Direction leg") (auto simp: submit_leg_def gw_io_def split: prod.splits)

lemma payLeg_reach:
  assumes "db_reach st (w_db w)"
  shows "db_reach st (w_db (snd (payLeg a leg w)))"
proof -
  let ?k = "sl_IdempotencyKey leg"
  obtain won d where c: "ClaimSettlementLeg ?k (w_db w) = (won, d)" by fastforce
  with db_reach.op [OF assms, of "OpClaimLeg ?k"] have d: "db_reach st d" by simp
  obtain r w2 where s: "submit_leg a leg (w\<lparr>w_db := d\<rparr>) = (r, w2)" by fastforce
  with submit_leg_db [of a leg "w\<lparr>w_db := d\<rparr>"] d have "db_reach st (w_db w2)" by simp
  from finish_leg_reach [OF this] d s show ?thesis by (simp add: payLeg_def c try_io_def Let_def)
qed

lemma resolve_leg_reach:
  assumes "db_reach st (w_db w)"
  shows "db_reach st (w_db (snd (resolve_leg a leg w)))"
  using assms db_reach.op [OF assms, of "OpConfirmLeg (sl_IdempotencyKey leg) ref" for ref]
    db_reach.op [OF assms, of "OpReleaseLeg (sl_IdempotencyKey leg) reason" for reason]
  by (auto simp: resolve_leg_def leave_leg_def gw_io_def split: option.split prod.splits sum.splits
      payout_status.splits)

interpretation store_ops: app_invariant a "reached_db a" for a
proof unfold_locales
  fix w leg
  assume "holds (reached_db a) w"
  then show "holds (reached_db a) (snd (payLeg a leg w))" "holds (reached_db a) (snd (resolve_leg a leg w))"
    using payLeg_reach resolve_leg_reach by (auto simp: holds_def reached_db_def)
qed (auto simp: reached_db_def intro: db_reach.op)

lemma app_reach_db: "app_reach a g0 w \<Longrightarrow> db_reach (a_store a) (w_db w)"
  using store_ops.reach_holds [of a g0 w] by (simp add: reached_db_def db_reach.start)

text \<open>Submissions stay within the licences, against any provider behind the counter.\<close>

definition counted_app :: "'g counted app \<Rightarrow> bool" where
  "counted_app a \<longleftrightarrow> (\<exists>gw. a_gateway a = counted_gateway gw)"

definition counted_ok :: "'g counted app \<Rightarrow> db \<Rightarrow> 'g counted \<Rightarrow> bool" where
  "counted_ok a d s \<longleftrightarrow> (counted_app a \<longrightarrow> db_reach (a_store a) d \<and> within_licences d s)"

interpretation submissions: app_invariant a "counted_ok a" for a
proof unfold_locales
  fix d s sop
  assume "counted_ok a d s" "quiet_op sop" "op_ids_ok sop"
  then show "counted_ok a (exec_op (a_store a) sop d) s"
    by (auto simp: counted_ok_def intro: db_reach.op within_mono payable_quiet)
next
  fix d s req
  assume "counted_ok a d s"
  then show "counted_ok a d (snd (gw_CreateFundingLink (a_gateway a) req s))"
    by (auto simp: counted_ok_def counted_app_def counted_gateway_def)
next
  fix v d s ref
  assume "gw_VerifyFunding (a_gateway a) = Some v" "counted_ok a d s"
  then show "counted_ok a d (snd (v ref s))"
    by (auto simp: counted_ok_def counted_app_def counted_gateway_def)
next
  fix w leg
  assume J: "holds (counted_ok a) w"
  have u: "unique_legs (w_db w)" if "counted_app a"
    using J that db_reach_good by (auto simp: holds_def counted_ok_def good_db_def intro: wf_unique_legs)
  show "holds (counted_ok a) (snd (payLeg a leg w))"
    using J u by (auto simp: holds_def counted_ok_def counted_app_def
        intro: payLeg_reach payLeg_within)
  show "holds (counted_ok a) (snd (resolve_leg a leg w))"
    using J by (auto simp: holds_def counted_ok_def counted_app_def
        intro: resolve_leg_reach resolve_leg_within)
qed

lemma app_reach_within:
  assumes "app_reach a (fresh_counts g) w" and "a_gateway a = counted_gateway gw"
  shows "within_licences (w_db w) (w_gw w)"
proof -
  have "counted_ok a empty_db (fresh_counts g)"
    by (simp add: counted_ok_def within_licences_def fresh_counts_def db_reach.start)
  from submissions.reach_holds [OF assms(1) this] assms(2) show ?thesis
    unfolding counted_ok_def counted_app_def by blast
qed

end
