(* ===== verification/App_Demo.thy ===== *)
theory App_Demo
  imports App_Legs Store_Demo Store_Sweep_Claims
begin

text \<open>
  A small running application the claims are applied to: the mock provider behind the counter, a
  clock that advances half an hour per reading, and the life of one pocket from creation to the
  entry of its code.
\<close>

definition demo_app :: "mock counted app" where
  "demo_app = \<lparr>a_store = demo_store, a_gateway = counted_gateway (mock_gateway id),
     a_linkSecret = ''ls'', a_hmac = (\<lambda>k m. take 4 m), a_sha = (\<lambda>m. take 2 (rev m)), a_seal = (\<lambda>k n p. p),
     a_unseal = (\<lambda>k n c. Some c), a_releaseCodeSecret = ''secret'',
     a_fundingLinkTTL = 72 * time_Hour, a_gracePeriod = 24 * time_Hour,
     a_evidenceCaptureWindow = time_Hour, a_evidenceMaxBytes = 1000000,
     a_sandbox = True, a_realGateway = False, a_disableSimulateFunding = False\<rparr>"

definition demo_start :: "mock counted world" where
  "demo_start = \<lparr>w_db = empty_db, w_gw = fresh_counts mock_New, w_sent = [],
     w_clock = (\<lambda>n. (int n + 1) * (30 * time_Minute)), w_tick = 0,
     w_draws = (\<lambda>n. (Inr 42, Inr (replicate 12 (CHR ''n'')))), w_drawn = 0,
      w_nonces = (\<lambda>n role. Inr (replicate (Suc n) (CHR ''n''))), w_minted = 0\<rparr>"

definition demo_input :: create_input where
  "demo_input = \<lparr>in_Structure = StructureP2P, in_CreatorRole = RoleVendor, in_Mode = ModeCooldown,
     in_InspectionWindow = time_Hour, in_DeliveryWindow = 48 * time_Hour, in_AmountKobo = 5000000,
     in_CommissionKobo = 0, in_ItemDescription = ''phone'', in_Category = [],
     in_CreatorUserID = ''u1''\<rparr>"

definition demo_payment :: "string \<Rightarrow> int \<Rightarrow> gateway_event" where
  "demo_payment i amount = \<lparr>ge_ProviderEventID = i, ge_Kind = GatewayFundingSucceeded,
     ge_RawType = ''payment_success'', ge_OrderRef = deriveRef id ''fund'' ''p1'',
     ge_MerchantTxRef = [], ge_PaymentRef = ''tx1'', ge_AmountKobo = amount, ge_Payload = []\<rparr>"

definition demo_app_ops :: "app_op list" where
  "demo_app_ops =
     [AppStore (OpUserByPhone ''u1'' ''0801'' ''Ada''), AppStore (OpUserByPhone ''u2'' ''0802'' ''Bayo''),
      AppCreate (Inr ''sc1'') ''p1'' demo_input, AppClaim ''p1'' RoleBuyer ''u2'',
      AppAccept ''p1'' RoleBuyer ''12 Marina'', AppIngest (demo_payment ''e1'' 0),
      AppEnterCode ''p1'' RoleVendor ''0042'']"

text \<open>The world after the first \<open>n\<close> operations: 5 accepts the pocket, 6 funds it, 7 enters the
  code.\<close>

definition demo_world :: "nat \<Rightarrow> mock counted world" where
  "demo_world n = fold (exec_app demo_app) (take n demo_app_ops) demo_start"

lemma demo_app_reach: "app_reach demo_app (fresh_counts mock_New) (demo_world n)"
proof -
  have reach: "app_reach demo_app (fresh_counts mock_New) (fold (exec_app demo_app) ops w)"
    if "app_reach demo_app (fresh_counts mock_New) w" "list_all app_op_ok ops" for ops w
    using that by (induction ops arbitrary: w) (auto intro: app_reach.op)
  have "list_all app_op_ok demo_app_ops" by (simp add: demo_app_ops_def plain_id_def)
  then have "list_all app_op_ok (take n demo_app_ops)"
    by (auto simp: list_all_iff dest: in_set_takeD)
  moreover have "app_reach demo_app (fresh_counts mock_New) demo_start"
    by (rule app_reach.start) (simp_all add: demo_start_def)
  ultimately show ?thesis unfolding demo_world_def using reach by blast
qed

end
