(* ===== verification/App_Claims.thy ===== *)
theory App_Claims
  imports App_Demo
begin

text \<open>
  The claims about the running application: what every reachable world guarantees, how often a
  leg is submitted, and that the sweeper's drain loops end.
\<close>

section \<open>Every reachable world\<close>

text \<open>C2: The application keeps the store's guarantees: in every world its use cases, sweeps and
  provider notifications reach, in any order and against any provider, each pocket has exactly
  the settlement legs of its state, a gap-free audit history, and no key or seat twice.\<close>

theorem application_keeps_ledger:
  assumes "app_reach a g0 w" and "r \<in> set (pockets (w_db w))"
  shows "map leg_of (filter (\<lambda>s. s_pocket s = r_id r) (settlements (w_db w))) = terminal_legs r \<and>
    distinct (map s_key (settlements (w_db w))) \<and>
    chain StateDraft (Events (r_id r) (w_db w)) (r_state r) \<and>
    distinct (map (\<lambda>t. (t_pocket t, t_role t)) (participants (w_db w)))"
proof -
  have reach: "db_reach (a_store a) (w_db w)" using assms(1) by (rule app_reach_db)
  have "wf_db (w_db w)" "audit_ok (w_db w)"
    using db_reach_good [OF reach] by (simp_all add: good_db_def)
  then show ?thesis
    using wf_unique_legs [of "w_db w"] db_reach_parties [OF reach] assms(2)
    by (auto simp: wf_db_def wf_ledger_def legs_of_def unique_legs_def audit_ok_def parties_ok_def)
qed

theorem application_keeps_ledger_witness:
  "\<exists>r \<in> set (pockets (w_db (demo_world 7))). r_state r = StateDeliveredPending \<and>
     filter (\<lambda>s. s_pocket s = r_id r) (settlements (w_db (demo_world 7))) = []"
proof -
  have "\<exists>r \<in> set (pockets (w_db (demo_world 7))). r_state r = StateDeliveredPending \<and>
      terminal_legs r = []"
    by code_simp
  then obtain r where r: "r \<in> set (pockets (w_db (demo_world 7)))"
      "r_state r = StateDeliveredPending" "terminal_legs r = []" by blast
  with application_keeps_ledger [OF demo_app_reach r(1)] show ?thesis by auto
qed

text \<open>C7: The claim protocol bounds disbursement without trusting the provider: over any run, a
  settlement leg is submitted at most once more than the provider licensed by answering that a
  submission never reached it or that it has no record of one, and while a leg is payable again
  every submission made so far was licensed.\<close>

theorem submissions_within_licences:
  assumes "app_reach a (fresh_counts g) w" and "a_gateway a = counted_gateway gw"
  shows "cn_submissions (w_gw w) k \<le> cn_licences (w_gw w) k + (if payable k (w_db w) then 0 else 1)"
  using app_reach_within [OF assms] by (simp add: within_licences_def)

text \<open>The demo settles in its eighth step: the sweeper drains the settlement rule.\<close>

definition demo_settled :: "mock counted world" where
  "demo_settled = snd (snd (SweepPendingSettlementLegs demo_app
     (exec_app demo_app (AppStore (OpSweep RuleDueSettlement (\<lambda>_. False) (3 * time_Hour)))
       (demo_world 7))))"

lemma demo_settled_reach: "app_reach demo_app (fresh_counts mock_New) demo_settled"
proof -
  have "app_reach demo_app (fresh_counts mock_New)
      (exec_app demo_app (AppStore (OpSweep RuleDueSettlement (\<lambda>_. False) (3 * time_Hour))) (demo_world 7))"
    by (rule app_reach.op [OF demo_app_reach]) simp
  from app_reach.op [OF this, of AppSweepPending] show ?thesis by (simp add: demo_settled_def)
qed

theorem submissions_within_licences_witness:
  "cn_submissions (w_gw demo_settled) (idempotencyKey ''p1'' Payout RoleVendor) \<le> 1 \<and>
   cn_submissions (w_gw demo_settled) (idempotencyKey ''p1'' Payout RoleVendor) = 1"
proof -
  let ?k = "idempotencyKey ''p1'' Payout RoleVendor"
  have gw: "a_gateway demo_app = counted_gateway (mock_gateway id)" by (simp add: demo_app_def)
  have "cn_licences (w_gw demo_settled) ?k = 0" "cn_submissions (w_gw demo_settled) ?k = 1"
    by code_simp+
  with submissions_within_licences [OF demo_settled_reach gw, of ?k] show ?thesis
    by (simp split: if_splits)
qed

section \<open>Draining ends\<close>

text \<open>What the effects of a transition leave alone: the lifecycle columns and timers of every
  pocket.\<close>

type_synonym life = "string \<times> state \<times> int \<times> (int \<times> bool) \<times> gotime option list"

definition lifecycle :: "pocket_row \<Rightarrow> life" where
  "lifecycle r = (r_id r, r_state r, r_version r, (r_code_attempts r, r_code_locked r),
     [r_funding_expires_at r, r_delivery_deadline r, r_grace_deadline r, r_settle_after r, r_attested_at r])"

definition same_lifecycle :: "life list \<Rightarrow> db \<Rightarrow> 'g \<Rightarrow> bool" where
  "same_lifecycle ls d g \<longleftrightarrow> map lifecycle (pockets d) = ls"

lemma leg_ops_pockets [simp]:
  "pockets (snd (ClaimSettlementLeg key d)) = pockets d"
  "pockets (ReleaseSettlementLeg key reason d) = pockets d"
  "pockets (FailSettlementLeg key reason d) = pockets d"
  "pockets (ConfirmSettlement key ref d) = pockets d"
  by (simp_all add: ClaimSettlementLeg_def ReleaseSettlementLeg_def FailSettlementLeg_def
      ConfirmSettlement_def update_settlements_def)

text \<open>What none of the leg statements touches, a whole payment run of a leg leaves alone.\<close>

lemma payLeg_frame:
  assumes "\<And>k d. f (snd (ClaimSettlementLeg k d)) = f d" and "\<And>k m d. f (ReleaseSettlementLeg k m d) = f d"
    and "\<And>k m d. f (FailSettlementLeg k m d) = f d" and "\<And>k m d. f (ConfirmSettlement k m d) = f d"
  shows "f (w_db (snd (payLeg a leg w))) = f (w_db w)"
proof -
  have fin: "f (w_db (snd (finish_leg key r w))) = f (w_db w)" for key r and w :: "'g world"
    using assms(2-4) by (auto simp: finish_leg_def db_do_def bind_io_def fail_io_def split: sum.splits)
  obtain won d where c: "ClaimSettlementLeg (sl_IdempotencyKey leg) (w_db w) = (won, d)" by fastforce
  then have "f d = f (w_db w)" using assms(1) by (metis snd_conv)
  moreover obtain r w2 where s: "submit_leg a leg (w\<lparr>w_db := d\<rparr>) = (r, w2)" by fastforce
  moreover have "w_db w2 = d" using submit_leg_db [of a leg "w\<lparr>w_db := d\<rparr>"] s by simp
  ultimately show ?thesis by (simp add: payLeg_def c Let_def try_io_def fin)
qed

lemma payLeg_pockets [simp]: "pockets (w_db (snd (payLeg a leg w))) = pockets (w_db w)"
  by (rule payLeg_frame) simp_all

lemma lifecycle_update:
  "(\<And>r. lifecycle (f r) = lifecycle r) \<Longrightarrow> map lifecycle (update_where P f rs) = map lifecycle rs"
  by (simp add: update_where_def)

interpretation effect_frame: effect_invariant a "same_lifecycle ls" for a ls
proof unfold_locales
  fix d g sop
  assume "same_lifecycle ls d g" "effect_op sop"
  then show "same_lifecycle ls (exec_op (a_store a) sop d) g"
    by (cases sop) (simp_all add: same_lifecycle_def SetFundingLink_def SetReleaseCode_def
        modify_pockets_def lifecycle_update lifecycle_def RecordSanction_def set_users_def
        split: option.split)
qed (simp_all add: same_lifecycle_def holds_def)

lemma applyOutcome_lifecycle:
  "map lifecycle (pockets (w_db (applyOutcome a pid out w))) = map lifecycle (pockets (w_db w))"
  using effect_frame.io_outcome [of "map lifecycle (pockets (w_db w))" w]
  by (simp add: holds_def same_lifecycle_def)

fun rule_state :: "sweep_rule \<Rightarrow> state" where
  "rule_state RuleExpiredFunding = StateCreated"
| "rule_state RuleDeliveryDeadline = StateFunded"
| "rule_state RuleGraceRefund = StateFrozen"
| "rule_state RuleDueSettlement = StateDeliveredPending"

definition waiting :: "sweep_rule \<Rightarrow> db \<Rightarrow> nat" where
  "waiting rule d = length (filter (\<lambda>r. r_state r = rule_state rule) (pockets d))"

lemma rule_due_source: "rule_due rule now r \<Longrightarrow> r_state r = rule_state rule"
  by (cases rule) (simp_all add: due_expired_funding_def due_delivery_deadline_def
      due_grace_refund_def due_settlement_def)

lemma waiting_lifecycle: "map lifecycle (pockets d') = map lifecycle (pockets d) \<Longrightarrow> waiting rule d' = waiting rule d"
proof -
  have w: "waiting rule d = length (filter (\<lambda>l. fst (snd l) = rule_state rule) (map lifecycle (pockets d)))"
    for d by (simp add: waiting_def filter_map comp_def lifecycle_def)
  show "map lifecycle (pockets d') = map lifecycle (pockets d) \<Longrightarrow> waiting rule d' = waiting rule d"
    by (simp only: w)
qed

text \<open>One claim of a rule on a reachable database: nothing, or one pocket fewer waiting.\<close>

lemma run_rule_waiting:
  assumes "db_reach st d"
  obtains (idle) "run_rule st rule lk now d = (Inr None, d)"
      "\<forall>r \<in> set (pockets d). rule_due rule now r \<longrightarrow> lk (r_id r)"
    | (moved) res d' where "run_rule st rule lk now d = (Inr (Some res), d')"
      "waiting rule d' < waiting rule d"
proof -
  have wf: "wf_db d" using db_reach_good [OF assms] by (simp add: good_db_def)
  show thesis
  proof (cases "select_one (\<lambda>r. rule_due rule now r \<and> \<not> lk (r_id r)) (pockets d)")
    case None
    with idle show thesis
      by (simp add: run_rule_sweep sweepOne_def run_tx_def select_one_None_iff)
  next
    case (Some r)
    then have r: "r \<in> set (pockets d)" "rule_due rule now r" by (auto dest: select_one_Some)
    obtain out ds where T: "Transition (row_pocket st r) now (rule_event rule) = Inr out"
        and run: "run_rule st rule lk now d = (Inr (Some \<lparr>wr_PocketID = r_id r,
          wr_FromState = r_state r, wr_Outcome = out\<rparr>),
          after_transition d r RoleSystem (rule_event rule) (out_Pocket out) ds)"
      by (rule run_rule_Some [OF wf Some])
    have "p_State (out_Pocket out) \<noteq> rule_state rule"
      using rule_due_ok [OF r(2), of st] T rule_due_source [OF r(2)] by auto
    then have "waiting rule (after_transition d r RoleSystem (rule_event rule) (out_Pocket out) ds) < waiting rule d"
      unfolding waiting_def after_transition_def
      using filter_replace_less [of r "pockets d" "\<lambda>r. r_state r = rule_state rule" "r_id r"
          "write_pocket (out_Pocket out)"] r(1) rule_due_source [OF r(2)] by simp
    with run moved show thesis by blast
  qed
qed

lemma drain_loop_ends:
  assumes "db_reach (a_store a) (w_db w)"
  shows "\<exists>k w'. drain_loop a rule locked n w = Some (n + int k, None, w') \<and> k \<le> waiting rule (w_db w) \<and>
    (\<forall>r \<in> set (pockets (w_db w')). rule_due rule (w_clock w' (w_tick w' - 1)) r \<longrightarrow>
       locked (w_tick w' - 1) (r_id r))"
  using assms
proof (induction "waiting rule (w_db w)" arbitrary: n w rule: less_induct)
  case less
  let ?now = "w_clock w (w_tick w)" and ?lk = "locked (w_tick w)"
  have claim: "claim_one a rule locked w = (case run_rule (a_store a) rule ?lk ?now (w_db w) of
      (r, d) \<Rightarrow> (r, w\<lparr>w_tick := Suc (w_tick w), w_db := d\<rparr>))"
    by (simp add: claim_one_def bind_io_def now_io_def db_io_def split: prod.split)
  from less.prems show ?case
  proof (cases rule: run_rule_waiting [of _ _ rule ?lk ?now])
    case idle
    then show ?thesis
      by (subst drain_loop.simps) (auto simp: claim intro!: exI [of _ "0::nat"])
  next
    case (moved res d')
    let ?w1 = "w\<lparr>w_tick := Suc (w_tick w), w_db := d'\<rparr>"
    let ?w2 = "applyOutcome a (wr_PocketID res) (wr_Outcome res) ?w1"
    have "run_rule (a_store a) rule ?lk ?now (w_db w) = (Inr (Some res), d')" by (rule moved)
    then have reach: "db_reach (a_store a) (w_db ?w1)"
      using db_reach.op [OF less.prems, of "OpSweep rule ?lk ?now"] by simp
    then have "db_reach (a_store a) (w_db ?w2)"
      using store_ops.io_outcome [of a ?w1] by (simp add: holds_def reached_db_def)
    moreover have le: "waiting rule (w_db ?w2) < waiting rule (w_db w)"
      using moved(2) waiting_lifecycle [OF applyOutcome_lifecycle, of rule a _ _ ?w1] by simp
    ultimately obtain k w' where "drain_loop a rule locked (n + 1) ?w2 = Some (n + 1 + int k, None, w')"
        and k: "k \<le> waiting rule (w_db ?w2)"
        and idle: "\<forall>r \<in> set (pockets (w_db w')). rule_due rule (w_clock w' (w_tick w' - 1)) r \<longrightarrow>
          locked (w_tick w' - 1) (r_id r)"
      using less.hyps [of ?w2 "n + 1"] by blast
    moreover have "drain_loop a rule locked n w = drain_loop a rule locked (n + 1) ?w2"
      by (subst drain_loop.simps) (simp add: claim moved(1))
    ultimately show ?thesis using le by (intro exI [of _ "Suc k"] exI [of _ w']) simp
  qed
qed

text \<open>C15: The sweeper's drain loop, which has no bound of its own, always returns, without an
  error and after at most as many passes as pockets stood in the rule's source state; when it
  returns, every pocket still due at its last reading of the clock is locked by another
  transaction.\<close>

theorem drain_returns:
  assumes "app_reach a g0 w"
  shows "\<exists>k w'. drainRule a rule locked w = Some (int k, None, w') \<and> k \<le> waiting rule (w_db w) \<and>
    (\<forall>r \<in> set (pockets (w_db w')). rule_due rule (w_clock w' (w_tick w' - 1)) r \<longrightarrow>
       locked (w_tick w' - 1) (r_id r))"
  using drain_loop_ends [OF app_reach_db [OF assms], of rule locked 0] by (simp add: drainRule_def)

theorem drain_returns_witness:
  "\<exists>k w'. drainRule demo_app RuleDueSettlement (\<lambda>_ _. False) (demo_world 7) = Some (int k, None, w') \<and>
     k \<le> 1 \<and> app_reach demo_app (fresh_counts mock_New) w'"
proof -
  have "waiting RuleDueSettlement (w_db (demo_world 7)) = 1" by code_simp
  with drain_returns [OF demo_app_reach [of 7], of RuleDueSettlement "\<lambda>_ _. False"]
  obtain k w' where drain: "drainRule demo_app RuleDueSettlement (\<lambda>_ _. False) (demo_world 7) =
      Some (int k, None, w')" "k \<le> 1" by auto
  with app_reach.drain [OF demo_app_reach drain(1)] show ?thesis by blast
qed

end
