(* ===== verification/App_Case_Claims.thy ===== *)
theory App_Case_Claims
  imports App_Claims
begin

text \<open>
  What a committed transition leaves in the database, and the claim about entering the release
  code.
\<close>

section \<open>A committed transition\<close>

text \<open>The lifecycle columns of one pocket, timers apart.\<close>

fun status_columns :: "life \<Rightarrow> string \<times> state \<times> int \<times> int \<times> bool" where
  "status_columns (i, s, v, (attempts, locked), timers) = (i, s, v, attempts, locked)"

definition status :: "string \<Rightarrow> db \<Rightarrow> (string \<times> state \<times> int \<times> int \<times> bool) option" where
  "status pid d = map_option (\<lambda>r. status_columns (lifecycle r)) (pocket_by_id pid d)"

lemma status_cong:
  assumes "map lifecycle (pockets d') = map lifecycle (pockets d)"
  shows "status pid d' = status pid d"
proof -
  have s: "status pid d = map_option status_columns (List.find (\<lambda>l. fst l = pid) (map lifecycle (pockets d)))" for d
  proof -
    have "map_option (\<lambda>r. status_columns (lifecycle r)) (select_one (\<lambda>r. r_id r = pid) rs) =
        map_option status_columns (List.find (\<lambda>l. fst l = pid) (map lifecycle rs))" for rs
      by (induction rs) (simp_all add: select_one_def lifecycle_def)
    then show ?thesis by (simp add: status_def pocket_by_id_def)
  qed
  show ?thesis by (simp only: s assms)
qed

lemma status_applyOutcome [simp]: "status pid (w_db (applyOutcome a k out w)) = status pid (w_db w)"
  by (rule status_cong) (rule applyOutcome_lifecycle)

lemma RunTransition_Inr:
  assumes "db_reach st d" and "RunTransition st pid actor ev now d = (Inr res, d')"
  obtains r out ds where "pocket_by_id pid d = Some r" "r_id r = pid" "r_state r \<noteq> StateDraft"
    "Transition (row_pocket st r) now ev = Inr out"
    "res = \<lparr>wr_PocketID = pid, wr_FromState = r_state r, wr_Outcome = out\<rparr>"
    "d' = after_transition d r actor ev (out_Pocket out) ds"
    "status pid d' = Some (pid, p_State (out_Pocket out), r_version r + 1,
       p_CodeAttempts (out_Pocket out), p_CodeLocked (out_Pocket out))"
proof -
  have wf: "wf_db d" using db_reach_good [OF assms(1)] by (simp add: good_db_def)
  from assms(2) have "RunTransition_tx st pid actor ev now d = Inr (res, d')"
    by (simp add: RunTransition_def res_simps)
  then obtain r where r: "pocket_by_id pid d = Some r" "r_state r \<noteq> StateDraft"
      and run: "applyTransitionTx pid actor (scanPocket st r) now ev d = Inr (res, d')"
    by (auto simp: RunTransition_tx_def selectPocketForUpdateTx_def res_simps GetByID_def
        scan_found_def split: option.splits if_splits)
  from r(1) have mem: "r \<in> set (pockets d)" "r_id r = pid"
    by (auto simp: pocket_by_id_def dest: select_one_Some)
  from transition_result [OF wf mem(1)] run mem(2) obtain out ds where
      out: "Transition (row_pocket st r) now ev = Inr out"
      "res = \<lparr>wr_PocketID = pid, wr_FromState = r_state r, wr_Outcome = out\<rparr>"
      "d' = after_transition d r actor ev (out_Pocket out) ds" by blast
  moreover have "status pid d' = Some (pid, p_State (out_Pocket out), r_version r + 1,
       p_CodeAttempts (out_Pocket out), p_CodeLocked (out_Pocket out))"
    using r(1) mem(2) by (simp add: out(3) status_def after_transition_pocket lifecycle_def write_pocket_def)
  ultimately show thesis using that r mem(2) by blast
qed

section \<open>Entering the release code\<close>

lemma settle_now_result:
  assumes "db_reach (a_store a) (w_db w)" and "status pid (w_db w) = Some (i, s, rest)"
    and "s = StateDeliveredPending" and "settle_now a pid role s w = (Inr res, w')"
  shows "ce_Accepted res \<and> (\<exists>i' rest'. status pid (w_db w') = Some (i', ce_State res, rest')) \<and>
    (ce_State res = StateDeliveredPending \<or> ce_State res = StateSettled)"
proof -
  let ?now = "w_clock w (w_tick w)"
  obtain r d where run: "RunTransition (a_store a) pid role (event_of EvSettleDue) ?now (w_db w) = (r, d)"
    by fastforce
  show ?thesis
  proof (cases r)
    case (Inl e)
    then have "d = w_db w" using run by (simp add: RunTransition_def res_simps)
    with Inl assms run show ?thesis
      by (cases rest) (auto simp: settle_now_def bind_io_def now_io_def try_io_def db_io_def return_io_def
          fail_io_def code_accepted_result_def split: if_splits)
  next
    case (Inr x)
    with run have "RunTransition (a_store a) pid role (event_of EvSettleDue) ?now (w_db w) = (Inr x, d)"
      by simp
    from RunTransition_Inr [OF assms(1) this] obtain q out ds where
        T: "Transition (row_pocket (a_store a) q) ?now (event_of EvSettleDue) = Inr out"
        and x: "wr_Outcome x = out" and st: "\<exists>rest'. status pid d = Some (pid, p_State (out_Pocket out), rest')"
      by (metis select_convs(3) write_result.select_convs(3))
    have "p_State (out_Pocket out) = StateSettled" using Transition_edge [OF T] by auto
    with Inr assms(4) run x st show ?thesis
      by (auto simp: settle_now_def bind_io_def now_io_def try_io_def db_io_def return_io_def
          after_io_def code_accepted_result_def)
  qed
qed

lemma acceptCode_result:
  assumes "app_reach a g0 w" and "acceptCode a pid role w = (Inr res, w')"
  shows "ce_Accepted res \<and> (\<exists>r. pocket_by_id pid (w_db w) = Some r \<and> \<not> r_code_locked r \<and>
      r_state r \<in> {StateFunded, StateFrozen}) \<and>
    (\<exists>i' rest'. status pid (w_db w') = Some (i', ce_State res, rest')) \<and>
    (ce_State res = StateDeliveredPending \<or> ce_State res = StateSettled)"
proof -
  let ?now = "w_clock w (w_tick w)"
  obtain x d where run: "RunTransition (a_store a) pid role (event_of EvCodeAccepted) ?now (w_db w) = (Inr x, d)"
    using assms(2) by (auto simp: acceptCode_def bind_io_def now_io_def db_io_def
        split: prod.splits sum.splits)
  have db: "db_reach (a_store a) (w_db w)" by (rule app_reach_db [OF assms(1)])
  from RunTransition_Inr [OF db run] obtain r out ds where r: "pocket_by_id pid (w_db w) = Some r"
      and T: "Transition (row_pocket (a_store a) r) ?now (event_of EvCodeAccepted) = Inr out"
      and x: "wr_Outcome x = out" and st: "\<exists>rest'. status pid d = Some (pid, p_State (out_Pocket out), rest')"
    by (metis write_result.select_convs(3))
  have ok: "\<not> r_code_locked r \<and> r_state r \<in> {StateFunded, StateFrozen} \<and>
      p_State (out_Pocket out) = StateDeliveredPending"
    using T by (auto simp: Transition_def codeAccepted_def row_pocket_def split: if_splits)
  let ?w1 = "w\<lparr>w_tick := Suc (w_tick w), w_db := d\<rparr>"
  let ?w2 = "applyOutcome a pid out ?w1"
  let ?w3 = "?w2\<lparr>w_tick := Suc (w_tick ?w2)\<rparr>"
  have st3: "\<exists>rest'. status pid (w_db ?w3) = Some (pid, StateDeliveredPending, rest')"
    using st ok by simp
  have body: "(if DueForSettlement (out_Pocket out) (w_clock ?w2 (w_tick ?w2))
      then settle_now a pid role StateDeliveredPending
      else return_io (code_accepted_result StateDeliveredPending)) ?w3 = (Inr res, w')"
    using assms(2) run x ok by (auto simp: acceptCode_def bind_io_def now_io_def db_io_def after_io_def
        Let_def split: if_splits)
  have reach: "db_reach (a_store a) (w_db ?w3)"
  proof -
    have "db_reach (a_store a) d"
      using db_reach.op [OF db, of "OpTransition pid role (event_of EvCodeAccepted) ?now"] run by simp
    then show ?thesis
      using store_ops.io_outcome [of a ?w1 pid out] by (simp add: holds_def reached_db_def)
  qed
  have "ce_Accepted res \<and> (\<exists>i' rest'. status pid (w_db w') = Some (i', ce_State res, rest')) \<and>
    (ce_State res = StateDeliveredPending \<or> ce_State res = StateSettled)"
  proof (cases "DueForSettlement (out_Pocket out) (w_clock ?w2 (w_tick ?w2))")
    case True
    obtain rest' where "status pid (w_db ?w3) = Some (pid, StateDeliveredPending, rest')"
      using st3 by blast
    from settle_now_result [OF reach this refl] body True show ?thesis by simp
  next
    case False
    with body st3 show ?thesis by (auto simp: return_io_def code_accepted_result_def)
  qed
  with r ok show ?thesis by blast
qed

lemma rejectCode_result:
  assumes "app_reach a g0 w" and "rejectCode a pid role w = (Inr res, w')"
  shows "\<not> ce_Accepted res \<and> (\<exists>r. pocket_by_id pid (w_db w) = Some r \<and> \<not> r_code_locked r \<and>
      r_state r \<in> {StateFunded, StateFrozen} \<and> ce_State res = r_state r \<and>
      ce_Locked res = (5 \<le> r_code_attempts r + 1) \<and>
      ce_AttemptsRemaining res = max 0 (4 - r_code_attempts r) \<and>
      status pid (w_db w') = Some (pid, r_state r, r_version r + 1, r_code_attempts r + 1,
        5 \<le> r_code_attempts r + 1))"
proof -
  let ?now = "w_clock w (w_tick w)"
  obtain x d where run: "RunTransition (a_store a) pid role (event_of EvCodeRejected) ?now (w_db w) = (Inr x, d)"
    using assms(2) by (auto simp: rejectCode_def bind_io_def now_io_def db_io_def
        split: prod.splits sum.splits)
  have db: "db_reach (a_store a) (w_db w)" by (rule app_reach_db [OF assms(1)])
  from RunTransition_Inr [OF db run] obtain r out ds where r: "pocket_by_id pid (w_db w) = Some r"
      and T: "Transition (row_pocket (a_store a) r) ?now (event_of EvCodeRejected) = Inr out"
      and x: "wr_Outcome x = out" and st: "status pid d = Some (pid, p_State (out_Pocket out),
        r_version r + 1, p_CodeAttempts (out_Pocket out), p_CodeLocked (out_Pocket out))"
    by (metis write_result.select_convs(3))
  have ok: "\<not> r_code_locked r \<and> r_state r \<in> {StateFunded, StateFrozen} \<and>
      p_State (out_Pocket out) = r_state r \<and> p_CodeAttempts (out_Pocket out) = r_code_attempts r + 1 \<and>
      p_CodeLocked (out_Pocket out) = (4 \<le> r_code_attempts r)"
    using T by (auto simp: Transition_def codeRejected_def row_pocket_def split: if_splits)
  have "res = \<lparr>ce_Accepted = False, ce_State = p_State (out_Pocket out),
        ce_Locked = p_CodeLocked (out_Pocket out), ce_AttemptsRemaining =
          (let rem = MaxAttempts - p_CodeAttempts (out_Pocket out) in if rem < 0 then 0 else rem)\<rparr>"
      "w' = applyOutcome a pid out (w\<lparr>w_tick := Suc (w_tick w), w_db := d\<rparr>)"
    using assms(2) run x by (auto simp: rejectCode_def bind_io_def now_io_def db_io_def
        after_io_def return_io_def Let_def)
  with r ok st show ?thesis by (auto simp: MaxAttempts_def)
qed

text \<open>C17: A release-code entry that returns a result came from the vendor of a FUNDED or FROZEN
  pocket whose code is not locked, and it is accepted exactly when the keyed hash of the entered
  code is the stored one; then the pocket is DELIVERED_PENDING or, when due at once, SETTLED, as
  reported.  A wrong code leaves the state alone, counts one attempt and locks at the fifth.\<close>

theorem enter_code_checks:
  assumes "app_reach a g0 w" and "EnterCode a pid role code w = (Inr res, w')"
  shows "role = RoleVendor \<and> (\<exists>r. pocket_by_id pid (w_db w) = Some r \<and> \<not> r_code_locked r \<and>
    r_state r \<in> {StateFunded, StateFrozen} \<and>
    (ce_Accepted res \<longleftrightarrow> r_release_code_hash r = Some (Hash (a_hmac a) code (a_releaseCodeSecret a))) \<and>
    (if ce_Accepted res then ce_State res \<in> {StateDeliveredPending, StateSettled} \<and>
        (\<exists>i' rest'. status pid (w_db w') = Some (i', ce_State res, rest'))
     else ce_AttemptsRemaining res = max 0 (4 - r_code_attempts r) \<and>
        status pid (w_db w') = Some (pid, r_state r, r_version r + 1, r_code_attempts r + 1,
          5 \<le> r_code_attempts r + 1)))"
proof -
  have role: "role = RoleVendor" using assms(2) by (auto simp: EnterCode_def fail_io_def split: if_splits)
  obtain r where r: "pocket_by_id pid (w_db w) = Some r"
    using assms(2) role by (auto simp: EnterCode_def bind_io_def db_read_def GetByID_def scan_found_def
        split: option.splits)
  let ?h = "derefStr (r_release_code_hash r)"
  let ?H = "Hash (a_hmac a) code (a_releaseCodeSecret a)"
  have ready: "?h \<noteq> []" and body: "(if ?H = ?h then acceptCode a pid role else rejectCode a pid role) w = (Inr res, w')"
    using assms(2) role r by (auto simp: EnterCode_def bind_io_def db_read_def GetByID_def
        scan_found_def scanPocket_def Verify_def fail_io_def split: if_splits)
  have hash: "r_release_code_hash r = Some ?H \<longleftrightarrow> ?H = ?h"
    using ready by (auto simp: derefStr_def split: option.splits)
  show ?thesis
  proof (cases "?H = ?h")
    case True
    with body have "acceptCode a pid role w = (Inr res, w')" by simp
    from acceptCode_result [OF assms(1) this] True role r hash show ?thesis by auto
  next
    case False
    with body have "rejectCode a pid role w = (Inr res, w')" by simp
    from rejectCode_result [OF assms(1) this] False role r hash show ?thesis by auto
  qed
qed

theorem enter_code_checks_witness:
  "\<exists>res w'. EnterCode demo_app ''p1'' RoleVendor ''0043'' (demo_world 6) = (Inr res, w') \<and>
     \<not> ce_Accepted res \<and> ce_AttemptsRemaining res = 4 \<and>
     status ''p1'' (w_db w') = Some (''p1'', StateFunded, 4, 1, False)"
proof -
  let ?run = "EnterCode demo_app ''p1'' RoleVendor ''0043'' (demo_world 6)"
  have "(case ?run of (Inl _, _) \<Rightarrow> False | (Inr res, _) \<Rightarrow> \<not> ce_Accepted res)" by code_simp
  then obtain res w' where run: "?run = (Inr res, w')" and no: "\<not> ce_Accepted res"
    by (cases ?run) (auto split: sum.splits)
  have "status ''p1'' (w_db (demo_world 6)) = Some (''p1'', StateFunded, 3, 0, False)" by code_simp
  then obtain r where "pocket_by_id ''p1'' (w_db (demo_world 6)) = Some r" "r_state r = StateFunded"
      "r_version r = 3" "r_code_attempts r = 0"
    by (auto simp: status_def lifecycle_def)
  with enter_code_checks [OF demo_app_reach run] no run show ?thesis by auto
qed

end
