(* ===== verification/App_Money_Claims.thy ===== *)
theory App_Money_Claims
  imports App_Case_Claims
begin

text \<open>
  The claims about payments and disbursement: what a confirmed payment does to a pocket, replayed
  notifications, the buyer's copy of the release code, and two runs the code does not guard
  against.
\<close>

section \<open>Crediting a payment\<close>

lemma total_exact:
  assumes "pocket_row_check r"
  shows "BuyerTotalKobo (row_pocket st r) = r_buyer_total_kobo r"
proof -
  have "in_i64 (r_amount_kobo r + r_commission_kobo r + r_premium_kobo r)"
    using assms by (simp add: pocket_row_check_def)
  then show ?thesis
    using assms by (simp add: BuyerTotalKobo_def row_pocket_def i64_add_left i64_id pocket_row_check_def)
qed

lemma RunTransition_ok:
  assumes "db_reach st d" and "pocket_by_id pid d = Some r" and "r_state r \<noteq> StateDraft"
    and "Transition (row_pocket st r) now ev = Inr out" and "actor_fits actor (ev_Kind ev)"
  shows "\<exists>d'. RunTransition st pid actor ev now d =
    (Inr \<lparr>wr_PocketID = pid, wr_FromState = r_state r, wr_Outcome = out\<rparr>, d')"
proof -
  have wf: "wf_db d" using db_reach_good [OF assms(1)] by (simp add: good_db_def)
  have r: "r \<in> set (pockets d)" "r_id r = pid"
    using assms(2) by (auto simp: pocket_by_id_def dest: select_one_Some)
  from transition_succeeds [OF wf r(1) assms(4,5)] r(2) assms(2,3) show ?thesis
    by (auto simp: RunTransition_def RunTransition_tx_def selectPocketForUpdateTx_def GetByID_def
        scan_found_def run_tx_def bind_tx_def read_tx_def)
qed

lemma status_SetFundingTransaction [simp]: "status pid (SetFundingTransaction k tx d) = status pid d"
  by (rule status_cong) (simp add: SetFundingTransaction_def modify_pockets_def lifecycle_update lifecycle_def)

text \<open>C23: A payment for a CREATED pocket is decided by its amount alone: a stated amount below the
  buyer's total is refused and nothing at all is written, any other amount funds the pocket.  An
  amount of zero or less counts as unstated and funds it in full.\<close>

theorem credit_decides:
  assumes "app_reach a g0 w" and "pocket_by_id pid (w_db w) = Some r" and "r_state r = StateCreated"
  shows "if 0 < amount \<and> amount < r_buyer_total_kobo r
    then creditFunding a (scanPocket (a_store a) r) amount ref w = (Inr False, w)
    else fst (creditFunding a (scanPocket (a_store a) r) amount ref w) = Inr True \<and>
      (\<exists>rest. status pid (w_db (snd (creditFunding a (scanPocket (a_store a) r) amount ref w))) =
        Some (pid, StateFunded, rest))"
proof -
  have db: "db_reach (a_store a) (w_db w)" by (rule app_reach_db [OF assms(1)])
  let ?now = "w_clock w (w_tick w)" and ?rec = "scanPocket (a_store a) r"
  obtain out where T: "Transition (row_pocket (a_store a) r) ?now (event_of EvFundingConfirmed) = Inr out"
      and out: "p_State (out_Pocket out) = StateFunded"
    using assms(3) by (auto simp: Transition_def fundingConfirmed_def row_pocket_def)
  have id: "r_id r = pid" and mem: "r \<in> set (pockets (w_db w))"
    using assms(2) by (auto simp: pocket_by_id_def dest: select_one_Some)
  have "pocket_row_check r"
    using db_reach_good [OF db] mem by (auto simp: good_db_def wf_db_def wf_rows_def)
  then have total: "BuyerTotalKobo (row_pocket (a_store a) r) = r_buyer_total_kobo r" by (rule total_exact)
  obtain d where run: "RunTransition (a_store a) pid RoleSystem (event_of EvFundingConfirmed) ?now (w_db w)
      = (Inr \<lparr>wr_PocketID = pid, wr_FromState = r_state r, wr_Outcome = out\<rparr>, d)"
    using RunTransition_ok [OF db assms(2) _ T, of RoleSystem] assms(3)
    by (auto simp: actor_fits_def actor_check_def)
  from RunTransition_Inr [OF db run] T assms(2) out
  have st: "\<exists>rest. status pid d = Some (pid, StateFunded, rest)"
    by (metis option.inject sum.inject(2) outcome.surjective write_result.select_convs(3))
  have credit: "creditFunding a ?rec amount ref w = (Inr True, w3)" and w3: "w_db w3 = SetFundingTransaction pid ref
      (w_db (applyOutcome a pid out (w\<lparr>w_tick := Suc (w_tick w), w_db := d\<rparr>)))"
    if "\<not> (0 < amount \<and> amount < r_buyer_total_kobo r)" and "w3 = (let w2 = applyOutcome a pid out
      (w\<lparr>w_tick := Suc (w_tick w), w_db := d\<rparr>) in w2\<lparr>w_db := SetFundingTransaction pid ref (w_db w2)\<rparr>)" for w3
    using that total run id by (auto simp: creditFunding_def scanPocket_def bind_io_def now_io_def
        try_io_def db_io_def after_io_def stamp_funding_def db_do_def return_io_def Let_def)
  show ?thesis
  proof (cases "0 < amount \<and> amount < r_buyer_total_kobo r")
    case True
    then show ?thesis using total by (simp add: creditFunding_def scanPocket_def return_io_def)
  next
    case False
    with credit [OF False refl] w3 [OF False refl] st show ?thesis by auto
  qed
qed

theorem credit_decides_witness:
  "(\<exists>rec. creditFunding demo_app rec 1 ''tx'' (demo_world 5) = (Inr False, demo_world 5)) \<and>
   (\<exists>rec. fst (creditFunding demo_app rec 0 ''tx'' (demo_world 5)) = Inr True)"
proof -
  have "map_option (\<lambda>r. (r_state r, 1 < r_buyer_total_kobo r)) (pocket_by_id ''p1'' (w_db (demo_world 5))) =
      Some (StateCreated, True)" by code_simp
  then obtain r where r: "pocket_by_id ''p1'' (w_db (demo_world 5)) = Some r" "r_state r = StateCreated"
      "1 < r_buyer_total_kobo r" by auto
  show ?thesis
    using credit_decides [OF demo_app_reach r(1,2), of 1 "''tx''"]
      credit_decides [OF demo_app_reach r(1,2), of 0 "''tx''"] r(3)
    by auto
qed

section \<open>Replayed notifications\<close>

text \<open>The inbox is keyed by the provider's event id, and processing marks one row of it.\<close>

interpretation mark_processed: keyed_update w_event_id "\<lambda>x. x\<lparr>w_processed_at := Some t\<rparr>" for t
  by unfold_locales simp

definition processed :: "string \<Rightarrow> db \<Rightarrow> bool" where
  "processed i d \<longleftrightarrow> (\<exists>x. select_one (\<lambda>x. w_event_id x = i) (webhooks d) = Some x \<and> w_processed_at x \<noteq> None)"

lemma processed_stays_marked: "processed i d \<Longrightarrow> processed i (MarkWebhookProcessed k d)"
  unfolding processed_def MarkWebhookProcessed_def
  by (simp add: mark_processed.find_update_where) (elim exE conjE, rule exI, auto)

lemma select_one_append:
  "select_one P (xs @ ys) = (case select_one P xs of None \<Rightarrow> select_one P ys | Some x \<Rightarrow> Some x)"
  by (induction xs) (simp_all add: select_one_def)

lemma select_one_single: "select_one P [x] = (if P x then Some x else None)"
  by (simp add: select_one_def)

lemma processed_stays_recorded: "processed i d \<Longrightarrow> processed i (snd (RecordWebhookEvent k body d))"
  by (auto simp: processed_def RecordWebhookEvent_def select_one_append split: option.split)

lemma leg_ops_inbox [simp]:
  "webhooks (snd (ClaimSettlementLeg key d)) = webhooks d"
  "webhooks (ReleaseSettlementLeg key reason d) = webhooks d"
  "webhooks (FailSettlementLeg key reason d) = webhooks d"
  "webhooks (ConfirmSettlement key ref d) = webhooks d"
  by (simp_all add: ClaimSettlementLeg_def ReleaseSettlementLeg_def FailSettlementLeg_def
      ConfirmSettlement_def update_settlements_def)

lemma payLeg_inbox [simp]: "webhooks (w_db (snd (payLeg a leg w))) = webhooks (w_db w)"
  by (rule payLeg_frame) simp_all

lemma resolve_leg_inbox [simp]: "webhooks (w_db (snd (resolve_leg a leg w))) = webhooks (w_db w)"
  by (auto simp: resolve_leg_def leave_leg_def gw_io_def
      split: option.split prod.split sum.split payout_status.split)

lemma plain_op_inbox: "plain_op sop \<Longrightarrow> webhooks (exec_op st sop d) = webhooks d"
  using plain_op_extends by (simp add: extends_db_def)

text \<open>The effects and payments of a notification leave the inbox alone.\<close>

interpretation inbox: effect_invariant a "\<lambda>(d :: db) g. webhooks d = ws" for a ws
proof unfold_locales
  fix d :: db and g sop
  assume "webhooks d = ws" "effect_op sop"
  then show "webhooks (exec_op (a_store a) sop d) = ws"
    using plain_op_inbox [of sop] by (cases sop) simp_all
qed (simp_all add: holds_def)

lemma process_inbox: "webhooks (w_db (snd (processGatewayEvent a ev w))) = webhooks (w_db w)"
proof -
  let ?J = "\<lambda>(d :: db) (g :: 'a). webhooks d = webhooks (w_db w)"
  have run: "keeps_io ?J (db_io (RunTransition (a_store a) pid role e now))" for pid role e now
    by (rule keeps_db_io) (use plain_op_inbox [of "OpTransition pid role e now"] in simp)
  have tx: "keeps_io ?J (db_do (SetFundingTransaction pid ref))" for pid ref
    by (rule keeps_db_do) (use plain_op_inbox [of "OpFundingTransaction pid ref"] in simp)
  have legs: "keeps_io ?J (db_do (ConfirmSettlement k ref))" "keeps_io ?J (db_do (FailSettlementLeg k ref))"
    for k ref by (rule keeps_db_do; simp)+
  have "keeps_io ?J (processGatewayEvent a ev)"
    unfolding processGatewayEvent_def applyFundingEvent_def creditFunding_def stamp_funding_def
    by (cases "ge_Kind ev") (auto intro!: keeps run tx legs inbox.io_apply)
  from keeps_ioD [OF this, of w] show ?thesis by (simp add: holds_def)
qed

interpretation replay: app_invariant a "\<lambda>d g. processed i d" for a i
proof unfold_locales
  fix d g sop
  assume p: "processed i d" and "quiet_op sop"
  show "processed i (exec_op (a_store a) sop d)"
  proof (cases "plain_op sop")
    case True
    with p show ?thesis by (simp add: processed_def plain_op_inbox)
  next
    case False
    with p \<open>quiet_op sop\<close> show ?thesis
      by (cases sop) (simp_all add: processed_stays_marked processed_stays_recorded, simp_all add: processed_def)
  qed
qed (simp_all add: holds_def, simp_all add: processed_def)

lemma processed_forever:
  "processed i (w_db w) \<Longrightarrow> list_all app_op_ok ops \<Longrightarrow> processed i (w_db (fold (exec_app a) ops w))"
proof (induction ops arbitrary: w)
  case (Cons op ops)
  have "processed i (w_db (exec_app a op w))"
    using replay.io_exec_app [of op i w a] Cons.prems by (simp add: holds_def)
  with Cons show ?case by simp
qed simp

lemma ingest_failed:
  assumes "ge_ProviderEventID ev \<noteq> []" and "IngestGatewayEvent a ev w = (Inl e, w1)"
  shows "\<not> processed (ge_ProviderEventID ev) (w_db w1)"
proof -
  let ?i = "ge_ProviderEventID ev"
  obtain needs d where rec: "RecordWebhookEvent ?i (ge_Payload ev) (w_db w) = (needs, d)" by fastforce
  with assms have needs: "needs" and w1: "w1 = snd (processGatewayEvent a ev (w\<lparr>w_db := d\<rparr>))"
    by (auto simp: IngestGatewayEvent_def record_webhook_def bind_io_def db_io_def return_io_def
        db_do_def split: prod.splits sum.splits if_splits)
  have "\<not> processed ?i d"
    using rec needs by (auto simp: processed_def RecordWebhookEvent_def select_one_append
        select_one_single split: option.splits)
  then show ?thesis using process_inbox [of a ev "w\<lparr>w_db := d\<rparr>"] by (simp add: processed_def w1)
qed

text \<open>C24: Provider notifications are applied at most once and lost never: once an event's row is
  marked processed, then after any further operations a redelivery under the same event id, with
  any content, succeeds and changes nothing at all; and a delivery that failed leaves its row
  unmarked, so the redelivery is processed.\<close>

theorem ingest_replay_inert:
  assumes "ge_ProviderEventID ev \<noteq> []" and "list_all app_op_ok ops"
    and "ge_ProviderEventID ev' = ge_ProviderEventID ev"
  shows "case IngestGatewayEvent a ev w of
      (Inl e, w1) \<Rightarrow> \<not> processed (ge_ProviderEventID ev) (w_db w1)
    | (Inr _, w1) \<Rightarrow> processed (ge_ProviderEventID ev) (w_db w1) \<longrightarrow>
        IngestGatewayEvent a ev' (fold (exec_app a) ops w1) = (Inr (), fold (exec_app a) ops w1)"
proof -
  have inert: "IngestGatewayEvent a ev' v = (Inr (), v)" if "processed (ge_ProviderEventID ev) (w_db v)"
    for v :: "'a world"
    using that assms(1,3) by (auto simp: processed_def IngestGatewayEvent_def record_webhook_def
        bind_io_def db_io_def RecordWebhookEvent_def return_io_def)
  obtain r w1 where run: "IngestGatewayEvent a ev w = (r, w1)" by fastforce
  show ?thesis
  proof (cases r)
    case (Inl e)
    with run ingest_failed [OF assms(1)] show ?thesis by simp
  next
    case (Inr u)
    with run processed_forever [OF _ assms(2)] inert show ?thesis by auto
  qed
qed

theorem ingest_replay_inert_witness:
  "let w = exec_app demo_app (AppIngest (demo_payment ''e1'' 0)) (demo_world 5);
       v = fold (exec_app demo_app) [AppEnterCode ''p1'' RoleVendor ''0042''] w
   in IngestGatewayEvent demo_app (demo_payment ''e1'' 7) v = (Inr (), v)"
proof -
  let ?w = "snd (IngestGatewayEvent demo_app (demo_payment ''e1'' 0) (demo_world 5))"
  have "case IngestGatewayEvent demo_app (demo_payment ''e1'' 0) (demo_world 5) of (res, w) \<Rightarrow>
      res = Inr () \<and> map w_processed_at (webhooks (w_db w)) \<noteq> [None] \<and> map w_event_id (webhooks (w_db w)) = [''e1'']"
    by code_simp
  then have ok: "fst (IngestGatewayEvent demo_app (demo_payment ''e1'' 0) (demo_world 5)) = Inr ()"
    and "map w_processed_at (webhooks (w_db ?w)) \<noteq> [None] \<and> map w_event_id (webhooks (w_db ?w)) = [''e1'']"
    by (simp_all add: case_prod_unfold)
  from this(2) have "processed ''e1'' (w_db ?w)"
    by (cases "webhooks (w_db ?w)") (auto simp: processed_def select_one_def)
  with ingest_replay_inert [of "demo_payment ''e1'' 0" "[AppEnterCode ''p1'' RoleVendor ''0042'']"
      "demo_payment ''e1'' 7" demo_app "demo_world 5"] ok
  show ?thesis by (auto simp: demo_payment_def Let_def split: prod.splits)
qed

section \<open>The buyer's copy of the release code\<close>

text \<open>Storing a code is a keyed update of the pocket rows: it fills the two code columns of the
  pocket's row, and only where none was stored.\<close>

interpretation code_columns: keyed_update r_id
    "\<lambda>r. r\<lparr>r_release_code_hash := Some h, r_release_code_enc := Some e\<rparr>" for h e
  by unfold_locales simp

lemma stored_code:
  assumes "pocket_by_id pid d = Some r" and "r_release_code_hash r = None"
  shows "pocket_by_id pid (SetReleaseCode pid h e d) =
    Some (r\<lparr>r_release_code_hash := Some h, r_release_code_enc := Some e\<rparr>)"
  using assms
  by (auto simp: code_columns.find_update_where pocket_by_id_def SetReleaseCode_def modify_pockets_def dest: select_one_Some)

lemma stored_code_stays:
  assumes "app_reach a g0 w" and "pocket_by_id pid (w_db w) = Some r" and "r_release_code_hash r = None"
  shows "SetReleaseCode pid h' e' (SetReleaseCode pid h e (w_db w)) = SetReleaseCode pid h e (w_db w)"
    (is "_ = ?d")
proof -
  let ?r = "r\<lparr>r_release_code_hash := Some h, r_release_code_enc := Some e\<rparr>"
  have "distinct (map r_id (pockets (w_db w)))"
    using db_reach_good [OF app_reach_db [OF assms(1)]] by (auto simp: good_db_def wf_db_def wf_rows_def)
  then have d: "distinct (map r_id (pockets ?d))"
    by (simp add: SetReleaseCode_def modify_pockets_def)
  have r: "?r \<in> set (pockets ?d)" "r_id ?r = pid"
    using stored_code [OF assms(2,3), of h e] assms(2)
    by (auto simp: pocket_by_id_def dest: select_one_Some)
  have "r_release_code_hash x = Some h" if "x \<in> set (pockets ?d)" "r_id x = pid" for x
  proof -
    have "x = ?r" using d r that by (auto simp: distinct_map inj_on_def)
    then show ?thesis by simp
  qed
  then have "\<forall>x \<in> set (pockets ?d). \<not> (r_id x = pid \<and> r_release_code_hash x = None)" by auto
  then have "update_where (\<lambda>r. r_id r = pid \<and> r_release_code_hash r = None) f (pockets ?d) = pockets ?d" for f
    by (rule update_where_none)
  then show ?thesis unfolding SetReleaseCode_def [of pid h' e'] by (simp add: modify_pockets_def)
qed

text \<open>C37: The generated code reaches both sides consistently: after a funded pocket's code is
  generated, the buyer retrieves a four-digit code whose keyed hash is the stored verifier, and
  generating again changes neither copy.  The hypotheses on the cipher and the draw are the
  documented behaviour of AES-GCM and of the random source.\<close>

theorem release_code_round_trip:
  assumes "app_reach a g0 w" and "pocket_by_id pid (w_db w) = Some r" and "r_release_code_hash r = None"
    and "w_draws w (w_drawn w) = (Inr n, Inr nonce)" and "0 \<le> n" and "n < codeSpace"
    and "length nonce = nonceSize" and "\<And>k c p. a_unseal a k c (a_seal a k c p) = Some p"
    and "generateReleaseCode a pid w = (Inr (), w')"
  shows "\<exists>code r'. app_ReleaseCode a pid w' = (Inr code, w') \<and> length code = 4 \<and>
    (\<forall>x \<in> set code. is_digit x) \<and> pocket_by_id pid (w_db w') = Some r' \<and>
    r_release_code_hash r' = Some (Hash (a_hmac a) code (a_releaseCodeSecret a)) \<and>
    w_db (snd (generateReleaseCode a pid w')) = w_db w'"
proof -
  obtain code where code: "Generate (Inr n) = Inr code" "length code = 4" "\<forall>x \<in> set code. is_digit x"
    using Generate_form [OF assms(5,6)] by blast
  let ?enc = "hex_encode (nonce @ a_seal a (a_sha a (a_releaseCodeSecret a)) nonce code)"
  let ?hash = "Hash (a_hmac a) code (a_releaseCodeSecret a)"
  have seal: "Seal (a_sha a) (a_seal a) code (a_releaseCodeSecret a) (Inr nonce) = Inr ?enc"
    by (simp add: Seal_def)
  have w': "w' = w\<lparr>w_drawn := Suc (w_drawn w), w_db := SetReleaseCode pid ?hash ?enc (w_db w)\<rparr>"
    using assms(4,9) code(1) seal by (simp add: generateReleaseCode_def db_do_def)
  let ?r' = "r\<lparr>r_release_code_hash := Some ?hash, r_release_code_enc := Some ?enc\<rparr>"
  have r': "pocket_by_id pid (w_db w') = Some ?r'"
    by (simp add: w' stored_code [OF assms(2,3)])
  have "?enc \<noteq> []" using assms(7) by (cases nonce) (auto simp: nonceSize_def)
  moreover have "Open (a_sha a) (a_unseal a) ?enc (a_releaseCodeSecret a) = Inr code"
    using assms(7,8) by (simp add: Open_def)
  ultimately have read: "app_ReleaseCode a pid w' = (Inr code, w')"
    using r' by (simp add: app_ReleaseCode_def bind_io_def db_read_def GetByID_def scan_found_def
        scanPocket_def derefStr_def)
  have "SetReleaseCode pid h e (w_db w') = w_db w'" for h e
    by (simp add: w' stored_code_stays [OF assms(1,2,3)])
  then have "w_db (snd (generateReleaseCode a pid w')) = w_db w'"
    by (auto simp: generateReleaseCode_def db_do_def split: prod.split sum.split)
  with read code r' show ?thesis by auto
qed

theorem release_code_round_trip_witness:
  "\<exists>code. fst (app_ReleaseCode demo_app ''p1'' (snd (generateReleaseCode demo_app ''p1'' (demo_world 5)))) =
     Inr code \<and> length code = 4"
proof -
  have world: "(\<lambda>w. map_option (\<lambda>r. r_release_code_hash r) (pocket_by_id ''p1'' (w_db w)) = Some None \<and>
      w_draws w (w_drawn w) = (Inr 42, Inr (replicate 12 (CHR ''n''))) \<and>
      fst (generateReleaseCode demo_app ''p1'' w) = Inr ()) (demo_world 5)"
    by code_simp
  then obtain r where r: "pocket_by_id ''p1'' (w_db (demo_world 5)) = Some r" "r_release_code_hash r = None"
    by auto
  let ?run = "generateReleaseCode demo_app ''p1'' (demo_world 5)"
  have draw: "w_draws (demo_world 5) (w_drawn (demo_world 5)) = (Inr 42, Inr (replicate 12 (CHR ''n'')))"
    using world by simp
  have run: "?run = (Inr (), snd ?run)" using world by (cases ?run) simp
  from release_code_round_trip [OF demo_app_reach r draw _ _ _ _ run] show ?thesis
    by (auto simp: codeSpace_def nonceSize_def demo_app_def)
qed

section \<open>Two unguarded runs\<close>

text \<open>The rule that only the vendor may cancel a FUNDED pocket is checked outside the
  cancelling transaction: a buyer is refused on a FUNDED pocket, but one whose check read the
  pocket just before the payment arrived has the funded pocket refunded.\<close>

theorem cancel_check_races:
  "fst (app_Cancel demo_app ''p1'' RoleBuyer (demo_world 6)) = Inl ErrForbidden \<and>
   fst (cancel_check demo_app ''p1'' RoleBuyer (demo_world 5)) = Inr () \<and>
   map_option r_state (pocket_by_id ''p1'' (w_db (snd (cancel_write demo_app ''p1'' RoleBuyer
     (exec_app demo_app (AppIngest (demo_payment ''e1'' 0)) (demo_world 5)))))) = Some StateRefunded"
  by code_simp

definition stuck_gateway :: "mock gateway" where
  "stuck_gateway = (mock_gateway id)\<lparr>gw_Payout := (\<lambda>req g. (Inl ErrNotSubmitted, g))\<rparr>"

text \<open>A leg that cannot be submitted blocks every younger one: while the provider answers
  \<open>ErrNotSubmitted\<close> to the oldest pending leg, a disbursement sweep pays nothing, returns that
  error, and leaves every leg's status as it was, so the next sweep starts with the same leg.\<close>

theorem sweep_blocked_by_oldest:
  assumes "app_reach a g0 w" and "PendingSettlementLegs (w_db w) = leg # legs"
    and "\<And>v. fst (submit_leg a leg v) = Inl ErrNotSubmitted"
  shows "\<exists>w'. SweepPendingSettlementLegs a w = (0, Some ErrNotSubmitted, w') \<and>
    (\<forall>k. leg_status_of k (w_db w') = leg_status_of k (w_db w))"
proof -
  let ?k = "sl_IdempotencyKey leg"
  have wf: "wf_db (w_db w)"
    using db_reach_good [OF app_reach_db [OF assms(1)]] by (simp add: good_db_def)
  have "leg \<in> set (PendingSettlementLegs (w_db w))" using assms(2) by simp
  then obtain s where s: "s \<in> set (settlements (w_db w))" "s_key s = ?k" "s_status s = LegPending"
    by (auto simp: PendingSettlementLegs_def legs_where_def scanSettlementLeg_def)
  then have p: "leg_status_of ?k (w_db w) = Some LegPending"
    using select_one_unique [of s_key "settlements (w_db w)" s ?k] wf_unique_legs [OF wf]
    by (simp add: unique_legs_def leg_status_of_def leg_by_key_def)
  then have won: "fst (ClaimSettlementLeg ?k (w_db w))"
    using claim_wins_iff [OF wf_unique_legs [OF wf]] by simp
  obtain d where c: "ClaimSettlementLeg ?k (w_db w) = (True, d)"
    using won by (cases "ClaimSettlementLeg ?k (w_db w)") simp
  obtain w2 where w2: "submit_leg a leg (w\<lparr>w_db := d\<rparr>) = (Inl ErrNotSubmitted, w2)"
    using assms(3) [of "w\<lparr>w_db := d\<rparr>"] by (cases "submit_leg a leg (w\<lparr>w_db := d\<rparr>)") simp
  have db2: "w_db w2 = d" using submit_leg_db [of a leg "w\<lparr>w_db := d\<rparr>"] w2 by simp
  let ?w' = "w2\<lparr>w_db := ReleaseSettlementLeg ?k ErrNotSubmitted_text d\<rparr>"
  have "payLeg a leg w = (Inl ErrNotSubmitted, ?w')"
    using w2 by (simp add: payLeg_def c try_io_def finish_leg_def bind_io_def db_do_def fail_io_def
        db2 Let_def)
  then have "SweepPendingSettlementLegs a w = (0, Some ErrNotSubmitted, ?w')"
    by (simp add: SweepPendingSettlementLegs_def assms(2))
  moreover have "leg_status_of k (w_db ?w') = leg_status_of k (w_db w)" for k
    using status_of_ops(1) [of k ?k "w_db w"] status_of_ops(2) [of k ?k ErrNotSubmitted_text d] c p
    by (auto split: if_splits)
  ultimately show ?thesis by blast
qed

definition stuck_app :: "mock app" where
  "stuck_app = \<lparr>a_store = demo_store, a_gateway = stuck_gateway,
     a_linkSecret = ''ls'', a_hmac = (\<lambda>k m. take 4 m), a_sha = (\<lambda>m. take 2 (rev m)), a_seal = (\<lambda>k n p. p),
     a_unseal = (\<lambda>k n c. Some c), a_releaseCodeSecret = ''secret'',
     a_fundingLinkTTL = 72 * time_Hour, a_gracePeriod = 24 * time_Hour,
     a_evidenceCaptureWindow = time_Hour, a_evidenceMaxBytes = 1000000,
     a_sandbox = True, a_realGateway = False, a_disableSimulateFunding = False\<rparr>"

definition stuck_world :: "mock world" where
  "stuck_world = fold (exec_app stuck_app)
     (demo_app_ops @ [AppStore (OpSweep RuleDueSettlement (\<lambda>_. False) (3 * time_Hour))])
     \<lparr>w_db = empty_db, w_gw = mock_New, w_sent = [],
      w_clock = (\<lambda>n. (int n + 1) * (30 * time_Minute)), w_tick = 0,
      w_draws = (\<lambda>n. (Inr 42, Inr (replicate 12 (CHR ''n'')))), w_drawn = 0,
      w_nonces = (\<lambda>n role. Inr (replicate (Suc n) (CHR ''n''))), w_minted = 0\<rparr>"

definition stuck_legs :: "db \<Rightarrow> direction list \<times> leg_status option" where
  "stuck_legs d = (map sl_Direction (PendingSettlementLegs d),
     leg_status_of (idempotencyKey ''p1'' Payout RoleVendor) d)"

theorem sweep_blocked_by_oldest_witness:
  "\<exists>w'. SweepPendingSettlementLegs stuck_app stuck_world = (0, Some ErrNotSubmitted, w') \<and>
     leg_status_of (idempotencyKey ''p1'' Payout RoleVendor) (w_db w') = Some LegPending"
proof -
  have reach: "app_reach stuck_app g (fold (exec_app stuck_app) ops w)"
    if "app_reach stuck_app g w" "list_all app_op_ok ops" for ops w g
    using that by (induction ops arbitrary: w) (auto intro: app_reach.op)
  have r: "app_reach stuck_app mock_New stuck_world"
    unfolding stuck_world_def
    by (rule reach) (auto simp: demo_app_ops_def plain_id_def intro: app_reach.start)
  have "stuck_legs (w_db stuck_world) = ([Payout], Some LegPending)" by code_simp
  then obtain leg where leg: "PendingSettlementLegs (w_db stuck_world) = [leg]" "sl_Direction leg = Payout"
      and p: "leg_status_of (idempotencyKey ''p1'' Payout RoleVendor) (w_db stuck_world) = Some LegPending"
    by (auto simp: stuck_legs_def map_eq_Cons_conv)
  have "fst (submit_leg stuck_app leg v) = Inl ErrNotSubmitted" for v
    using leg(2) by (simp add: submit_leg_def gw_io_def stuck_app_def stuck_gateway_def)
  from sweep_blocked_by_oldest [OF r leg(1) this] p show ?thesis by auto
qed

end
