(* ===== verification/Nomba.thy ===== *)
theory Nomba
  imports Gateway
begin

text \<open>
  The Nomba adapter (\<^verbatim>\<open>internal/gateway/nomba\<close>: \<^verbatim>\<open>client.go\<close>, \<^verbatim>\<open>nomba.go\<close>,
  \<^verbatim>\<open>checkout.go\<close>, \<^verbatim>\<open>transfers.go\<close>, \<^verbatim>\<open>verify.go\<close>): token caching, the
  authenticated call with one retry, error classification, and the operations of the payment
  boundary.  The provider is a function from requests and its own state \<open>'s\<close> to the outcome
  of one HTTP exchange; the JSON decoding of the answer's data \<open>'d\<close> is a parameter.  Calls run
  one at a time, which is what the client's mutex gives its token.
\<close>

section \<open>Standard-library text functions\<close>

fun split_n :: "nat \<Rightarrow> char \<Rightarrow> string \<Rightarrow> string list" where
  "split_n 0 c s = []"
| "split_n (Suc 0) c s = [s]"
| "split_n (Suc (Suc n)) c s = (case cut_at c s of
     (before, after, found) \<Rightarrow> if found then before # split_n (Suc n) c after else [s])"

definition trim_right :: "char \<Rightarrow> string \<Rightarrow> string" where
  "trim_right c s = rev (dropWhile (\<lambda>x. x = c) (rev s))"

definition upper :: "char \<Rightarrow> char" where
  "upper c = (let n = (of_char c :: nat) in if 97 \<le> n \<and> n \<le> 122 then char_of (n - 32) else c)"

definition equal_fold :: "string \<Rightarrow> string \<Rightarrow> bool" where
  "equal_fold a b \<longleftrightarrow> map upper a = map upper b"

definition unreserved :: "char \<Rightarrow> bool" where
  "unreserved c \<longleftrightarrow> is_digit c \<or> (let n = (of_char c :: nat) in (65 \<le> n \<and> n \<le> 90) \<or> (97 \<le> n \<and> n \<le> 122)) \<or>
     c \<in> {CHR ''-'', CHR ''_'', CHR ''.'', CHR ''~''}"

fun query_escape :: "string \<Rightarrow> string" where
  "query_escape [] = []"
| "query_escape (c # cs) =
     (if unreserved c then [c] else if c = CHR '' '' then ''+''
      else CHR ''%'' # map upper (hex_encode [c])) @ query_escape cs"

section \<open>Configuration\<close>

record beneficiary =
  bn_AccountNumber :: string
  bn_BankCode :: string
  bn_AccountName :: string

definition complete :: "beneficiary \<Rightarrow> bool" where
  "complete b \<longleftrightarrow> bn_AccountNumber b \<noteq> [] \<and> bn_BankCode b \<noteq> [] \<and> bn_AccountName b \<noteq> []"

record nomba_config =
  nc_BaseURL :: string
  nc_ClientID :: string
  nc_ClientSecret :: string
  nc_AccountID :: string
  nc_SubAccountID :: string
  nc_PublicBaseURL :: string
  nc_FallbackCustomerEmail :: string
  nc_PayoutBeneficiary :: beneficiary
  nc_RefundBeneficiary :: beneficiary

datatype config_fault = CredentialsRequired | AccountsRequired | BaseURLRequired

definition nomba_New :: "nomba_config \<Rightarrow> config_fault + nomba_config" where
  "nomba_New cfg =
     (if nc_ClientID cfg = [] \<or> nc_ClientSecret cfg = [] then Inl CredentialsRequired
      else if nc_AccountID cfg = [] \<or> nc_SubAccountID cfg = [] then Inl AccountsRequired
      else if nc_BaseURL cfg = [] then Inl BaseURLRequired
      else Inr (cfg\<lparr>nc_BaseURL := trim_right (CHR ''/'') (nc_BaseURL cfg),
        nc_PublicBaseURL := trim_right (CHR ''/'') (if nc_PublicBaseURL cfg = []
          then ''http://localhost:3000'' else nc_PublicBaseURL cfg),
        nc_FallbackCustomerEmail := (if nc_FallbackCustomerEmail cfg = []
          then ''buyer@escrowpay.example'' else nc_FallbackCustomerEmail cfg)\<rparr>))"

section \<open>Amounts\<close>

text \<open>\<^verbatim>\<open>%d\<close> of a non-negative integer.\<close>

function dec_int :: "int \<Rightarrow> string" where
  "dec_int n = (if n < 10 then [digit_char (nat n)]
     else dec_int (n div 10) @ [digit_char (nat (n mod 10))])"
  by pat_completeness auto
termination
  by (relation "measure nat") auto

declare dec_int.simps [simp del]

definition nairaAmount :: "int \<Rightarrow> string" where
  "nairaAmount kobo = (let k = (if kobo < 0 then 0 else kobo) in
     dec_int (k div 100) @ ''.'' @ pad_zero 2 (dec_int (k mod 100)))"

lemma dec_int_dec: "0 \<le> n \<Longrightarrow> dec_int n = dec (nat n)"
proof (induction n rule: dec_int.induct)
  case (1 n)
  then show ?case
    by (cases "n < 10") (simp_all add: dec_int.simps [of n] dec.simps [of "nat n"] nat_div_distrib nat_mod_distrib)
qed

text \<open>The digit loop, in int64; None is the early \<^verbatim>\<open>return 0\<close>.\<close>

fun naira_digits :: "int \<Rightarrow> string \<Rightarrow> int option" where
  "naira_digits naira [] = Some naira"
| "naira_digits naira (r # rs) =
     (if is_digit r then naira_digits (i64 (i64 (naira * 10) + digit_value r)) rs else None)"

definition koboFromNaira :: "string \<Rightarrow> int" where
  "koboFromNaira s = (case cut_at (CHR ''.'') (trim_space s) of (whole, frac, _) \<Rightarrow>
     (case naira_digits 0 (if whole = [] then ''0'' else whole) of
        None \<Rightarrow> 0
      | Some naira \<Rightarrow>
          (let kobo = i64 (naira * 100) in
           if frac = [] then kobo
           else (let two = (if length frac = 1 then frac @ ''0'' else take 2 frac) in
             if list_all is_digit two
             then i64 (kobo + (digit_value (two ! 0) * 10 + digit_value (two ! 1))) else 0))))"

section \<open>Errors\<close>

text \<open>An error of the adapter; \<open>sentinel\<close> is what \<^verbatim>\<open>errors.Is\<close> sees of it.\<close>

datatype nomba_error =
    BuildError | NeverSent | TransportError | ReadError | DecodeError
  | ApiError int string | NoAccessToken | NoCheckoutLink | NoTransferID | EmptyOrderRef
  | TransferReturned | NoBeneficiary

fun unwrap_api :: "int \<Rightarrow> string \<Rightarrow> error" where
  "unwrap_api status code =
     (if status = 401 \<or> status = 408 \<or> status = 429 then ErrAmbiguous
      else if 400 \<le> status \<and> status < 500 then ErrRejected
      else if 200 \<le> status \<and> status < 300 \<and> code \<noteq> [] \<and> code \<noteq> ''00'' then ErrRejected
      else ErrAmbiguous)"

fun sentinel :: "nomba_error \<Rightarrow> error" where
  "sentinel (ApiError status code) = unwrap_api status code"
| "sentinel NeverSent = ErrNotSubmitted"
| "sentinel NoBeneficiary = ErrNotSubmitted"
| "sentinel TransferReturned = ErrRejected"
| "sentinel _ = ErrAmbiguous"

section \<open>One exchange\<close>

record checkout_order =
  co_OrderReference :: string
  co_CallbackURL :: string
  co_CustomerEmail :: string
  co_Amount :: string
  co_Currency :: string
  co_AccountID :: string

record transfer_request =
  tr_Amount :: string
  tr_AccountNumber :: string
  tr_AccountName :: string
  tr_BankCode :: string
  tr_MerchantTxRef :: string
  tr_SenderName :: string
  tr_Narration :: string

datatype nomba_body =
    NoBody | RefreshGrant string | IssueGrant string string
  | OrderBody checkout_order | TransferBody transfer_request

record nomba_request =
  nr_Method :: string
  nr_Path :: string
  nr_Access :: string
  nr_Body :: nomba_body

record 'd envelope =
  env_Code :: string
  env_Data :: "'d option"

text \<open>
  What \<^verbatim>\<open>http.Client.Do\<close> and reading the body report.  The body of an answer is None when
  it is not the JSON envelope.
\<close>

datatype 'd exchange =
    NotBuilt | DialFailed | SendFailed | ReadFailed | Answer int "'d envelope option"

fun requestNeverSent :: "'d exchange \<Rightarrow> bool" where
  "requestNeverSent DialFailed = True"
| "requestNeverSent _ = False"

definition reply_env :: "'d envelope option \<Rightarrow> 'd envelope" where
  "reply_env body = (case body of None \<Rightarrow> \<lparr>env_Code = [], env_Data = None\<rparr> | Some e \<Rightarrow> e)"

definition decode_reply :: "('d \<Rightarrow> 'o option) \<Rightarrow> 'o \<Rightarrow> 'd exchange \<Rightarrow> nomba_error + 'o" where
  "decode_reply decode zero x = (case x of
       NotBuilt \<Rightarrow> Inl BuildError
     | DialFailed \<Rightarrow> Inl NeverSent
     | SendFailed \<Rightarrow> Inl TransportError
     | ReadFailed \<Rightarrow> Inl ReadError
     | Answer status body \<Rightarrow> (let env = reply_env body in
         if status < 200 \<or> 300 \<le> status \<or> (env_Code env \<noteq> [] \<and> env_Code env \<noteq> ''00'')
         then Inl (ApiError status (env_Code env))
         else (case env_Data env of
             None \<Rightarrow> Inr zero
           | Some d \<Rightarrow> (case decode d of None \<Rightarrow> Inl DecodeError | Some o' \<Rightarrow> Inr o'))))"

section \<open>The client\<close>

record access_token =
  at_access :: string
  at_refresh :: string
  at_renewAt :: gotime

definition no_token :: access_token where
  "no_token = \<lparr>at_access = [], at_refresh = [], at_renewAt = 0\<rparr>"

record checkout_transaction =
  ct_Success :: bool
  ct_OrderAmount :: "string option"
  ct_PaymentReference :: "string option"

record ('d, 's) nomba_env =
  ne_server :: "nomba_request \<Rightarrow> 's \<Rightarrow> 'd exchange \<times> 's"
  ne_token :: "'d \<Rightarrow> (string \<times> string) option"
  ne_link :: "'d \<Rightarrow> (string \<times> string) option"
  ne_transfer :: "'d \<Rightarrow> (string \<times> string) option"
  ne_checkout :: "'d \<Rightarrow> checkout_transaction option"

record 's nomba =
  nb_tok :: access_token
  nb_server :: 's
  nb_clock :: "nat \<Rightarrow> gotime"
  nb_tick :: nat

type_synonym ('s, 'a) nomba_io = "'s nomba \<Rightarrow> (nomba_error + 'a) \<times> 's nomba"

definition bind_nb :: "('s, 'a) nomba_io \<Rightarrow> ('a \<Rightarrow> ('s, 'b) nomba_io) \<Rightarrow> ('s, 'b) nomba_io" where
  "bind_nb m f c = (case m c of (Inl e, c') \<Rightarrow> (Inl e, c') | (Inr x, c') \<Rightarrow> f x c')"

definition nomba_do :: "('d, 's) nomba_env \<Rightarrow> string \<Rightarrow> string \<Rightarrow> string \<Rightarrow> nomba_body \<Rightarrow>
    ('d \<Rightarrow> 'o option) \<Rightarrow> 'o \<Rightarrow> ('s, 'o) nomba_io" where
  "nomba_do env how path access body decode zero c =
     (case ne_server env \<lparr>nr_Method = how, nr_Path = path, nr_Access = access, nr_Body = body\<rparr>
         (nb_server c) of
        (x, s) \<Rightarrow> (decode_reply decode zero x, c\<lparr>nb_server := s\<rparr>))"

definition tokenLifetime :: duration where
  "tokenLifetime = 30 * time_Minute"

definition tokenTTLMargin :: duration where
  "tokenTTLMargin = 5 * time_Minute"

definition tokenGrant :: "('d, 's) nomba_env \<Rightarrow> string \<Rightarrow> nomba_body \<Rightarrow> ('s, access_token) nomba_io" where
  "tokenGrant env path body =
     bind_nb (nomba_do env ''POST'' path [] body (ne_token env) ([], [])) (\<lambda>(access, refresh) c.
       if access = [] then (Inl NoAccessToken, c)
       else (Inr \<lparr>at_access = access, at_refresh = refresh,
           at_renewAt = nb_clock c (nb_tick c) + (tokenLifetime - tokenTTLMargin)\<rparr>,
         c\<lparr>nb_tick := Suc (nb_tick c)\<rparr>))"

definition grant_and_cache :: "('d, 's) nomba_env \<Rightarrow> string \<Rightarrow> nomba_body \<Rightarrow> ('s, string) nomba_io" where
  "grant_and_cache env path body =
     bind_nb (tokenGrant env path body) (\<lambda>t c. (Inr (at_access t), c\<lparr>nb_tok := t\<rparr>))"

definition issue_token :: "('d, 's) nomba_env \<Rightarrow> nomba_config \<Rightarrow> ('s, string) nomba_io" where
  "issue_token env cfg = grant_and_cache env ''/v1/auth/token/issue''
     (IssueGrant (nc_ClientID cfg) (nc_ClientSecret cfg))"

text \<open>The clock is read only when a token is cached.\<close>

definition token_valid :: "'s nomba \<Rightarrow> bool \<times> 's nomba" where
  "token_valid c =
     (if at_access (nb_tok c) = [] then (False, c)
      else (Before (nb_clock c (nb_tick c)) (at_renewAt (nb_tok c)), c\<lparr>nb_tick := Suc (nb_tick c)\<rparr>))"

definition renew_token :: "('d, 's) nomba_env \<Rightarrow> nomba_config \<Rightarrow> ('s, string) nomba_io" where
  "renew_token env cfg c =
     (if at_refresh (nb_tok c) = [] then issue_token env cfg c
      else (case grant_and_cache env ''/v1/auth/token/refresh'' (RefreshGrant (at_refresh (nb_tok c))) c of
          (Inr access, c') \<Rightarrow> (Inr access, c')
        | (Inl e, c') \<Rightarrow> issue_token env cfg c'))"

definition bearer :: "('d, 's) nomba_env \<Rightarrow> nomba_config \<Rightarrow> ('s, string) nomba_io" where
  "bearer env cfg c = (case token_valid c of
     (True, c') \<Rightarrow> (Inr (at_access (nb_tok c')), c')
   | (False, c') \<Rightarrow> renew_token env cfg c')"

definition invalidate :: "string \<Rightarrow> 's nomba \<Rightarrow> 's nomba" where
  "invalidate access c = (if at_access (nb_tok c) = access then c\<lparr>nb_tok := no_token\<rparr> else c)"

fun is_stale :: "nomba_error \<Rightarrow> bool" where
  "is_stale (ApiError status _) = (status = 401)"
| "is_stale _ = False"

definition nomba_call :: "('d, 's) nomba_env \<Rightarrow> nomba_config \<Rightarrow> string \<Rightarrow> string \<Rightarrow> nomba_body \<Rightarrow>
    ('d \<Rightarrow> 'o option) \<Rightarrow> 'o \<Rightarrow> ('s, 'o) nomba_io" where
  "nomba_call env cfg how path body decode zero =
     bind_nb (bearer env cfg) (\<lambda>access c.
       case nomba_do env how path access body decode zero c of
         (Inr x, c') \<Rightarrow> (Inr x, c')
       | (Inl e, c') \<Rightarrow>
           (if is_stale e
            then bind_nb (bearer env cfg) (\<lambda>fresh. nomba_do env how path fresh body decode zero)
              (invalidate access c')
            else (Inl e, c')))"

section \<open>Operations\<close>

definition shortID :: "string \<Rightarrow> string" where
  "shortID i = (case cut_at (CHR ''-'') i of
     (before, after, found) \<Rightarrow> if found \<and> before \<noteq> [] then before else i)"

definition resolve_beneficiary :: "string \<Rightarrow> beneficiary \<Rightarrow> nomba_error + beneficiary" where
  "resolve_beneficiary ref fallback =
     (if ref \<noteq> [] then
        (case split_n 3 (CHR '':'') ref of
           [bank, account, name] \<Rightarrow>
             (if bank \<noteq> [] \<and> account \<noteq> [] \<and> name \<noteq> []
              then Inr \<lparr>bn_AccountNumber = account, bn_BankCode = bank, bn_AccountName = name\<rparr>
              else Inl NoBeneficiary)
         | _ \<Rightarrow> Inl NoBeneficiary)
      else if complete fallback then Inr fallback else Inl NoBeneficiary)"

definition nomba_transfer :: "('d, 's) nomba_env \<Rightarrow> nomba_config \<Rightarrow> beneficiary \<Rightarrow> int \<Rightarrow> string \<Rightarrow>
    string \<Rightarrow> ('s, string) nomba_io" where
  "nomba_transfer env cfg dest amount merchantTxRef narration =
     bind_nb (nomba_call env cfg ''POST'' (''/v2/transfers/bank/'' @ nc_SubAccountID cfg)
       (TransferBody \<lparr>tr_Amount = nairaAmount amount, tr_AccountNumber = bn_AccountNumber dest,
          tr_AccountName = bn_AccountName dest, tr_BankCode = bn_BankCode dest,
          tr_MerchantTxRef = merchantTxRef, tr_SenderName = ''EscrowPay'', tr_Narration = narration\<rparr>)
       (ne_transfer env) ([], [])) (\<lambda>(ref, status) c.
         if equal_fold status ''REFUND'' then (Inl TransferReturned, c)
         else if ref = [] then (Inl NoTransferID, c)
         else (Inr ref, c))"

definition nomba_Payout :: "('d, 's) nomba_env \<Rightarrow> nomba_config \<Rightarrow> payout_request \<Rightarrow> ('s, string) nomba_io" where
  "nomba_Payout env cfg req c =
     (case resolve_beneficiary (pq_BeneficiaryAccountRef req) (nc_PayoutBeneficiary cfg) of
        Inl e \<Rightarrow> (Inl e, c)
      | Inr dest \<Rightarrow> nomba_transfer env cfg dest (pq_AmountKobo req) (pq_IdempotencyKey req)
          (''EscrowPay settlement '' @ shortID (pq_PocketID req)) c)"

definition nomba_Refund :: "('d, 's) nomba_env \<Rightarrow> nomba_config \<Rightarrow> refund_request \<Rightarrow> ('s, string) nomba_io" where
  "nomba_Refund env cfg req c =
     (let dest = (if complete (nc_RefundBeneficiary cfg) then nc_RefundBeneficiary cfg
        else nc_PayoutBeneficiary cfg) in
      if \<not> complete dest then (Inl NoBeneficiary, c)
      else nomba_transfer env cfg dest (rq_AmountKobo req) (rq_IdempotencyKey req)
        (''EscrowPay refund '' @ shortID (rq_PocketID req)) c)"

definition funding_order :: "nomba_config \<Rightarrow> funding_request \<Rightarrow> checkout_order" where
  "funding_order cfg req = \<lparr>co_OrderReference = FundingRef (fr_PocketID req),
     co_CallbackURL = nc_PublicBaseURL cfg @ ''/p/'' @ fr_ShortCode req,
     co_CustomerEmail = (if fr_CustomerEmail req = [] then nc_FallbackCustomerEmail cfg
       else fr_CustomerEmail req),
     co_Amount = nairaAmount (fr_AmountKobo req), co_Currency = ''NGN'',
     co_AccountID = nc_SubAccountID cfg\<rparr>"

definition nomba_CreateFundingLink :: "('d, 's) nomba_env \<Rightarrow> nomba_config \<Rightarrow> funding_request \<Rightarrow>
    ('s, funding_link) nomba_io" where
  "nomba_CreateFundingLink env cfg req =
     bind_nb (nomba_call env cfg ''POST'' ''/v1/checkout/order'' (OrderBody (funding_order cfg req))
       (ne_link env) ([], [])) (\<lambda>(link, ref) c.
         if link = [] then (Inl NoCheckoutLink, c)
         else (Inr \<lparr>fl_Ref = (if ref = [] then co_OrderReference (funding_order cfg req) else ref),
           fl_URL = link, fl_ExpiresAt = fr_ExpiresAt req\<rparr>, c))"

definition funding_answer :: "checkout_transaction \<Rightarrow> funding_status" where
  "funding_answer t = (case ct_PaymentReference t of
       None \<Rightarrow> \<lparr>fs_Paid = False, fs_PaymentRef = [], fs_AmountKobo = 0\<rparr>
     | Some ref \<Rightarrow>
         (if ct_Success t
          then \<lparr>fs_Paid = True, fs_PaymentRef = ref, fs_AmountKobo =
            (case ct_OrderAmount t of None \<Rightarrow> 0 | Some s \<Rightarrow> koboFromNaira s)\<rparr>
          else \<lparr>fs_Paid = False, fs_PaymentRef = [], fs_AmountKobo = 0\<rparr>))"

definition nomba_VerifyFunding :: "('d, 's) nomba_env \<Rightarrow> nomba_config \<Rightarrow> string \<Rightarrow>
    ('s, funding_status) nomba_io" where
  "nomba_VerifyFunding env cfg orderRef c =
     (if orderRef = [] then (Inl EmptyOrderRef, c)
      else bind_nb (nomba_call env cfg ''GET''
          (''/v1/checkout/transaction?idType=ORDER_REFERENCE&id='' @ query_escape orderRef) NoBody
          (ne_checkout env) \<lparr>ct_Success = False, ct_OrderAmount = None, ct_PaymentReference = None\<rparr>)
        (\<lambda>t c. (Inr (funding_answer t), c)) c)"

text \<open>The adapter behind the payment boundary, which sees errors through \<^verbatim>\<open>errors.Is\<close>.  It does
  not implement \<^verbatim>\<open>StatusQuerier\<close>.\<close>

definition seen :: "(nomba_error + 'a) \<times> 's nomba \<Rightarrow> 'a res \<times> 's nomba" where
  "seen out = (case out of (Inl e, c) \<Rightarrow> (Inl (sentinel e), c) | (Inr x, c) \<Rightarrow> (Inr x, c))"

definition nomba_gateway :: "('d, 's) nomba_env \<Rightarrow> nomba_config \<Rightarrow> 's nomba gateway" where
  "nomba_gateway env cfg =
     \<lparr>gw_CreateFundingLink = (\<lambda>req c. seen (nomba_CreateFundingLink env cfg req c)),
      gw_Payout = (\<lambda>req c. seen (nomba_Payout env cfg req c)),
      gw_Refund = (\<lambda>req c. seen (nomba_Refund env cfg req c)),
      gw_VerifyFunding = Some (\<lambda>ref c. seen (nomba_VerifyFunding env cfg ref c)),
      gw_PayoutStatus = None\<rparr>"

end
