(* ===== verification/Gateway_Contract.thy ===== *)
theory Gateway_Contract
  imports App_Legs
begin

text \<open>
  What the disbursement protocol needs of a provider, as a locale, and what it gives: behind the
  submission counter, a provider that moves money at most once per submission, and never in one
  it answers with \<open>ErrNotSubmitted\<close>, moves money at most once per settlement leg over the
  whole life of the application.  The mock provider is an instance; the Nomba adapter is
  another.
\<close>

locale honest_gateway =
  fixes gw :: "'g gateway" and moved :: "'g \<Rightarrow> string \<Rightarrow> nat"
  assumes payout_moves: "moved (snd (gw_Payout gw preq g)) k \<le>
      moved g k + (if k = pq_IdempotencyKey preq \<and> fst (gw_Payout gw preq g) \<noteq> Inl ErrNotSubmitted then 1 else 0)"
    and refund_moves: "moved (snd (gw_Refund gw rreq g)) k \<le>
      moved g k + (if k = rq_IdempotencyKey rreq \<and> fst (gw_Refund gw rreq g) \<noteq> Inl ErrNotSubmitted then 1 else 0)"
    and link_moves: "moved (snd (gw_CreateFundingLink gw freq g)) k \<le> moved g k"
    and verify_moves: "gw_VerifyFunding gw = Some v \<Longrightarrow> moved (snd (v ref g)) k \<le> moved g k"
    and no_queries: "gw_PayoutStatus gw = None"
begin

text \<open>Every movement is an unlicensed submission.\<close>

definition metered :: "'g counted \<Rightarrow> bool" where
  "metered s \<longleftrightarrow> (\<forall>k. moved (cn_inner s) k + cn_licences s k \<le> cn_submissions s k)"

lemma counted_submit_metered:
  assumes "\<And>g k. moved (snd (submit req g)) k \<le>
      moved g k + (if k = key req \<and> fst (submit req g) \<noteq> Inl ErrNotSubmitted then 1 else 0)"
    and "metered s"
  shows "metered (snd (counted_submit submit key req s))"
  unfolding metered_def
proof
  fix k
  obtain r g where run: "submit req (cn_inner s) = (r, g)" by fastforce
  have "moved g k \<le> moved (cn_inner s) k + (if k = key req \<and> r \<noteq> Inl ErrNotSubmitted then 1 else 0)"
    using assms(1) [of "cn_inner s" k] by (simp add: run)
  moreover have "moved (cn_inner s) k + cn_licences s k \<le> cn_submissions s k"
    using assms(2) by (simp add: metered_def)
  ultimately show "moved (cn_inner (snd (counted_submit submit key req s))) k +
      cn_licences (snd (counted_submit submit key req s)) k
    \<le> cn_submissions (snd (counted_submit submit key req s)) k"
    by (auto simp: counted_submit_def run bump_def)
qed

lemma on_inner_metered:
  assumes "\<And>g k. moved (snd (f g)) k \<le> moved g k" and "metered s"
  shows "metered (snd (on_inner f s))"
  unfolding metered_def
proof
  fix k
  obtain r g where "f (cn_inner s) = (r, g)" by fastforce
  with assms(1) [of "cn_inner s" k] assms(2)
  show "moved (cn_inner (snd (on_inner f s))) k + cn_licences (snd (on_inner f s)) k
      \<le> cn_submissions (snd (on_inner f s)) k"
    by (auto simp: metered_def on_inner_def dest: spec [of _ k])
qed

lemma submit_leg_metered:
  assumes "a_gateway a = counted_gateway gw" and "metered (w_gw w)"
  shows "metered (w_gw (snd (submit_leg a leg w)))"
proof (cases "sl_Direction leg")
  case Payout
  then show ?thesis
    using assms counted_submit_metered [of "gw_Payout gw" _ pq_IdempotencyKey, OF payout_moves assms(2)]
    by (simp add: submit_leg_def gw_io_def counted_gateway_def split: prod.split) (metis snd_conv)
next
  case Refund
  then show ?thesis
    using assms counted_submit_metered [of "gw_Refund gw" _ rq_IdempotencyKey, OF refund_moves assms(2)]
    by (simp add: submit_leg_def gw_io_def counted_gateway_def split: prod.split) (metis snd_conv)
qed

lemma payLeg_metered:
  assumes "a_gateway a = counted_gateway gw" and "metered (w_gw w)"
  shows "metered (w_gw (snd (payLeg a leg w)))"
proof -
  obtain won d where c: "ClaimSettlementLeg (sl_IdempotencyKey leg) (w_db w) = (won, d)" by fastforce
  obtain r w2 where s: "submit_leg a leg (w\<lparr>w_db := d\<rparr>) = (r, w2)" by fastforce
  have "metered (w_gw w2)"
    using submit_leg_metered [OF assms(1), of "w\<lparr>w_db := d\<rparr>" leg] assms(2) s by simp
  with assms(2) show ?thesis by (simp add: payLeg_def c Let_def try_io_def s)
qed

lemma resolve_leg_metered:
  assumes "a_gateway a = counted_gateway gw"
  shows "w_gw (snd (resolve_leg a leg w)) = w_gw w"
  using assms by (simp add: resolve_leg_def counted_gateway_def no_queries leave_leg_def)

lemma metered_invariant:
  assumes "a_gateway a = counted_gateway gw"
  shows "app_invariant a (\<lambda>(d :: db) s. metered s)"
proof unfold_locales
  fix d :: db and s req
  assume "metered s"
  then show "metered (snd (gw_CreateFundingLink (a_gateway a) req s))"
    by (simp add: assms counted_gateway_def on_inner_metered link_moves)
next
  fix v and d :: db and s ref
  assume "gw_VerifyFunding (a_gateway a) = Some v" "metered s"
  then show "metered (snd (v ref s))"
    by (auto simp: assms counted_gateway_def intro!: on_inner_metered verify_moves)
qed (simp_all add: holds_def assms payLeg_metered resolve_leg_metered)

lemma moves_once:
  assumes "a_gateway a = counted_gateway gw" and "app_reach a (fresh_counts g0) w" and "moved g0 = (\<lambda>_. 0)"
  shows "moved (cn_inner (w_gw w)) k \<le> 1"
proof -
  have "metered (fresh_counts g0)" using assms(3) by (simp add: metered_def fresh_counts_def)
  from app_invariant.reach_holds [OF metered_invariant [OF assms(1)] assms(2) this]
  have "moved (cn_inner (w_gw w)) k + cn_licences (w_gw w) k \<le> cn_submissions (w_gw w) k"
    by (simp add: metered_def)
  moreover have "cn_submissions (w_gw w) k \<le> cn_licences (w_gw w) k + 1"
    by (rule within_licencesD [OF app_reach_within [OF assms(2,1)]])
  ultimately show ?thesis by simp
qed

end

text \<open>The mock provider.\<close>

interpretation mock_honest: honest_gateway "mock_gateway sha" mock_moved for sha
proof unfold_locales
  fix v ref g k
  assume "gw_VerifyFunding (mock_gateway sha) = Some v"
  then show "mock_moved (snd (v ref g)) k \<le> mock_moved g k"
    by (auto simp: mock_gateway_def mock_VerifyFunding_def mock_moved_def is_movement_def)
qed (auto simp: mock_gateway_def mock_Payout_def mock_Refund_def mock_execute_moved
    mock_CreateFundingLink_def mock_moved_def is_movement_def mock_execute_def Let_def split: option.split)

end
