(* ===== verification/Nomba_Claims.thy ===== *)
theory Nomba_Claims
  imports Nomba Gateway_Contract App_Demo
begin

text \<open>
  The claims about the Nomba adapter: amounts survive the text the API exchanges, and money moves
  at most once per settlement leg although the adapter retries a call with a fresh token.
\<close>

section \<open>Amounts\<close>

lemma digits_value_ge: "0 \<le> acc \<Longrightarrow> list_all is_digit s \<Longrightarrow> acc \<le> digits_value acc s"
proof (induction s arbitrary: acc)
  case (Cons c s)
  then have "0 \<le> digit_value c" by (simp add: digit_value_def is_digit_def)
  with Cons.prems have "acc \<le> acc * 10 + digit_value c" "0 \<le> acc * 10 + digit_value c" by auto
  with Cons.IH [of "acc * 10 + digit_value c"] Cons.prems show ?case by simp
qed simp

lemma naira_digits_exact:
  "0 \<le> acc \<Longrightarrow> list_all is_digit s \<Longrightarrow> digits_value acc s < 2 ^ 63 \<Longrightarrow>
     naira_digits acc s = Some (digits_value acc s)"
proof (induction s arbitrary: acc)
  case (Cons c s)
  have d: "0 \<le> digit_value c" using Cons.prems by (simp add: digit_value_def is_digit_def)
  have "acc * 10 + digit_value c \<le> digits_value (acc * 10 + digit_value c) s"
    using digits_value_ge [of "acc * 10 + digit_value c" s] d Cons.prems by simp
  with Cons.prems d have "in_i64 (acc * 10)" "in_i64 (acc * 10 + digit_value c)"
    by (auto simp: in_i64_def)
  with Cons.IH [of "acc * 10 + digit_value c"] Cons.prems d show ?case by (simp add: i64_id)
qed simp

lemma two_digits:
  assumes "n < 100"
  shows "pad_zero 2 (dec n) = [digit_char (n div 10), digit_char (n mod 10)]"
proof (cases "n < 10")
  case True
  have "char_of (48 :: nat) = CHR ''0''" by code_simp
  with True show ?thesis by (simp add: dec.simps [of n] pad_zero_def digit_char_def)
next
  case False
  with assms have "dec (n div 10) = [digit_char (n div 10)]" by (subst dec.simps) auto
  with False show ?thesis by (simp add: dec.simps [of n] pad_zero_def)
qed

text \<open>C38: Amounts survive the provider's decimal text exactly: every int64 kobo amount rendered for
  the API and parsed back is itself, with no rounding and no overflow, and a negative amount is
  rendered as zero.\<close>

theorem naira_round_trip:
  assumes "in_i64 kobo"
  shows "koboFromNaira (nairaAmount kobo) = max 0 kobo"
proof -
  define k where "k = nat (max 0 kobo)"
  have k: "int k < 2 ^ 63" using assms by (auto simp: k_def in_i64_def)
  have r: "k mod 100 < 100" by simp
  let ?w = "dec (k div 100)" and ?f = "[digit_char (k mod 100 div 10), digit_char (k mod 100 mod 10)]"
  have txt_eq: "nairaAmount kobo = ?w @ CHR ''.'' # ?f"
  proof -
    have kobo: "(if kobo < 0 then 0 else kobo) = int k" by (simp add: k_def max_def)
    have "dec_int (int k div 100) = ?w" "dec_int (int k mod 100) = dec (k mod 100)"
      by (simp_all add: dec_int_dec nat_div_distrib nat_mod_distrib)
    then show ?thesis by (simp add: nairaAmount_def Let_def kobo two_digits [OF r])
  qed
  have digits: "list_all is_digit ?w" "list_all is_digit ?f"
    by (auto simp: list_all_iff dest: dec_digits intro: digit_char_props)
  have "\<forall>c \<in> set (?w @ CHR ''.'' # ?f). \<not> is_space c"
    using digits is_digit_not_special(2) by (auto simp: list_all_iff is_space_def)
  then have trim: "trim_space (nairaAmount kobo) = ?w @ CHR ''.'' # ?f"
    unfolding txt_eq by (rule trim_space_id)
  have dot: "CHR ''.'' \<notin> set ?w" using dec_digits is_digit_not_special(1) by blast
  have "int (k div 100) < 2 ^ 63" using k by linarith
  then have whole: "naira_digits 0 ?w = Some (int (k div 100))"
    using naira_digits_exact [of 0 ?w] digits(1) by (simp add: digits_value_dec)
  have i: "i64 (int (k div 100) * 100) = int (k div 100) * 100"
    by (rule i64_id) (use k in \<open>auto simp: in_i64_def zdiv_int\<close>)
  have v: "int (k div 100) * 100 + (int (k mod 100 div 10) * 10 + int (k mod 100 mod 10)) = int k"
  proof -
    have "k div 100 * 100 + (k mod 100 div 10 * 10 + k mod 100 mod 10) = k" by (metis div_mult_mod_eq)
    from arg_cong [OF this, of int] show ?thesis by (simp only: of_nat_add of_nat_mult of_nat_numeral)
  qed
  have "in_i64 (int k)" using k by (simp add: in_i64_def)
  then have "koboFromNaira (nairaAmount kobo) = int k"
    using digits by (simp add: koboFromNaira_def trim cut_at_append [OF dot] whole i Let_def
        digit_char_props v i64_id)
  then show ?thesis by (simp add: k_def)
qed

theorem naira_round_trip_witness:
  "koboFromNaira (nairaAmount 1020000) = 1020000 \<and> koboFromNaira (nairaAmount (- 5)) = 0"
  using naira_round_trip [of 1020000] naira_round_trip [of "- 5"] by (simp add: in_i64_def)

section \<open>Transfers that may have moved money\<close>

text \<open>The provider behind a log of its exchanges.\<close>

definition logged :: "(nomba_request \<Rightarrow> 's \<Rightarrow> 'd exchange \<times> 's) \<Rightarrow> nomba_request \<Rightarrow>
    's \<times> (nomba_request \<times> 'd exchange) list \<Rightarrow> 'd exchange \<times> 's \<times> (nomba_request \<times> 'd exchange) list" where
  "logged server req s = (case server req (fst s) of (x, t) \<Rightarrow> (x, t, snd s @ [(req, x)]))"

definition logging :: "('d, 's) nomba_env \<Rightarrow> ('d, 's \<times> (nomba_request \<times> 'd exchange) list) nomba_env" where
  "logging env = \<lparr>ne_server = logged (ne_server env), ne_token = ne_token env, ne_link = ne_link env,
     ne_transfer = ne_transfer env, ne_checkout = ne_checkout env\<rparr>"

fun carries :: "string \<Rightarrow> nomba_body \<Rightarrow> bool" where
  "carries k (TransferBody b) = (tr_MerchantTxRef b = k)"
| "carries k _ = False"

text \<open>An exchange may have moved money unless it never left, or the answer is a refusal.\<close>

fun may_move :: "'d exchange \<Rightarrow> bool" where
  "may_move (Answer status body) =
     (status \<noteq> 401 \<and> unwrap_api status (env_Code (reply_env body)) \<noteq> ErrRejected)"
| "may_move x = (x = SendFailed \<or> x = ReadFailed)"

definition moved_by :: "('s \<times> (nomba_request \<times> 'd exchange) list) nomba \<Rightarrow> string \<Rightarrow> nat" where
  "moved_by c k = length (filter (\<lambda>(req, x). carries k (nr_Body req) \<and> may_move x) (snd (nb_server c)))"

lemma moved_by_fields [simp]:
  "moved_by (c\<lparr>nb_tick := n\<rparr>) = moved_by c"
  "moved_by (c\<lparr>nb_tok := t\<rparr>) = moved_by c"
  by (simp_all add: moved_by_def fun_eq_iff)

lemma do_moves:
  "\<exists>x c'. nomba_do (logging env) how path access body decode zero c = (decode_reply decode zero x, c') \<and>
    (\<forall>k. moved_by c' k = moved_by c k + (if carries k body \<and> may_move x then 1 else 0))"
proof -
  let ?req = "\<lparr>nr_Method = how, nr_Path = path, nr_Access = access, nr_Body = body\<rparr>"
  obtain x t where x: "ne_server env ?req (fst (nb_server c)) = (x, t)" by fastforce
  let ?c = "c\<lparr>nb_server := (t, snd (nb_server c) @ [(?req, x)])\<rparr>"
  have "nomba_do (logging env) how path access body decode zero c = (decode_reply decode zero x, ?c)"
    by (simp add: nomba_do_def logging_def logged_def x)
  moreover have "moved_by ?c k = moved_by c k + (if carries k body \<and> may_move x then 1 else 0)" for k
    by (simp add: moved_by_def)
  ultimately show ?thesis by blast
qed

lemma grant_moves:
  assumes "\<And>k. \<not> carries k body"
  shows "moved_by (snd (grant_and_cache (logging env) path body c)) = moved_by c"
proof -
  obtain x c' where "nomba_do (logging env) ''POST'' path [] body (ne_token (logging env)) ([], []) c =
      (decode_reply (ne_token (logging env)) ([], []) x, c')"
      "\<And>k. moved_by c' k = moved_by c k + (if carries k body \<and> may_move x then 1 else 0)"
    using do_moves [of env "''POST''" path "[]" body "ne_token (logging env)" "([], [])" c] by blast
  then show ?thesis
    by (auto simp: grant_and_cache_def tokenGrant_def bind_nb_def assms fun_eq_iff split: sum.split)
qed

lemma bearer_moves: "moved_by (snd (bearer (logging env) cfg c)) = moved_by c"
proof -
  have issue: "moved_by (snd (issue_token (logging env) cfg c)) = moved_by c" for c :: "('a \<times> _) nomba"
    by (simp add: issue_token_def grant_moves)
  have refresh: "moved_by (snd (grant_and_cache (logging env) path (RefreshGrant t) c)) = moved_by c"
    for path t and c :: "('a \<times> _) nomba" by (rule grant_moves) simp
  have "moved_by (snd (renew_token (logging env) cfg c)) = moved_by c" for c :: "('a \<times> _) nomba"
    using refresh [of "''/v1/auth/token/refresh''" "at_refresh (nb_tok c)" c]
    by (auto simp: renew_token_def issue split: prod.split sum.split)
  then show ?thesis by (auto simp: bearer_def token_valid_def split: prod.split bool.split)
qed

lemma decode_refusals:
  "decode_reply decode zero x = Inl e \<Longrightarrow> is_stale e \<or> sentinel e = ErrNotSubmitted \<Longrightarrow> \<not> may_move x"
  by (cases x) (auto simp: decode_reply_def Let_def split: if_splits option.splits)

text \<open>One call: only a body that carries the key moves its money, once, and not when the call
  reports that nothing was sent.\<close>

lemma call_moves:
  assumes "nomba_call (logging env) cfg how path body decode zero c = (r, c')"
  shows "moved_by c' k \<le> moved_by c k + (if carries k body \<and> (\<forall>e. r = Inl e \<longrightarrow> sentinel e \<noteq> ErrNotSubmitted) then 1 else 0)"
proof -
  obtain b c1 where b: "bearer (logging env) cfg c = (b, c1)" by fastforce
  with bearer_moves [of env cfg c] have m1: "moved_by c1 = moved_by c" by simp
  show ?thesis
  proof (cases b)
    case (Inl e)
    with assms b m1 show ?thesis by (simp add: nomba_call_def bind_nb_def)
  next
    case (Inr access)
    obtain x c2 where x: "nomba_do (logging env) how path access body decode zero c1 = (decode_reply decode zero x, c2)"
        and m2: "\<And>k. moved_by c2 k = moved_by c1 k + (if carries k body \<and> may_move x then 1 else 0)"
      using do_moves [of env how path access body decode zero c1] by blast
    show ?thesis
    proof (cases "\<exists>e. decode_reply decode zero x = Inl e \<and> is_stale e")
      case False
      then have "r = decode_reply decode zero x" "c' = c2"
        using assms b Inr x by (auto simp: nomba_call_def bind_nb_def split: sum.splits if_splits)
      with m1 m2 show ?thesis by (auto dest: decode_refusals)
    next
      case True
      then have m2': "moved_by c2 = moved_by c" using m1 m2 by (auto simp: fun_eq_iff dest: decode_refusals)
      let ?c3 = "invalidate access c2"
      have m3: "moved_by ?c3 = moved_by c" by (simp add: invalidate_def m2')
      obtain b2 c4 where b2: "bearer (logging env) cfg ?c3 = (b2, c4)" by fastforce
      with bearer_moves [of env cfg ?c3] m3 have m4: "moved_by c4 = moved_by c" by simp
      have run: "bind_nb (bearer (logging env) cfg)
          (\<lambda>fresh. nomba_do (logging env) how path fresh body decode zero) ?c3 = (r, c')"
        using assms b Inr x True by (auto simp: nomba_call_def bind_nb_def)
      show ?thesis
      proof (cases b2)
        case (Inl e)
        with run b2 m4 show ?thesis by (simp add: bind_nb_def)
      next
        case (Inr fresh)
        obtain y c5 where "nomba_do (logging env) how path fresh body decode zero c4 = (decode_reply decode zero y, c5)"
            "\<And>k. moved_by c5 k = moved_by c4 k + (if carries k body \<and> may_move y then 1 else 0)"
          using do_moves [of env how path fresh body decode zero c4] by blast
        with run b2 Inr m4 show ?thesis by (auto simp: bind_nb_def dest: decode_refusals)
      qed
    qed
  qed
qed

section \<open>The adapter is an honest gateway\<close>

lemma transfer_moves:
  assumes "nomba_transfer (logging env) cfg dest amount key narration c = (r, c')"
  shows "moved_by c' k \<le> moved_by c k + (if k = key \<and> (\<forall>e. r = Inl e \<longrightarrow> sentinel e \<noteq> ErrNotSubmitted) then 1 else 0)"
proof -
  let ?body = "TransferBody \<lparr>tr_Amount = nairaAmount amount, tr_AccountNumber = bn_AccountNumber dest,
          tr_AccountName = bn_AccountName dest, tr_BankCode = bn_BankCode dest,
          tr_MerchantTxRef = key, tr_SenderName = ''EscrowPay'', tr_Narration = narration\<rparr>"
  obtain q c1 where call: "nomba_call (logging env) cfg ''POST'' (''/v2/transfers/bank/'' @ nc_SubAccountID cfg)
      ?body (ne_transfer (logging env)) ([], []) c = (q, c1)" by fastforce
  have "c' = c1" "(\<exists>e. q = Inl e \<and> sentinel e = ErrNotSubmitted) \<longleftrightarrow> (\<exists>e. r = Inl e \<and> sentinel e = ErrNotSubmitted)"
    using assms call by (auto simp: nomba_transfer_def bind_nb_def split: sum.splits prod.splits if_splits)
  with call_moves [OF call, of k] show ?thesis by (auto split: if_splits)
qed

lemma seen_ErrNotSubmitted:
  "fst (seen out) = Inl ErrNotSubmitted \<longleftrightarrow> (\<exists>e. fst out = Inl e \<and> sentinel e = ErrNotSubmitted)"
  "snd (seen out) = snd out"
  by (cases out; cases "fst out"; simp add: seen_def)+

lemma refusals_before_sending: "resolve_beneficiary ref fallback = Inl e \<Longrightarrow> sentinel e = ErrNotSubmitted"
  by (auto simp: resolve_beneficiary_def split: list.splits if_splits)

interpretation nomba_honest: honest_gateway "nomba_gateway (logging env) cfg" moved_by for env cfg
proof unfold_locales
  fix preq :: payout_request and g :: "('b \<times> (nomba_request \<times> 'a exchange) list) nomba" and k
  show "moved_by (snd (gw_Payout (nomba_gateway (logging env) cfg) preq g)) k \<le> moved_by g k +
    (if k = pq_IdempotencyKey preq \<and> fst (gw_Payout (nomba_gateway (logging env) cfg) preq g) \<noteq> Inl ErrNotSubmitted
     then 1 else 0)"
  proof (cases "resolve_beneficiary (pq_BeneficiaryAccountRef preq) (nc_PayoutBeneficiary cfg)")
    case (Inl e)
    then show ?thesis by (simp add: nomba_gateway_def seen_ErrNotSubmitted nomba_Payout_def)
  next
    case (Inr dest)
    obtain r c' where run: "nomba_transfer (logging env) cfg dest (pq_AmountKobo preq) (pq_IdempotencyKey preq)
        (''EscrowPay settlement '' @ shortID (pq_PocketID preq)) g = (r, c')" by fastforce
    from transfer_moves [OF run, of k] run Inr show ?thesis
      by (auto simp: nomba_gateway_def seen_ErrNotSubmitted nomba_Payout_def split: if_splits)
  qed
next
  fix rreq :: refund_request and g :: "('b \<times> (nomba_request \<times> 'a exchange) list) nomba" and k
  let ?dest = "if complete (nc_RefundBeneficiary cfg) then nc_RefundBeneficiary cfg else nc_PayoutBeneficiary cfg"
  obtain r c' where run: "nomba_transfer (logging env) cfg ?dest (rq_AmountKobo rreq) (rq_IdempotencyKey rreq)
        (''EscrowPay refund '' @ shortID (rq_PocketID rreq)) g = (r, c')" by fastforce
  from transfer_moves [OF run, of k] run
  show "moved_by (snd (gw_Refund (nomba_gateway (logging env) cfg) rreq g)) k \<le> moved_by g k +
    (if k = rq_IdempotencyKey rreq \<and> fst (gw_Refund (nomba_gateway (logging env) cfg) rreq g) \<noteq> Inl ErrNotSubmitted
     then 1 else 0)"
    by (cases "complete ?dest")
      (auto simp: nomba_gateway_def seen_ErrNotSubmitted nomba_Refund_def Let_def split: if_splits)
next
  fix freq :: funding_request and g :: "('b \<times> (nomba_request \<times> 'a exchange) list) nomba" and k
  obtain r c' where run: "nomba_call (logging env) cfg ''POST'' ''/v1/checkout/order''
      (OrderBody (funding_order cfg freq)) (ne_link (logging env)) ([], []) g = (r, c')" by fastforce
  then have res: "snd (nomba_CreateFundingLink (logging env) cfg freq g) = c'"
    by (auto simp: nomba_CreateFundingLink_def bind_nb_def split: sum.split)
  from call_moves [OF run, of k]
  show "moved_by (snd (gw_CreateFundingLink (nomba_gateway (logging env) cfg) freq g)) k \<le> moved_by g k"
    by (simp add: nomba_gateway_def seen_ErrNotSubmitted res)
next
  fix v ref and g :: "('b \<times> (nomba_request \<times> 'a exchange) list) nomba" and k
  assume v: "gw_VerifyFunding (nomba_gateway (logging env) cfg) = Some v"
  let ?path = "''/v1/checkout/transaction?idType=ORDER_REFERENCE&id='' @ query_escape ref"
  let ?zero = "\<lparr>ct_Success = False, ct_OrderAmount = None, ct_PaymentReference = None\<rparr>"
  obtain r c' where run: "nomba_call (logging env) cfg ''GET'' ?path NoBody (ne_checkout (logging env)) ?zero g = (r, c')"
    by fastforce
  have "snd (v ref g) \<in> {c', g}"
    using v run by (auto simp: nomba_gateway_def seen_ErrNotSubmitted nomba_VerifyFunding_def bind_nb_def
        split: sum.split)
  with call_moves [OF run, of k] show "moved_by (snd (v ref g)) k \<le> moved_by g k" by auto
qed (simp add: nomba_gateway_def)

section \<open>Money moves once\<close>

text \<open>C13: Each settlement leg moves money at most once through the Nomba adapter, over any run of the
  application and against any provider: of all the transfers ever sent under a leg's idempotency
  key, with token renewals, retries after a stale token and released legs, at most one is not
  provably unexecuted (never connected, or refused by the API).\<close>

theorem nomba_moves_once:
  assumes "app_reach a (fresh_counts g0) w"
    and "a_gateway a = counted_gateway (nomba_gateway (logging env) cfg)"
    and "snd (nb_server g0) = []"
  shows "length (filter (\<lambda>(req, x). carries k (nr_Body req) \<and> may_move x)
    (snd (nb_server (cn_inner (w_gw w))))) \<le> 1"
proof -
  have "moved_by g0 = (\<lambda>_. 0)" using assms(3) by (simp add: moved_by_def fun_eq_iff)
  from nomba_honest.moves_once [OF assms(2,1) this, of k] show ?thesis by (simp add: moved_by_def)
qed

text \<open>A provider that reports the first transfer's token stale and accepts everything else.\<close>

definition demo_provider :: "nomba_request \<Rightarrow> bool \<Rightarrow> (string \<times> string) exchange \<times> bool" where
  "demo_provider req stale =
     (if stale \<and> nr_Path req = ''/v2/transfers/bank/sub'' then (Answer 401 None, False)
      else (Answer 200 (Some \<lparr>env_Code = ''00'', env_Data = Some (''x1'', ''y'')\<rparr>), stale))"

definition demo_nomba :: "(string \<times> string, bool) nomba_env" where
  "demo_nomba = \<lparr>ne_server = demo_provider, ne_token = Some, ne_link = Some, ne_transfer = Some,
     ne_checkout = (\<lambda>_. None)\<rparr>"

definition demo_config :: nomba_config where
  "demo_config = \<lparr>nc_BaseURL = ''https://sandbox.nomba.com'', nc_ClientID = ''id'', nc_ClientSecret = ''s'',
     nc_AccountID = ''acct'', nc_SubAccountID = ''sub'', nc_PublicBaseURL = ''http://localhost:3000'',
     nc_FallbackCustomerEmail = ''b@e'',
     nc_PayoutBeneficiary = \<lparr>bn_AccountNumber = ''1'', bn_BankCode = ''2'', bn_AccountName = ''3''\<rparr>,
     nc_RefundBeneficiary = \<lparr>bn_AccountNumber = [], bn_BankCode = [], bn_AccountName = []\<rparr>\<rparr>"

definition nomba_app :: "(bool \<times> (nomba_request \<times> (string \<times> string) exchange) list) nomba counted app" where
  "nomba_app = \<lparr>a_store = demo_store, a_gateway = counted_gateway (nomba_gateway (logging demo_nomba) demo_config),
     a_linkSecret = ''ls'', a_hmac = (\<lambda>k m. take 4 m), a_sha = (\<lambda>m. take 2 (rev m)), a_seal = (\<lambda>k n p. p),
     a_unseal = (\<lambda>k n c. Some c), a_releaseCodeSecret = ''secret'',
     a_fundingLinkTTL = 72 * time_Hour, a_gracePeriod = 24 * time_Hour,
     a_evidenceCaptureWindow = time_Hour, a_evidenceMaxBytes = 1000000,
     a_sandbox = True, a_realGateway = True, a_disableSimulateFunding = False\<rparr>"

definition nomba_start :: "(bool \<times> (nomba_request \<times> (string \<times> string) exchange) list) nomba" where
  "nomba_start = \<lparr>nb_tok = no_token, nb_server = (True, []), nb_clock = (\<lambda>n. int n), nb_tick = 0\<rparr>"

definition nomba_run :: "app_op list \<Rightarrow>
    (bool \<times> (nomba_request \<times> (string \<times> string) exchange) list) nomba counted world" where
  "nomba_run ops = fold (exec_app nomba_app) ops
     \<lparr>w_db = empty_db, w_gw = fresh_counts nomba_start, w_sent = [],
      w_clock = (\<lambda>n. (int n + 1) * (30 * time_Minute)), w_tick = 0,
      w_draws = (\<lambda>n. (Inr 42, Inr (replicate 12 (CHR ''n'')))), w_drawn = 0,
      w_nonces = (\<lambda>n role. Inr (replicate (Suc n) (CHR ''n''))), w_minted = 0\<rparr>"

definition paid_ops :: "app_op list" where
  "paid_ops = take 5 demo_app_ops @ [AppSimulateFunding ''p1'', AppEnterCode ''p1'' RoleVendor ''0042'',
     AppStore (OpSweep RuleDueSettlement (\<lambda>_. False) (3 * time_Hour)), AppSweepPending]"

lemma nomba_run_reach:
  assumes "list_all app_op_ok ops"
  shows "app_reach nomba_app (fresh_counts nomba_start) (nomba_run ops)"
proof -
  have reach: "app_reach nomba_app g (fold (exec_app nomba_app) ops w)"
    if "app_reach nomba_app g w" "list_all app_op_ok ops" for w g
    using that by (induction ops arbitrary: w) (auto intro: app_reach.op)
  show ?thesis unfolding nomba_run_def
    by (rule reach [OF _ assms], rule app_reach.start) simp_all
qed

theorem nomba_moves_once_witness:
  "let log = snd (nb_server (cn_inner (w_gw (nomba_run paid_ops))));
       sent = filter (\<lambda>(req, x). carries (idempotencyKey ''p1'' Payout RoleVendor) (nr_Body req)) log
   in length sent = 2 \<and> length (filter (\<lambda>(req, x). may_move x) sent) \<le> 1"
proof -
  let ?k = "idempotencyKey ''p1'' Payout RoleVendor"
  let ?log = "snd (nb_server (cn_inner (w_gw (nomba_run paid_ops))))"
  have ok: "list_all app_op_ok paid_ops" by (simp add: paid_ops_def demo_app_ops_def plain_id_def)
  have gw: "a_gateway nomba_app = counted_gateway (nomba_gateway (logging demo_nomba) demo_config)"
    by (simp add: nomba_app_def)
  have "length (filter (\<lambda>(req, x). carries ?k (nr_Body req)) ?log) = 2" by code_simp
  moreover have "length (filter (\<lambda>(req, x). carries ?k (nr_Body req) \<and> may_move x) ?log) \<le> 1"
    using nomba_moves_once [OF nomba_run_reach [OF ok] gw, of ?k] by (simp add: nomba_start_def)
  moreover have "filter (\<lambda>(req, x). may_move x) (filter (\<lambda>(req, x). carries ?k (nr_Body req)) ?log) =
      filter (\<lambda>(req, x). carries ?k (nr_Body req) \<and> may_move x) ?log"
    by (simp add: filter_filter case_prod_unfold conj_commute)
  ultimately show ?thesis by (simp add: Let_def)
qed

section \<open>A refused token\<close>

text \<open>A provider that grants one token and refuses every later grant, to a client whose token has
  lapsed by the time it pays out.\<close>

definition refusing_provider :: "nomba_request \<Rightarrow> bool \<Rightarrow> (string \<times> string) exchange \<times> bool" where
  "refusing_provider req fresh =
     (if nr_Path req \<in> {''/v1/auth/token/issue'', ''/v1/auth/token/refresh''} \<and> \<not> fresh
      then (Answer 403 None, False)
      else (Answer 200 (Some \<lparr>env_Code = ''00'', env_Data = Some (''x1'', ''y'')\<rparr>), False))"

definition refused_app :: "(bool \<times> (nomba_request \<times> (string \<times> string) exchange) list) nomba counted app" where
  "refused_app = nomba_app\<lparr>a_gateway :=
     counted_gateway (nomba_gateway (logging (demo_nomba\<lparr>ne_server := refusing_provider\<rparr>)) demo_config)\<rparr>"

definition refused_run :: "app_op list \<Rightarrow>
    (bool \<times> (nomba_request \<times> (string \<times> string) exchange) list) nomba counted world" where
  "refused_run ops = fold (exec_app refused_app) ops
     ((nomba_run [])\<lparr>w_gw := fresh_counts (nomba_start\<lparr>nb_clock := (\<lambda>n. int n * time_Hour)\<rparr>)\<rparr>)"

text \<open>The refusal of a token is taken for a refusal of the transfer: the pocket is SETTLED and its leg
  terminally failed, with no transfer ever sent, although a failure before the submission is the
  kind a caller may retry.\<close>

theorem refused_token_fails_leg:
  "let w = refused_run paid_ops in
     map r_state (pockets (w_db w)) = [StateSettled] \<and> map s_status (settlements (w_db w)) = [LegFailed] \<and>
     filter (\<lambda>(req, x). nr_Path req = ''/v2/transfers/bank/sub'') (snd (nb_server (cn_inner (w_gw w)))) = []"
proof -
  let ?log = "\<lambda>w. snd (nb_server (cn_inner (w_gw w)))"
  have "(\<lambda>w. (map r_state (pockets (w_db w)), map s_status (settlements (w_db w)),
        filter (\<lambda>(req, x). nr_Path req = ''/v2/transfers/bank/sub'') (?log w))) (refused_run paid_ops) =
      ([StateSettled], [LegFailed], [])" by code_simp
  then show ?thesis by (simp add: Let_def)
qed

end
