(* ===== verification/Base64.thy ===== *)
theory Base64
  imports Go_Strings
begin

text \<open>
  The two base64 encodings of Go's standard library the backend uses:
  \<^verbatim>\<open>base64.RawURLEncoding\<close> (no padding; its decoder skips carriage returns and newlines)
  and \<^verbatim>\<open>base64.StdEncoding\<close> (encoding only).  Shared vocabulary, not repository code.
\<close>

definition b64_letter :: "nat \<Rightarrow> nat \<Rightarrow> nat \<Rightarrow> char" where
  "b64_letter c62 c63 n =
     (if n < 26 then char_of (65 + n) else if n < 52 then char_of (71 + n)
      else if n < 62 then char_of (n - 4) else if n = 62 then char_of c62 else char_of c63)"

definition url_letter :: "nat \<Rightarrow> char" where
  "url_letter = b64_letter 45 95"

definition std_letter :: "nat \<Rightarrow> char" where
  "std_letter = b64_letter 43 47"

definition url_value :: "char \<Rightarrow> nat option" where
  "url_value c = (let n = (of_char c :: nat) in
     if 65 \<le> n \<and> n \<le> 90 then Some (n - 65) else if 97 \<le> n \<and> n \<le> 122 then Some (n - 71)
     else if 48 \<le> n \<and> n \<le> 57 then Some (n + 4) else if n = 45 then Some 62
     else if n = 95 then Some 63 else None)"

fun b64_groups :: "nat list \<Rightarrow> nat list list" where
  "b64_groups [] = []"
| "b64_groups [a] = [[a div 4, a mod 4 * 16]]"
| "b64_groups [a, b] = [[a div 4, a mod 4 * 16 + b div 16, b mod 16 * 4]]"
| "b64_groups (a # b # c # rest) =
     [a div 4, a mod 4 * 16 + b div 16, b mod 16 * 4 + c div 64, c mod 64] # b64_groups rest"

definition bytes_of :: "string \<Rightarrow> nat list" where
  "bytes_of s = map of_char s"

definition base64_url :: "string \<Rightarrow> string" where
  "base64_url s = map url_letter (concat (b64_groups (bytes_of s)))"

definition pad_group :: "string \<Rightarrow> string" where
  "pad_group g = g @ replicate (4 - length g) (CHR ''='')"

definition base64_std :: "string \<Rightarrow> string" where
  "base64_std s = concat (map (\<lambda>g. pad_group (map std_letter g)) (b64_groups (bytes_of s)))"

text \<open>Undecodable input, a single trailing letter included, is None; trailing bits are ignored.\<close>

fun b64_ungroup :: "nat list \<Rightarrow> nat list option" where
  "b64_ungroup [] = Some []"
| "b64_ungroup [p] = None"
| "b64_ungroup [p, q] = Some [p * 4 + q div 16]"
| "b64_ungroup [p, q, r] = Some [p * 4 + q div 16, q mod 16 * 16 + r div 4]"
| "b64_ungroup (p # q # r # s # rest) =
     map_option (\<lambda>bs. [p * 4 + q div 16, q mod 16 * 16 + r div 4, r mod 4 * 64 + s] @ bs)
       (b64_ungroup rest)"

fun url_values :: "string \<Rightarrow> nat list option" where
  "url_values [] = Some []"
| "url_values (c # cs) = (case (url_value c, url_values cs) of
     (Some n, Some ns) \<Rightarrow> Some (n # ns) | _ \<Rightarrow> None)"

definition base64_url_decode :: "string \<Rightarrow> string option" where
  "base64_url_decode s =
     (case url_values (filter (\<lambda>c. c \<noteq> char_of (10 :: nat) \<and> c \<noteq> char_of (13 :: nat)) s) of
        None \<Rightarrow> None | Some ns \<Rightarrow> map_option (map char_of) (b64_ungroup ns))"

section \<open>The round trip\<close>

lemma url_value_letter: "n < 64 \<Longrightarrow> url_value (url_letter n) = Some n"
  by (auto simp: url_value_def url_letter_def b64_letter_def Let_def)

lemma url_letter_ok:
  assumes "n < 64"
  shows "url_value (url_letter n) = Some n" and "url_letter n \<noteq> CHR ''.''"
    and "url_letter n \<noteq> char_of (10 :: nat)" and "url_letter n \<noteq> char_of (13 :: nat)"
proof -
  have none: "url_value (CHR ''.'') = None" "url_value (char_of (10 :: nat)) = None"
      "url_value (char_of (13 :: nat)) = None"
    by (simp_all add: url_value_def)
  show v: "url_value (url_letter n) = Some n" by (rule url_value_letter [OF assms])
  from v none show "url_letter n \<noteq> CHR ''.''" by (metis option.distinct(1))
  from v none show "url_letter n \<noteq> char_of (10 :: nat)" by (metis option.distinct(1))
  from v none show "url_letter n \<noteq> char_of (13 :: nat)" by (metis option.distinct(1))
qed

lemma sextets:
  fixes a b c :: nat
  assumes "a < 256" and "b < 256" and "c < 256"
  shows "a div 4 < 64" and "a mod 4 * 16 < 64" and "a mod 4 * 16 + b div 16 < 64"
    and "b mod 16 * 4 < 64" and "b mod 16 * 4 + c div 64 < 64" and "c mod 64 < 64"
proof -
  have "a mod 4 \<le> 3" "b div 16 \<le> 15" "b mod 16 \<le> 15" "c div 64 \<le> 3" using assms by auto
  then show "a mod 4 * 16 < 64" "a mod 4 * 16 + b div 16 < 64" "b mod 16 * 4 < 64"
      "b mod 16 * 4 + c div 64 < 64"
    by linarith+
qed (use assms in auto)

lemma groups_small:
  assumes "\<forall>b \<in> set bs. b < 256" and "n \<in> set (concat (b64_groups bs))"
  shows "n < 64"
  using assms
proof (induction bs rule: b64_groups.induct)
  case (2 a)
  then show ?case using sextets [of a 0 0] by auto
next
  case (3 a b)
  then show ?case using sextets [of a b 0] by auto
next
  case (4 a b c rest)
  then show ?case using sextets [of a b c] by auto
qed simp

lemma ungroup_groups:
  "\<forall>b \<in> set bs. b < 256 \<Longrightarrow> b64_ungroup (concat (b64_groups bs)) = Some bs"
proof (induction bs rule: b64_groups.induct)
  case (2 a)
  then show ?case by simp
next
  case (3 a b)
  then have "(a mod 4 * 16 + b div 16) div 16 = a mod 4" "(a mod 4 * 16 + b div 16) mod 16 = b div 16"
    by auto
  then show ?case by simp
next
  case (4 a b c rest)
  then have "(a mod 4 * 16 + b div 16) div 16 = a mod 4" "(a mod 4 * 16 + b div 16) mod 16 = b div 16"
      "(b mod 16 * 4 + c div 64) div 4 = b mod 16" "(b mod 16 * 4 + c div 64) mod 4 = c div 64"
    by auto
  with 4 show ?case by simp
qed simp

lemma url_values_letters:
  "\<forall>n \<in> set ns. n < 64 \<Longrightarrow> url_values (map url_letter ns) = Some ns"
  by (induction ns) (simp_all add: url_letter_ok)

lemma base64_url_round_trip [simp]: "base64_url_decode (base64_url s) = Some s"
proof -
  let ?ns = "concat (b64_groups (bytes_of s))"
  have bytes: "\<forall>b \<in> set (bytes_of s). b < 256"
    using nat_of_char_less_256 by (auto simp: bytes_of_def)
  then have small: "\<forall>n \<in> set ?ns. n < 64" using groups_small by blast
  then have "filter (\<lambda>c. c \<noteq> char_of (10 :: nat) \<and> c \<noteq> char_of (13 :: nat)) (map url_letter ?ns) = map url_letter ?ns"
    by (intro filter_True) (auto simp: url_letter_ok)
  then show ?thesis
    using bytes small
    by (simp add: base64_url_decode_def base64_url_def url_values_letters ungroup_groups)
      (simp add: bytes_of_def comp_def)
qed

lemma base64_url_no_dot [simp]: "CHR ''.'' \<notin> set (base64_url s)"
proof -
  have "\<forall>b \<in> set (bytes_of s). b < 256" using nat_of_char_less_256 by (auto simp: bytes_of_def)
  then have "\<forall>n \<in> set (concat (b64_groups (bytes_of s))). n < 64" using groups_small by blast
  then have "\<forall>c \<in> set (base64_url s). c \<noteq> CHR ''.''"
    using url_letter_ok(2) unfolding base64_url_def by (metis imageE list.set_map)
  then show ?thesis by blast
qed

end
