(* ===== verification/Auth.thy ===== *)
theory Auth
  imports Base64 App
begin

text \<open>
  Account authentication (\<^verbatim>\<open>internal/auth\<close>: \<^verbatim>\<open>auth.go\<close>, \<^verbatim>\<open>flowstate.go\<close>): server-side
  sessions carried by a cookie, and the signed state of one Google sign-in.  SHA-256, HMAC and
  the JSON text of a flow state are parameters; random draws are arguments.
\<close>

section \<open>Sessions\<close>

record auth_manager =
  am_sha :: "string \<Rightarrow> string"
  am_ttl :: duration
  am_secure :: bool

record cookie =
  ck_Name :: string
  ck_Value :: string
  ck_Path :: string
  ck_Expires :: "gotime option"
  ck_MaxAge :: "int option"
  ck_HttpOnly :: bool
  ck_Secure :: bool
  ck_Lax :: bool

definition CookieName :: string where
  "CookieName = ''escrowpay_session''"

definition NewManager :: "(string \<Rightarrow> string) \<Rightarrow> duration \<Rightarrow> bool \<Rightarrow> auth_manager" where
  "NewManager sha ttl secure =
     \<lparr>am_sha = sha, am_ttl = (if ttl \<le> 0 then 30 * 24 * time_Hour else ttl), am_secure = secure\<rparr>"

definition hashToken :: "(string \<Rightarrow> string) \<Rightarrow> string \<Rightarrow> string" where
  "hashToken sha token = hex_encode (sha token)"

text \<open>\<open>draw\<close> is the outcome of drawing the token's 32 bytes; the cookie is what the response
  carries.\<close>

definition Issue :: "auth_manager \<Rightarrow> string res \<Rightarrow> string \<Rightarrow> string \<Rightarrow> string \<Rightarrow> ('g, cookie) io" where
  "Issue m draw userID ip userAgent = (case draw of
       Inl e \<Rightarrow> fail_io e
     | Inr raw \<Rightarrow>
         bind_io now_io (\<lambda>now.
         let expires = now + am_ttl m; token = base64_url raw in
         bind_io (db_io (InsertSession userID (hashToken (am_sha m) token) expires ip userAgent)) (\<lambda>_.
           return_io \<lparr>ck_Name = CookieName, ck_Value = token, ck_Path = ''/'',
             ck_Expires = Some expires, ck_MaxAge = None, ck_HttpOnly = True,
             ck_Secure = am_secure m, ck_Lax = True\<rparr>)))"

text \<open>\<open>session\<close> is the value of the request's session cookie.\<close>

definition UserFromRequest :: "auth_manager \<Rightarrow> string option \<Rightarrow> ('g, user_record) io" where
  "UserFromRequest m session = (case session of
       None \<Rightarrow> fail_io ErrNoSession
     | Some v \<Rightarrow>
         (if v = [] then fail_io ErrNoSession
          else bind_io now_io (\<lambda>now.
            try_io (db_io (SessionUser (hashToken (am_sha m) v) now)) (\<lambda>r. case r of
                Inr u \<Rightarrow> return_io u
              | Inl e \<Rightarrow> fail_io (if e = ErrSessionInvalid then ErrNoSession else e)))))"

definition Revoke :: "auth_manager \<Rightarrow> string option \<Rightarrow> ('g, cookie) io" where
  "Revoke m session =
     bind_io (case session of
         None \<Rightarrow> return_io ()
       | Some v \<Rightarrow> if v = [] then return_io () else db_do (RevokeSession (hashToken (am_sha m) v))) (\<lambda>_.
     return_io \<lparr>ck_Name = CookieName, ck_Value = [], ck_Path = ''/'', ck_Expires = None,
       ck_MaxAge = Some (- 1), ck_HttpOnly = True, ck_Secure = am_secure m, ck_Lax = True\<rparr>)"

section \<open>The state of one sign-in\<close>

record flow_state =
  fw_State :: string
  fw_Nonce :: string
  fw_Verifier :: string
  fw_Next :: string
  fw_ExpiresAt :: int

text \<open>\<^verbatim>\<open>time.Time.Unix\<close>: whole seconds since 1970 of an instant counted from year 1.\<close>

definition time_Unix :: "gotime \<Rightarrow> int" where
  "time_Unix t = t div 1000000000 - 62135596800"

text \<open>\<open>draws\<close> are the three 32-byte draws, the first that fails ends the attempt.\<close>

definition NewFlowState :: "(string \<Rightarrow> string) \<Rightarrow> string \<Rightarrow> duration \<Rightarrow> gotime \<Rightarrow>
    string res \<times> string res \<times> string res \<Rightarrow> (flow_state \<times> string) res" where
  "NewFlowState sha next_path ttl now draws = (case draws of (d1, d2, d3) \<Rightarrow>
     bind_res d1 (\<lambda>b1. bind_res d2 (\<lambda>b2. bind_res d3 (\<lambda>b3.
       Inr (\<lparr>fw_State = base64_url b1, fw_Nonce = base64_url b2, fw_Verifier = base64_url b3,
              fw_Next = next_path, fw_ExpiresAt = time_Unix (now + ttl)\<rparr>,
            base64_url (sha (base64_url b3)))))))"

definition signFlow :: "(string \<Rightarrow> string \<Rightarrow> string) \<Rightarrow> string \<Rightarrow> string \<Rightarrow> string" where
  "signFlow hmac secret body = base64_url (hmac secret body)"

text \<open>\<open>json\<close> and \<open>parse_json\<close> are \<^verbatim>\<open>json.Marshal\<close> and \<^verbatim>\<open>json.Unmarshal\<close> at this type.\<close>

definition flow_Encode :: "(string \<Rightarrow> string \<Rightarrow> string) \<Rightarrow> (flow_state \<Rightarrow> string) \<Rightarrow> string \<Rightarrow> flow_state \<Rightarrow> string" where
  "flow_Encode hmac json secret fs =
     (let body = base64_url (json fs) in body @ ''.'' @ signFlow hmac secret body)"

definition DecodeFlowState :: "(string \<Rightarrow> string \<Rightarrow> string) \<Rightarrow> (string \<Rightarrow> flow_state option) \<Rightarrow> string \<Rightarrow>
    string \<Rightarrow> gotime \<Rightarrow> flow_state res" where
  "DecodeFlowState hmac parse_json secret raw now = (case cut_at (CHR ''.'') raw of (body, sig, found) \<Rightarrow>
     if \<not> found \<or> sig \<noteq> signFlow hmac secret body then Inl ErrFlowState
     else (case base64_url_decode body of
         None \<Rightarrow> Inl ErrFlowState
       | Some payload \<Rightarrow> (case parse_json payload of
             None \<Rightarrow> Inl ErrFlowState
           | Some fs \<Rightarrow> if fw_ExpiresAt fs \<le> time_Unix now then Inl ErrFlowState else Inr fs)))"

lemma DecodeFlowState_signed:
  assumes "DecodeFlowState hmac parse_json secret raw now = Inr fs"
  shows "\<exists>body. raw = body @ ''.'' @ signFlow hmac secret body \<and> time_Unix now < fw_ExpiresAt fs"
  using assms
  by (auto simp: DecodeFlowState_def split: prod.splits if_splits option.splits dest: cut_at_found)

text \<open>A sign-in flow survives its cookie and cannot be made up: the state encoded under the
  server's secret decodes to itself until it expires and to nothing from then on, and any text that
  decodes carries the keyed digest of its own body and is not expired.  The hypothesis is that
  parsing JSON inverts rendering it.\<close>

theorem flow_state_round_trip:
  assumes "\<And>fs. parse_json (json fs) = Some fs"
  shows "DecodeFlowState hmac parse_json secret (flow_Encode hmac json secret fs) now =
      (if time_Unix now < fw_ExpiresAt fs then Inr fs else Inl ErrFlowState) \<and>
    (\<forall>raw fs'. DecodeFlowState hmac parse_json secret raw now = Inr fs' \<longrightarrow>
      (\<exists>body. raw = body @ ''.'' @ signFlow hmac secret body) \<and> time_Unix now < fw_ExpiresAt fs')"
proof -
  have "cut_at (CHR ''.'') (flow_Encode hmac json secret fs) =
      (base64_url (json fs), signFlow hmac secret (base64_url (json fs)), True)"
    by (simp add: flow_Encode_def Let_def cut_at_append)
  then have "DecodeFlowState hmac parse_json secret (flow_Encode hmac json secret fs) now =
      (if time_Unix now < fw_ExpiresAt fs then Inr fs else Inl ErrFlowState)"
    by (simp add: DecodeFlowState_def assms)
  with DecodeFlowState_signed show ?thesis by blast
qed

definition unary_json :: "flow_state \<Rightarrow> string" where
  "unary_json fs = hex_encode (fw_State fs) @ ''.'' @ hex_encode (fw_Nonce fs) @ ''.'' @
     hex_encode (fw_Verifier fs) @ ''.'' @ hex_encode (fw_Next fs) @ ''.'' @
     (if fw_ExpiresAt fs < 0 then ''-'' else []) @ replicate (nat \<bar>fw_ExpiresAt fs\<bar>) (CHR ''1'')"

definition parse_unary :: "string \<Rightarrow> flow_state option" where
  "parse_unary s = (case split_on (CHR ''.'') s of
     [a, b, c, d, e] \<Rightarrow> (case (hex_decode a, hex_decode b, hex_decode c, hex_decode d) of
         (Some a', Some b', Some c', Some d') \<Rightarrow>
           Some \<lparr>fw_State = a', fw_Nonce = b', fw_Verifier = c', fw_Next = d',
             fw_ExpiresAt = (if take 1 e = ''-'' then - int (length e - 1) else int (length e))\<rparr>
       | _ \<Rightarrow> None)
   | _ \<Rightarrow> None)"

lemma parse_unary_json: "parse_unary (unary_json fs) = Some fs"
proof -
  let ?e = "(if fw_ExpiresAt fs < 0 then ''-'' else []) @ replicate (nat \<bar>fw_ExpiresAt fs\<bar>) (CHR ''1'')"
  have "split_on (CHR ''.'') (unary_json fs) = [hex_encode (fw_State fs), hex_encode (fw_Nonce fs),
      hex_encode (fw_Verifier fs), hex_encode (fw_Next fs), ?e]"
    by (simp add: unary_json_def split_on_append split_on_no_sep)
  then show ?thesis
    by (cases "fw_ExpiresAt fs"; cases "nat \<bar>fw_ExpiresAt fs\<bar>") (auto simp: parse_unary_def)
qed

theorem flow_state_round_trip_witness:
  "DecodeFlowState (\<lambda>k m. k @ m) parse_unary ''secret'' (flow_Encode (\<lambda>k m. k @ m) unary_json ''secret''
     \<lparr>fw_State = ''s'', fw_Nonce = ''n'', fw_Verifier = ''v'', fw_Next = ''/dashboard'', fw_ExpiresAt = 60\<rparr>)
     (62135596800 * 1000000000) = Inr \<lparr>fw_State = ''s'', fw_Nonce = ''n'', fw_Verifier = ''v'',
     fw_Next = ''/dashboard'', fw_ExpiresAt = 60\<rparr>"
  using flow_state_round_trip [of parse_unary unary_json "\<lambda>k m. k @ m" "''secret''"
      "\<lparr>fw_State = ''s'', fw_Nonce = ''n'', fw_Verifier = ''v'', fw_Next = ''/dashboard'', fw_ExpiresAt = 60\<rparr>"
      "62135596800 * 1000000000"] parse_unary_json
  by (simp add: time_Unix_def)

end
