(* ===== verification/Http_Auth.thy ===== *)
theory Http_Auth
  imports Auth Link_Token App_Cases
begin

text \<open>
  The HTTP transport's foundations (\<^verbatim>\<open>internal/httpapi\<close>: \<^verbatim>\<open>api.go\<close>, \<^verbatim>\<open>auth.go\<close>,
  \<^verbatim>\<open>render.go\<close>): requests, errors and their statuses, and who a request speaks for.  A
  handler is a function on the application's world that fails with a transport error or answers;
  rate-limit decisions and decoded bodies are arguments.
\<close>

section \<open>Errors and statuses\<close>

datatype http_error =
    AppError error | errUnauthorized | errNoAccount | errForbidden
  | errRateLimited | errAuthUnavailable | errBadRequest

text \<open>The client's message: a fixed text, or the error's own text.\<close>

datatype http_message = FixedText string | ErrorText http_error

fun classify_app :: "error \<Rightarrow> nat \<times> string option" where
  "classify_app ErrForbidden = (403, Some ''not permitted for this role'')"
| "classify_app ErrNotFound = (404, Some ''not found'')"
| "classify_app (ErrInvalidInput _) = (400, None)"
| "classify_app (ErrInvalidSpec _) = (400, None)"
| "classify_app ErrInvalidSplit = (400, None)"
| "classify_app ErrCodeLocked = (423, Some ''release code entry is locked after too many attempts'')"
| "classify_app ErrTooLarge = (413, Some ''evidence file is too large'')"
| "classify_app ErrConflict = (409, None)"
| "classify_app ErrIllegalState = (409, None)"
| "classify_app ErrAwaitingVendor = (409, None)"
| "classify_app ErrAlreadyAccepted = (409, None)"
| "classify_app ErrAlreadyClaimed = (409, None)"
| "classify_app ErrRoleConflict = (409, None)"
| "classify_app ErrNotClaimed = (409, None)"
| "classify_app ErrIllegalTransition = (409, None)"
| "classify_app ErrTerminal = (409, None)"
| "classify_app ErrNotYetDue = (409, None)"
| "classify_app ErrWindowClosed = (409, None)"
| "classify_app ErrCodeNotReady = (409, None)"
| "classify_app _ = (500, Some ''internal error'')"

fun classify :: "http_error \<Rightarrow> nat \<times> http_message" where
  "classify errUnauthorized = (401, FixedText ''sign in or use a valid pocket link'')"
| "classify errNoAccount = (401, FixedText ''sign in required'')"
| "classify errRateLimited = (429, FixedText ''too many requests; slow down and retry'')"
| "classify errAuthUnavailable = (503, FixedText ''this sign-in method is not configured'')"
| "classify errForbidden = (403, FixedText ''not permitted for this role'')"
| "classify errBadRequest = (400, ErrorText errBadRequest)"
| "classify (AppError e) = (case classify_app e of
     (status, Some msg) \<Rightarrow> (status, FixedText msg) | (status, None) \<Rightarrow> (status, ErrorText (AppError e)))"

section \<open>Handlers\<close>

type_synonym ('g, 'a) hio = "'g world \<Rightarrow> (http_error + 'a) \<times> 'g world"

definition return_h :: "'a \<Rightarrow> ('g, 'a) hio" where
  "return_h x w = (Inr x, w)"

definition fail_h :: "http_error \<Rightarrow> ('g, 'a) hio" where
  "fail_h e w = (Inl e, w)"

definition bind_h :: "('g, 'a) hio \<Rightarrow> ('a \<Rightarrow> ('g, 'b) hio) \<Rightarrow> ('g, 'b) hio" where
  "bind_h m f w = (case m w of (Inl e, w') \<Rightarrow> (Inl e, w') | (Inr x, w') \<Rightarrow> f x w')"

definition app_h :: "('g, 'a) io \<Rightarrow> ('g, 'a) hio" where
  "app_h m w = (case m w of (Inl e, w') \<Rightarrow> (Inl (AppError e), w') | (Inr x, w') \<Rightarrow> (Inr x, w'))"

text \<open>What the decoder makes of a body: nothing to read, something it refuses (malformed, an unknown
  field, over a mebibyte), or the request.\<close>

datatype 'b json_body = EmptyBody | BadBody | JsonBody 'b

fun decodeJSON :: "'b json_body \<Rightarrow> ('g, 'b) hio" where
  "decodeJSON EmptyBody = fail_h errBadRequest"
| "decodeJSON BadBody = fail_h errBadRequest"
| "decodeJSON (JsonBody b) = return_h b"

text \<open>\<open>zero\<close> is the request's zero value, which an absent body leaves in place.\<close>

fun decodeOptionalJSON :: "'b \<Rightarrow> 'b json_body \<Rightarrow> ('g, 'b) hio" where
  "decodeOptionalJSON zero EmptyBody = return_h zero"
| "decodeOptionalJSON zero BadBody = fail_h errBadRequest"
| "decodeOptionalJSON zero (JsonBody b) = return_h b"

definition defaultStr :: "string \<Rightarrow> string \<Rightarrow> string" where
  "defaultStr v fallback = (if v = [] then fallback else v)"

section \<open>Requests and the API\<close>

record http_request =
  hq_Method :: string
  hq_Session :: "string option"
  hq_FlowCookie :: "string option"
  hq_LinkHeader :: string
  hq_LinkQuery :: string
  hq_Origin :: string
  hq_Host :: string
  hq_ForwardedHost :: string
  hq_ForwardedFor :: string
  hq_RemoteHost :: "string option"
  hq_RemoteAddr :: string
  hq_UserAgent :: string

record 'g api =
  ap_app :: "'g app"
  ap_linkSecret :: string
  ap_auth :: "auth_manager option"
  ap_flowSecret :: string
  ap_cookieSecure :: bool
  ap_trustProxy :: bool
  ap_trustedOrigins :: "string list"

definition extractToken :: "http_request \<Rightarrow> string" where
  "extractToken r = (if hq_LinkHeader r \<noteq> [] then hq_LinkHeader r else hq_LinkQuery r)"

text \<open>\<open>hq_RemoteHost\<close> is the host part of the peer address, None when it does not split.\<close>

definition clientIP :: "'g api \<Rightarrow> http_request \<Rightarrow> string" where
  "clientIP p r =
     (let forwarded = (case cut_at (CHR '','') (hq_ForwardedFor r) of (first, _, _) \<Rightarrow> trim_space first);
          peer = (case hq_RemoteHost r of None \<Rightarrow> hq_RemoteAddr r | Some h \<Rightarrow> h)
      in if ap_trustProxy p \<and> hq_ForwardedFor r \<noteq> [] \<and> forwarded \<noteq> [] then forwarded else peer)"

section \<open>Who the request speaks for\<close>

definition currentUser :: "'g api \<Rightarrow> http_request \<Rightarrow> ('g, user_record option) hio" where
  "currentUser p r = (case ap_auth p of
       None \<Rightarrow> return_h None
     | Some m \<Rightarrow> (\<lambda>w. case UserFromRequest m (hq_Session r) w of
           (Inl e, w') \<Rightarrow> (Inr None, w')
         | (Inr u, w') \<Rightarrow> (Inr (Some u), w')))"

definition requireUser :: "'g api \<Rightarrow> http_request \<Rightarrow> ('g, user_record) hio" where
  "requireUser p r = bind_h (currentUser p r) (\<lambda>u. case u of
     None \<Rightarrow> fail_h errNoAccount | Some u \<Rightarrow> return_h u)"

definition requireAdmin :: "'g api \<Rightarrow> http_request \<Rightarrow> ('g, user_record) hio" where
  "requireAdmin p r = bind_h (currentUser p r) (\<lambda>u. case u of
       None \<Rightarrow> fail_h errNoAccount
     | Some u \<Rightarrow> if ur_IsAdmin u then return_h u else fail_h errForbidden)"

fun seat_of_user :: "string \<Rightarrow> participant_record list \<Rightarrow> role option" where
  "seat_of_user uid [] = None"
| "seat_of_user uid (t # ts) = (if part_UserID t = uid then Some (part_Role t) else seat_of_user uid ts)"

text \<open>The first seat of the token's role, if the token is that seat's invitation; \<open>free\<close> is
  what the seat's account must satisfy, \<open>bound\<close> the error when it does not.\<close>

fun invited_seat :: "string \<Rightarrow> string \<Rightarrow> (string \<Rightarrow> bool) \<Rightarrow> http_error \<Rightarrow> participant_record list \<Rightarrow>
    http_error + role" where
  "invited_seat role hash free bound [] = Inl errForbidden"
| "invited_seat role hash free bound (t # ts) =
     (if role_text (part_Role t) \<noteq> role then invited_seat role hash free bound ts
      else if part_LinkTokenHash t = [] \<or> \<not> EqualHash (part_LinkTokenHash t) hash then Inl errForbidden
      else if \<not> free (part_UserID t) then Inl bound
      else Inr (part_Role t))"

definition token_seat :: "'g api \<Rightarrow> http_request \<Rightarrow> string \<Rightarrow> (string \<Rightarrow> bool) \<Rightarrow> http_error \<Rightarrow>
    participant_record list \<Rightarrow> http_error + role" where
  "token_seat p r pid free bound parts =
     (case Parse (a_hmac (ap_app p)) (ap_linkSecret p) (extractToken r) of
        Inl e \<Rightarrow> Inl errUnauthorized
      | Inr c \<Rightarrow>
          (if cl_PocketID c \<noteq> pid then Inl errForbidden
           else invited_seat (cl_Role c) (token_hash (a_sha (ap_app p)) (extractToken r)) free bound parts))"

definition participant_role :: "'g api \<Rightarrow> http_request \<Rightarrow> string \<Rightarrow> participant_record list \<Rightarrow>
    user_record option \<Rightarrow> http_error + role" where
  "participant_role p r pid parts user =
     (case (case user of None \<Rightarrow> None | Some u \<Rightarrow> seat_of_user (ur_ID u) parts) of
        Some role \<Rightarrow> Inr role
      | None \<Rightarrow>
          (if extractToken r = [] then Inl (if user = None then errUnauthorized else errForbidden)
           else token_seat p r pid (\<lambda>uid. uid = [])
             (if user = None then errUnauthorized else errForbidden) parts))"

definition authParticipant :: "'g api \<Rightarrow> http_request \<Rightarrow> string \<Rightarrow> participant_record list \<Rightarrow> ('g, role) hio" where
  "authParticipant p r pid parts =
     bind_h (currentUser p r) (\<lambda>user w. (participant_role p r pid parts user, w))"

definition inviteRole :: "'g api \<Rightarrow> http_request \<Rightarrow> string \<Rightarrow> string \<Rightarrow> participant_record list \<Rightarrow> http_error + role" where
  "inviteRole p r pid userID parts =
     (if extractToken r = [] then Inl errUnauthorized
      else token_seat p r pid (\<lambda>uid. uid = [] \<or> uid = userID) errForbidden parts)"

definition authByShortCode :: "'g api \<Rightarrow> http_request \<Rightarrow> string \<Rightarrow> ('g, pocket_record \<times> role) hio" where
  "authByShortCode p r shortCode =
     bind_h (app_h (LoadByShortCode (ap_app p) shortCode)) (\<lambda>(rec, parts).
     bind_h (authParticipant p r (rec_ID rec) parts) (\<lambda>role. return_h (rec, role)))"

section \<open>Cross-site requests\<close>

definition originHost :: "string \<Rightarrow> string" where
  "originHost origin = (case cut_prefix ''https://'' origin of
       Some h \<Rightarrow> if h \<noteq> [] then h else origin
     | None \<Rightarrow> (case cut_prefix ''http://'' origin of
           Some h \<Rightarrow> if h \<noteq> [] then h else origin
         | None \<Rightarrow> origin))"

text \<open>\<open>fold_eq\<close> is \<^verbatim>\<open>strings.EqualFold\<close>.\<close>

definition sameOrigin :: "(string \<Rightarrow> string \<Rightarrow> bool) \<Rightarrow> 'g api \<Rightarrow> http_request \<Rightarrow> bool" where
  "sameOrigin fold_eq p r \<longleftrightarrow> hq_Origin r = [] \<or> list_ex (fold_eq (hq_Origin r)) (ap_trustedOrigins p) \<or>
     originHost (hq_Origin r) =
       (if ap_trustProxy p \<and> hq_ForwardedHost r \<noteq> [] then hq_ForwardedHost r else hq_Host r)"

end
