(* ===== verification/Http_View.thy ===== *)
theory Http_View
  imports Http_Auth
begin

text \<open>
  What a response shows of a pocket (\<^verbatim>\<open>internal/httpapi\<close>: \<^verbatim>\<open>view.go\<close>, the projection of
  \<^verbatim>\<open>me.go\<close>): the role-scoped view and the dashboard summary.  A field the encoder omits is
  None.
\<close>

record item_view =
  iv_Description :: string
  iv_Category :: string

record money_view =
  mv_Currency :: string
  mv_BuyerTotalKobo :: "int option"
  mv_AmountKobo :: "int option"
  mv_CommissionKobo :: "int option"
  mv_PremiumKobo :: "int option"

record timers_view =
  tv_DeliveryDeadline :: "gotime option"
  tv_SettleAfter :: "gotime option"
  tv_GraceDeadline :: "gotime option"
  tv_FundingExpiresAt :: "gotime option"

record counterparty_view =
  cv_Role :: role
  cv_DisplayName :: string
  cv_DeliveryAddress :: string

record viewer_view =
  vw_Claimed :: bool
  vw_Accepted :: bool

record pocket_view =
  pv_ID :: string
  pv_ShortCode :: string
  pv_State :: state
  pv_Structure :: pocket_structure
  pv_Mode :: mode
  pv_YourRole :: role
  pv_You :: viewer_view
  pv_Item :: item_view
  pv_Money :: money_view
  pv_Counterparty :: "counterparty_view option"
  pv_Timers :: timers_view
  pv_FundingURL :: string
  pv_FundingCheckout :: bool
  pv_SimulateFunding :: bool
  pv_PendingInvites :: "role list"
  pv_CreatedAt :: gotime

definition timePtr :: "gotime \<Rightarrow> gotime option" where
  "timePtr t = (if IsZero t then None else Some t)"

definition pocket_timers :: "pocket \<Rightarrow> timers_view" where
  "pocket_timers p = \<lparr>tv_DeliveryDeadline = timePtr (p_DeliveryDeadline p),
     tv_SettleAfter = timePtr (p_SettleAfter p), tv_GraceDeadline = timePtr (p_GraceDeadline p),
     tv_FundingExpiresAt = timePtr (p_FundingExpiresAt p)\<rparr>"

definition no_money :: money_view where
  "no_money = \<lparr>mv_Currency = ''NGN'', mv_BuyerTotalKobo = None, mv_AmountKobo = None,
     mv_CommissionKobo = None, mv_PremiumKobo = None\<rparr>"

fun roleMoney :: "pocket \<Rightarrow> role \<Rightarrow> money_view" where
  "roleMoney p RoleBuyer = no_money\<lparr>mv_BuyerTotalKobo := Some (BuyerTotalKobo p)\<rparr>"
| "roleMoney p RoleVendor = no_money\<lparr>mv_AmountKobo := Some (p_AmountKobo p)\<rparr>"
| "roleMoney p RoleBroker = no_money\<lparr>mv_BuyerTotalKobo := Some (BuyerTotalKobo p),
     mv_AmountKobo := Some (p_AmountKobo p), mv_CommissionKobo := Some (p_CommissionKobo p),
     mv_PremiumKobo := Some (p_PremiumKobo p)\<rparr>"
| "roleMoney p (RoleOther _) = no_money"

definition fundedOrLater :: "state \<Rightarrow> bool" where
  "fundedOrLater s \<longleftrightarrow> s = StateFunded \<or> s = StateDeliveredPending \<or> s = StateSettled \<or>
     s = StateDisputed \<or> s = StateFrozen \<or> s = StateRefunded"

fun counterpartyOf :: "participant_record list \<Rightarrow> role \<Rightarrow> bool \<Rightarrow> string \<Rightarrow> state \<Rightarrow>
    counterparty_view option" where
  "counterpartyOf [] role includeAddress address s = None"
| "counterpartyOf (t # ts) role includeAddress address s =
     (if part_Role t = role then
        Some \<lparr>cv_Role = part_Role t, cv_DisplayName = part_DisplayName t,
          cv_DeliveryAddress = (if includeAddress \<and> fundedOrLater s then address else [])\<rparr>
      else counterpartyOf ts role includeAddress address s)"

definition sellerRole :: "pocket_structure \<Rightarrow> role" where
  "sellerRole s = (if s = StructureBrokered then RoleBroker else RoleVendor)"

fun viewerOf :: "participant_record list \<Rightarrow> role \<Rightarrow> viewer_view" where
  "viewerOf [] role = \<lparr>vw_Claimed = False, vw_Accepted = False\<rparr>"
| "viewerOf (t # ts) role =
     (if part_Role t = role then \<lparr>vw_Claimed = part_UserID t \<noteq> [], vw_Accepted = part_Accepted t\<rparr>
      else viewerOf ts role)"

fun seatUnclaimed :: "participant_record list \<Rightarrow> role \<Rightarrow> bool" where
  "seatUnclaimed [] role = False"
| "seatUnclaimed (t # ts) role = (if part_Role t = role then part_UserID t = [] else seatUnclaimed ts role)"

definition invite_targets :: "role \<Rightarrow> pocket_structure \<Rightarrow> role list" where
  "invite_targets viewer structure =
     (if viewer = RoleBroker then [RoleBuyer, RoleVendor]
      else if viewer = RoleVendor then [RoleBuyer]
      else if viewer = RoleBuyer \<and> structure = StructureP2P then [RoleVendor]
      else [])"

definition pendingInvites :: "participant_record list \<Rightarrow> role \<Rightarrow> pocket_structure \<Rightarrow> role list" where
  "pendingInvites parts viewer structure = filter (seatUnclaimed parts) (invite_targets viewer structure)"

definition view_counterparty :: "pocket_record \<Rightarrow> participant_record list \<Rightarrow> role \<Rightarrow>
    counterparty_view option" where
  "view_counterparty rec parts role =
     (let p = rec_Pocket rec in
      if role = RoleBuyer then counterpartyOf parts (sellerRole (p_Structure p)) False
        (rec_DeliveryAddress rec) (p_State p)
      else if role = RoleVendor then counterpartyOf parts RoleBuyer True
        (rec_DeliveryAddress rec) (p_State p)
      else None)"

definition buildPocketView :: "pocket_record \<Rightarrow> participant_record list \<Rightarrow> role \<Rightarrow> pocket_view" where
  "buildPocketView rec parts role =
     (let p = rec_Pocket rec in
      \<lparr>pv_ID = rec_ID rec, pv_ShortCode = rec_ShortCode rec, pv_State = p_State p,
       pv_Structure = p_Structure p, pv_Mode = p_Mode p, pv_YourRole = role,
       pv_You = viewerOf parts role,
       pv_Item = \<lparr>iv_Description = rec_ItemDescription rec, iv_Category = rec_Category rec\<rparr>,
       pv_Money = roleMoney p role, pv_Counterparty = view_counterparty rec parts role,
       pv_Timers = pocket_timers p,
       pv_FundingURL = (if role = RoleBuyer \<and> p_State p = StateCreated then rec_FundingLinkURL rec else []),
       pv_FundingCheckout = False, pv_SimulateFunding = False,
       pv_PendingInvites = pendingInvites parts role (p_Structure p),
       pv_CreatedAt = rec_CreatedAt rec\<rparr>)"

definition api_pocketView :: "'g api \<Rightarrow> pocket_record \<Rightarrow> participant_record list \<Rightarrow>
    role \<Rightarrow> pocket_view" where
  "api_pocketView a rec parts role =
     (let v = buildPocketView rec parts role in
      if role = RoleBuyer \<and> pv_State v = StateCreated
      then v\<lparr>pv_SimulateFunding := CanSimulateFunding (ap_app a),
             pv_FundingCheckout := RealGateway (ap_app a) \<and> pv_FundingURL v \<noteq> []\<rparr>
      else v)"

record pocket_summary =
  ps_ID :: string
  ps_ShortCode :: string
  ps_State :: state
  ps_Structure :: pocket_structure
  ps_Mode :: mode
  ps_Role :: role
  ps_Active :: bool
  ps_Item :: item_view
  ps_Money :: money_view
  ps_Timers :: timers_view
  ps_CreatedAt :: gotime

definition buildPocketSummary :: "pocket_record \<Rightarrow> role \<Rightarrow> pocket_summary" where
  "buildPocketSummary rec role = (let p = rec_Pocket rec in
     \<lparr>ps_ID = rec_ID rec, ps_ShortCode = rec_ShortCode rec, ps_State = p_State p,
      ps_Structure = p_Structure p, ps_Mode = p_Mode p, ps_Role = role,
      ps_Active = (\<not> IsTerminal (p_State p)),
      ps_Item = \<lparr>iv_Description = rec_ItemDescription rec, iv_Category = rec_Category rec\<rparr>,
      ps_Money = roleMoney p role, ps_Timers = pocket_timers p, ps_CreatedAt = rec_CreatedAt rec\<rparr>)"

section \<open>What a role may know\<close>

text \<open>
  Two records look alike to a role when they agree on what the visibility matrix grants it.  The
  lifecycle and the item are public among the participants; the amounts, the address and the
  funding link are not.
\<close>

definition same_public :: "pocket_record \<Rightarrow> pocket_record \<Rightarrow> bool" where
  "same_public x y \<longleftrightarrow> rec_ID x = rec_ID y \<and> rec_ShortCode x = rec_ShortCode y \<and>
     rec_ItemDescription x = rec_ItemDescription y \<and> rec_Category x = rec_Category y \<and>
     rec_CreatedAt x = rec_CreatedAt y \<and> p_State (rec_Pocket x) = p_State (rec_Pocket y) \<and>
     p_Structure (rec_Pocket x) = p_Structure (rec_Pocket y) \<and> p_Mode (rec_Pocket x) = p_Mode (rec_Pocket y) \<and>
     pocket_timers (rec_Pocket x) = pocket_timers (rec_Pocket y)"

fun granted :: "role \<Rightarrow> pocket_record \<Rightarrow> pocket_record \<Rightarrow> bool" where
  "granted RoleBuyer x y = (BuyerTotalKobo (rec_Pocket x) = BuyerTotalKobo (rec_Pocket y) \<and>
     (p_State (rec_Pocket x) = StateCreated \<longrightarrow> rec_FundingLinkURL x = rec_FundingLinkURL y))"
| "granted RoleVendor x y = (p_AmountKobo (rec_Pocket x) = p_AmountKobo (rec_Pocket y) \<and>
     (fundedOrLater (p_State (rec_Pocket x)) \<longrightarrow> rec_DeliveryAddress x = rec_DeliveryAddress y))"
| "granted RoleBroker x y = (BuyerTotalKobo (rec_Pocket x) = BuyerTotalKobo (rec_Pocket y) \<and>
     p_AmountKobo (rec_Pocket x) = p_AmountKobo (rec_Pocket y) \<and>
     p_CommissionKobo (rec_Pocket x) = p_CommissionKobo (rec_Pocket y) \<and>
     p_PremiumKobo (rec_Pocket x) = p_PremiumKobo (rec_Pocket y))"
| "granted (RoleOther _) x y = True"

text \<open>The seats a role may know of, and what of them: the account, the phone and the link hash are
  nobody's.\<close>

definition seat_face :: "participant_record \<Rightarrow> bool \<times> string \<times> bool" where
  "seat_face t = (part_UserID t \<noteq> [], part_DisplayName t, part_Accepted t)"

definition seat_at :: "participant_record list \<Rightarrow> role \<Rightarrow> (bool \<times> string \<times> bool) option" where
  "seat_at parts role = map_option seat_face (List.find (\<lambda>t. part_Role t = role) parts)"

definition visible_seats :: "role \<Rightarrow> pocket_structure \<Rightarrow> role set" where
  "visible_seats role s = insert role
     (if role = RoleBuyer then {sellerRole s} else if role = RoleVendor then {RoleBuyer}
      else if role = RoleBroker then {RoleBuyer, RoleVendor} else {})"

lemma counterpartyOf_find:
  "counterpartyOf parts role inc addr s = map_option (\<lambda>f. \<lparr>cv_Role = role,
     cv_DisplayName = fst (snd f), cv_DeliveryAddress = (if inc \<and> fundedOrLater s then addr else [])\<rparr>)
     (seat_at parts role)"
  by (induction parts) (auto simp: seat_at_def seat_face_def)

lemma viewerOf_find: "viewerOf parts role = (case seat_at parts role of
    None \<Rightarrow> \<lparr>vw_Claimed = False, vw_Accepted = False\<rparr> | Some f \<Rightarrow> \<lparr>vw_Claimed = fst f, vw_Accepted = snd (snd f)\<rparr>)"
  by (induction parts) (auto simp: seat_at_def seat_face_def)

lemma seatUnclaimed_find: "seatUnclaimed parts role = (case seat_at parts role of None \<Rightarrow> False | Some f \<Rightarrow> \<not> fst f)"
  by (induction parts) (auto simp: seat_at_def seat_face_def)

text \<open>C26: A role's view of a pocket reveals nothing beyond the visibility matrix: two pockets that
  agree on the public fields, on what the matrix grants the role (the buyer the total, the vendor
  the allocation and, once funded, the address, the broker the whole ledger) and on whether the seats
  it may know of are taken, accepted and under which display name give it the same view, whatever else differs -- the other amounts, the vendor's
  seat behind a broker, every account id and phone, every stored secret and every link.\<close>

theorem view_reveals_only_granted:
  assumes "same_public x y" and "granted role x y"
    and "\<forall>q \<in> visible_seats role (p_Structure (rec_Pocket x)). seat_at parts q = seat_at parts' q"
  shows "api_pocketView a x parts role = api_pocketView a y parts' role"
proof -
  have money: "roleMoney (rec_Pocket x) role = roleMoney (rec_Pocket y) role"
    using assms(2) by (cases role) simp_all
  have you: "viewerOf parts role = viewerOf parts' role"
    using assms(3) by (simp add: viewerOf_find visible_seats_def)
  have invites: "pendingInvites parts role (p_Structure (rec_Pocket x)) =
      pendingInvites parts' role (p_Structure (rec_Pocket y))"
    using assms(1,3) unfolding pendingInvites_def same_public_def
    by (intro filter_cong) (auto simp: invite_targets_def visible_seats_def seatUnclaimed_find sellerRole_def
        split: if_splits)
  have other: "view_counterparty x parts role = view_counterparty y parts' role"
    using assms by (cases role) (auto simp: view_counterparty_def counterpartyOf_find same_public_def
        visible_seats_def Let_def)
  have url: "(if role = RoleBuyer \<and> p_State (rec_Pocket x) = StateCreated then rec_FundingLinkURL x else []) =
      (if role = RoleBuyer \<and> p_State (rec_Pocket y) = StateCreated then rec_FundingLinkURL y else [])"
    using assms(1,2) by (auto simp: same_public_def)
  have "buildPocketView x parts role = buildPocketView y parts' role"
    using assms(1) money you invites other url
    by (simp add: buildPocketView_def Let_def same_public_def)
  then show ?thesis by (simp add: api_pocketView_def)
qed

definition shown_record :: pocket_record where
  "shown_record = \<lparr>rec_ID = ''p1'', rec_ShortCode = ''sc1'', rec_Version = 2, rec_ItemDescription = ''phone'',
     rec_Category = ''general'', rec_DeliveryAddress = ''12 Marina'', rec_FundingLinkRef = ''ref'',
     rec_FundingLinkURL = ''url'', rec_FundingTxID = [], rec_ReleaseCodeHash = [], rec_ReleaseCodeEnc = [],
     rec_CreatedAt = 1, rec_Pocket =
       \<lparr>p_State = StateCreated, p_Structure = StructureBrokered, p_CreatorRole = RoleBroker,
        p_Mode = ModeCooldown, p_InspectionWindow = time_Hour, p_DeliveryWindow = time_Hour,
        p_AmountKobo = 900, p_CommissionKobo = 100, p_PremiumKobo = 10, p_DeliveryDeadline = 0,
        p_SettleAfter = 0, p_GraceDeadline = 0, p_FundingExpiresAt = 5, p_CodeAttempts = 0,
        p_CodeLocked = False, p_DisputeClass = DisputeNone, p_GracePeriod = time_Hour,
        p_EvidenceCaptureWindow = time_Hour\<rparr>\<rparr>"

definition seat :: "role \<Rightarrow> string \<Rightarrow> participant_record" where
  "seat role uid = \<lparr>part_Role = role, part_UserID = uid, part_DisplayName = ''Ada'', part_Phone = [], part_Accepted = (uid \<noteq> []), part_AcceptedAt = 0,
     part_LinkTokenHash = ''h''\<rparr>"

theorem view_reveals_only_granted_witness:
  "\<forall>a :: unit api. let other = shown_record\<lparr>rec_ReleaseCodeHash := ''hash'', rec_Pocket :=
       (rec_Pocket shown_record)\<lparr>p_AmountKobo := 500, p_CommissionKobo := 500\<rparr>\<rparr>
   in api_pocketView a shown_record [seat RoleBroker ''u1'', seat RoleBuyer ''u2'', seat RoleVendor []] RoleBuyer =
      api_pocketView a other [seat RoleBroker ''u1'', seat RoleBuyer ''u2''] RoleBuyer"
proof (intro allI)
  fix a :: "unit api"
  let ?other = "shown_record\<lparr>rec_ReleaseCodeHash := ''hash'', rec_Pocket :=
       (rec_Pocket shown_record)\<lparr>p_AmountKobo := 500, p_CommissionKobo := 500\<rparr>\<rparr>"
  have "same_public shown_record ?other" by (simp add: same_public_def shown_record_def pocket_timers_def)
  moreover have "granted RoleBuyer shown_record ?other"
    by (simp add: shown_record_def BuyerTotalKobo_def i64_id in_i64_def)
  moreover have "\<forall>q \<in> visible_seats RoleBuyer (p_Structure (rec_Pocket shown_record)).
      seat_at [seat RoleBroker ''u1'', seat RoleBuyer ''u2'', seat RoleVendor []] q =
      seat_at [seat RoleBroker ''u1'', seat RoleBuyer ''u2''] q"
    by (simp add: visible_seats_def shown_record_def sellerRole_def seat_at_def seat_def)
  ultimately show "let other = ?other in
      api_pocketView a shown_record [seat RoleBroker ''u1'', seat RoleBuyer ''u2'', seat RoleVendor []] RoleBuyer =
      api_pocketView a other [seat RoleBroker ''u1'', seat RoleBuyer ''u2''] RoleBuyer"
    unfolding Let_def by (rule view_reveals_only_granted)
qed

end
