(* ===== verification/Http_Handlers.thy ===== *)
theory Http_Handlers
  imports Http_View App_Funding
begin

text \<open>
  The pocket endpoints (\<^verbatim>\<open>internal/httpapi\<close>: \<^verbatim>\<open>public.go\<close>, \<^verbatim>\<open>vendor.go\<close>,
  \<^verbatim>\<open>buyer.go\<close>, \<^verbatim>\<open>verification.go\<close>, \<^verbatim>\<open>disputes.go\<close>, \<^verbatim>\<open>demo.go\<close>,
  \<^verbatim>\<open>me.go\<close>), each a function of the request, its path value and its decoded body.
\<close>

section \<open>Replies\<close>

record create_response =
  cr_PocketID :: string
  cr_ShortCode :: string
  cr_CreatorRole :: role
  cr_CounterpartyRole :: "role option"
  cr_ShareURL :: string
  cr_Tokens :: "(role \<times> string) list"

record evidence_view =
  ew_ID :: string
  ew_Party :: role
  ew_Type :: evidence_type
  ew_CapturedAt :: gotime
  ew_WithinWindow :: "bool option"
  ew_CreatedAt :: "gotime option"

record dispute_view =
  dv_PocketID :: string
  dv_Class :: dispute_class
  dv_OpenedBy :: role
  dv_State :: dispute_state
  dv_Resolution :: "resolution option"
  dv_CreatedAt :: gotime
  dv_Evidence :: "evidence_view list"

datatype reply_body =
    ErrorBody http_message
  | ViewBody pocket_view
  | ConvertBody pocket_view string "(role \<times> string) list"
  | CreateBody create_response
  | CodeEntryBody code_entry_result
  | FundingBody funding_check
  | ReleaseCodeBody string
  | EvidenceBody evidence_view
  | DisputeBody dispute_view
  | SimulateBody string state
  | SummariesBody "pocket_summary list"
  | ReceivedBody

record http_reply =
  rp_Status :: nat
  rp_Body :: reply_body

definition ok_reply :: "reply_body \<Rightarrow> http_reply" where
  "ok_reply b = \<lparr>rp_Status = 200, rp_Body = b\<rparr>"

definition created_reply :: "reply_body \<Rightarrow> http_reply" where
  "created_reply b = \<lparr>rp_Status = 201, rp_Body = b\<rparr>"

definition writeError :: "http_error \<Rightarrow> http_reply" where
  "writeError e = (case classify e of (status, msg) \<Rightarrow> \<lparr>rp_Status = status, rp_Body = ErrorBody msg\<rparr>)"

text \<open>What the client receives of a handler.\<close>

definition respond :: "('g, http_reply) hio \<Rightarrow> 'g world \<Rightarrow> http_reply \<times> 'g world" where
  "respond h w = (case h w of (Inl e, w') \<Rightarrow> (writeError e, w') | (Inr r, w') \<Rightarrow> (r, w'))"

section \<open>Rendering\<close>

definition view_reply :: "'g api \<Rightarrow> pocket_record \<Rightarrow> participant_record list \<Rightarrow> role \<Rightarrow> ('g, http_reply) hio" where
  "view_reply p rec parts role = return_h (ok_reply (ViewBody (api_pocketView p rec parts role)))"

definition respondView :: "'g api \<Rightarrow> string \<Rightarrow> role \<Rightarrow> ('g, http_reply) hio" where
  "respondView p pid role =
     bind_h (app_h (Load (ap_app p) pid)) (\<lambda>(rec, parts). view_reply p rec parts role)"

definition share_url :: "string \<Rightarrow> string \<Rightarrow> string" where
  "share_url shortCode token = ''/p/'' @ shortCode @ ''?t='' @ token"

fun token_for :: "role \<Rightarrow> (role \<times> string) list \<Rightarrow> string" where
  "token_for role [] = []"
| "token_for role ((q, t) # ts) = (if q = role then t else token_for role ts)"

section \<open>Seats\<close>

definition handlePublicView :: "'g api \<Rightarrow> http_request \<Rightarrow> string \<Rightarrow> ('g, http_reply) hio" where
  "handlePublicView p r shortCode =
     bind_h (app_h (LoadByShortCode (ap_app p) shortCode)) (\<lambda>(rec, parts).
     bind_h (authParticipant p r (rec_ID rec) parts) (\<lambda>role. view_reply p rec parts role))"

definition handleClaim :: "'g api \<Rightarrow> http_request \<Rightarrow> string \<Rightarrow> ('g, http_reply) hio" where
  "handleClaim p r shortCode =
     bind_h (requireUser p r) (\<lambda>user.
     bind_h (app_h (LoadByShortCode (ap_app p) shortCode)) (\<lambda>(rec, parts).
     bind_h (\<lambda>w. (inviteRole p r (rec_ID rec) (ur_ID user) parts, w)) (\<lambda>role.
     bind_h (app_h (app_Claim (ap_app p) (rec_ID rec) role (ur_ID user))) (\<lambda>_.
       respondView p (rec_ID rec) role))))"

text \<open>\<open>body\<close> is the decoded \<^verbatim>\<open>vendor_amount_kobo\<close>.\<close>

definition handleClaimBroker :: "'g api \<Rightarrow> http_request \<Rightarrow> string \<Rightarrow> int json_body \<Rightarrow> ('g, http_reply) hio" where
  "handleClaimBroker p r shortCode body =
     bind_h (requireUser p r) (\<lambda>user.
     bind_h (decodeJSON body) (\<lambda>vendorAmount.
     bind_h (app_h (LoadByShortCode (ap_app p) shortCode)) (\<lambda>(rec, parts).
     bind_h (\<lambda>w. (inviteRole p r (rec_ID rec) (ur_ID user) parts, w)) (\<lambda>role.
       if role \<noteq> RoleVendor then fail_h errForbidden
       else bind_h (app_h (app_ConvertToBrokered (ap_app p) (rec_ID rec) (ur_ID user) vendorAmount)) (\<lambda>out.
         bind_h (app_h (Load (ap_app p) (rec_ID rec))) (\<lambda>(converted, convertedParts).
           return_h (ok_reply (ConvertBody (api_pocketView p converted convertedParts RoleBroker)
             (share_url (rec_ShortCode rec) (token_for RoleVendor (vr_Tokens out))) (vr_Tokens out)))))))))"

definition handleAccept :: "'g api \<Rightarrow> http_request \<Rightarrow> string \<Rightarrow> string json_body \<Rightarrow> ('g, http_reply) hio" where
  "handleAccept p r shortCode body =
     bind_h (decodeOptionalJSON [] body) (\<lambda>address.
     bind_h (app_h (LoadByShortCode (ap_app p) shortCode)) (\<lambda>(rec, parts).
     bind_h (authParticipant p r (rec_ID rec) parts) (\<lambda>role.
     bind_h (app_h (app_Accept (ap_app p) (rec_ID rec) role address)) (\<lambda>_.
       respondView p (rec_ID rec) role))))"

definition handleCancel :: "'g api \<Rightarrow> http_request \<Rightarrow> string \<Rightarrow> ('g, http_reply) hio" where
  "handleCancel p r shortCode =
     bind_h (app_h (LoadByShortCode (ap_app p) shortCode)) (\<lambda>(rec, parts).
     bind_h (authParticipant p r (rec_ID rec) parts) (\<lambda>role.
     bind_h (app_h (app_Cancel (ap_app p) (rec_ID rec) role)) (\<lambda>_.
       respondView p (rec_ID rec) role)))"

section \<open>Creation\<close>

record create_request =
  cq_Structure :: pocket_structure
  cq_CreatorRole :: role
  cq_Mode :: mode
  cq_InspectionWindowMinutes :: int
  cq_DeliveryWindowMinutes :: int
  cq_AmountKobo :: int
  cq_CommissionKobo :: int
  cq_ItemDescription :: string
  cq_Category :: string

definition create_input_of :: "create_request \<Rightarrow> string \<Rightarrow> create_input" where
  "create_input_of q userID =
     \<lparr>in_Structure = (if cq_Structure q = StructureOther [] then StructureP2P else cq_Structure q),
      in_CreatorRole = cq_CreatorRole q, in_Mode = cq_Mode q,
      in_InspectionWindow = i64 (cq_InspectionWindowMinutes q * time_Minute),
      in_DeliveryWindow = i64 (cq_DeliveryWindowMinutes q * time_Minute),
      in_AmountKobo = cq_AmountKobo q, in_CommissionKobo = cq_CommissionKobo q,
      in_ItemDescription = cq_ItemDescription q, in_Category = defaultStr (cq_Category q) ''general'',
      in_CreatorUserID = userID\<rparr>"

definition create_response_of :: "create_output \<Rightarrow> create_response" where
  "create_response_of out =
     \<lparr>cr_PocketID = co_PocketID out, cr_ShortCode = co_ShortCode out, cr_CreatorRole = co_CreatorRole out,
      cr_CounterpartyRole = co_CounterpartyRole out,
      cr_ShareURL = (case co_CounterpartyRole out of
          None \<Rightarrow> []
        | Some cp \<Rightarrow> if token_for cp (co_Tokens out) = [] then []
            else share_url (co_ShortCode out) (token_for cp (co_Tokens out))),
      cr_Tokens = co_Tokens out\<rparr>"

text \<open>\<open>sc\<close> and \<open>new_id\<close> are the short-code draw and the row's generated id.\<close>

definition handleCreate :: "'g api \<Rightarrow> http_request \<Rightarrow> string res \<Rightarrow> string \<Rightarrow> create_request json_body \<Rightarrow>
    ('g, http_reply) hio" where
  "handleCreate p r sc new_id body =
     bind_h (requireUser p r) (\<lambda>user.
     bind_h (decodeJSON body) (\<lambda>q.
     bind_h (app_h (Create (ap_app p) sc new_id (create_input_of q (ur_ID user)))) (\<lambda>out.
       return_h (created_reply (CreateBody (create_response_of out))))))"

section \<open>Acting on a seat\<close>

definition handleReleaseCode :: "'g api \<Rightarrow> http_request \<Rightarrow> string \<Rightarrow> ('g, http_reply) hio" where
  "handleReleaseCode p r pid =
     bind_h (app_h (Load (ap_app p) pid)) (\<lambda>(rec, parts).
     bind_h (authParticipant p r pid parts) (\<lambda>role.
       if role \<noteq> RoleBuyer then fail_h errForbidden
       else bind_h (app_h (app_ReleaseCode (ap_app p) pid)) (\<lambda>code.
         return_h (ok_reply (ReleaseCodeBody code)))))"

definition handleEnterCode :: "'g api \<Rightarrow> http_request \<Rightarrow> string \<Rightarrow> string json_body \<Rightarrow> ('g, http_reply) hio" where
  "handleEnterCode p r shortCode body =
     bind_h (decodeJSON body) (\<lambda>code.
     bind_h (authByShortCode p r shortCode) (\<lambda>(rec, role).
     bind_h (app_h (EnterCode (ap_app p) (rec_ID rec) role code)) (\<lambda>res.
       return_h (ok_reply (CodeEntryBody res)))))"

definition handleVerifyFunding :: "'g api \<Rightarrow> http_request \<Rightarrow> string \<Rightarrow> ('g, http_reply) hio" where
  "handleVerifyFunding p r shortCode =
     bind_h (authByShortCode p r shortCode) (\<lambda>(rec, role).
     bind_h (app_h (VerifyFunding (ap_app p) (rec_ID rec))) (\<lambda>check.
       return_h (ok_reply (FundingBody check))))"

text \<open>The shape of the endpoints that run one use case for the caller's seat and show the result.\<close>

definition on_seat :: "'g api \<Rightarrow> http_request \<Rightarrow> string \<Rightarrow> (string \<Rightarrow> role \<Rightarrow> ('g, 'a) io) \<Rightarrow> ('g, http_reply) hio" where
  "on_seat p r shortCode act =
     bind_h (authByShortCode p r shortCode) (\<lambda>(rec, role).
     bind_h (app_h (act (rec_ID rec) role)) (\<lambda>_. respondView p (rec_ID rec) role))"

definition handleReportIssue :: "'g api \<Rightarrow> http_request \<Rightarrow> string \<Rightarrow> ('g, http_reply) hio" where
  "handleReportIssue p r shortCode = on_seat p r shortCode (ReportIssue (ap_app p))"

definition handleConfirmDispatchFailure :: "'g api \<Rightarrow> http_request \<Rightarrow> string \<Rightarrow> ('g, http_reply) hio" where
  "handleConfirmDispatchFailure p r shortCode = on_seat p r shortCode (ConfirmDispatchFailure (ap_app p))"

definition handleAttestNonReceipt :: "'g api \<Rightarrow> http_request \<Rightarrow> string \<Rightarrow> ('g, http_reply) hio" where
  "handleAttestNonReceipt p r shortCode = on_seat p r shortCode (app_AttestNonReceipt (ap_app p))"

definition handleOpenDispute :: "'g api \<Rightarrow> http_request \<Rightarrow> string \<Rightarrow> ('g, http_reply) hio" where
  "handleOpenDispute p r shortCode = on_seat p r shortCode (OpenFrozenDispute (ap_app p))"

definition handleConcede :: "'g api \<Rightarrow> http_request \<Rightarrow> string \<Rightarrow> ('g, http_reply) hio" where
  "handleConcede p r shortCode = on_seat p r shortCode (Concede (ap_app p))"

definition evidence_reply :: "evidence_record \<Rightarrow> evidence_view" where
  "evidence_reply ev = \<lparr>ew_ID = ver_ID ev, ew_Party = ver_Party ev, ew_Type = ver_Type ev,
     ew_CapturedAt = ver_CapturedAt ev, ew_WithinWindow = ver_WithinWindow ev, ew_CreatedAt = None\<rparr>"

definition evidence_item :: "evidence_record \<Rightarrow> evidence_view" where
  "evidence_item ev = (evidence_reply ev)\<lparr>ew_CreatedAt := Some (ver_CreatedAt ev)\<rparr>"

text \<open>A form is the bytes read up to its closing boundary and what they hold: the evidence type and
  what the blob store answers for the file; None when it does not parse or carries no file.\<close>

type_synonym upload_form = "int \<times> (evidence_type \<times> string res) option"

definition parse_form :: "'g api \<Rightarrow> upload_form \<Rightarrow> ('g, evidence_type \<times> string res) hio" where
  "parse_form p form =
     (if max 0 (i64 (EvidenceMaxBytes (ap_app p) + 2 ^ 20)) < fst form then fail_h errBadRequest
      else (case snd form of None \<Rightarrow> fail_h errBadRequest | Some b \<Rightarrow> return_h b))"

definition handleUploadEvidence :: "'g api \<Rightarrow> http_request \<Rightarrow> string \<Rightarrow> string \<Rightarrow>
    upload_form \<Rightarrow> ('g, http_reply) hio" where
  "handleUploadEvidence p r shortCode new_id form =
     bind_h (authByShortCode p r shortCode) (\<lambda>(rec, role).
     bind_h (parse_form p form) (\<lambda>(ty, put).
     bind_h (app_h (UploadEvidence (ap_app p) put new_id (rec_ID rec) role ty)) (\<lambda>ev.
       return_h (created_reply (EvidenceBody (evidence_reply ev))))))"

definition buildDisputeView :: "dispute_row \<Rightarrow> evidence_record list \<Rightarrow> dispute_view" where
  "buildDisputeView d evs =
     \<lparr>dv_PocketID = d_pocket d, dv_Class = d_class d, dv_OpenedBy = d_opened_by d, dv_State = d_state d,
      dv_Resolution = d_resolution d, dv_CreatedAt = d_created_at d,
      dv_Evidence = map evidence_item evs\<rparr>"

definition handleDisputeView :: "'g api \<Rightarrow> http_request \<Rightarrow> string \<Rightarrow> ('g, http_reply) hio" where
  "handleDisputeView p r shortCode =
     bind_h (authByShortCode p r shortCode) (\<lambda>(rec, role).
     bind_h (app_h (DisputeView (rec_ID rec))) (\<lambda>(d, evs).
       return_h (ok_reply (DisputeBody (buildDisputeView d evs)))))"

section \<open>Without a seat\<close>

definition handleSimulateFunding :: "'g api \<Rightarrow> http_request \<Rightarrow> string \<Rightarrow> ('g, http_reply) hio" where
  "handleSimulateFunding p r pid =
     (if \<not> CanSimulateFunding (ap_app p) then fail_h (AppError ErrForbidden)
      else bind_h (app_h (SimulateFunding (ap_app p) pid)) (\<lambda>_.
        bind_h (app_h (Load (ap_app p) pid)) (\<lambda>(rec, parts).
          return_h (ok_reply (SimulateBody pid (p_State (rec_Pocket rec)))))))"

definition handleMyPockets :: "'g api \<Rightarrow> http_request \<Rightarrow> ('g, http_reply) hio" where
  "handleMyPockets p r =
     bind_h (requireUser p r) (\<lambda>u.
     bind_h (app_h (MyPockets (ap_app p) (ur_ID u))) (\<lambda>ups.
       return_h (ok_reply (SummariesBody (map (\<lambda>up. buildPocketSummary (up_Record up) (up_Role up)) ups)))))"

end
