(* ===== verification/Http_Claims.thy ===== *)
theory Http_Claims
  imports Http_Handlers App_Demo
begin

text \<open>
  The claims about the pocket endpoints: who may act on a seat, and that everyone else changes
  nothing.
\<close>

section \<open>Authority over a seat\<close>

text \<open>The account of a live session, as the session table has it.\<close>

definition signed_in :: "'g api \<Rightarrow> http_request \<Rightarrow> 'g world \<Rightarrow> string \<Rightarrow> bool" where
  "signed_in p r w uid \<longleftrightarrow> (\<exists>m v. ap_auth p = Some m \<and> hq_Session r = Some v \<and> v \<noteq> [] \<and>
     (\<exists>n \<in> set (sessions (w_db w)). n_token_hash n = hashToken (am_sha m) v \<and> n_revoked_at n = None \<and>
        w_clock w (w_tick w) < n_expires_at n \<and> n_user n = uid))"

text \<open>The bearer of the seat's current invitation.\<close>

definition invited :: "'g api \<Rightarrow> http_request \<Rightarrow> participant_row \<Rightarrow> bool" where
  "invited p r t \<longleftrightarrow> (\<exists>c. Parse (a_hmac (ap_app p)) (ap_linkSecret p) (extractToken r) = Inr c \<and>
     cl_PocketID c = t_pocket t \<and> cl_Role c = role_text (t_role t) \<and>
     t_hash t = token_hash (a_sha (ap_app p)) (extractToken r))"

definition may_act :: "'g api \<Rightarrow> http_request \<Rightarrow> 'g world \<Rightarrow> string \<Rightarrow> role \<Rightarrow> bool" where
  "may_act p r w pid role \<longleftrightarrow> (\<exists>t \<in> set (participants (w_db w)). t_pocket t = pid \<and> t_role t = role \<and>
     (signed_in p r w (derefStr (t_user t)) \<or> derefStr (t_user t) = [] \<and> invited p r t))"

text \<open>What a request may leave changed when it acts on nothing: the reading of the clock, and in the
  rows of the session table, none of which it adds or drops, no more than \<open>R\<close> allows.\<close>

definition framed :: "(session_row \<Rightarrow> session_row \<Rightarrow> bool) \<Rightarrow> 'g world \<Rightarrow> 'g world \<Rightarrow> bool" where
  "framed R w w' \<longleftrightarrow> w' = w\<lparr>w_db := (w_db w)\<lparr>sessions := sessions (w_db w')\<rparr>, w_tick := w_tick w'\<rparr> \<and>
     list_all2 R (sessions (w_db w)) (sessions (w_db w'))"

text \<open>Only the last-seen stamps.\<close>

definition stamped :: "session_row \<Rightarrow> session_row \<Rightarrow> bool" where
  "stamped n n' \<longleftrightarrow> n' = n\<lparr>n_last_seen_at := n_last_seen_at n'\<rparr>"

definition untouched :: "'g world \<Rightarrow> 'g world \<Rightarrow> bool" where
  "untouched = framed stamped"

lemma stamped_refl [simp]: "stamped n n"
  by (simp add: stamped_def)

lemma framed_refl [simp]: "(\<And>n. R n n) \<Longrightarrow> framed R w w"
  by (simp add: framed_def list.rel_refl)

lemma framed_tick [simp]: "(\<And>n. R n n) \<Longrightarrow> framed R w (w\<lparr>w_tick := t\<rparr>)"
  by (simp add: framed_def list.rel_refl)

lemma untouched_refl [simp]: "untouched w w"
  by (simp add: untouched_def)

lemma framed_update:
  assumes "\<And>n. n \<in> set (sessions d) \<Longrightarrow> P n \<Longrightarrow> R n (f n)" and "\<And>n. R n n"
  shows "list_all2 R (sessions d) (update_where P f (sessions d))"
  using assms by (simp add: update_where_def list_all2_map2 list_all2_same)

text \<open>The session lookup: it stamps the session it finds, and where there is none it only reads the
  clock.\<close>

lemma SessionUser_untouched:
  assumes "SessionUser h now d = (x, d')"
  shows "d' = d\<lparr>sessions := sessions d'\<rparr> \<and> list_all2 stamped (sessions d) (sessions d') \<and>
    ((\<forall>n \<in> set (sessions d). \<not> session_live h now n) \<longrightarrow> d' = d)"
proof (cases "select_one (session_live h now) (sessions d)")
  case None
  with assms show ?thesis by (auto simp: SessionUser_def list_all2_same)
next
  case (Some n)
  have "list_all2 stamped (sessions d)
      (update_where (session_live h now) (\<lambda>n. n\<lparr>n_last_seen_at := now\<rparr>) (sessions d))"
    by (rule framed_update) (simp_all add: stamped_def)
  with assms Some show ?thesis by (auto simp: SessionUser_def Let_def dest: select_one_Some)
qed

lemma currentUser_result:
  assumes "currentUser p r w = (res, w')"
  obtains u where "res = Inr u" "untouched w w'" "u \<noteq> None \<Longrightarrow> signed_in p r w (ur_ID (the u))"
    "(\<forall>uid. \<not> signed_in p r w uid) \<Longrightarrow> w' = w\<lparr>w_tick := w_tick w'\<rparr>"
proof (cases "ap_auth p")
  case None
  with assms that show thesis by (auto simp: currentUser_def return_h_def)
next
  case (Some m)
  show thesis
  proof (cases "hq_Session r")
    case None
    with Some assms that show thesis by (auto simp: currentUser_def UserFromRequest_def fail_io_def)
  next
    case v: (Some v)
    let ?h = "hashToken (am_sha m) v" and ?now = "w_clock w (w_tick w)"
    obtain x d where s: "SessionUser ?h ?now (w_db w) = (x, d)" by fastforce
    note d = SessionUser_untouched [OF s]
    have u: "signed_in p r w (ur_ID u)" if "x = Inr u" "v \<noteq> []" for u
      using s that Some v unfolding signed_in_def
      by (auto simp: SessionUser_def Let_def GetUser_def scanUser_def session_live_def
          split: option.splits dest!: select_one_Some)
    have same: "d = w_db w" if "\<forall>uid. \<not> signed_in p r w uid" "v \<noteq> []"
      using d that Some v unfolding signed_in_def session_live_def by auto
    show thesis
    proof (cases "v = []")
      case True
      with Some v assms that show thesis by (auto simp: currentUser_def UserFromRequest_def fail_io_def)
    next
      case False
      have w': "w' = w\<lparr>w_db := d, w_tick := Suc (w_tick w)\<rparr>"
          and res: "res = (case x of Inl e \<Rightarrow> Inr None | Inr u \<Rightarrow> Inr (Some u))"
        using Some v assms s False by (auto simp: currentUser_def UserFromRequest_def fail_io_def bind_io_def
            now_io_def try_io_def db_io_def return_io_def split: sum.splits)
      have "untouched w w'" using d by (simp add: untouched_def framed_def w') 
      moreover have "w' = w\<lparr>w_tick := w_tick w'\<rparr>" if "\<forall>uid. \<not> signed_in p r w uid"
        using same [OF that False] by (simp add: w')
      ultimately show thesis
        using res u False by (cases x) (auto intro: that)
    qed
  qed
qed

lemma seat_of_user_Some:
  "seat_of_user uid parts = Some role \<Longrightarrow> \<exists>t \<in> set parts. part_Role t = role \<and> part_UserID t = uid"
  by (induction parts) (auto split: if_splits)

lemma invited_seat_Inr:
  "invited_seat role hash free bound parts = Inr q \<Longrightarrow> \<exists>t \<in> set parts. part_Role t = q \<and>
     role_text (part_Role t) = role \<and> part_LinkTokenHash t = hash \<and> free (part_UserID t)"
  by (induction parts) (auto simp: EqualHash_def split: if_splits)

lemma invited_seat_Inl: "invited_seat role hash free bound parts = Inl e \<Longrightarrow> e = errForbidden \<or> e = bound"
  by (induction parts) (auto split: if_splits)

lemma Participants_seat:
  "x \<in> set (Participants pid d) \<longleftrightarrow> (\<exists>t \<in> set (participants d). t_pocket t = pid \<and> x = participantSelect d t)"
  by (auto simp: Participants_def participants_of_def)

lemma participant_role_result:
  assumes "participant_role p r pid (Participants pid d) user = res"
  shows "case res of
      Inl e \<Rightarrow> e = errUnauthorized \<or> e = errForbidden
    | Inr role \<Rightarrow> \<exists>t \<in> set (participants d). t_pocket t = pid \<and> t_role t = role \<and>
        (user \<noteq> None \<and> derefStr (t_user t) = ur_ID (the user) \<or> derefStr (t_user t) = [] \<and> invited p r t)"
proof (cases res)
  case (Inl e)
  with assms show ?thesis
    by (auto simp: participant_role_def token_seat_def dest: invited_seat_Inl split: option.splits
        if_splits sum.splits)
next
  case (Inr role)
  consider (user) u where "user = Some u" "seat_of_user (ur_ID u) (Participants pid d) = Some role"
    | (token) c where "Parse (a_hmac (ap_app p)) (ap_linkSecret p) (extractToken r) = Inr c" "cl_PocketID c = pid"
      "\<exists>bound. invited_seat (cl_Role c) (token_hash (a_sha (ap_app p)) (extractToken r)) (\<lambda>uid. uid = []) bound
        (Participants pid d) = Inr role"
    using assms Inr by (auto simp: participant_role_def token_seat_def split: option.splits if_splits sum.splits)
  then show ?thesis
  proof cases
    case user
    then obtain t where "t \<in> set (participants d)" "t_pocket t = pid" "t_role t = role"
        "derefStr (t_user t) = ur_ID u"
      using seat_of_user_Some [OF user(2)] by (auto simp: Participants_seat)
    with user(1) Inr show ?thesis by auto
  next
    case token
    from token(3) obtain t where "t \<in> set (participants d)" "t_pocket t = pid" "t_role t = role"
        "derefStr (t_user t) = []" "role_text (t_role t) = cl_Role c"
        "t_hash t = token_hash (a_sha (ap_app p)) (extractToken r)"
      by (auto simp: Participants_seat dest!: invited_seat_Inr)
    moreover from this token(1,2) have "invited p r t" by (simp add: invited_def)
    ultimately show ?thesis using Inr by auto
  qed
qed

section \<open>The seat endpoints\<close>

datatype seat_call =
    CallAccept "string json_body" | CallCancel | CallEnterCode "string json_body" | CallVerifyFunding
  | CallReportIssue | CallConfirmFailure | CallAttest | CallOpenDispute | CallConcede
  | CallUpload string upload_form | CallDisputeView | CallView

fun serve :: "'g api \<Rightarrow> http_request \<Rightarrow> string \<Rightarrow> seat_call \<Rightarrow> ('g, http_reply) hio" where
  "serve p r sc (CallAccept body) = handleAccept p r sc body"
| "serve p r sc CallCancel = handleCancel p r sc"
| "serve p r sc (CallEnterCode body) = handleEnterCode p r sc body"
| "serve p r sc CallVerifyFunding = handleVerifyFunding p r sc"
| "serve p r sc CallReportIssue = handleReportIssue p r sc"
| "serve p r sc CallConfirmFailure = handleConfirmDispatchFailure p r sc"
| "serve p r sc CallAttest = handleAttestNonReceipt p r sc"
| "serve p r sc CallOpenDispute = handleOpenDispute p r sc"
| "serve p r sc CallConcede = handleConcede p r sc"
| "serve p r sc (CallUpload i form) = handleUploadEvidence p r sc i form"
| "serve p r sc CallDisputeView = handleDisputeView p r sc"
| "serve p r sc CallView = handlePublicView p r sc"

text \<open>The use case behind each of them, run for one role of one pocket.\<close>

definition address_of :: "string json_body \<Rightarrow> string" where
  "address_of body = (case body of JsonBody b \<Rightarrow> b | _ \<Rightarrow> [])"

fun acted :: "'g api \<Rightarrow> string \<Rightarrow> role \<Rightarrow> seat_call \<Rightarrow> 'g world \<Rightarrow> 'g world" where
  "acted p pid role (CallAccept body) w = snd (app_Accept (ap_app p) pid role (address_of body) w)"
| "acted p pid role CallCancel w = snd (app_Cancel (ap_app p) pid role w)"
| "acted p pid role (CallEnterCode body) w = snd (EnterCode (ap_app p) pid role (address_of body) w)"
| "acted p pid role CallVerifyFunding w = snd (VerifyFunding (ap_app p) pid w)"
| "acted p pid role CallReportIssue w = snd (ReportIssue (ap_app p) pid role w)"
| "acted p pid role CallConfirmFailure w = snd (ConfirmDispatchFailure (ap_app p) pid role w)"
| "acted p pid role CallAttest w = snd (app_AttestNonReceipt (ap_app p) pid role w)"
| "acted p pid role CallOpenDispute w = snd (OpenFrozenDispute (ap_app p) pid role w)"
| "acted p pid role CallConcede w = snd (Concede (ap_app p) pid role w)"
| "acted p pid role (CallUpload i form) w = (case fst (parse_form p form w) of
       Inl _ \<Rightarrow> w
     | Inr (ty, put) \<Rightarrow> snd (UploadEvidence (ap_app p) put i pid role ty w))"
| "acted p pid role CallDisputeView w = w"
| "acted p pid role CallView w = w"

text \<open>A reply that shows the pocket shows it as that role sees it.\<close>

definition shows_role :: "role \<Rightarrow> http_error + http_reply \<Rightarrow> bool" where
  "shows_role role res \<longleftrightarrow> (case res of
       Inl e \<Rightarrow> True
     | Inr reply \<Rightarrow> (case rp_Body reply of ViewBody v \<Rightarrow> pv_YourRole v = role | _ \<Rightarrow> True))"

definition refused :: "'g world \<Rightarrow> 'g world \<Rightarrow> (http_error + 'a) \<times> 'g world \<Rightarrow> bool" where
  "refused w w1 out \<longleftrightarrow> (case out of
       (Inl e, w') \<Rightarrow> fst (classify e) \<in> {400, 401, 403, 404} \<and> (w' = w \<or> w' = w1)
     | _ \<Rightarrow> False)"

text \<open>Every one of them is refused before it acts, or runs its use case for the authorised seat.\<close>

definition seated :: "'g api \<Rightarrow> http_request \<Rightarrow> string \<Rightarrow> (string \<Rightarrow> role \<Rightarrow> 'g world \<Rightarrow> 'g world) \<Rightarrow>
    ('g, http_reply) hio \<Rightarrow> bool" where
  "seated p r sc use h \<longleftrightarrow> (\<forall>w. refused w (snd (currentUser p r w)) (h w) \<or>
     (\<exists>x role. select_one (\<lambda>r. r_short_code r = sc) (pockets (w_db w)) = Some x \<and> may_act p r w (r_id x) role \<and>
       snd (h w) = use (r_id x) role (snd (currentUser p r w)) \<and> shows_role role (fst (h w))))"

definition serves :: "(string \<Rightarrow> role \<Rightarrow> 'g world \<Rightarrow> 'g world) \<Rightarrow> string \<Rightarrow> role \<Rightarrow> ('g, http_reply) hio \<Rightarrow> bool" where
  "serves use pid role h \<longleftrightarrow> (\<forall>w. snd (h w) = use pid role w \<and> shows_role role (fst (h w)))"

lemma seated_decode:
  assumes "\<And>b. body = JsonBody b \<Longrightarrow> seated p r sc use (f b)"
  shows "seated p r sc use (bind_h (decodeJSON body) f)"
  using assms by (cases body; auto simp: seated_def refused_def bind_h_def fail_h_def return_h_def)

lemma seated_decode_optional:
  assumes "seated p r sc use (f (address_of body))"
  shows "seated p r sc use (bind_h (decodeOptionalJSON [] body) f)"
  using assms by (cases body; auto simp: seated_def refused_def bind_h_def fail_h_def return_h_def address_of_def)

lemma seated_load:
  assumes "\<And>rec parts role. serves use (rec_ID rec) role (f rec parts role)"
  shows "seated p r sc use (bind_h (app_h (LoadByShortCode (ap_app p) sc)) (\<lambda>(rec, parts).
     bind_h (authParticipant p r (rec_ID rec) parts) (f rec parts)))"
    (is "seated p r sc use ?h")
  unfolding seated_def
proof
  fix w
  let ?w1 = "snd (currentUser p r w)"
  show "refused w ?w1 (?h w) \<or>
     (\<exists>x role. select_one (\<lambda>r. r_short_code r = sc) (pockets (w_db w)) = Some x \<and> may_act p r w (r_id x) role \<and>
       snd (?h w) = use (r_id x) role ?w1 \<and> shows_role role (fst (?h w)))"
  proof (cases "select_one (\<lambda>r. r_short_code r = sc) (pockets (w_db w))")
    case None
    then show ?thesis
      by (simp add: bind_h_def app_h_def LoadByShortCode_def bind_io_def db_read_def GetByShortCode_def
          scan_found_def refused_def)
  next
    case (Some x)
    let ?rec = "scanPocket (a_store (ap_app p)) x" and ?parts = "Participants (r_id x) (w_db w)"
    have load: "app_h (LoadByShortCode (ap_app p) sc) w = (Inr (?rec, ?parts), w)"
      using Some by (simp add: app_h_def LoadByShortCode_def bind_io_def db_read_def GetByShortCode_def
          scan_found_def return_io_def scanPocket_def)
    obtain res w1 where cu: "currentUser p r w = (res, w1)" by fastforce
    obtain u where u: "res = Inr u" "u \<noteq> None \<Longrightarrow> signed_in p r w (ur_ID (the u))"
      using currentUser_result [OF cu] by blast
    have id: "rec_ID ?rec = r_id x" by (simp add: scanPocket_def)
    have run: "?h w = bind_h (\<lambda>w. (participant_role p r (r_id x) ?parts u, w)) (f ?rec ?parts) w1"
      by (simp add: bind_h_def load authParticipant_def cu u(1) id split: prod.split sum.split)
    show ?thesis
    proof (cases "participant_role p r (r_id x) ?parts u")
      case (Inl e)
      with participant_role_result [OF this] run cu show ?thesis by (auto simp: bind_h_def refused_def)
    next
      case (Inr role)
      from participant_role_result [OF this] have "may_act p r w (r_id x) role"
        using u(2) by (auto simp: may_act_def)
      moreover have "?h w = f ?rec ?parts role w1" using run Inr by (simp add: bind_h_def)
      ultimately show ?thesis using Some cu assms [of ?rec role ?parts] by (auto simp: serves_def id)
    qed
  qed
qed

lemma authByShortCode_bind:
  "bind_h (authByShortCode p r sc) (\<lambda>(rec, role). g rec role) =
   bind_h (app_h (LoadByShortCode (ap_app p) sc)) (\<lambda>(rec, parts).
     bind_h (authParticipant p r (rec_ID rec) parts) (g rec))"
  by (auto simp: authByShortCode_def bind_h_def return_h_def fun_eq_iff split: prod.split sum.split)

lemma seated_auth:
  "(\<And>rec role. serves use (rec_ID rec) role (g rec role)) \<Longrightarrow>
   seated p r sc use (bind_h (authByShortCode p r sc) (\<lambda>(rec, role). g rec role))"
  unfolding authByShortCode_bind by (rule seated_load)

subsection \<open>What follows the authorisation\<close>

lemma api_pocketView_role [simp]: "pv_YourRole (api_pocketView p rec parts role) = role"
  by (simp add: api_pocketView_def buildPocketView_def Let_def)

lemma view_serves: "(\<And>w. use pid role w = w) \<Longrightarrow> serves use pid role (view_reply p rec parts role)"
  by (simp add: serves_def view_reply_def return_h_def shows_role_def ok_reply_def)

lemma respondView_reads: "snd (respondView p pid role w) = w" "shows_role role (fst (respondView p pid role w))"
  by (auto simp: respondView_def bind_h_def app_h_def Load_def bind_io_def db_read_def return_io_def
      view_reply_def return_h_def shows_role_def ok_reply_def split: sum.splits prod.splits)

lemma act_then_view:
  assumes "\<And>w. use pid role w = snd (m w)"
  shows "serves use pid role (bind_h (app_h m) (\<lambda>_. respondView p pid role))"
  using assms
  by (auto simp: serves_def bind_h_def app_h_def respondView_reads shows_role_def [of _ "Inl _"]
      split: sum.split prod.split)

lemma act_then_reply:
  assumes "\<And>w. use pid role w = snd (m w)" and "\<And>x v. rp_Body (reply x) \<noteq> ViewBody v"
  shows "serves use pid role (bind_h (app_h m) (\<lambda>x. return_h (reply x)))"
  using assms
  by (auto simp: serves_def bind_h_def app_h_def return_h_def shows_role_def split: sum.split prod.split reply_body.split)

lemma upload_serves:
  "serves (\<lambda>pid role. acted p pid role (CallUpload i form)) pid role
     (bind_h (parse_form p form) (\<lambda>(ty, put). bind_h (app_h (UploadEvidence (ap_app p) put i pid role ty))
       (\<lambda>ev. return_h (created_reply (EvidenceBody (evidence_reply ev))))))"
  by (auto simp: serves_def bind_h_def app_h_def return_h_def fail_h_def parse_form_def shows_role_def
      created_reply_def split: sum.split prod.split option.split)

lemma dispute_serves:
  "(\<And>w. use pid role w = w) \<Longrightarrow> serves use pid role (bind_h (app_h (DisputeView pid)) (\<lambda>(d, evs).
     return_h (ok_reply (DisputeBody (buildDisputeView d evs)))))"
  by (auto simp: serves_def bind_h_def app_h_def DisputeView_def bind_io_def db_read_def return_io_def
      return_h_def shows_role_def ok_reply_def split: sum.split prod.split)

lemma serve_seated: "seated p r sc (\<lambda>pid role. acted p pid role call) (serve p r sc call)"
proof (cases call)
  case (CallAccept body)
  then show ?thesis
    by (auto simp: handleAccept_def intro!: seated_decode_optional seated_load act_then_view)
next
  case CallCancel
  then show ?thesis by (auto simp: handleCancel_def intro!: seated_load act_then_view)
next
  case (CallEnterCode body)
  then show ?thesis
    by (auto simp: handleEnterCode_def address_of_def ok_reply_def intro!: seated_decode seated_auth act_then_reply)
next
  case CallVerifyFunding
  then show ?thesis
    by (auto simp: handleVerifyFunding_def ok_reply_def intro!: seated_auth act_then_reply)
next
  case (CallUpload i form)
  then show ?thesis
    unfolding serve.simps handleUploadEvidence_def CallUpload by (intro seated_auth upload_serves)
next
  case CallDisputeView
  then show ?thesis by (auto simp: handleDisputeView_def intro!: seated_auth dispute_serves)
next
  case CallView
  then show ?thesis by (auto simp: handlePublicView_def intro!: seated_load view_serves)
qed (auto simp: handleReportIssue_def handleConfirmDispatchFailure_def handleAttestNonReceipt_def
    handleOpenDispute_def handleConcede_def on_seat_def intro!: seated_auth act_then_view)

text \<open>The release code is behind the buyer's seat, and reading it changes nothing.\<close>

lemma release_code_seated:
  assumes "handleReleaseCode p r pid w = (res, w')"
  shows "(w' = w \<or> w' = snd (currentUser p r w)) \<and> (case res of
      Inl e \<Rightarrow> True
    | Inr reply \<Rightarrow> may_act p r w pid RoleBuyer \<and> (\<exists>code. reply = ok_reply (ReleaseCodeBody code) \<and>
        app_ReleaseCode (ap_app p) pid (snd (currentUser p r w)) = (Inr code, snd (currentUser p r w))))"
proof -
  obtain ru w1 where cu: "currentUser p r w = (ru, w1)" by fastforce
  obtain u where u: "ru = Inr u" "u \<noteq> None \<Longrightarrow> signed_in p r w (ur_ID (the u))"
    using currentUser_result [OF cu] by blast
  let ?role = "participant_role p r pid (Participants pid (w_db w)) u"
  have reads: "snd (app_ReleaseCode (ap_app p) pid v) = v" for v
    by (auto simp: app_ReleaseCode_def bind_io_def db_read_def split: sum.split)
  have act: "may_act p r w pid q" if "?role = Inr q" for q
    using participant_role_result [OF that] u(2) by (auto simp: may_act_def)
  obtain rc v where rc: "app_ReleaseCode (ap_app p) pid w1 = (rc, v)" by fastforce
  then have "v = w1" using reads by (metis snd_conv)
  with rc show ?thesis using assms cu u(1) act
    by (auto simp: handleReleaseCode_def Load_def bind_h_def app_h_def bind_io_def db_read_def return_io_def
        authParticipant_def fail_h_def return_h_def split: sum.splits if_splits)
qed

text \<open>C11: No request acts on a pocket without authority, nor as another seat than its own: every seat
  endpoint, on any world, either speaks for a seat of that pocket -- through the live session of
  the account bound to it, or, while no account is, through the seat's own current invitation --
  and then does exactly its use case as that seat's role on that pocket, showing the pocket as that
  role sees it; or it is answered with 400, 401, 403 or 404.  The lookup of the session, all that
  happens before the use case and all a refused request does, changes last-seen stamps only.  The
  release code is answered to the buyer's seat alone, and reading it changes no more.\<close>

theorem seat_access:
  "untouched w (snd (currentUser p r w)) \<and>
   (case respond (serve p r sc call) w of (reply, w') \<Rightarrow>
      (\<exists>x role. select_one (\<lambda>r. r_short_code r = sc) (pockets (w_db w)) = Some x \<and>
         may_act p r w (r_id x) role \<and> w' = acted p (r_id x) role call (snd (currentUser p r w)) \<and>
         (case rp_Body reply of ViewBody v \<Rightarrow> pv_YourRole v = role | _ \<Rightarrow> True)) \<or>
      rp_Status reply \<in> {400, 401, 403, 404} \<and> (w' = w \<or> w' = snd (currentUser p r w))) \<and>
   (case respond (handleReleaseCode p r pid) w of (reply, w') \<Rightarrow>
      (w' = w \<or> w' = snd (currentUser p r w)) \<and>
      (case rp_Body reply of
         ErrorBody msg \<Rightarrow> True
       | ReleaseCodeBody code \<Rightarrow> may_act p r w pid RoleBuyer \<and>
           app_ReleaseCode (ap_app p) pid (snd (currentUser p r w)) = (Inr code, snd (currentUser p r w))
       | _ \<Rightarrow> False))"
proof (intro conjI)
  show "untouched w (snd (currentUser p r w))"
    using currentUser_result [of p r w] by (metis prod.collapse)
next
  show "case respond (serve p r sc call) w of (reply, w') \<Rightarrow>
      (\<exists>x role. select_one (\<lambda>r. r_short_code r = sc) (pockets (w_db w)) = Some x \<and>
         may_act p r w (r_id x) role \<and> w' = acted p (r_id x) role call (snd (currentUser p r w)) \<and>
         (case rp_Body reply of ViewBody v \<Rightarrow> pv_YourRole v = role | _ \<Rightarrow> True)) \<or>
      rp_Status reply \<in> {400, 401, 403, 404} \<and> (w' = w \<or> w' = snd (currentUser p r w))"
    using spec [OF serve_seated [of p r sc call, unfolded seated_def], of w]
    by (cases "serve p r sc call w"; cases "fst (serve p r sc call w)")
      (auto simp: respond_def refused_def shows_role_def writeError_def split: prod.split)
next
  show "case respond (handleReleaseCode p r pid) w of (reply, w') \<Rightarrow>
      (w' = w \<or> w' = snd (currentUser p r w)) \<and>
      (case rp_Body reply of
         ErrorBody msg \<Rightarrow> True
       | ReleaseCodeBody code \<Rightarrow> may_act p r w pid RoleBuyer \<and>
           app_ReleaseCode (ap_app p) pid (snd (currentUser p r w)) = (Inr code, snd (currentUser p r w))
       | _ \<Rightarrow> False)"
    using release_code_seated [of p r pid w]
    by (cases "handleReleaseCode p r pid w"; cases "fst (handleReleaseCode p r pid w)")
      (auto simp: respond_def writeError_def ok_reply_def split: prod.split)
qed

end
