(* ===== verification/Webhook.thy ===== *)
theory Webhook
  imports Base64 Http_Handlers
begin

text \<open>
  Provider notifications from the wire to the inbox (\<^verbatim>\<open>internal/gateway/nomba/webhook.go\<close>,
  \<^verbatim>\<open>internal/httpapi/webhooks.go\<close>): signature verification, extraction, translation and
  the endpoint.  Parameters: HMAC-SHA256, JSON decoding of the body into its raw leaves and of a
  quoted leaf into its text, and the decimal-to-kobo conversion, which the code does in floating
  point.
\<close>

section \<open>The body\<close>

record webhook_body =
  wb_EventType :: string
  wb_RequestID :: string
  wb_OrderReference :: string
  wb_DataOrderReference :: string
  wb_OrderOrderReference :: string
  wb_OrderOrderID :: string
  wb_OrderAmount :: string
  wb_MerchantUserID :: string
  wb_MerchantWalletID :: string
  wb_TransactionID :: string
  wb_TransactionType :: string
  wb_TransactionTime :: string
  wb_ResponseCode :: string
  wb_MerchantTxRef :: string
  wb_TxOrderReference :: string
  wb_TxOrderID :: string
  wb_TransactionAmount :: string

record webhook_event =
  we_ID :: string
  we_Type :: string
  we_TransactionID :: string
  we_TransactionType :: string
  we_MerchantTxRef :: string
  we_OrderReference :: string
  we_AmountKobo :: int
  we_Payload :: string

text \<open>What the verifier's code leaves to the standard library.\<close>

record wire =
  wi_hmac :: "string \<Rightarrow> string \<Rightarrow> string"
  wi_decode :: "string \<Rightarrow> webhook_body option"
  wi_unquote :: "string \<Rightarrow> string option"
  wi_kobo :: "string \<Rightarrow> int"

definition stringField :: "wire \<Rightarrow> string \<Rightarrow> string" where
  "stringField u raw = (let s = trim_space raw in
     if s = [] \<or> s = ''null'' then []
     else if hd s = CHR 0x22 then (case wi_unquote u raw of Some out \<Rightarrow> out | None \<Rightarrow> s)
     else s)"

fun firstNonEmpty :: "string list \<Rightarrow> string" where
  "firstNonEmpty [] = []"
| "firstNonEmpty (v # vs) = (if v \<noteq> [] then v else firstNonEmpty vs)"

definition koboAmount :: "wire \<Rightarrow> string \<Rightarrow> int" where
  "koboAmount u naira = (if naira = [] then 0 else wi_kobo u naira)"

definition signed_text :: "wire \<Rightarrow> webhook_body \<Rightarrow> string \<Rightarrow> string" where
  "signed_text u b timestamp = join_with (CHR '':'')
     [stringField u (wb_EventType b), stringField u (wb_RequestID b),
      stringField u (wb_MerchantUserID b), stringField u (wb_MerchantWalletID b),
      stringField u (wb_TransactionID b), stringField u (wb_TransactionType b),
      stringField u (wb_TransactionTime b), stringField u (wb_ResponseCode b), timestamp]"

definition signature_of :: "wire \<Rightarrow> string \<Rightarrow> webhook_body \<Rightarrow> string \<Rightarrow> string" where
  "signature_of u key b timestamp = base64_std (wi_hmac u key (signed_text u b timestamp))"

definition extract_event :: "wire \<Rightarrow> webhook_body \<Rightarrow> string \<Rightarrow> webhook_event" where
  "extract_event u b body =
     \<lparr>we_ID = stringField u (wb_RequestID b), we_Type = stringField u (wb_EventType b),
      we_TransactionID = stringField u (wb_TransactionID b),
      we_TransactionType = stringField u (wb_TransactionType b),
      we_MerchantTxRef = stringField u (wb_MerchantTxRef b),
      we_OrderReference = firstNonEmpty [stringField u (wb_OrderOrderReference b),
        stringField u (wb_TxOrderReference b), stringField u (wb_DataOrderReference b),
        stringField u (wb_OrderReference b), stringField u (wb_OrderOrderID b),
        stringField u (wb_TxOrderID b)],
      we_AmountKobo = koboAmount u (firstNonEmpty [stringField u (wb_TransactionAmount b),
        stringField u (wb_OrderAmount b)]),
      we_Payload = body\<rparr>"

record webhook_headers =
  wh_Signature :: string
  wh_SigValue :: string
  wh_Timestamp :: string

datatype verify_fault = ErrSignature | BodyNotJSON | NoIdentity

definition webhook_Verify :: "wire \<Rightarrow> string \<Rightarrow> webhook_headers \<Rightarrow> string \<Rightarrow> verify_fault + webhook_event" where
  "webhook_Verify u key h body =
     (let sig = (if wh_Signature h = [] then wh_SigValue h else wh_Signature h) in
      if sig = [] then Inl ErrSignature
      else (case wi_decode u body of
          None \<Rightarrow> Inl BodyNotJSON
        | Some b \<Rightarrow>
            (if signature_of u key b (wh_Timestamp h) \<noteq> sig then Inl ErrSignature
             else (let ev = extract_event u b body in
               if we_ID ev \<noteq> [] then Inr ev
               else if we_TransactionID ev = [] then Inl NoIdentity
               else Inr (ev\<lparr>we_ID := we_Type ev @ '':'' @ we_TransactionID ev\<rparr>)))))"

section \<open>The endpoint\<close>

definition webhook_kind :: "string \<Rightarrow> gateway_event_kind" where
  "webhook_kind t =
     (if t = ''payment_success'' then GatewayFundingSucceeded
      else if t = ''payment_failed'' then GatewayFundingFailed
      else if t = ''payout_success'' then GatewayPayoutSucceeded
      else if t = ''payout_failed'' then GatewayPayoutFailed
      else GatewayEventUnknown)"

definition translateNombaEvent :: "webhook_event \<Rightarrow> gateway_event" where
  "translateNombaEvent ev =
     \<lparr>ge_ProviderEventID = we_ID ev, ge_Kind = webhook_kind (we_Type ev), ge_RawType = we_Type ev,
      ge_OrderRef = we_OrderReference ev, ge_MerchantTxRef = we_MerchantTxRef ev,
      ge_PaymentRef = we_TransactionID ev, ge_AmountKobo = we_AmountKobo ev, ge_Payload = we_Payload ev\<rparr>"

text \<open>\<open>verifier\<close> is the configured one, None in mock-gateway deployments; \<open>body\<close> is None
  when the request body cannot be read.\<close>

definition handleNombaWebhook :: "'g api \<Rightarrow> (wire \<times> string) option \<Rightarrow> webhook_headers \<Rightarrow> string option \<Rightarrow>
    ('g, http_reply) hio" where
  "handleNombaWebhook p verifier h body = (case verifier of
       None \<Rightarrow> fail_h (AppError ErrNotFound)
     | Some (u, key) \<Rightarrow> (case body of
           None \<Rightarrow> fail_h errBadRequest
         | Some raw \<Rightarrow> (case webhook_Verify u key h raw of
               Inl ErrSignature \<Rightarrow> fail_h errUnauthorized
             | Inl _ \<Rightarrow> fail_h errBadRequest
             | Inr ev \<Rightarrow>
                 bind_h (app_h (IngestGatewayEvent (ap_app p) (translateNombaEvent ev))) (\<lambda>_.
                   return_h (ok_reply ReceivedBody)))))"

section \<open>What the signature covers\<close>

definition same_signed :: "webhook_body \<Rightarrow> webhook_body \<Rightarrow> bool" where
  "same_signed b c \<longleftrightarrow> wb_EventType b = wb_EventType c \<and> wb_RequestID b = wb_RequestID c \<and>
     wb_MerchantUserID b = wb_MerchantUserID c \<and> wb_MerchantWalletID b = wb_MerchantWalletID c \<and>
     wb_TransactionID b = wb_TransactionID c \<and> wb_TransactionType b = wb_TransactionType c \<and>
     wb_TransactionTime b = wb_TransactionTime c \<and> wb_ResponseCode b = wb_ResponseCode c"

definition header_signature :: "webhook_headers \<Rightarrow> string" where
  "header_signature h = (if wh_Signature h = [] then wh_SigValue h else wh_Signature h)"

text \<open>The event a decoded delivery stands for, under its request's identity or its transaction's.\<close>

definition event_id :: "wire \<Rightarrow> webhook_body \<Rightarrow> string" where
  "event_id u b =
     (if stringField u (wb_RequestID b) \<noteq> [] then stringField u (wb_RequestID b)
      else if stringField u (wb_TransactionID b) = [] then []
      else stringField u (wb_EventType b) @ '':'' @ stringField u (wb_TransactionID b))"

lemma Verify_cases:
  "webhook_Verify u key h raw =
     (if header_signature h = [] then Inl ErrSignature
      else case wi_decode u raw of
          None \<Rightarrow> Inl BodyNotJSON
        | Some b \<Rightarrow> if base64_std (wi_hmac u key (signed_text u b (wh_Timestamp h))) \<noteq> header_signature h then Inl ErrSignature
            else if event_id u b = [] then Inl NoIdentity
            else Inr ((extract_event u b raw)\<lparr>we_ID := event_id u b\<rparr>))"
  by (simp add: webhook_Verify_def header_signature_def signature_of_def event_id_def extract_event_def Let_def
      split: option.split)


text \<open>The signature covers neither the order reference nor the amount: a body that repeats an
  accepted one's eight signed fields is accepted under the same headers, as the same event, with
  whatever order reference and amount it states.\<close>

theorem webhook_unsigned_fields:
  assumes "same_signed b c" and "wi_decode u body = Some b" and "wi_decode u body' = Some c"
    and "webhook_Verify u key h body = Inr ev"
  shows "\<exists>ev'. webhook_Verify u key h body' = Inr ev' \<and> we_ID ev' = we_ID ev \<and> we_Type ev' = we_Type ev \<and>
      we_OrderReference ev' = we_OrderReference (extract_event u c body') \<and>
      we_AmountKobo ev' = we_AmountKobo (extract_event u c body')"
proof -
  have text_eq: "signature_of u key b t = signature_of u key c t" for t
    using assms(1) by (simp add: same_signed_def signature_of_def signed_text_def)
  have ids: "we_ID (extract_event u b body) = we_ID (extract_event u c body')"
      "we_Type (extract_event u b body) = we_Type (extract_event u c body')"
      "we_TransactionID (extract_event u b body) = we_TransactionID (extract_event u c body')"
    using assms(1) by (simp_all add: same_signed_def extract_event_def)
  show ?thesis using assms(2-4) text_eq ids by (auto simp: webhook_Verify_def Let_def split: if_splits)
qed

definition paid_body :: "string \<Rightarrow> string \<Rightarrow> webhook_body" where
  "paid_body order amount = \<lparr>wb_EventType = ''payment_success'', wb_RequestID = ''r1'', wb_OrderReference = [],
     wb_DataOrderReference = [], wb_OrderOrderReference = order, wb_OrderOrderID = [], wb_OrderAmount = [],
     wb_MerchantUserID = ''u'', wb_MerchantWalletID = ''w'', wb_TransactionID = ''t1'',
     wb_TransactionType = ''online_checkout'', wb_TransactionTime = ''now'', wb_ResponseCode = [],
     wb_MerchantTxRef = [], wb_TxOrderReference = [], wb_TxOrderID = [], wb_TransactionAmount = amount\<rparr>"

text \<open>A decoder of two bodies, a digest that is its input, and amounts in unary.\<close>

definition demo_wire :: wire where
  "demo_wire = \<lparr>wi_hmac = (\<lambda>k m. k @ m), wi_decode = (\<lambda>s. if s = ''first'' then Some (paid_body ''o1'' ''1'')
       else if s = ''second'' then Some (paid_body ''o2'' ''1111'') else None),
     wi_unquote = Some, wi_kobo = (\<lambda>s. int (length s))\<rparr>"

definition demo_headers :: webhook_headers where
  "demo_headers = \<lparr>wh_Signature = signature_of demo_wire ''key'' (paid_body ''o1'' ''1'') ''ts'',
     wh_SigValue = [], wh_Timestamp = ''ts''\<rparr>"

theorem webhook_unsigned_fields_witness:
  "\<exists>ev ev'. webhook_Verify demo_wire ''key'' demo_headers ''first'' = Inr ev \<and>
     webhook_Verify demo_wire ''key'' demo_headers ''second'' = Inr ev' \<and> we_ID ev' = we_ID ev \<and>
     we_OrderReference ev = ''o1'' \<and> we_OrderReference ev' = ''o2'' \<and>
     we_AmountKobo ev = 1 \<and> we_AmountKobo ev' = 4"
proof -
  have "(case webhook_Verify demo_wire ''key'' demo_headers ''first'' of Inl _ \<Rightarrow> False
      | Inr ev \<Rightarrow> we_OrderReference ev = ''o1'' \<and> we_AmountKobo ev = 1)"
  proof -
    let ?b = "paid_body ''o1'' ''1''"
    have "signature_of demo_wire ''key'' ?b ''ts'' \<noteq> []"
      by (simp add: signature_of_def demo_wire_def base64_std_def bytes_of_def pad_group_def)
    moreover have "we_ID (extract_event demo_wire ?b ''first'') \<noteq> [] \<and>
        we_OrderReference (extract_event demo_wire ?b ''first'') = ''o1'' \<and>
        we_AmountKobo (extract_event demo_wire ?b ''first'') = 1" by code_simp
    moreover have "wi_decode demo_wire ''first'' = Some ?b" by (simp add: demo_wire_def)
    ultimately show ?thesis by (simp add: webhook_Verify_def demo_headers_def)
  qed
  then obtain ev where ev: "webhook_Verify demo_wire ''key'' demo_headers ''first'' = Inr ev"
      "we_OrderReference ev = ''o1''" "we_AmountKobo ev = 1" by (auto split: sum.splits)
  have "same_signed (paid_body ''o1'' ''1'') (paid_body ''o2'' ''1111'')" by (simp add: same_signed_def paid_body_def)
  moreover have "wi_decode demo_wire ''first'' = Some (paid_body ''o1'' ''1'')"
      "wi_decode demo_wire ''second'' = Some (paid_body ''o2'' ''1111'')" by (simp_all add: demo_wire_def)
  moreover have "we_OrderReference (extract_event demo_wire (paid_body ''o2'' ''1111'') ''second'') = ''o2'' \<and>
      we_AmountKobo (extract_event demo_wire (paid_body ''o2'' ''1111'') ''second'') = 4" by code_simp
  ultimately show ?thesis using webhook_unsigned_fields [OF _ _ _ ev(1)] ev by metis
qed

end
