(* ===== verification/Sweeper.thy ===== *)
theory Sweeper
  imports App_Sweep "HOL-Library.Monad_Syntax"
begin

text \<open>
  The sweeper (\<^verbatim>\<open>internal/settlement/sweeper.go\<close>): it owns no rule, it drives seven of them
  through an interface.  The interface is a record of operations on the driver's state, and the
  contract the sweeper relies on is a locale; a rule that never returns is None.
\<close>

section \<open>The driver\<close>

type_synonym 'w sweep_op = "'w \<Rightarrow> (int \<times> error option \<times> 'w) option"

record 'w driver =
  dv_PendingFundingVerification :: "'w sweep_op"
  dv_ExpiredFunding :: "'w sweep_op"
  dv_DeliveryDeadlines :: "'w sweep_op"
  dv_GraceRefunds :: "'w sweep_op"
  dv_DueSettlements :: "'w sweep_op"
  dv_InflightSettlementLegs :: "'w sweep_op"
  dv_PendingSettlementLegs :: "'w sweep_op"

record 'w sweeper =
  sw_driver :: "'w driver"
  sw_interval :: duration

definition NewSweeper :: "'w driver \<Rightarrow> duration \<Rightarrow> 'w sweeper" where
  "NewSweeper drv interval =
     \<lparr>sw_driver = drv, sw_interval = (if interval \<le> 0 then time_Minute else interval)\<rparr>"

record report =
  re_FundingVerified :: int
  re_Expired :: int
  re_Frozen :: int
  re_GraceRefunded :: int
  re_Settled :: int
  re_LegsResolved :: int
  re_LegsReconciled :: int

definition report_Total :: "report \<Rightarrow> int" where
  "report_Total r = re_FundingVerified r + re_Expired r + re_Frozen r + re_GraceRefunded r +
     re_Settled r + re_LegsResolved r + re_LegsReconciled r"

section \<open>One tick\<close>

text \<open>A rule's error is logged; its count stands.\<close>

definition sweep_run :: "'w sweep_op \<Rightarrow> 'w \<Rightarrow> (int \<times> 'w) option" where
  "sweep_run f w = map_option (\<lambda>(n, e, w'). (n, w')) (f w)"

definition Tick :: "'w sweeper \<Rightarrow> 'w \<Rightarrow> (report \<times> 'w) option" where
  "Tick s w0 = (let drv = sw_driver s in do {
     (verified, w1) \<leftarrow> sweep_run (dv_PendingFundingVerification drv) w0;
     (expired, w2) \<leftarrow> sweep_run (dv_ExpiredFunding drv) w1;
     (frozen, w3) \<leftarrow> sweep_run (dv_DeliveryDeadlines drv) w2;
     (refunded, w4) \<leftarrow> sweep_run (dv_GraceRefunds drv) w3;
     (settled, w5) \<leftarrow> sweep_run (dv_DueSettlements drv) w4;
     (resolved, w6) \<leftarrow> sweep_run (dv_InflightSettlementLegs drv) w5;
     (reconciled, w7) \<leftarrow> sweep_run (dv_PendingSettlementLegs drv) w6;
     Some (\<lparr>re_FundingVerified = verified, re_Expired = expired, re_Frozen = frozen,
       re_GraceRefunded = refunded, re_Settled = settled, re_LegsResolved = resolved,
       re_LegsReconciled = reconciled\<rparr>, w7)
   })"

text \<open>\<open>Run\<close> up to the \<open>n\<close>th firing of its timer; \<open>meanwhile k\<close> is what the rest of the
  system does while it waits for the \<open>k\<close>th.\<close>

primrec sweeper_Run :: "'w sweeper \<Rightarrow> (nat \<Rightarrow> 'w \<Rightarrow> 'w) \<Rightarrow> nat \<Rightarrow> 'w \<Rightarrow> 'w option" where
  "sweeper_Run s meanwhile 0 w = map_option snd (Tick s w)"
| "sweeper_Run s meanwhile (Suc n) w = do {
     w' \<leftarrow> sweeper_Run s meanwhile n w;
     map_option snd (Tick s (meanwhile n w'))
   }"

section \<open>What the sweeper asks of its driver\<close>

definition op_takes :: "('w \<Rightarrow> bool) \<Rightarrow> ('w \<Rightarrow> bool) \<Rightarrow> 'w sweep_op \<Rightarrow> bool" where
  "op_takes P Q f \<longleftrightarrow> (\<forall>w. P w \<longrightarrow> (\<exists>n e w'. f w = Some (n, e, w') \<and> 0 \<le> n \<and> Q w'))"

lemma op_takesE:
  assumes "op_takes P Q f" and "P w"
  obtains n w' where "sweep_run f w = Some (n, w')" "0 \<le> n" "Q w'"
proof -
  obtain n e w' where "f w = Some (n, e, w')" "0 \<le> n" "Q w'"
    using assms unfolding op_takes_def by blast
  then show thesis by (intro that [of n w']) (simp_all add: sweep_run_def)
qed

text \<open>A tick runs its rules in order, each from where the one before left the world.\<close>

lemma tick_stages:
  assumes "op_takes P0 P1 (dv_PendingFundingVerification drv)" and "op_takes P1 P2 (dv_ExpiredFunding drv)"
    and "op_takes P2 P3 (dv_DeliveryDeadlines drv)" and "op_takes P3 P4 (dv_GraceRefunds drv)"
    and "op_takes P4 P5 (dv_DueSettlements drv)" and "op_takes P5 P6 (dv_InflightSettlementLegs drv)"
    and "op_takes P6 P7 (dv_PendingSettlementLegs drv)" and "P0 w"
  obtains rep w' where "Tick (NewSweeper drv interval) w = Some (rep, w')" "0 \<le> report_Total rep" "P7 w'"
proof -
  obtain n1 w1 where 1: "sweep_run (dv_PendingFundingVerification drv) w = Some (n1, w1)" "0 \<le> n1" "P1 w1"
    using op_takesE [OF assms(1,8)] .
  obtain n2 w2 where 2: "sweep_run (dv_ExpiredFunding drv) w1 = Some (n2, w2)" "0 \<le> n2" "P2 w2"
    using op_takesE [OF assms(2) 1(3)] .
  obtain n3 w3 where 3: "sweep_run (dv_DeliveryDeadlines drv) w2 = Some (n3, w3)" "0 \<le> n3" "P3 w3"
    using op_takesE [OF assms(3) 2(3)] .
  obtain n4 w4 where 4: "sweep_run (dv_GraceRefunds drv) w3 = Some (n4, w4)" "0 \<le> n4" "P4 w4"
    using op_takesE [OF assms(4) 3(3)] .
  obtain n5 w5 where 5: "sweep_run (dv_DueSettlements drv) w4 = Some (n5, w5)" "0 \<le> n5" "P5 w5"
    using op_takesE [OF assms(5) 4(3)] .
  obtain n6 w6 where 6: "sweep_run (dv_InflightSettlementLegs drv) w5 = Some (n6, w6)" "0 \<le> n6" "P6 w6"
    using op_takesE [OF assms(6) 5(3)] .
  obtain n7 w7 where 7: "sweep_run (dv_PendingSettlementLegs drv) w6 = Some (n7, w7)" "0 \<le> n7" "P7 w7"
    using op_takesE [OF assms(7) 6(3)] .
  show thesis
    by (rule that [of "\<lparr>re_FundingVerified = n1, re_Expired = n2, re_Frozen = n3, re_GraceRefunded = n4,
          re_Settled = n5, re_LegsResolved = n6, re_LegsReconciled = n7\<rparr>" w7])
      (use 1 2 3 4 5 6 7 in \<open>simp_all add: Tick_def NewSweeper_def report_Total_def\<close>)
qed

locale sweep_driver =
  fixes drv :: "'w driver" and P :: "'w \<Rightarrow> bool"
  assumes verification: "op_takes P P (dv_PendingFundingVerification drv)"
    and expiry: "op_takes P P (dv_ExpiredFunding drv)"
    and deadlines: "op_takes P P (dv_DeliveryDeadlines drv)"
    and refunds: "op_takes P P (dv_GraceRefunds drv)"
    and settlements: "op_takes P P (dv_DueSettlements drv)"
    and inflight: "op_takes P P (dv_InflightSettlementLegs drv)"
    and pending: "op_takes P P (dv_PendingSettlementLegs drv)"
begin

lemmas rules = verification expiry deadlines refunds settlements inflight pending

lemma tick_returns:
  assumes "P w"
  obtains rep w' where "Tick (NewSweeper drv interval) w = Some (rep, w')" "0 \<le> report_Total rep" "P w'"
  by (rule tick_stages [OF rules assms])

lemma run_returns:
  assumes "P w" and "\<And>n w. P w \<Longrightarrow> P (meanwhile n w)"
  shows "\<exists>w'. sweeper_Run (NewSweeper drv interval) meanwhile n w = Some w' \<and> P w'"
proof (induction n)
  case 0
  from tick_returns [OF assms(1)] show ?case by (metis option.simps(9) snd_conv sweeper_Run.simps(1))
next
  case (Suc n)
  then obtain w1 where w1: "sweeper_Run (NewSweeper drv interval) meanwhile n w = Some w1" "P w1" by blast
  from tick_returns [OF assms(2) [OF w1(2)]] obtain rep w' where
    "Tick (NewSweeper drv interval) (meanwhile n w1) = Some (rep, w')" "P w'" .
  with w1 show ?case by simp
qed

end

section \<open>The application as the driver\<close>

definition verification_op :: "'g app \<Rightarrow> 'g world sweep_op" where
  "verification_op a w = (case SweepPendingFundingVerification a w of
     (Inl e, w') \<Rightarrow> Some (0, Some e, w') | (Inr n, w') \<Rightarrow> Some (n, None, w'))"

definition inflight_op :: "'g app \<Rightarrow> 'g world sweep_op" where
  "inflight_op a w = (case SweepInflightSettlementLegs a w of (n, w') \<Rightarrow> Some (n, None, w'))"

definition app_driver :: "'g app \<Rightarrow> locks \<Rightarrow> 'g world driver" where
  "app_driver a locked =
     \<lparr>dv_PendingFundingVerification = verification_op a,
      dv_ExpiredFunding = SweepExpiredFunding a locked,
      dv_DeliveryDeadlines = SweepDeliveryDeadlines a locked,
      dv_GraceRefunds = SweepGraceRefunds a locked,
      dv_DueSettlements = SweepDueSettlements a locked,
      dv_InflightSettlementLegs = inflight_op a,
      dv_PendingSettlementLegs = (\<lambda>w. Some (SweepPendingSettlementLegs a w))\<rparr>"

end
