(* ===== verification/App_Clock.thy ===== *)
theory App_Clock
  imports App_Invariant
begin

text \<open>
  Time passes through the application: a use case reads the clock, never sets it.  \<open>passes f\<close>
  says a world step keeps the readings to come and consumes them in order.
\<close>

definition passes :: "('g world \<Rightarrow> 'g world) \<Rightarrow> bool" where
  "passes f \<longleftrightarrow> (\<forall>w. w_clock (f w) = w_clock w \<and> w_tick w \<le> w_tick (f w))"

definition ticks :: "('g, 'a) io \<Rightarrow> bool" where
  "ticks m \<longleftrightarrow> passes (\<lambda>w. snd (m w))"

named_theorems passing \<open>use cases that only read the clock\<close>

lemma passes_clock: "passes f \<Longrightarrow> w_clock (f w) = w_clock w"
  by (simp add: passes_def)

lemma passes_tick: "passes f \<Longrightarrow> w_tick w \<le> w_tick (f w)"
  by (simp add: passes_def)

lemma passes_comp: "passes f \<Longrightarrow> passes g \<Longrightarrow> passes (\<lambda>w. g (f w))"
  unfolding passes_def by (metis le_trans)

lemma ticks_basic [passing]:
  "ticks (return_io x)" "ticks (fail_io e)" "ticks (db_read h)" "ticks now_io"
  "ticks (send pid role kind msg)" "ticks (db_do u)"
  by (simp_all add: ticks_def passes_def return_io_def fail_io_def db_read_def now_io_def send_def logstub_Send_def db_do_def)

lemma ticks_db_io [passing]: "ticks (db_io h)"
  by (auto simp: ticks_def passes_def db_io_def split: prod.split)

lemma ticks_gw_io [passing]: "ticks (gw_io h)"
  by (auto simp: ticks_def passes_def gw_io_def split: prod.split)

lemma ticks_bind [passing]:
  assumes "ticks m" and "\<And>x. ticks (f x)"
  shows "ticks (bind_io m f)"
  unfolding ticks_def passes_def
proof
  fix w
  obtain r w1 where m: "m w = (r, w1)" by fastforce
  then have w1: "w_clock w1 = w_clock w" "w_tick w \<le> w_tick w1"
    using assms(1) unfolding ticks_def passes_def by (metis snd_conv)+
  show "w_clock (snd (bind_io m f w)) = w_clock w \<and> w_tick w \<le> w_tick (snd (bind_io m f w))"
    using w1 assms(2) unfolding ticks_def passes_def bind_io_def m
    by (cases r) (auto intro: le_trans)
qed

lemma ticks_try [passing]:
  assumes "ticks m" and "\<And>r. ticks (f r)"
  shows "ticks (try_io m f)"
  unfolding ticks_def passes_def
proof
  fix w
  obtain r w1 where m: "m w = (r, w1)" by fastforce
  then have w1: "w_clock w1 = w_clock w" "w_tick w \<le> w_tick w1"
    using assms(1) unfolding ticks_def passes_def by (metis snd_conv)+
  show "w_clock (snd (try_io m f w)) = w_clock w \<and> w_tick w \<le> w_tick (snd (try_io m f w))"
    using w1 assms(2) unfolding ticks_def passes_def try_io_def m by (auto intro: le_trans)
qed

lemma ticks_after [passing]: "passes f \<Longrightarrow> ticks (after_io f)"
  by (simp add: ticks_def after_io_def)

lemma ticks_minter [passing]: "(\<And>mint. ticks (f mint)) \<Longrightarrow> ticks (with_minter a f)"
  unfolding ticks_def passes_def with_minter_def
proof
  fix w :: "'a world"
  assume "\<And>mint. \<forall>w. w_clock (snd (f mint w)) = w_clock w \<and> w_tick w \<le> w_tick (snd (f mint w))"
  from spec [OF this, of _ "w\<lparr>w_minted := Suc (w_minted w)\<rparr>"]
  show "w_clock (snd (f (link_minter (a_hmac a) (a_sha a) (a_linkSecret a) (w_nonces w (w_minted w)))
      (w\<lparr>w_minted := Suc (w_minted w)\<rparr>))) = w_clock w \<and>
    w_tick w \<le> w_tick (snd (f (link_minter (a_hmac a) (a_sha a) (a_linkSecret a) (w_nonces w (w_minted w)))
      (w\<lparr>w_minted := Suc (w_minted w)\<rparr>)))" by simp
qed

lemma ticks_split [passing]:
  "ticks m \<Longrightarrow> ticks m' \<Longrightarrow> ticks (if b then m else m')"
  "ticks (k x) \<Longrightarrow> ticks (Let x k)"
  "(\<And>e. ticks (f e)) \<Longrightarrow> (\<And>y. ticks (h y)) \<Longrightarrow> ticks (case r of Inl e \<Rightarrow> f e | Inr y \<Rightarrow> h y)"
  "ticks m \<Longrightarrow> (\<And>y. ticks (h' y)) \<Longrightarrow> ticks (case z of None \<Rightarrow> m | Some y \<Rightarrow> h' y)"
  by (cases r; cases z; simp)+

section \<open>Effects and disbursement\<close>

lemma ticks_generate [passing]: "ticks (generateReleaseCode a pid)"
  by (auto simp: ticks_def passes_def generateReleaseCode_def db_do_def split: prod.split sum.split)

lemma ticks_effect [passing]: "ticks (executeEffect a pid n e)"
  by (cases e) (auto intro!: passing simp: createFundingLink_def)

lemma passes_effects: "passes (executeEffects a pid out)"
proof -
  have "passes (fold (\<lambda>e w. snd (executeEffect a pid n e w)) es)" for n es
  proof (induction es)
    case (Cons e es)
    from passes_comp [OF _ this] ticks_effect [of a pid n e]
    show ?case by (simp add: ticks_def comp_def)
  qed (simp add: passes_def)
  then show ?thesis by (simp add: executeEffects_def [abs_def])
qed

lemma ticks_finish [passing]: "ticks (finish_leg key r)"
  unfolding finish_leg_def by (intro passing)

lemma ticks_submit [passing]: "ticks (submit_leg a leg)"
  by (cases "sl_Direction leg") (auto simp: submit_leg_def intro: passing)

lemma ticks_payLeg [passing]: "ticks (payLeg a leg)"
proof -
  have "ticks (try_io (submit_leg a leg) (finish_leg key))" for key by (intro passing)
  then have "w_clock (snd (try_io (submit_leg a leg) (finish_leg key) w)) = w_clock w"
    "w_tick w \<le> w_tick (snd (try_io (submit_leg a leg) (finish_leg key) w))" for key w
    unfolding ticks_def passes_def by blast+
  note * = this(1) [of _ "w\<lparr>w_db := d\<rparr>" for w d] this(2) [of "w\<lparr>w_db := d\<rparr>" for w d]
  show ?thesis unfolding ticks_def passes_def payLeg_def Let_def
    using * by (auto split: prod.split)
qed

lemma ticks_pay_legs [passing]: "ticks (pay_legs a legs)"
  by (induction legs) (auto intro!: passing)

lemma passes_outcome [passing]: "passes (applyOutcome a pid out)"
proof -
  have "passes (\<lambda>w. snd (paySettlements a pid w))"
    using ticks_pay_legs [of a] by (auto simp: ticks_def passes_def paySettlements_def)
  from passes_comp [OF passes_effects this] passes_effects [of a pid out] show ?thesis
    by (cases "movesMoney out") (simp_all add: applyOutcome_def [abs_def])
qed

section \<open>The sweeps\<close>

lemma ticks_credit [passing]: "ticks (creditFunding a rec n ref)"
  unfolding creditFunding_def stamp_funding_def by (intro passing)

lemma ticks_verify_refs [passing]: "ticks (verify_refs a v rec refs)"
  by (induction refs) (auto intro!: passing simp: verify_credit_def)

lemma ticks_verify [passing]: "ticks (VerifyFunding a pid)"
  unfolding VerifyFunding_def by (intro passing)

lemma ticks_verify_all [passing]: "ticks (verify_all a pids n)"
  by (induction pids arbitrary: n) (auto intro!: passing)

lemma ticks_sweep_funding [passing]: "ticks (SweepPendingFundingVerification a)"
  unfolding SweepPendingFundingVerification_def by (intro passing)

section \<open>Every operation lets time pass\<close>

lemma resolve_legs_passes: "passes (\<lambda>w. snd (resolve_legs a legs m w))"
proof -
  have leg: "passes (\<lambda>w. snd (resolve_leg a leg w))" for leg
    by (auto simp: passes_def resolve_leg_def leave_leg_def gw_io_def split: option.split prod.splits
        sum.splits payout_status.splits)
  show ?thesis
  proof (induction legs arbitrary: m)
    case (Cons leg legs)
    then show ?case using leg [of leg] unfolding passes_def
      by (auto split: prod.split) (metis snd_conv le_trans)+
  qed (simp add: passes_def)
qed

lemma sweep_pending_passes: "passes (\<lambda>w. snd (snd (sweep_pending a legs m w)))"
proof (induction legs arbitrary: m)
  case (Cons leg legs)
  then show ?case using ticks_payLeg [of a leg] unfolding ticks_def passes_def
    by (auto split: prod.split sum.split) (metis snd_conv le_trans)+
qed (simp add: passes_def)

lemma ticks_use_cases:
  "ticks (Create a sc i inp)" "ticks (app_Claim a pid role uid)" "ticks (app_ConvertToBrokered a pid uid v)"
  "ticks (app_Accept a pid role addr)" "ticks (SimulateFunding a pid)" "ticks (app_Cancel a pid role)"
  "ticks (EnterCode a pid role code)" "ticks (ReportIssue a pid role)" "ticks (ConfirmDispatchFailure a pid role)"
  "ticks (app_AttestNonReceipt a pid role)" "ticks (OpenFrozenDispute a pid role)" "ticks (Concede a pid role)"
  "ticks (ForceRefund a pid)" "ticks (ForcePayout a pid b)" "ticks (UploadEvidence a put i pid role ty)"
  unfolding app_Claim_def app_ConvertToBrokered_def app_Accept_def SimulateFunding_def app_Cancel_def
    cancel_check_def cancel_write_def run_and_apply_def runDispute_def EnterCode_def acceptCode_def
    rejectCode_def settle_now_def ReportIssue_def ConfirmDispatchFailure_def app_AttestNonReceipt_def
    OpenFrozenDispute_def Concede_def ForceRefund_def ForcePayout_def UploadEvidence_def
  by ((intro passing)+)?  (auto simp: Create_def intro!: passing split: sum.split error.split)?

lemma ticks_ingest: "ticks (IngestGatewayEvent a ev)"
proof -
  have "ticks (processGatewayEvent a ev)"
    by (cases "ge_Kind ev") (auto intro!: passing simp: processGatewayEvent_def applyFundingEvent_def)
  then show ?thesis unfolding IngestGatewayEvent_def record_webhook_def by (intro passing)
qed

lemma passes_exec: "passes (exec_app a op)"
  using ticks_use_cases [of a] ticks_ingest [of a] ticks_verify [of a] ticks_sweep_funding [of a]
    resolve_legs_passes [of a] sweep_pending_passes [of a]
  by (cases op) (auto simp: ticks_def passes_def SweepPendingSettlementLegs_def SweepInflightSettlementLegs_def)

lemma passes_ops: "passes (fold (exec_app a) ops)"
proof (induction ops)
  case (Cons op ops)
  from passes_comp [OF passes_exec this] show ?case by (simp add: comp_def)
qed (simp add: passes_def)

end
