(* ===== verification/Sweeper_Claims.thy ===== *)
theory Sweeper_Claims
  imports Sweeper App_Clock App_Claims
begin

text \<open>
  The sweeper over the application: the driver meets its contract, so a tick always returns, and
  one undisturbed tick leaves no pocket behind that was overdue when it started.
\<close>

section \<open>The drain loop step by step\<close>

lemma drain_loop_induct:
  assumes "drain_loop a rule locked n w = Some z" and "I w"
    and claim: "\<And>u r u'. I u \<Longrightarrow> claim_one a rule locked u = (r, u') \<Longrightarrow> I' u'"
    and effects: "\<And>u pid out. I' u \<Longrightarrow> I (applyOutcome a pid out u)"
  shows "I' (snd (snd z))"
proof -
  have "app = a \<longrightarrow> ru = rule \<longrightarrow> lo = locked \<longrightarrow> I w \<longrightarrow> I' (snd (snd z))"
    if "drain_loop app ru lo n w = Some z" for app ru lo n w z
  proof (rule drain_loop.raw_induct [OF _ that], intro impI)
    fix f app ru lo n w z
    assume IH: "\<And>app ru lo n w z. f app ru lo n w = Some z \<Longrightarrow>
        app = a \<longrightarrow> ru = rule \<longrightarrow> lo = locked \<longrightarrow> I w \<longrightarrow> I' (snd (snd z))"
      and step: "(case claim_one app ru lo w of
          (Inl e, w') \<Rightarrow> Some (n, Some e, w')
        | (Inr None, w') \<Rightarrow> Some (n, None, w')
        | (Inr (Some res), w') \<Rightarrow>
            f app ru lo (n + 1) (applyOutcome app (wr_PocketID res) (wr_Outcome res) w')) = Some z"
      and w: "app = a" "ru = rule" "lo = locked" "I w"
    from claim [OF w(4), of "fst (claim_one a rule locked w)"]
    have "I' (snd (claim_one app ru lo w))" by (simp add: w)
    with step w IH effects show "I' (snd (snd z))"
      by (auto split: prod.splits sum.splits option.splits)
  qed
  with assms(1,2) show ?thesis by blast
qed

lemma claim_one_result:
  "claim_one a rule locked w = (case run_rule (a_store a) rule (locked (w_tick w)) (w_clock w (w_tick w)) (w_db w) of
     (r, d) \<Rightarrow> (r, w\<lparr>w_tick := Suc (w_tick w), w_db := d\<rparr>))"
  by (simp add: claim_one_def bind_io_def now_io_def db_io_def split: prod.split)

text \<open>A drain reads the clock at least once.\<close>

lemma drain_ticks:
  fixes a :: "'g app"
  assumes "drainRule a rule locked w = Some (n, e, w')"
  shows "w_clock w' = w_clock w \<and> w_tick w < w_tick w'"
proof -
  have "w_clock (snd (snd (n, e, w'))) = w_clock w \<and> w_tick w < w_tick (snd (snd (n, e, w')))"
  proof (rule drain_loop_induct [where I = "\<lambda>u. w_clock u = w_clock w \<and> w_tick w \<le> w_tick u"])
    fix u :: "'g world" and pid out
    assume "w_clock u = w_clock w \<and> w_tick w < w_tick u"
    then show "w_clock (applyOutcome a pid out u) = w_clock w \<and> w_tick w \<le> w_tick (applyOutcome a pid out u)"
      using passes_outcome [of a pid out] unfolding passes_def by (metis le_trans less_imp_le)
  qed (use assms in \<open>auto simp: drainRule_def claim_one_result split: prod.splits\<close>)
  then show ?thesis by simp
qed

section \<open>What is due\<close>

definition none_due :: "sweep_rule \<Rightarrow> gotime \<Rightarrow> db \<Rightarrow> bool" where
  "none_due rule t d \<longleftrightarrow> (\<forall>r \<in> set (pockets d). \<not> rule_due rule t r)"

lemma rule_due_mono: "t \<le> t' \<Longrightarrow> rule_due rule t r \<Longrightarrow> rule_due rule t' r"
  by (cases rule) (auto simp: due_expired_funding_def due_delivery_deadline_def due_grace_refund_def
      due_settlement_def due_at_def split: option.splits)

lemma none_due_earlier: "none_due rule t' d \<Longrightarrow> t \<le> t' \<Longrightarrow> none_due rule t d"
  unfolding none_due_def using rule_due_mono by blast

lemma rule_due_lifecycle: "lifecycle r = lifecycle r' \<Longrightarrow> rule_due rule t r = rule_due rule t r'"
  by (cases rule) (simp_all add: lifecycle_def due_expired_funding_def due_delivery_deadline_def
      due_grace_refund_def due_settlement_def)

lemma none_due_lifecycle:
  assumes "map lifecycle (pockets d') = map lifecycle (pockets d)"
  shows "none_due rule t d' = none_due rule t d"
proof -
  have "none_due rule t d \<longleftrightarrow> (\<forall>l \<in> set (map lifecycle (pockets d)). \<forall>r. lifecycle r = l \<longrightarrow> \<not> rule_due rule t r)" for d
    unfolding none_due_def set_map ball_simps using rule_due_lifecycle [of _ _ rule t] by blast
  with assms show ?thesis by (simp only:)
qed

text \<open>The order of a tick: no later rule moves a pocket into an earlier rule's source state.\<close>

fun before :: "sweep_rule \<Rightarrow> sweep_rule \<Rightarrow> bool" where
  "before RuleExpiredFunding rule = (rule \<noteq> RuleExpiredFunding)"
| "before RuleDeliveryDeadline rule = (rule = RuleGraceRefund \<or> rule = RuleDueSettlement)"
| "before RuleGraceRefund rule = (rule = RuleDueSettlement)"
| "before RuleDueSettlement rule = False"

lemma later_rule_leaves:
  assumes "before rule later" and "Transition (row_pocket st r) now (rule_event later) = Inr out"
    and "rule_due later now r"
  shows "p_State (out_Pocket out) \<noteq> rule_state rule"
  using Transition_edge [OF assms(2)] assms(1) rule_due_source [OF assms(3)]
  by (cases rule; cases later) auto

lemma run_rule_none_due:
  assumes "db_reach st d" and "none_due rule t d" and "before rule later"
  shows "none_due rule t (snd (run_rule st later lk now d))"
proof -
  have wf: "wf_db d" using db_reach_good [OF assms(1)] by (simp add: good_db_def)
  show ?thesis
  proof (cases "select_one (\<lambda>r. rule_due later now r \<and> \<not> lk (r_id r)) (pockets d)")
    case None
    with assms(2) show ?thesis by (simp add: run_rule_sweep sweepOne_def run_tx_def)
  next
    case (Some r)
    then have due: "rule_due later now r" by (auto dest: select_one_Some)
    obtain out ds where T: "Transition (row_pocket st r) now (rule_event later) = Inr out"
        and run: "run_rule st later lk now d = (Inr (Some \<lparr>wr_PocketID = r_id r,
          wr_FromState = r_state r, wr_Outcome = out\<rparr>),
          after_transition d r RoleSystem (rule_event later) (out_Pocket out) ds)"
      by (rule run_rule_Some [OF wf Some])
    have "\<not> rule_due rule t (write_pocket (out_Pocket out) x)" for x
      using later_rule_leaves [OF assms(3) T due] rule_due_source [of rule t "write_pocket (out_Pocket out) x"]
      by auto
    with assms(2) show ?thesis
      by (auto simp: run none_due_def after_transition_def set_replace_row)
  qed
qed

section \<open>The stages of a tick\<close>

definition nothing_locked :: locks where
  "nothing_locked n pid = False"

text \<open>Reached after some rules of a tick that started at reading \<open>n\<close> of the clock \<open>clk\<close>.\<close>

definition stage :: "'g app \<Rightarrow> 'g \<Rightarrow> (nat \<Rightarrow> gotime) \<Rightarrow> nat \<Rightarrow> sweep_rule set \<Rightarrow> 'g world \<Rightarrow> bool" where
  "stage a g0 clk n ruled w \<longleftrightarrow> app_reach a g0 w \<and> w_clock w = clk \<and> n \<le> w_tick w \<and>
     (\<forall>rule \<in> ruled. none_due rule (clk n) (w_db w))"

lemma drain_keeps_none_due:
  fixes a :: "'g app"
  assumes "drainRule a later locked w = Some (m, e, w')" and "db_reach (a_store a) (w_db w)"
    and "before rule later" and "none_due rule t (w_db w)"
  shows "none_due rule t (w_db w')"
proof -
  let ?I = "\<lambda>u. db_reach (a_store a) (w_db u) \<and> none_due rule t (w_db u)"
  have "?I (snd (snd (m, e, w')))"
  proof (rule drain_loop_induct [where I = ?I and a = a and rule = later and locked = locked])
    fix u r u'
    assume u: "?I u" and "claim_one a later locked u = (r, u')"
    then have "w_db u' = snd (run_rule (a_store a) later (locked (w_tick u)) (w_clock u (w_tick u)) (w_db u))"
      by (auto simp: claim_one_result split: prod.splits)
    with u run_rule_none_due assms(3)
      db_reach.op [of _ "w_db u" "OpSweep later (locked (w_tick u)) (w_clock u (w_tick u))"]
    show "?I u'" by simp
  next
    fix u :: "'g world" and pid out
    assume u: "?I u"
    then have "db_reach (a_store a) (w_db (applyOutcome a pid out u))"
      using store_ops.io_outcome [of a u] by (simp add: holds_def reached_db_def)
    with u show "?I (applyOutcome a pid out u)"
      by (simp add: none_due_lifecycle [OF applyOutcome_lifecycle])
  qed (use assms in \<open>auto simp: drainRule_def\<close>)
  then show ?thesis by simp
qed

lemma drain_stage:
  assumes mono: "\<And>i j. i \<le> j \<Longrightarrow> clk i \<le> clk j" and later: "\<And>r. r \<in> ruled \<Longrightarrow> before r rule"
  shows "op_takes (stage a g0 clk n ruled) (stage a g0 clk n (insert rule ruled)) (drainRule a rule nothing_locked)"
  unfolding op_takes_def
proof (intro allI impI)
  fix w
  assume w: "stage a g0 clk n ruled w"
  then have reach: "db_reach (a_store a) (w_db w)" using app_reach_db by (auto simp: stage_def)
  obtain k w' where drain: "drainRule a rule nothing_locked w = Some (int k, None, w')"
      and idle: "\<forall>r \<in> set (pockets (w_db w')). \<not> rule_due rule (w_clock w' (w_tick w' - 1)) r"
    using drain_loop_ends [OF reach, of rule nothing_locked 0] by (auto simp: drainRule_def nothing_locked_def)
  have ticked: "w_clock w' = clk" "n \<le> w_tick w' - 1" "n \<le> w_tick w'"
    using drain_ticks [OF drain] w by (auto simp: stage_def)
  then have "none_due rule (clk n) (w_db w')"
    using idle mono none_due_earlier by (auto simp: none_due_def dest: rule_due_mono)
  moreover have "none_due r (clk n) (w_db w')" if "r \<in> ruled" for r
    using drain_keeps_none_due [OF drain reach later [OF that]] w that by (auto simp: stage_def)
  ultimately have "stage a g0 clk n (insert rule ruled) w'"
    using w ticked app_reach.drain [OF _ drain] by (auto simp: stage_def)
  with drain show "\<exists>m e w'. drainRule a rule nothing_locked w = Some (m, e, w') \<and> 0 \<le> m \<and>
      stage a g0 clk n (insert rule ruled) w'" by force
qed

text \<open>The passes over legs leave every pocket alone.\<close>

lemma quiet_stage:
  assumes "stage a g0 clk n ruled w" and "w' = exec_app a op w" and "app_op_ok op"
    and "pockets (w_db w') = pockets (w_db w)"
  shows "stage a g0 clk n ruled w'"
  using assms app_reach.op [of a g0 w op] passes_clock [OF passes_exec, of a op w]
    passes_tick [OF passes_exec, of w a op] by (auto simp: stage_def none_due_def)

lemma resolve_legs_pockets: "pockets (w_db (snd (resolve_legs a legs m w))) = pockets (w_db w)"
proof (induction legs arbitrary: m w)
  case (Cons leg legs)
  have "pockets (w_db (snd (resolve_leg a leg w))) = pockets (w_db w)"
    by (auto simp: resolve_leg_def leave_leg_def gw_io_def split: option.split prod.splits sum.splits
        payout_status.splits)
  with Cons.IH show ?case by (auto split: prod.split)
qed simp

lemma resolve_legs_count: "m \<le> fst (resolve_legs a legs m w)"
proof (induction legs arbitrary: m w)
  case (Cons leg legs)
  obtain out w1 where r: "resolve_leg a leg w = (out, w1)" by fastforce
  with Cons.IH [of "m + 1" w1] Cons.IH [of m w1] show ?case by simp
qed simp

lemma sweep_pending_pockets:
  "pockets (w_db (snd (snd (sweep_pending a legs m w)))) = pockets (w_db w) \<and>
   m \<le> fst (sweep_pending a legs m w)"
proof (induction legs arbitrary: m w)
  case (Cons leg legs)
  obtain r w1 where p: "payLeg a leg w = (r, w1)" by fastforce
  then have "pockets (w_db w1) = pockets (w_db w)" using payLeg_pockets [of a leg w] by simp
  with Cons.IH [of "m + 1" w1] p show ?case by (cases r) auto
qed simp

lemma verify_all_count: "verify_all a pids m w = (Inr k, w') \<Longrightarrow> m \<le> k"
proof (induction pids arbitrary: m w)
  case (Cons pid pids)
  then show ?case by (fastforce simp: try_io_def split: prod.splits sum.splits if_splits)
qed (simp add: return_io_def)

lemma SweepPendingFundingVerification_count:
  "SweepPendingFundingVerification a w = (Inr k, w') \<Longrightarrow> 0 \<le> k"
  by (auto simp: SweepPendingFundingVerification_def return_io_def bind_io_def now_io_def db_read_def
      dest: verify_all_count split: option.splits)

lemma verification_stage: "op_takes (stage a g0 clk n {}) (stage a g0 clk n {}) (verification_op a)"
  unfolding op_takes_def
proof (intro allI impI)
  fix w
  assume w: "stage a g0 clk n {} w"
  obtain r w' where run: "SweepPendingFundingVerification a w = (r, w')" by fastforce
  then have "w_clock w' = w_clock w" "w_tick w \<le> w_tick w'"
    using ticks_sweep_funding [of a] unfolding ticks_def passes_def by (metis snd_conv)+
  moreover have "app_reach a g0 w'"
    using app_reach.op [of a g0 w AppSweepFunding] w run by (simp add: stage_def)
  ultimately have "stage a g0 clk n {} w'" using w by (simp add: stage_def)
  with run show "\<exists>m e w'. verification_op a w = Some (m, e, w') \<and> 0 \<le> m \<and> stage a g0 clk n {} w'"
    by (cases r) (auto simp: verification_op_def dest: SweepPendingFundingVerification_count)
qed

lemma inflight_stage: "op_takes (stage a g0 clk n ruled) (stage a g0 clk n ruled) (inflight_op a)"
  unfolding op_takes_def
proof (intro allI impI)
  fix w
  assume w: "stage a g0 clk n ruled w"
  obtain k w' where run: "SweepInflightSettlementLegs a w = (k, w')" by fastforce
  note q = resolve_legs_pockets [of a "InflightSettlementLegs (w_db w)" 0 w]
    resolve_legs_count [of 0 a "InflightSettlementLegs (w_db w)" w]
  have "stage a g0 clk n ruled w'"
    by (rule quiet_stage [OF w, of _ AppSweepInflight])
      (use run q in \<open>simp_all add: SweepInflightSettlementLegs_def\<close>)
  with run q show "\<exists>m e w'. inflight_op a w = Some (m, e, w') \<and> 0 \<le> m \<and> stage a g0 clk n ruled w'"
    by (simp add: inflight_op_def SweepInflightSettlementLegs_def)
qed

lemma pending_stage:
  "op_takes (stage a g0 clk n ruled) (stage a g0 clk n ruled) (\<lambda>w. Some (SweepPendingSettlementLegs a w))"
  unfolding op_takes_def
proof (intro allI impI)
  fix w
  assume w: "stage a g0 clk n ruled w"
  obtain k e w' where run: "SweepPendingSettlementLegs a w = (k, e, w')" by (metis prod_cases3)
  note q = sweep_pending_pockets [of a "PendingSettlementLegs (w_db w)" 0 w]
  have "stage a g0 clk n ruled w'"
    by (rule quiet_stage [OF w, of _ AppSweepPending])
      (use run q in \<open>simp_all add: SweepPendingSettlementLegs_def\<close>)
  with run q show "\<exists>m e w'. Some (SweepPendingSettlementLegs a w) = Some (m, e, w') \<and> 0 \<le> m \<and>
      stage a g0 clk n ruled w'"
    by (simp add: SweepPendingSettlementLegs_def)
qed

section \<open>The claims\<close>

text \<open>The application meets the driver's contract from any reachable world, whatever is locked.\<close>

lemma reach_takes:
  assumes "\<And>w. app_reach a g0 w \<Longrightarrow> \<exists>n e w'. f w = Some (n, e, w') \<and> 0 \<le> n \<and> app_reach a g0 w'"
  shows "op_takes (app_reach a g0) (app_reach a g0) f"
  using assms by (simp add: op_takes_def)

lemma drain_takes: "op_takes (app_reach a g0) (app_reach a g0) (drainRule a rule locked)"
proof (rule reach_takes)
  fix w
  assume w: "app_reach a g0 w"
  obtain k w' where drain: "drainRule a rule locked w = Some (int k, None, w')"
    using drain_loop_ends [OF app_reach_db [OF w], of rule locked 0] by (auto simp: drainRule_def)
  with app_reach.drain [OF w drain] show "\<exists>n e w'. drainRule a rule locked w = Some (n, e, w') \<and> 0 \<le> n \<and>
      app_reach a g0 w'" by force
qed

interpretation app_sweeps: sweep_driver "app_driver a locked" "app_reach a g0" for a locked g0
proof unfold_locales
  have stage: "app_reach a g0 w \<longleftrightarrow> stage a g0 (w_clock w) 0 {} w" for w
    by (simp add: stage_def)
  show "op_takes (app_reach a g0) (app_reach a g0) (dv_PendingFundingVerification (app_driver a locked))"
    "op_takes (app_reach a g0) (app_reach a g0) (dv_InflightSettlementLegs (app_driver a locked))"
    "op_takes (app_reach a g0) (app_reach a g0) (dv_PendingSettlementLegs (app_driver a locked))"
    using verification_stage [of a g0] inflight_stage [of a g0 _ _ "{}"] pending_stage [of a g0 _ _ "{}"]
    unfolding op_takes_def app_driver_def driver.simps by (metis stage stage_def)+
qed (simp_all add: app_driver_def drain_takes SweepExpiredFunding_def SweepDeliveryDeadlines_def
    SweepGraceRefunds_def SweepDueSettlements_def)

text \<open>C14: One undisturbed tick of the sweeper clears everything overdue: from any reachable world, and
  whatever the provider answers, it returns, and no pocket is left whose funding window, delivery
  deadline, attested grace period or inspection window had ended when the tick began.  The
  hypothesis on the clock is that it never runs backwards.\<close>

theorem tick_clears_overdue:
  assumes "app_reach a g0 w" and "\<And>i j. i \<le> j \<Longrightarrow> w_clock w i \<le> w_clock w j"
  shows "\<exists>rep w'. Tick (NewSweeper (app_driver a nothing_locked) interval) w = Some (rep, w') \<and>
    app_reach a g0 w' \<and> (\<forall>rule. none_due rule (w_clock w (w_tick w)) (w_db w'))"
proof -
  let ?S = "stage a g0 (w_clock w) (w_tick w)" and ?drv = "app_driver a nothing_locked"
  let ?E = "{RuleExpiredFunding}" and ?D = "{RuleDeliveryDeadline, RuleExpiredFunding}"
    and ?G = "{RuleGraceRefund, RuleDeliveryDeadline, RuleExpiredFunding}"
    and ?A = "{RuleDueSettlement, RuleGraceRefund, RuleDeliveryDeadline, RuleExpiredFunding}"
  note drain = drain_stage [of "w_clock w" _ _ a g0 "w_tick w", OF assms(2)]
  note defs = app_driver_def SweepExpiredFunding_def SweepDeliveryDeadlines_def
    SweepGraceRefunds_def SweepDueSettlements_def
  have "op_takes (?S {}) (?S {}) (dv_PendingFundingVerification ?drv)"
    by (simp add: app_driver_def verification_stage)
  moreover have "op_takes (?S {}) (?S ?E) (dv_ExpiredFunding ?drv)"
    "op_takes (?S ?E) (?S ?D) (dv_DeliveryDeadlines ?drv)"
    "op_takes (?S ?D) (?S ?G) (dv_GraceRefunds ?drv)"
    "op_takes (?S ?G) (?S ?A) (dv_DueSettlements ?drv)"
    unfolding defs driver.simps by (rule drain; auto)+
  moreover have "op_takes (?S ?A) (?S ?A) (dv_InflightSettlementLegs ?drv)"
    "op_takes (?S ?A) (?S ?A) (dv_PendingSettlementLegs ?drv)"
    by (simp_all add: app_driver_def inflight_stage pending_stage)
  moreover have "?S {} w" using assms(1) by (simp add: stage_def)
  ultimately obtain rep w' where run: "Tick (NewSweeper ?drv interval) w = Some (rep, w')"
      and all: "?S ?A w'"
    by (rule tick_stages)
  have "none_due rule (w_clock w (w_tick w)) (w_db w')" for rule
    using all by (cases rule) (auto simp: stage_def)
  with run all show ?thesis by (auto simp: stage_def)
qed

theorem tick_clears_overdue_witness:
  "\<exists>rep w'. Tick (NewSweeper (app_driver demo_app nothing_locked) 0) (demo_world 7) = Some (rep, w') \<and>
     none_due RuleDueSettlement (w_clock (demo_world 7) (w_tick (demo_world 7))) (w_db w')"
proof -
  have "w_clock (demo_world 7) = w_clock demo_start"
    unfolding demo_world_def by (rule passes_clock [OF passes_ops])
  then have "w_clock (demo_world 7) i \<le> w_clock (demo_world 7) j" if "i \<le> j" for i j
    using that by (simp add: demo_start_def time_Minute_def)
  from tick_clears_overdue [OF demo_app_reach this, of 0] show ?thesis by blast
qed

end
