(* ===== verification/Go_Paths.thy ===== *)
theory Go_Paths
  imports Go_Strings
begin

text \<open>
  Go's \<^verbatim>\<open>path/filepath\<close> on Unix (\<^verbatim>\<open>Clean\<close>, \<^verbatim>\<open>Base\<close>, \<^verbatim>\<open>Join\<close>) and the
  rune-wise \<^verbatim>\<open>strings.Map\<close>, on byte strings.  None of these definitions models repository
  code; they are what the evidence store builds its file names from.
\<close>

section \<open>Paths\<close>

abbreviation slash :: char where "slash \<equiv> CHR ''/''"
abbreviation dot :: string where "dot \<equiv> ''.''"
abbreviation dotdot :: string where "dotdot \<equiv> ''..''"

text \<open>The kept elements, innermost first, while the rest is read.\<close>

fun clean_parts :: "bool \<Rightarrow> string list \<Rightarrow> string list \<Rightarrow> string list" where
  "clean_parts rooted acc [] = rev acc"
| "clean_parts rooted acc (p # ps) =
     (if p = [] \<or> p = dot then clean_parts rooted acc ps
      else if p = dotdot then
        (case acc of
           [] \<Rightarrow> clean_parts rooted (if rooted then [] else [dotdot]) ps
         | a # as \<Rightarrow> clean_parts rooted (if a = dotdot then dotdot # acc else as) ps)
      else clean_parts rooted (p # acc) ps)"

definition is_rooted :: "string \<Rightarrow> bool" where
  "is_rooted s = has_prefix [slash] s"

definition path_parts :: "string \<Rightarrow> string list" where
  "path_parts s = clean_parts (is_rooted s) [] (split_on slash s)"

definition path_Clean :: "string \<Rightarrow> string" where
  "path_Clean s =
     (if is_rooted s then slash # join_with slash (path_parts s)
      else if path_parts s = [] then dot else join_with slash (path_parts s))"

definition path_Base :: "string \<Rightarrow> string" where
  "path_Base s =
     (if s = [] then dot
      else (let t = rev (dropWhile (\<lambda>c. c = slash) (rev s)) in
        if t = [] then [slash] else last (split_on slash t)))"

definition path_Join :: "string list \<Rightarrow> string" where
  "path_Join es = (case filter (\<lambda>e. e \<noteq> []) es of
     [] \<Rightarrow> [] | fs \<Rightarrow> path_Clean (join_with slash fs))"

text \<open>A plain element names a file of its directory.\<close>

definition plain_element :: "string \<Rightarrow> bool" where
  "plain_element p \<longleftrightarrow> p \<noteq> [] \<and> p \<noteq> dot \<and> p \<noteq> dotdot \<and> slash \<notin> set p"

lemma clean_parts_plain:
  "plain_element p \<Longrightarrow> clean_parts rooted acc (ps @ [p]) = clean_parts rooted acc ps @ [p]"
  by (induction rooted acc ps rule: clean_parts.induct) (auto simp: plain_element_def split: list.split)

text \<open>A clean list: leading parent steps, none under the root, then names.\<close>

definition clean_list :: "bool \<Rightarrow> string list \<Rightarrow> bool" where
  "clean_list rooted ps \<longleftrightarrow>
     (\<exists>k xs. ps = replicate k dotdot @ xs \<and> list_all plain_element xs \<and> (rooted \<longrightarrow> k = 0))"

lemma clean_list_plain:
  assumes "plain_element p" and "clean_list rooted ps"
  shows "clean_list rooted (ps @ [p])"
proof -
  obtain k xs where "ps = replicate k dotdot @ xs" "list_all plain_element xs" "rooted \<longrightarrow> k = 0"
    using assms(2) by (auto simp: clean_list_def)
  with assms(1) have "ps @ [p] = replicate k dotdot @ (xs @ [p]) \<and> list_all plain_element (xs @ [p]) \<and>
      (rooted \<longrightarrow> k = 0)" by simp
  then show ?thesis unfolding clean_list_def by blast
qed

lemma clean_list_snoc:
  assumes "clean_list rooted (ps @ [p])"
  shows "clean_list rooted ps" and "p = dotdot \<Longrightarrow> \<not> rooted \<and> clean_list rooted (ps @ [p, dotdot])"
proof -
  obtain k xs where ps: "ps @ [p] = replicate k dotdot @ xs" and xs: "list_all plain_element xs"
      and k: "rooted \<longrightarrow> k = 0"
    using assms by (auto simp: clean_list_def)
  have "clean_list rooted ps \<and> (p = dotdot \<longrightarrow> \<not> rooted \<and> clean_list rooted (ps @ [p, dotdot]))"
  proof (cases xs rule: rev_cases)
    case Nil
    then obtain j where "k = Suc j" using ps by (cases k) auto
    then have "ps = replicate j dotdot" "\<not> rooted" "ps @ [p, dotdot] = replicate (Suc k) dotdot @ []"
      using ps Nil k by (auto simp flip: replicate_append_same)
    then have "ps = replicate j dotdot @ []" "ps @ [p, dotdot] = replicate (Suc k) dotdot @ []" "\<not> rooted"
      by simp_all
    then show ?thesis unfolding clean_list_def by (metis list.pred_inject(1))
  next
    case (snoc ys y)
    with ps xs have "ps = replicate k dotdot @ ys" "p = y" "plain_element y" "list_all plain_element ys" by auto
    with k show ?thesis unfolding clean_list_def plain_element_def by blast
  qed
  then show "clean_list rooted ps" "p = dotdot \<Longrightarrow> \<not> rooted \<and> clean_list rooted (ps @ [p, dotdot])" by blast+
qed

lemma clean_list_start: "clean_list rooted []" "clean_list False [dotdot]"
  unfolding clean_list_def by (auto intro: exI [of _ "1::nat"])

lemma clean_parts_clean:
  "clean_list rooted (rev acc) \<Longrightarrow> \<forall>p \<in> set ps. slash \<notin> set p \<Longrightarrow> clean_list rooted (clean_parts rooted acc ps)"
proof (induction ps arbitrary: acc)
  case (Cons p ps)
  then have rest: "\<forall>p \<in> set ps. slash \<notin> set p" by simp
  consider (skip) "p = [] \<or> p = dot" | (parent) "p = dotdot" | (name) "plain_element p"
    using Cons.prems by (auto simp: plain_element_def)
  then show ?case
  proof cases
    case parent
    show ?thesis
    proof (cases acc)
      case Nil
      with parent Cons.IH [of "[]"] Cons.IH [of "[dotdot]"] rest clean_list_start show ?thesis by auto
    next
      case (Cons a as)
      with Cons.prems have "clean_list rooted (rev as @ [a])" by simp
      from clean_list_snoc [OF this] Cons.IH [of as] Cons.IH [of "dotdot # acc"] rest parent Cons
      show ?thesis by auto
    qed
  next
    case name
    with Cons.prems Cons.IH [of "p # acc"] rest clean_list_plain show ?thesis
      by (auto simp: plain_element_def)
  qed (use Cons in auto)
qed simp

lemma clean_parts_names: "list_all plain_element xs \<Longrightarrow> clean_parts rooted acc xs = rev acc @ xs"
  by (induction xs arbitrary: acc) (auto simp: plain_element_def)

lemma clean_parts_parents:
  "clean_parts False (replicate j dotdot) (replicate k dotdot @ xs) = clean_parts False (replicate (j + k) dotdot) xs"
proof (induction k arbitrary: j)
  case (Suc k)
  then show ?case using Suc [of "Suc j"] by (cases j) simp_all
qed simp

lemma clean_parts_idem:
  assumes "clean_list rooted ps"
  shows "clean_parts rooted [] ps = ps"
proof -
  obtain k xs where "ps = replicate k dotdot @ xs" "list_all plain_element xs" "rooted \<longrightarrow> k = 0"
    using assms by (auto simp: clean_list_def)
  then show ?thesis
    using clean_parts_parents [of 0 k xs] by (cases rooted) (simp_all add: clean_parts_names)
qed

lemma path_parts_clean: "clean_list (is_rooted s) (path_parts s)"
proof -
  have "\<forall>p \<in> set (split_on slash s). slash \<notin> set p" by (blast dest: split_on_parts)
  moreover have "clean_list (is_rooted s) (rev [])" using clean_list_start(1) by (simp only: rev.simps)
  ultimately show ?thesis unfolding path_parts_def by (rule clean_parts_clean [rotated])
qed

lemma clean_list_element:
  assumes "clean_list rooted ps" and "p \<in> set ps"
  shows "p \<noteq> [] \<and> p \<noteq> dot \<and> slash \<notin> set p"
proof -
  obtain k xs where ps: "ps = replicate k dotdot @ xs" and xs: "list_all plain_element xs"
    using assms(1) by (auto simp: clean_list_def)
  show ?thesis
  proof (cases "p = dotdot")
    case False
    then have "p \<in> set xs" using assms(2) ps by (auto dest: in_set_replicate [THEN iffD1])
    with xs show ?thesis by (simp add: list_all_iff plain_element_def)
  qed simp
qed

lemma not_rooted_join: "p \<noteq> [] \<Longrightarrow> slash \<notin> set p \<Longrightarrow> \<not> is_rooted (join_with slash (p # ps))"
  by (cases p; cases ps) (auto simp: is_rooted_def has_prefix_def)

text \<open>Cleaning a clean path changes nothing, and keeps whether it starts at the root.\<close>

lemma path_Clean_parts:
  shows "is_rooted (path_Clean s) = is_rooted s" and "path_parts (path_Clean s) = path_parts s"
proof -
  let ?ps = "path_parts s"
  have clean: "clean_list (is_rooted s) ?ps" by (rule path_parts_clean)
  then have seg: "\<forall>p \<in> set ?ps. slash \<notin> set p" using clean_list_element by blast
  have both: "is_rooted (path_Clean s) = is_rooted s \<and> path_parts (path_Clean s) = ?ps"
  proof (cases "is_rooted s")
    case True
    then have c: "path_Clean s = slash # join_with slash ?ps" by (simp add: path_Clean_def)
    have "split_on slash (path_Clean s) = [] # (if ?ps = [] then [[]] else ?ps)"
      using split_join [OF _ seg] by (simp add: c)
    then have "clean_parts True [] (split_on slash (path_Clean s)) = ?ps"
      using clean_parts_idem [of True ?ps] clean True by auto
    moreover have "is_rooted (path_Clean s)" by (simp add: c is_rooted_def has_prefix_def)
    ultimately show ?thesis using True by (simp add: path_parts_def [of "path_Clean s"])
  next
    case False
    show ?thesis
    proof (cases ?ps)
      case Nil
      with False have "path_Clean s = dot" by (simp add: path_Clean_def)
      moreover have "path_parts dot = []" "\<not> is_rooted dot"
        by (simp_all add: path_parts_def is_rooted_def has_prefix_def)
      ultimately show ?thesis using False Nil by simp
    next
      case (Cons p ps)
      then have "p \<noteq> []" "slash \<notin> set p" using clean clean_list_element by auto
      then have "\<not> is_rooted (join_with slash ?ps)" using not_rooted_join Cons by simp
      moreover have "path_Clean s = join_with slash ?ps" using False Cons by (simp add: path_Clean_def)
      moreover have "split_on slash (join_with slash ?ps) = ?ps" using split_join [OF _ seg] Cons by simp
      ultimately have "path_parts (path_Clean s) = clean_parts False [] ?ps"
        unfolding path_parts_def [of "path_Clean s"] by simp
      with clean_parts_idem [of False ?ps] clean False \<open>\<not> is_rooted (join_with slash ?ps)\<close>
        \<open>path_Clean s = join_with slash ?ps\<close> show ?thesis by simp
    qed
  qed
  then show "is_rooted (path_Clean s) = is_rooted s" "path_parts (path_Clean s) = path_parts s" by simp_all
qed

text \<open>Joining a plain name descends one step.\<close>

lemma split_on_snoc: "c \<notin> set p \<Longrightarrow> split_on c (s @ c # p) = split_on c s @ [p]"
  by (induction s) (auto simp: split_on_no_sep split: list.split)

lemma path_Join_name:
  assumes "plain_element p"
  shows "is_rooted (path_Join [s, p]) = is_rooted s" and "path_parts (path_Join [s, p]) = path_parts s @ [p]"
proof -
  have p: "p \<noteq> []" "slash \<notin> set p" using assms by (simp_all add: plain_element_def)
  have both: "is_rooted (path_Join [s, p]) = is_rooted s \<and> path_parts (path_Join [s, p]) = path_parts s @ [p]"
  proof (cases "s = []")
    case True
    then have "path_Join [s, p] = path_Clean p" using p by (simp add: path_Join_def)
    moreover have "\<not> is_rooted p" using not_rooted_join [OF p, of "[]"] by simp
    moreover from this have "path_parts p = [p]"
      using assms p(2) clean_parts_names [of "[p]"] unfolding path_parts_def by (simp add: split_on_no_sep)
    moreover have "path_parts [] = []" "\<not> is_rooted []"
      by (simp_all add: path_parts_def is_rooted_def has_prefix_def)
    ultimately show ?thesis using True by (simp add: path_Clean_parts)
  next
    case False
    then have "path_Join [s, p] = path_Clean (s @ slash # p)" using p by (simp add: path_Join_def)
    moreover have "is_rooted (s @ slash # p) = is_rooted s"
      using False by (cases s) (simp_all add: is_rooted_def has_prefix_def)
    moreover from this have "path_parts (s @ slash # p) = path_parts s @ [p]"
      using p clean_parts_plain [OF assms] by (simp add: path_parts_def split_on_snoc)
    ultimately show ?thesis by (simp add: path_Clean_parts)
  qed
  then show "is_rooted (path_Join [s, p]) = is_rooted s" "path_parts (path_Join [s, p]) = path_parts s @ [p]"
    by simp_all
qed

section \<open>Runes\<close>

text \<open>The width of the first UTF-8 rune of a byte string, 1 where it is not well-formed.\<close>

definition byte_at :: "string \<Rightarrow> nat \<Rightarrow> nat" where
  "byte_at s i = (if i < length s then of_char (s ! i) else 0)"

definition cont_byte :: "string \<Rightarrow> nat \<Rightarrow> bool" where
  "cont_byte s i \<longleftrightarrow> 128 \<le> byte_at s i \<and> byte_at s i < 192"

definition rune_width :: "string \<Rightarrow> nat" where
  "rune_width s = (let a = byte_at s 0; b = byte_at s 1 in
     if 194 \<le> a \<and> a < 224 \<and> cont_byte s 1 then 2
     else if 224 \<le> a \<and> a < 240 \<and> cont_byte s 1 \<and> cont_byte s 2 \<and>
       (a = 224 \<longrightarrow> 160 \<le> b) \<and> (a = 237 \<longrightarrow> b < 160) then 3
     else if 240 \<le> a \<and> a < 245 \<and> cont_byte s 1 \<and> cont_byte s 2 \<and> cont_byte s 3 \<and>
       (a = 240 \<longrightarrow> 144 \<le> b) \<and> (a = 244 \<longrightarrow> b < 144) then 4
     else 1)"

text \<open>\<open>strings.Map\<close> for a function that sends ASCII bytes to bytes and any other rune to one
  fixed byte.\<close>

function map_runes :: "(char \<Rightarrow> char) \<Rightarrow> char \<Rightarrow> string \<Rightarrow> string" where
  "map_runes f other [] = []"
| "map_runes f other (c # s) =
     (if (of_char c :: nat) < 128 then f c # map_runes f other s
      else other # map_runes f other (drop (rune_width (c # s) - 1) s))"
  by pat_completeness auto
termination by (relation "measure (\<lambda>(f, other, s). length s)") auto

lemma map_runes_chars: "c \<in> set (map_runes f other s) \<Longrightarrow> c = other \<or> (\<exists>x \<in> set s. c = f x)"
  by (induction f other s rule: map_runes.induct) (auto split: if_splits dest: in_set_dropD)

text \<open>\<^verbatim>\<open>strings.ReplaceAll(s, "..", "")\<close>.\<close>

fun drop_dots :: "string \<Rightarrow> string" where
  "drop_dots (a # b # s) = (if a = CHR ''.'' \<and> b = CHR ''.'' then drop_dots s else a # drop_dots (b # s))"
| "drop_dots s = s"

fun has_dots :: "string \<Rightarrow> bool" where
  "has_dots (a # b # s) = ((a = CHR ''.'' \<and> b = CHR ''.'') \<or> has_dots (b # s))"
| "has_dots s = False"

lemma drop_dots_head: "drop_dots s = x # ys \<Longrightarrow> s \<noteq> [] \<and> (hd s \<noteq> CHR ''.'' \<longrightarrow> x = hd s)"
  by (induction s rule: drop_dots.induct) (auto split: if_splits)

lemma drop_dots_none: "\<not> has_dots (drop_dots s)"
proof (induction s rule: drop_dots.induct)
  case (1 a b s)
  show ?case
  proof (cases "a = CHR ''.'' \<and> b = CHR ''.''")
    case False
    then have "\<not> (a = CHR ''.'' \<and> hd (drop_dots (b # s)) = CHR ''.'')" if "drop_dots (b # s) \<noteq> []"
      using that drop_dots_head [of "b # s"] by (cases "drop_dots (b # s)") auto
    with False 1 show ?thesis by (cases "drop_dots (b # s)") auto
  qed (use 1 in auto)
qed simp_all

lemma drop_dots_set: "set (drop_dots s) \<subseteq> set s"
  by (induction s rule: drop_dots.induct) auto

lemma has_dots_Cons: "has_dots (a # s) \<longleftrightarrow> (a = CHR ''.'' \<and> s \<noteq> [] \<and> hd s = CHR ''.'') \<or> has_dots s"
  by (cases s) auto

lemma has_dots_drop: "\<not> has_dots s \<Longrightarrow> \<not> has_dots (drop n s)"
proof (induction n arbitrary: s)
  case (Suc n)
  then show ?case by (cases s) (simp_all add: has_dots_Cons)
qed simp

lemma map_runes_dots:
  assumes f: "\<And>x. (f x = CHR ''.'') = (x = CHR ''.'')" and other: "other \<noteq> CHR ''.''"
  shows "\<not> has_dots s \<Longrightarrow> \<not> has_dots (map_runes f other s)"
proof (induction "length s" arbitrary: s rule: less_induct)
  case less
  show ?case
  proof (cases s)
    case (Cons c t)
    have t: "\<not> has_dots t" using less.prems Cons by (simp add: has_dots_Cons)
    have head: "t = x # u \<Longrightarrow> map_runes f other t \<noteq> [] \<and> hd (map_runes f other t) \<in> {f x, other}" for x u
      by simp
    have "\<not> has_dots (map_runes f other t)" using less.hyps [of t] t Cons by simp
    moreover have "\<not> has_dots (map_runes f other (drop n t))" for n
      using less.hyps [of "drop n t"] has_dots_drop [OF t] Cons by simp
    moreover have "c = CHR ''.'' \<Longrightarrow> map_runes f other t = [] \<or> hd (map_runes f other t) \<noteq> CHR ''.''"
      using head less.prems Cons f other by (cases t) (auto simp: has_dots_Cons)
    ultimately show ?thesis using Cons f other by (auto simp: has_dots_Cons)
  qed simp
qed

end
