(* ===== verification/Evidence_Store.thy ===== *)
theory Evidence_Store
  imports Go_Paths App_Cases
begin

text \<open>
  The blob store for dispute media (\<^verbatim>\<open>internal/evidence/evidence.go\<close>) over a file system
  that maps file names to contents.  What the operating system answers to each call is a record
  of outcomes; directories are not modelled beyond the outcome of creating them.
\<close>

section \<open>Safe names\<close>

definition segment_char :: "char \<Rightarrow> bool" where
  "segment_char c \<longleftrightarrow> (let n = (of_char c :: nat) in
     (97 \<le> n \<and> n \<le> 122) \<or> (65 \<le> n \<and> n \<le> 90) \<or> (48 \<le> n \<and> n \<le> 57) \<or> n = 45 \<or> n = 95 \<or> n = 46)"

definition safeSegment :: "string \<Rightarrow> string" where
  "safeSegment s =
     (let t = map_runes (\<lambda>c. if segment_char c then c else CHR ''-'') (CHR ''-'')
        (drop_dots (path_Base (path_Clean (slash # s))))
      in if t = [] \<or> t = dot then ''file'' else t)"

section \<open>Writing\<close>

record blob_store =
  bs_baseDir :: string

type_synonym files = "string \<Rightarrow> string option"

datatype blob_error = DirFailed | EntropyFailed error | CreateFailed | WriteFailed | TooLarge

text \<open>\<open>made\<close> is the outcome of creating the base directory.\<close>

definition NewFileStore :: "bool \<Rightarrow> string \<Rightarrow> blob_error + blob_store" where
  "NewFileStore made baseDir = (if made then Inr \<lparr>bs_baseDir = baseDir\<rparr> else Inl DirFailed)"

record blob_io =
  bo_mkdir :: bool
  bo_draw :: "string res"
  bo_create :: bool
  bo_data :: string
  bo_readFails :: bool
  bo_remove :: bool

text \<open>The removal of a partial file is best effort.\<close>

definition discard :: "blob_io \<Rightarrow> string \<Rightarrow> files \<Rightarrow> files" where
  "discard out path fs = (if bo_remove out then fs(path := None) else fs)"

definition randomPrefix :: "string res \<Rightarrow> string res" where
  "randomPrefix draw = bind_res draw (\<lambda>b. Inr (hex_encode b))"

definition blob_name :: "string \<Rightarrow> string \<Rightarrow> string" where
  "blob_name prefix filename = prefix @ ''_'' @ safeSegment filename"

text \<open>A reader that fails does so after the bytes it yields, so not when the limit cuts it first.\<close>

definition Put :: "blob_store \<Rightarrow> blob_io \<Rightarrow> string \<Rightarrow> string \<Rightarrow> int \<Rightarrow> files \<Rightarrow>
    (blob_error + (string \<times> int)) \<times> files" where
  "Put st out pocketID filename maxBytes fs =
     (let dir = path_Join [bs_baseDir st, safeSegment pocketID] in
      if \<not> bo_mkdir out then (Inl DirFailed, fs)
      else (case randomPrefix (bo_draw out) of
          Inl e \<Rightarrow> (Inl (EntropyFailed e), fs)
        | Inr prefix \<Rightarrow>
            (let name = blob_name prefix filename;
                 full = path_Join [dir, name];
                 limit = nat (i64 (maxBytes + 1));
                 written = take limit (bo_data out);
                 fs' = fs(full \<mapsto> written)
             in if \<not> bo_create out \<or> fs full \<noteq> None then (Inl CreateFailed, fs)
                else if bo_readFails out \<and> length (bo_data out) < limit
                then (Inl WriteFailed, discard out full fs')
                else if maxBytes < int (length written) then (Inl TooLarge, discard out full fs')
                else (Inr (path_Join [safeSegment pocketID, name], int (length written)), fs'))))"

section \<open>Containment\<close>

lemma segment_safe_char: "segment_char c \<Longrightarrow> c \<noteq> slash"
  by (auto simp: segment_char_def Let_def)

lemma safeSegment_props:
  "safeSegment s \<noteq> []" "safeSegment s \<noteq> dot" "\<not> has_dots (safeSegment s)" "list_all segment_char (safeSegment s)"
proof -
  let ?f = "\<lambda>c. if segment_char c then c else CHR ''-''"
  define t where "t = map_runes ?f (CHR ''-'') (drop_dots (path_Base (path_Clean (slash # s))))"
  have "segment_char (CHR ''-'')" "segment_char (CHR ''.'')" by (simp_all add: segment_char_def)
  then have "\<not> has_dots t" unfolding t_def by (intro map_runes_dots drop_dots_none) auto
  moreover have "list_all segment_char t"
    using \<open>segment_char (CHR ''-'')\<close> by (auto simp: t_def list_all_iff dest!: map_runes_chars)
  moreover have "safeSegment s = (if t = [] \<or> t = dot then ''file'' else t)"
    unfolding safeSegment_def t_def Let_def by simp
  moreover have "list_all segment_char ''file''" by (simp add: segment_char_def)
  ultimately show "safeSegment s \<noteq> []" "safeSegment s \<noteq> dot" "\<not> has_dots (safeSegment s)"
    "list_all segment_char (safeSegment s)" by auto
qed

lemma safeSegment_plain: "plain_element (safeSegment s)"
proof -
  have "slash \<notin> set (safeSegment s)"
    using safeSegment_props(4) segment_safe_char by (fastforce simp: list_all_iff)
  moreover have "safeSegment s \<noteq> dotdot" using safeSegment_props(3) by (metis has_dots.simps(1))
  ultimately show ?thesis using safeSegment_props(1,2) by (simp add: plain_element_def)
qed

lemma blob_name_plain: "plain_element (blob_name (hex_encode raw) filename)"
proof -
  have "slash \<notin> set (hex_encode raw)" using hex_encode_chars [of slash raw] by auto
  then have "slash \<notin> set (blob_name (hex_encode raw) filename)"
    using safeSegment_plain [of filename] by (auto simp: plain_element_def blob_name_def)
  moreover have "CHR ''_'' \<in> set (blob_name (hex_encode raw) filename)" by (simp add: blob_name_def)
  then have "blob_name (hex_encode raw) filename \<notin> {dot, dotdot, []}"
    by (auto simp del: set_append dest: arg_cong [where f = set])
  ultimately show ?thesis by (simp add: plain_element_def)
qed

lemma plain_parts: "plain_element p \<Longrightarrow> path_parts p = [p] \<and> \<not> is_rooted p"
  using path_Join_name [of p "[]"] path_Clean_parts [of p]
  by (simp add: path_Join_def plain_element_def path_parts_def is_rooted_def has_prefix_def)

lemma ref_text:
  assumes "plain_element p" and "plain_element q"
  shows "path_Join [p, q] = p @ slash # q"
proof -
  have "path_Join [p, q] = path_Clean (p @ slash # q)"
    using assms by (simp add: path_Join_def plain_element_def)
  moreover have "path_parts (p @ slash # q) = [p, q]" "\<not> is_rooted (p @ slash # q)"
    using path_Join_name [OF assms(2), of p] plain_parts [OF assms(1)] calculation
    by (simp_all add: path_Clean_parts)
  ultimately show ?thesis by (simp add: path_Clean_def)
qed

text \<open>C28: No upload escapes its pocket's directory, overwrites anything or is stored in part: a stored
  file lies, whatever the caller's pocket id and file name, exactly two steps below the base
  directory, in a file that did not exist, holding every byte of the upload, which is within the
  cap; its reference is that relative path.  A failed upload leaves no file behind once its
  partial file is removed.\<close>

theorem evidence_contained:
  assumes "in_i64 (maxBytes + 1)"
  shows "case Put st out pocketID filename maxBytes fs of
      (Inr (ref, n), fs') \<Rightarrow> (\<exists>name full.
         path_parts full = path_parts (bs_baseDir st) @ [safeSegment pocketID, name] \<and>
         is_rooted full = is_rooted (bs_baseDir st) \<and> plain_element (safeSegment pocketID) \<and>
         plain_element name \<and> ref = safeSegment pocketID @ slash # name \<and>
         fs full = None \<and> fs' = fs(full \<mapsto> bo_data out) \<and>
         n = int (length (bo_data out)) \<and> n \<le> maxBytes)
    | (Inl e, fs') \<Rightarrow> bo_remove out \<longrightarrow> fs' = fs"
proof (cases "bo_mkdir out \<and> (\<exists>raw. bo_draw out = Inr raw)")
  case False
  then show ?thesis by (cases "bo_draw out") (auto simp: Put_def randomPrefix_def Let_def)
next
  case True
  then obtain raw where raw: "bo_mkdir out" "bo_draw out = Inr raw" by blast
  let ?seg = "safeSegment pocketID" and ?name = "blob_name (hex_encode raw) filename"
  let ?full = "path_Join [path_Join [bs_baseDir st, ?seg], ?name]"
  note plain = safeSegment_plain [of pocketID] blob_name_plain [of raw filename]
  have limit: "nat (i64 (maxBytes + 1)) = nat (maxBytes + 1)" using assms by (simp add: i64_id)
  have loc: "path_parts ?full = path_parts (bs_baseDir st) @ [?seg, ?name]"
    "is_rooted ?full = is_rooted (bs_baseDir st)"
    using path_Join_name [OF plain(1)] path_Join_name [OF plain(2)] by simp_all
  have whole: "take (nat (maxBytes + 1)) (bo_data out) = bo_data out \<and> int (length (bo_data out)) \<le> maxBytes"
    if "\<not> maxBytes < int (length (take (nat (maxBytes + 1)) (bo_data out)))"
    using that by (auto simp: min_def split: if_splits)
  show ?thesis
    using loc plain ref_text [OF plain] whole
    by (auto simp: Put_def randomPrefix_def raw limit discard_def fun_upd_idem_iff Let_def)
qed

definition demo_upload :: "string \<Rightarrow> blob_io" where
  "demo_upload data = \<lparr>bo_mkdir = True, bo_draw = Inr ''r'', bo_create = True, bo_data = data,
     bo_readFails = False, bo_remove = True\<rparr>"

theorem evidence_contained_witness:
  "\<exists>full. snd (Put \<lparr>bs_baseDir = ''./data''\<rparr> (demo_upload ''ok'') ''p1'' ''../../etc/passwd'' 5 (\<lambda>_. None)) =
     [full \<mapsto> ''ok''] \<and> path_parts full = [''data'', ''p1'', ''72_passwd'']"
proof -
  have "fst (Put \<lparr>bs_baseDir = ''./data''\<rparr> (demo_upload ''ok'') ''p1'' ''../../etc/passwd'' 5 (\<lambda>_. None)) =
      Inr (''p1/72_passwd'', 2)" by code_simp
  then obtain fs' where "Put \<lparr>bs_baseDir = ''./data''\<rparr> (demo_upload ''ok'') ''p1'' ''../../etc/passwd'' 5 (\<lambda>_. None) =
      (Inr (''p1/72_passwd'', 2), fs')" by (metis prod.collapse)
  moreover have "safeSegment ''p1'' = ''p1''" "path_parts ''./data'' = [''data'']" by code_simp+
  ultimately show ?thesis
    using evidence_contained [where maxBytes = 5 and st = "\<lparr>bs_baseDir = ''./data''\<rparr>" and
        out = "demo_upload ''ok''" and pocketID = "''p1''" and filename = "''../../etc/passwd''" and
        fs = "\<lambda>_. None"]
    by (auto simp: in_i64_def demo_upload_def)
qed

end
