(* ===== verification/Float64.thy ===== *)
theory Float64
  imports Complex_Main "HOL-Library.Log_Nat"
begin

text \<open>
  The rounding of Go's \<^verbatim>\<open>float64\<close>: an operation's exact rational result is rounded to 53
  significant bits, to the nearest and, from halfway, to the even neighbour.  The exponent is not
  bounded; no quantity of the backend comes near the ends of its range.  Shared vocabulary, not
  repository code.
\<close>

text \<open>The exponent of the leading bit, from the bit lengths of numerator and denominator.\<close>

definition binade :: "rat \<Rightarrow> int" where
  "binade x = (case quotient_of x of (p, q) \<Rightarrow>
     let k = bitlen p - bitlen q in if x < 2 powi k then k - 1 else k)"

definition round_even :: "rat \<Rightarrow> int" where
  "round_even x = (let n = \<lfloor>x\<rfloor>; rest = x - of_int n in
     if rest < 1 / 2 then n else if 1 / 2 < rest then n + 1 else if even n then n else n + 1)"

definition f64 :: "rat \<Rightarrow> rat" where
  "f64 x = (if x = 0 then 0
     else (let u = 2 powi (binade \<bar>x\<bar> - 52) in of_int (round_even (x / u)) * u))"

section \<open>The error of one operation\<close>

lemma bitlen_powi:
  assumes "0 < n"
  shows "2 powi (bitlen n - 1) \<le> (of_int n :: rat)" "(of_int n :: rat) < 2 powi bitlen n"
proof -
  have len: "0 < bitlen n" using assms bitlen_nonneg [of n] bitlen_eq_zero_iff [of n] by linarith
  note b = bitlen_bounds [OF assms]
  have "(of_int (2 ^ nat (bitlen n - 1)) :: rat) \<le> of_int n" using b by (simp only: of_int_le_iff)
  then show "2 powi (bitlen n - 1) \<le> (of_int n :: rat)" using len by (simp add: power_int_def)
  have "(of_int n :: rat) < of_int (2 ^ nat (bitlen n))" using b by (simp only: of_int_less_iff)
  then show "(of_int n :: rat) < 2 powi bitlen n" using len by (simp add: power_int_def)
qed

lemma binade_bounds:
  assumes "0 < x"
  shows "2 powi binade x \<le> x" "x < 2 powi (binade x + 1)"
proof -
  obtain p q where pq: "quotient_of x = (p, q)" by fastforce
  then have q: "0 < q" and x: "x = of_int p / of_int q"
    using quotient_of_denom_pos quotient_of_div by blast+
  with assms have p: "0 < p" by (simp add: zero_less_divide_iff)
  let ?k = "bitlen p - bitlen q"
  note P = bitlen_powi [OF p] and Q = bitlen_powi [OF q]
  have "2 powi (?k - 1) * (of_int q :: rat) \<le> 2 powi (?k - 1) * 2 powi bitlen q"
    using Q(2) by (intro mult_left_mono) simp_all
  also have "\<dots> = 2 powi (bitlen p - 1)" by (simp flip: power_int_add)
  finally have low: "2 powi (?k - 1) \<le> x" using P(1) q by (simp add: x pos_le_divide_eq)
  have "(of_int p :: rat) < 2 powi bitlen p" by (rule P(2))
  also have "\<dots> = 2 powi (?k + 1) * 2 powi (bitlen q - 1)" by (simp flip: power_int_add)
  also have "\<dots> \<le> 2 powi (?k + 1) * (of_int q :: rat)" using Q(1) by (intro mult_left_mono) simp_all
  finally have high: "x < 2 powi (?k + 1)" using q by (simp add: x pos_divide_less_eq)
  show "2 powi binade x \<le> x" "x < 2 powi (binade x + 1)"
    using low high by (auto simp: binade_def pq Let_def not_less)
qed

lemma round_even_close: "\<bar>of_int (round_even x) - x\<bar> \<le> 1 / 2"
proof -
  have "of_int \<lfloor>x\<rfloor> \<le> x" "x < of_int \<lfloor>x\<rfloor> + 1" by linarith+
  then show ?thesis by (auto simp: round_even_def Let_def abs_le_iff)
qed

definition eps :: rat where
  "eps = 1 / 2 ^ 53"

lemma eps_pos [simp]: "0 < eps" "0 \<le> eps"
  by (simp_all add: eps_def)

lemma f64_error: "\<bar>f64 x - x\<bar> \<le> eps * \<bar>x\<bar>"
proof (cases "x = 0")
  case False
  let ?u = "2 powi (binade \<bar>x\<bar> - 52) :: rat"
  have u: "0 < ?u" by simp
  have "\<bar>f64 x - x\<bar> = \<bar>(of_int (round_even (x / ?u)) - x / ?u) * ?u\<bar>"
    using False u by (simp add: f64_def Let_def left_diff_distrib)
  also have "\<dots> = \<bar>of_int (round_even (x / ?u)) - x / ?u\<bar> * ?u" using u by (simp add: abs_mult)
  also have "\<dots> \<le> 1 / 2 * ?u" using round_even_close u by (intro mult_right_mono) simp_all
  also have "1 / 2 * ?u = eps * 2 powi binade \<bar>x\<bar>" by (simp add: power_int_diff eps_def)
  also have "\<dots> \<le> eps * \<bar>x\<bar>" using binade_bounds [of "\<bar>x\<bar>"] False by (intro mult_left_mono) simp_all
  finally show ?thesis .
qed (simp add: f64_def)

lemma f64_le: "0 \<le> x \<Longrightarrow> f64 x \<le> x * (1 + eps)"
  using f64_error [of x] by (simp add: algebra_simps abs_le_iff)

lemma f64_ge: "0 \<le> x \<Longrightarrow> x * (1 - eps) \<le> f64 x"
  using f64_error [of x] by (simp add: algebra_simps abs_le_iff)

lemma f64_nonneg: "0 \<le> x \<Longrightarrow> 0 \<le> f64 x"
  using f64_ge [of x] mult_nonneg_nonneg [of x "1 - eps"] by (simp add: eps_def)

lemma f64_pos: "0 < x \<Longrightarrow> 0 < f64 x"
  using f64_ge [of x] mult_pos_pos [of x "1 - eps"] by (simp add: eps_def)

lemma f64_nonpos: "x \<le> 0 \<Longrightarrow> f64 x \<le> 0"
proof -
  assume "x \<le> 0"
  moreover from this have "f64 x \<le> x - eps * x" using f64_error [of x] by (simp add: abs_le_iff)
  moreover have "x * (1 - eps) \<le> 0" using \<open>x \<le> 0\<close> by (simp add: mult_le_0_iff eps_def)
  ultimately show ?thesis by (simp add: algebra_simps)
qed

text \<open>Two successive bounds multiply.\<close>

lemma f64_le_trans: "0 \<le> x \<Longrightarrow> x \<le> y \<Longrightarrow> f64 x \<le> y * (1 + eps)"
  by (rule order_trans [OF f64_le]) (simp_all add: mult_right_mono)

text \<open>A tenth, a third and the first integer that is not representable.\<close>

lemma f64_samples:
  "f64 (1 / 10) = 3602879701896397 / 36028797018963968" "f64 (1 / 3) = 6004799503160661 / 18014398509481984"
  "f64 9007199254740993 = 9007199254740992" "f64 (- 5 / 2) = - 5 / 2"
  by code_simp+

end
