(* ===== verification/Rate_Limit.thy ===== *)
theory Rate_Limit
  imports Float64 App_Cases
begin

text \<open>
  The token-bucket limiter (\<^verbatim>\<open>internal/ratelimit/ratelimit.go\<close>).  Tokens and rates are
  rationals, and every \<^verbatim>\<open>float64\<close> operation on them is the exact one rounded by \<open>f64\<close>.
\<close>

section \<open>The limiter\<close>

record bucket =
  bk_tokens :: rat
  bk_last :: gotime

record limiter =
  lm_rate :: rat
  lm_burst :: rat
  lm_buckets :: "string \<Rightarrow> bucket option"
  lm_sweepAt :: gotime

definition time_Second :: duration where
  "time_Second = 1000000000"

text \<open>\<^verbatim>\<open>Duration.Seconds\<close>: whole seconds and the rest, by truncating division.\<close>

definition Seconds :: "duration \<Rightarrow> rat" where
  "Seconds d = (let sec = sgn d * (\<bar>d\<bar> div time_Second); nsec = sgn d * (\<bar>d\<bar> mod time_Second) in
     f64 (f64 (of_int sec) + f64 (f64 (of_int nsec) / 1000000000)))"

definition New_limiter :: "rat \<Rightarrow> int \<Rightarrow> limiter" where
  "New_limiter ratePerMinute burst =
     \<lparr>lm_rate = f64 ((if ratePerMinute \<le> 0 then 60 else ratePerMinute) / 60),
      lm_burst = f64 (of_int (if burst \<le> 0 then 1 else burst)),
      lm_buckets = (\<lambda>_. None), lm_sweepAt = 0\<rparr>"

text \<open>The time after which a bucket is dropped: whole seconds, a minute at least.\<close>

definition idle_limit :: "limiter \<Rightarrow> duration" where
  "idle_limit l = (let idle = i64 (\<lfloor>f64 (lm_burst l / lm_rate l)\<rfloor> * time_Second) in
     if idle < time_Minute then time_Minute else idle)"

definition limiter_sweep :: "limiter \<Rightarrow> gotime \<Rightarrow> limiter" where
  "limiter_sweep l now =
     (if Before now (lm_sweepAt l) then l
      else l\<lparr>lm_sweepAt := now + time_Minute,
             lm_buckets := (\<lambda>k. case lm_buckets l k of
                 None \<Rightarrow> None
               | Some b \<Rightarrow> if idle_limit l < time_Sub now (bk_last b) then None else Some b)\<rparr>)"

definition refill :: "limiter \<Rightarrow> gotime \<Rightarrow> bucket \<Rightarrow> bucket" where
  "refill l now b = (let elapsed = Seconds (time_Sub now (bk_last b)) in
     if 0 < elapsed
     then \<lparr>bk_tokens = min (lm_burst l) (f64 (bk_tokens b + f64 (elapsed * lm_rate l))), bk_last = now\<rparr>
     else b)"

definition bucket_at :: "limiter \<Rightarrow> string \<Rightarrow> gotime \<Rightarrow> bucket" where
  "bucket_at l key now = refill l now (case lm_buckets l key of
       None \<Rightarrow> \<lparr>bk_tokens = lm_burst l, bk_last = now\<rparr> | Some b \<Rightarrow> b)"

definition with_bucket :: "limiter \<Rightarrow> string \<Rightarrow> bucket \<Rightarrow> limiter" where
  "with_bucket l key b = l\<lparr>lm_buckets := (lm_buckets l)(key \<mapsto> b)\<rparr>"

definition Allow :: "string \<Rightarrow> gotime \<Rightarrow> limiter \<Rightarrow> bool \<times> limiter" where
  "Allow key now l0 =
     (let l = limiter_sweep l0 now; b = bucket_at l key now in
      if bk_tokens b < 1 then (False, with_bucket l key b)
      else (True, with_bucket l key (b\<lparr>bk_tokens := f64 (bk_tokens b - 1)\<rparr>)))"

section \<open>Seconds in floating point\<close>

definition exact_seconds :: "duration \<Rightarrow> rat" where
  "exact_seconds d = of_int d / of_int time_Second"

lemma exact_simps:
  "exact_seconds (a + b) = exact_seconds a + exact_seconds b"
  "exact_seconds a \<le> exact_seconds b \<longleftrightarrow> a \<le> b" "0 \<le> exact_seconds a \<longleftrightarrow> 0 \<le> a" "exact_seconds 0 = 0"
  "exact_seconds a \<le> 0 \<longleftrightarrow> a \<le> 0"
  by (simp_all add: exact_seconds_def time_Second_def add_divide_distrib divide_le_cancel zero_le_divide_iff
      divide_le_0_iff)

lemma Seconds_le:
  assumes "0 \<le> d"
  shows "Seconds d \<le> exact_seconds d * (1 + eps) ^ 3"
proof -
  define a b where "a = d div time_Second" and "b = d mod time_Second"
  have ab: "0 \<le> a" "0 \<le> b" using assms by (simp_all add: a_def b_def time_Second_def)
  have d: "exact_seconds d = of_int a + of_int b / 1000000000"
  proof -
    have "(of_int d :: rat) = of_int (a * 1000000000 + b)" by (simp add: a_def b_def time_Second_def)
    then show ?thesis by (simp add: exact_seconds_def time_Second_def add_divide_distrib)
  qed
  have *: "f64 (of_int a) \<le> of_int a * (1 + eps)" "f64 (of_int b) / 1000000000 \<le> of_int b / 1000000000 * (1 + eps)"
    using f64_le [of "of_int a"] f64_le [of "of_int b"] ab by simp_all
  have "0 \<le> f64 (of_int b) / 1000000000" using f64_nonneg [of "of_int b"] ab by simp
  from f64_le_trans [OF this *(2)] have b': "f64 (f64 (of_int b) / 1000000000) \<le> of_int b / 1000000000 * (1 + eps) ^ 2"
    by (simp add: power2_eq_square mult.assoc)
  have "of_int a * (1 + eps) \<le> of_int a * (1 + eps) ^ 2"
    using ab power_increasing [of 1 2 "1 + eps"] by (intro mult_left_mono) simp_all
  then have "f64 (of_int a) + f64 (f64 (of_int b) / 1000000000) \<le> exact_seconds d * (1 + eps) ^ 2"
    using *(1) b' by (simp add: d distrib_right)
  moreover have "0 \<le> f64 (of_int a) + f64 (f64 (of_int b) / 1000000000)"
    using f64_nonneg [of "of_int a"] f64_nonneg [of "f64 (of_int b) / 1000000000"] f64_nonneg [of "of_int b"] ab by simp
  ultimately have "f64 (f64 (of_int a) + f64 (f64 (of_int b) / 1000000000)) \<le> exact_seconds d * (1 + eps) ^ 2 * (1 + eps)"
    by (intro f64_le_trans)
  moreover have "Seconds d = f64 (f64 (of_int a) + f64 (f64 (of_int b) / 1000000000))"
    using assms by (cases "d = 0") (simp_all add: Seconds_def a_def b_def sgn_if)
  ultimately show ?thesis by (simp add: power3_eq_cube power2_eq_square mult.assoc)
qed

lemma Seconds_pos_iff: "0 < Seconds d \<longleftrightarrow> 0 < d"
proof (cases d "0 :: int" rule: linorder_cases)
  case less
  have "f64 (- of_int (\<bar>d\<bar> div time_Second)) \<le> 0" "f64 (- of_int (\<bar>d\<bar> mod time_Second)) \<le> 0"
    by (rule f64_nonpos, simp add: time_Second_def)+
  moreover from this(2) have "f64 (f64 (- of_int (\<bar>d\<bar> mod time_Second)) / 1000000000) \<le> 0"
    by (intro f64_nonpos) simp
  ultimately have "Seconds d \<le> 0" using less by (auto simp: Seconds_def intro!: f64_nonpos)
  with less show ?thesis by simp
next
  case greater
  let ?a = "f64 (of_int (d div time_Second))" and ?b = "f64 (of_int (d mod time_Second))"
  have "0 < d div time_Second \<or> 0 < d mod time_Second"
    using greater by (cases "d < time_Second") (simp_all add: time_Second_def pos_imp_zdiv_pos_iff)
  then have "0 < ?a \<or> 0 < ?b" using f64_pos [of "of_int _"] by auto
  moreover have "0 \<le> ?a" "0 \<le> ?b" using greater by (simp_all add: f64_nonneg time_Second_def)
  moreover have "0 < ?b \<Longrightarrow> 0 < f64 (?b / 1000000000)" "0 \<le> ?b \<Longrightarrow> 0 \<le> f64 (?b / 1000000000)"
    by (simp_all add: f64_pos f64_nonneg)
  ultimately have "0 < ?a + f64 (?b / 1000000000)" by linarith
  with greater show ?thesis by (simp add: Seconds_def f64_pos)
qed (simp add: Seconds_def f64_def)

section \<open>What a key may still spend\<close>

text \<open>The tokens of a key now, at a rate that allows for the rounding of a refill.\<close>

definition fast :: "limiter \<Rightarrow> rat" where
  "fast l = lm_rate l * (1 + eps) ^ 5"

definition level :: "limiter \<Rightarrow> string \<Rightarrow> gotime \<Rightarrow> rat" where
  "level l key now = (case lm_buckets l key of
     None \<Rightarrow> lm_burst l
   | Some b \<Rightarrow> min (lm_burst l) (bk_tokens b + fast l * max 0 (exact_seconds (time_Sub now (bk_last b)))))"

definition slack :: "limiter \<Rightarrow> rat" where
  "slack l = eps * lm_burst l"

definition sound :: "limiter \<Rightarrow> bool" where
  "sound l \<longleftrightarrow> 0 < lm_rate l \<and> 0 \<le> lm_burst l \<and> lm_burst l \<le> 2 ^ 53 + 1 \<and>
     lm_burst l \<le> fast l * exact_seconds (idle_limit l) \<and>
     (\<forall>k b. lm_buckets l k = Some b \<longrightarrow> 0 \<le> bk_tokens b \<and> bk_tokens b \<le> lm_burst l)"

lemma fast_pos: "sound l \<Longrightarrow> 0 < fast l"
  by (simp add: sound_def fast_def add_pos_pos)

text \<open>The saturating difference grows no faster than the clock.\<close>

lemma time_Sub_step: "now \<le> later \<Longrightarrow> time_Sub now t \<le> time_Sub later t \<and>
    time_Sub later t \<le> time_Sub now t + (later - now)"
  by (auto simp: time_Sub_def)

lemma time_Sub_self [simp]: "time_Sub t t = 0"
  by (simp add: time_Sub_def)

lemma level_cong:
  "lm_buckets l' k = lm_buckets l k \<Longrightarrow> lm_rate l' = lm_rate l \<Longrightarrow> lm_burst l' = lm_burst l \<Longrightarrow>
     level l' k now = level l k now"
  by (simp add: level_def fast_def split: option.split)

lemma level_le_burst: "level l key now \<le> lm_burst l"
  by (simp add: level_def split: option.split)

lemma level_nonneg: "sound l \<Longrightarrow> 0 \<le> level l key now"
  using fast_pos [of l] by (auto simp: level_def sound_def split: option.split)

lemma level_grows:
  assumes "sound l" and "now \<le> later"
  shows "level l key later \<le> level l key now + fast l * exact_seconds (later - now)"
proof -
  have grow: "0 \<le> fast l * exact_seconds (later - now)"
    using fast_pos [OF assms(1)] assms(2) by (simp add: exact_simps)
  show ?thesis
  proof (cases "lm_buckets l key")
    case None
    with grow show ?thesis by (simp add: level_def)
  next
    case (Some b)
    let ?s = "exact_seconds (time_Sub now (bk_last b))" and ?t = "exact_seconds (time_Sub later (bk_last b))"
    have "?t \<le> exact_seconds (time_Sub now (bk_last b) + (later - now))"
      using time_Sub_step [OF assms(2), of "bk_last b"] by (simp only: exact_simps(2))
    then have "?t \<le> ?s + exact_seconds (later - now)" by (simp only: exact_simps(1))
    moreover have "0 \<le> exact_seconds (later - now)" using assms(2) by (simp add: exact_simps)
    ultimately have "max 0 ?t \<le> max 0 ?s + exact_seconds (later - now)" by linarith
    then have "fast l * max 0 ?t \<le> fast l * (max 0 ?s + exact_seconds (later - now))"
      using fast_pos [OF assms(1)] by (intro mult_left_mono) simp_all
    then have "fast l * max 0 ?t \<le> fast l * max 0 ?s + fast l * exact_seconds (later - now)"
      by (simp only: distrib_left)
    with grow Some show ?thesis by (simp add: level_def min_def)
  qed
qed

text \<open>Dropping idle buckets changes no level: they have refilled.\<close>

lemma limiter_sweep_fields [simp]:
  "lm_rate (limiter_sweep l now) = lm_rate l" "lm_burst (limiter_sweep l now) = lm_burst l"
  "fast (limiter_sweep l now) = fast l" "slack (limiter_sweep l now) = slack l"
  by (simp_all add: limiter_sweep_def fast_def slack_def)

lemma sound_sweep: "sound l \<Longrightarrow> sound (limiter_sweep l now)"
  by (auto simp: sound_def limiter_sweep_def idle_limit_def fast_def split: option.splits if_splits)

lemma level_sweep:
  assumes "sound l"
  shows "level (limiter_sweep l now) key now = level l key now"
proof (cases "lm_buckets l key")
  case None
  then show ?thesis by (simp add: level_def limiter_sweep_def)
next
  case (Some b)
  have "lm_burst l \<le> bk_tokens b + fast l * max 0 (exact_seconds (time_Sub now (bk_last b)))"
    if "idle_limit l < time_Sub now (bk_last b)"
  proof -
    have "exact_seconds (idle_limit l) \<le> max 0 (exact_seconds (time_Sub now (bk_last b)))"
      using that by (simp add: exact_simps max.coboundedI2)
    then have "fast l * exact_seconds (idle_limit l) \<le> fast l * max 0 (exact_seconds (time_Sub now (bk_last b)))"
      using fast_pos [OF assms] by (intro mult_left_mono) simp_all
    moreover have "0 \<le> bk_tokens b" "lm_burst l \<le> fast l * exact_seconds (idle_limit l)"
      using assms Some by (auto simp: sound_def)
    ultimately show ?thesis by linarith
  qed
  then show ?thesis using Some
    by (simp add: level_def limiter_sweep_def fast_def split: option.split)
qed

section \<open>One decision\<close>

lemma refill_tokens:
  assumes "sound l" and "0 \<le> bk_tokens b" and "bk_tokens b \<le> lm_burst l"
  shows "0 \<le> bk_tokens (refill l now b)" "bk_tokens (refill l now b) \<le> lm_burst l"
    "bk_tokens (refill l now b) \<le>
       min (lm_burst l) (bk_tokens b + fast l * max 0 (exact_seconds (time_Sub now (bk_last b)))) + slack l"
    "time_Sub now (bk_last (refill l now b)) \<le> 0"
proof -
  let ?d = "time_Sub now (bk_last b)" and ?t = "bk_tokens b"
  have l: "0 < lm_rate l" "0 \<le> lm_burst l" "0 \<le> slack l" using assms(1) by (auto simp: sound_def slack_def)
  show "time_Sub now (bk_last (refill l now b)) \<le> 0"
    by (simp add: refill_def Let_def Seconds_pos_iff not_less)
  have "0 \<le> bk_tokens (refill l now b) \<and> bk_tokens (refill l now b) \<le> lm_burst l \<and>
      bk_tokens (refill l now b) \<le> min (lm_burst l) (?t + fast l * max 0 (exact_seconds ?d)) + slack l"
  proof (cases "0 < ?d")
    case True
    let ?p = "f64 (Seconds ?d * lm_rate l)" and ?e = "exact_seconds ?d"
    have e: "0 \<le> ?e" using True by (simp add: exact_simps)
    have s: "0 \<le> Seconds ?d" "Seconds ?d \<le> ?e * (1 + eps) ^ 3"
      using True Seconds_pos_iff [of ?d] Seconds_le [of ?d] by simp_all
    then have p0: "0 \<le> ?p" using l by (simp add: f64_nonneg)
    have "Seconds ?d * lm_rate l \<le> ?e * (1 + eps) ^ 3 * lm_rate l" using s l by (intro mult_right_mono) simp_all
    with s l have "?p \<le> ?e * (1 + eps) ^ 3 * lm_rate l * (1 + eps)" by (intro f64_le_trans) simp_all
    then have "?p * (1 + eps) \<le> ?e * (1 + eps) ^ 3 * lm_rate l * (1 + eps) * (1 + eps)"
      by (intro mult_right_mono) simp_all
    also have "\<dots> = fast l * ?e" by (simp add: fast_def power_numeral_odd power_numeral_even algebra_simps)
    finally have p: "?p * (1 + eps) \<le> fast l * ?e" .
    have "f64 (?t + ?p) \<le> (?t + ?p) * (1 + eps)" using assms(2) p0 by (intro f64_le) simp
    moreover have "eps * ?t \<le> slack l" using assms(3) by (simp add: slack_def)
    ultimately have "f64 (?t + ?p) \<le> ?t + fast l * ?e + slack l" using p by (simp add: algebra_simps)
    moreover have "bk_tokens (refill l now b) = min (lm_burst l) (f64 (?t + ?p))"
      using True by (simp add: refill_def Let_def Seconds_pos_iff)
    moreover have "0 \<le> f64 (?t + ?p)" using assms(2) p0 by (intro f64_nonneg) simp
    ultimately show ?thesis using l e by (simp add: min_def)
  next
    case False
    then have "refill l now b = b" by (simp add: refill_def Let_def Seconds_pos_iff)
    moreover have "0 \<le> fast l * max 0 (exact_seconds ?d)" using fast_pos [OF assms(1)] by simp
    ultimately show ?thesis using assms(2,3) l by (simp add: min_def)
  qed
  then show "0 \<le> bk_tokens (refill l now b)" "bk_tokens (refill l now b) \<le> lm_burst l"
    "bk_tokens (refill l now b) \<le> min (lm_burst l) (?t + fast l * max 0 (exact_seconds ?d)) + slack l"
    by blast+
qed

lemma bucket_at_tokens:
  assumes "sound l"
  shows "0 \<le> bk_tokens (bucket_at l key now)" "bk_tokens (bucket_at l key now) \<le> lm_burst l"
    "bk_tokens (bucket_at l key now) \<le> level l key now + slack l"
    "time_Sub now (bk_last (bucket_at l key now)) \<le> 0"
proof -
  let ?b = "case lm_buckets l key of None \<Rightarrow> \<lparr>bk_tokens = lm_burst l, bk_last = now\<rparr> | Some b \<Rightarrow> b"
  have b: "0 \<le> bk_tokens ?b" "bk_tokens ?b \<le> lm_burst l" using assms by (auto simp: sound_def split: option.split)
  have "min (lm_burst l) (bk_tokens ?b + fast l * max 0 (exact_seconds (time_Sub now (bk_last ?b)))) = level l key now"
    by (simp add: level_def exact_simps split: option.split)
  with refill_tokens [OF assms b, of now] show "0 \<le> bk_tokens (bucket_at l key now)"
    "bk_tokens (bucket_at l key now) \<le> lm_burst l" "bk_tokens (bucket_at l key now) \<le> level l key now + slack l"
    "time_Sub now (bk_last (bucket_at l key now)) \<le> 0"
    unfolding bucket_at_def by simp_all
qed

text \<open>A token less, rounded.\<close>

lemma spend:
  assumes "sound l" and "1 \<le> t" and "t \<le> lm_burst l"
  shows "0 \<le> f64 (t - 1)" "f64 (t - 1) \<le> lm_burst l" "f64 (t - 1) \<le> t - 1 + slack l"
proof -
  have le: "f64 (t - 1) \<le> t - 1 + eps * (t - 1)" using f64_le [of "t - 1"] assms(2) by (simp add: algebra_simps)
  show "0 \<le> f64 (t - 1)" using assms(2) by (simp add: f64_nonneg)
  have "eps * (t - 1) \<le> eps * 2 ^ 53" using assms by (intro mult_left_mono) (auto simp: sound_def)
  also have "\<dots> = 1" by (simp add: eps_def)
  finally show "f64 (t - 1) \<le> lm_burst l" using le assms(3) by linarith
  have "eps * (t - 1) \<le> eps * lm_burst l" using assms(3) by (intro mult_left_mono) simp_all
  with le show "f64 (t - 1) \<le> t - 1 + slack l" unfolding slack_def by linarith
qed

lemma Allow_cases:
  assumes "sound l"
  obtains b where "Allow key now l = (fst (Allow key now l), with_bucket (limiter_sweep l now) key b)"
    "0 \<le> bk_tokens b" "bk_tokens b \<le> lm_burst l" "time_Sub now (bk_last b) \<le> 0"
    "bk_tokens b \<le> level l key now - (if fst (Allow key now l) then 1 else 0) + 2 * slack l"
proof (rule that)
  let ?l = "limiter_sweep l now"
  let ?b = "bucket_at ?l key now"
  let ?b' = "if bk_tokens ?b < 1 then ?b else ?b\<lparr>bk_tokens := f64 (bk_tokens ?b - 1)\<rparr>"
  note at = bucket_at_tokens [OF sound_sweep [OF assms, of now], where key = key and now = now]
  note sp = spend [OF assms, of "bk_tokens ?b"]
  have s: "0 \<le> slack l" using assms by (simp add: sound_def slack_def)
  show "Allow key now l = (fst (Allow key now l), with_bucket ?l key ?b')" by (simp add: Allow_def Let_def)
  show "0 \<le> bk_tokens ?b'" "bk_tokens ?b' \<le> lm_burst l" "time_Sub now (bk_last ?b') \<le> 0"
    using at sp by (auto simp: not_less)
  show "bk_tokens ?b' \<le> level l key now - (if fst (Allow key now l) then 1 else 0) + 2 * slack l"
    using at sp s by (auto simp: Allow_def Let_def not_less level_sweep [OF assms])
qed

lemma params_Allow [simp]:
  "lm_rate (snd (Allow key now l)) = lm_rate l" "lm_burst (snd (Allow key now l)) = lm_burst l"
  "fast (snd (Allow key now l)) = fast l" "slack (snd (Allow key now l)) = slack l"
  by (simp_all add: Allow_def Let_def with_bucket_def fast_def slack_def)

lemma sound_Allow:
  assumes "sound l"
  shows "sound (snd (Allow key now l))"
proof -
  obtain b where b: "Allow key now l = (fst (Allow key now l), with_bucket (limiter_sweep l now) key b)"
      "0 \<le> bk_tokens b" "bk_tokens b \<le> lm_burst l"
    by (rule Allow_cases [OF assms])
  have "sound (with_bucket (limiter_sweep l now) key b)"
    using sound_sweep [OF assms, of now] b(2,3) by (auto simp: sound_def with_bucket_def idle_limit_def fast_def)
  with b(1) show ?thesis by (metis snd_conv)
qed

text \<open>A decision costs its own key one token when it admits, up to the rounding, and no other key
  anything.\<close>

lemma level_Allow:
  assumes "sound l"
  shows "level (snd (Allow key now l)) k now \<le>
    level l k now - (if k = key \<and> fst (Allow key now l) then 1 else 0) + 2 * slack l"
proof -
  obtain b where b: "Allow key now l = (fst (Allow key now l), with_bucket (limiter_sweep l now) key b)"
      "bk_tokens b \<le> level l key now - (if fst (Allow key now l) then 1 else 0) + 2 * slack l"
      "time_Sub now (bk_last b) \<le> 0"
    by (rule Allow_cases [OF assms])
  have s: "0 \<le> slack l" using assms by (simp add: sound_def slack_def)
  let ?m = "with_bucket (limiter_sweep l now) key b"
  have "level ?m k now = level (limiter_sweep l now) k now" if "k \<noteq> key"
    using that by (intro level_cong) (simp_all add: with_bucket_def)
  then have "level ?m k now = level l k now" if "k \<noteq> key"
    using that level_sweep [OF assms] by simp
  moreover have "level ?m key now \<le> bk_tokens b"
    using b(3) by (simp add: level_def with_bucket_def exact_simps max_absorb1)
  moreover have "snd (Allow key now l) = ?m" using b(1) by (metis snd_conv)
  ultimately show ?thesis using b(2) s by (cases "k = key") auto
qed

section \<open>A run of decisions\<close>

fun run_limiter :: "(string \<times> gotime) list \<Rightarrow> limiter \<Rightarrow> bool list \<times> limiter" where
  "run_limiter [] l = ([], l)"
| "run_limiter ((key, now) # evs) l = (case Allow key now l of (ok, l') \<Rightarrow>
     case run_limiter evs l' of (oks, l'') \<Rightarrow> (ok # oks, l''))"

definition admitted :: "string \<Rightarrow> (string \<times> gotime) list \<Rightarrow> bool list \<Rightarrow> nat" where
  "admitted key evs oks = length (filter (\<lambda>((k, t), ok). k = key \<and> ok) (zip evs oks))"

lemma run_limiter_sound: "sound l \<Longrightarrow> sound (snd (run_limiter evs l))"
proof (induction evs arbitrary: l)
  case (Cons ev evs)
  obtain k now where ev: "ev = (k, now)" by fastforce
  from Cons.IH [OF sound_Allow [OF Cons.prems, of k now]] show ?case
    by (cases "Allow k now l"; cases "run_limiter evs (snd (Allow k now l))") (simp add: ev)
qed simp

lemma run_limiter_Cons:
  "snd (run_limiter ((k, now) # evs) l) = snd (run_limiter evs (snd (Allow k now l)))"
  by (simp split: prod.split)

lemma run_limiter_params:
  "lm_rate (snd (run_limiter evs l)) = lm_rate l" "lm_burst (snd (run_limiter evs l)) = lm_burst l"
  by (induction evs arbitrary: l) (auto simp: run_limiter_Cons simp del: run_limiter.simps(2))

lemma admitted_Cons:
  "admitted key ((k, now) # evs) (fst (run_limiter ((k, now) # evs) l)) =
     (if k = key \<and> fst (Allow k now l) then 1 else 0) +
     admitted key evs (fst (run_limiter evs (snd (Allow k now l))))"
  by (simp add: admitted_def split: prod.split)

lemma sorted_ends:
  assumes "sorted (map snd evs)" and "evs \<noteq> []" and "ev \<in> set evs"
  shows "snd (hd evs) \<le> snd ev \<and> snd ev \<le> snd (last evs)"
proof -
  obtain i where i: "i < length evs" "ev = evs ! i" using assms(3) by (auto simp: in_set_conv_nth)
  have mono: "snd (evs ! i) \<le> snd (evs ! j)" if "i \<le> j" "j < length evs" for i j
    using sorted_nth_mono [OF assms(1), of i j] that by simp
  show ?thesis
    using mono [of 0 i] mono [of i "length evs - 1"] i assms(2) by (simp add: hd_conv_nth last_conv_nth)
qed

lemma admitted_within:
  assumes "sound l" and "sorted (map snd evs)" and "\<forall>ev \<in> set evs. t0 \<le> snd ev \<and> snd ev \<le> t1" and "t0 \<le> t1"
  shows "of_nat (admitted key evs (fst (run_limiter evs l))) \<le>
    level l key t0 + fast l * exact_seconds (t1 - t0) + of_nat (length evs) * (2 * slack l)"
  using assms
proof (induction evs arbitrary: l t0)
  case Nil
  then show ?case using level_nonneg [OF Nil.prems(1), of key t0] fast_pos [OF Nil.prems(1)]
    by (simp add: admitted_def exact_simps)
next
  case (Cons ev evs)
  obtain k now where ev: "ev = (k, now)" by fastforce
  let ?l = "snd (Allow k now l)"
  from Cons.prems ev have "of_nat (admitted key evs (fst (run_limiter evs ?l))) \<le>
      level ?l key now + fast ?l * exact_seconds (t1 - now) + of_nat (length evs) * (2 * slack ?l)"
    by (intro Cons.IH sound_Allow) auto
  moreover have "level l key now \<le> level l key t0 + fast l * exact_seconds (now - t0)"
    using Cons.prems ev by (intro level_grows) auto
  moreover have "exact_seconds (t1 - t0) = exact_seconds (now - t0) + exact_seconds (t1 - now)"
    by (simp flip: exact_simps(1))
  moreover have "fast l * (exact_seconds (now - t0) + exact_seconds (t1 - now)) =
      fast l * exact_seconds (now - t0) + fast l * exact_seconds (t1 - now)" by (rule distrib_left)
  moreover define c :: rat where "c = (if k = key \<and> fst (Allow k now l) then 1 else 0)"
  moreover have "level ?l key now \<le> level l key now - c + 2 * slack l"
    using level_Allow [OF Cons.prems(1), of k now key] unfolding c_def by (auto split: if_splits)
  moreover have "of_nat (admitted key (ev # evs) (fst (run_limiter (ev # evs) l))) =
      c + of_nat (admitted key evs (fst (run_limiter evs ?l)))"
    unfolding ev admitted_Cons c_def by auto
  moreover have "of_nat (length (ev # evs)) * (2 * slack l) = of_nat (length evs) * (2 * slack l) + 2 * slack l"
    by (simp add: algebra_simps)
  ultimately show ?case by simp
qed

section \<open>The budget\<close>

text \<open>A bucket idle for as long as it is kept has refilled.\<close>

definition kept_long_enough :: "rat \<Rightarrow> int \<Rightarrow> bool" where
  "kept_long_enough r b \<longleftrightarrow> of_int b \<le> r / 60 * exact_seconds (idle_limit (New_limiter r b))"

lemma sound_New:
  assumes "ratePerMinute > 0" and "burst > 0" and "burst \<le> 2 ^ 53"
    and "kept_long_enough ratePerMinute burst"
  shows "sound (New_limiter ratePerMinute burst)"
proof -
  let ?l = "New_limiter ratePerMinute burst" and ?r = "ratePerMinute / 60"
  let ?i = "exact_seconds (idle_limit ?l)"
  have fields: "lm_rate ?l = f64 ?r" "lm_burst ?l = f64 (of_int burst)" "lm_buckets ?l = (\<lambda>_. None)"
    using assms(1,2) by (simp_all add: New_limiter_def)
  have i: "0 \<le> ?i" by (simp add: exact_simps idle_limit_def Let_def time_Minute_def)
  have B: "lm_burst ?l \<le> of_int burst * (1 + eps)" using f64_le [of "of_int burst"] assms(2) by (simp add: fields)
  have "(of_int burst :: rat) \<le> of_int (2 ^ 53)" using assms(3) by (simp only: of_int_le_iff)
  then have "of_int burst * (1 + eps) \<le> 2 ^ 53 * (1 + eps)" by (intro mult_right_mono) simp_all
  with B have "lm_burst ?l \<le> 2 ^ 53 + 1" by (simp add: eps_def)
  moreover have "lm_burst ?l \<le> fast ?l * ?i"
  proof -
    have "1 + eps \<le> (1 - eps) * (1 + eps) ^ 5" by (simp add: eps_def power_numeral_odd power_numeral_even)
    then have "?r * (1 + eps) \<le> ?r * ((1 - eps) * (1 + eps) ^ 5)" using assms(1) by (intro mult_left_mono) simp_all
    also have "\<dots> \<le> fast ?l" using f64_ge [of ?r] assms(1)
      by (simp only: fast_def fields mult.assoc [symmetric]) (intro mult_right_mono, simp_all)
    finally have "?r * (1 + eps) * ?i \<le> fast ?l * ?i" using i by (intro mult_right_mono)
    moreover have "of_int burst * (1 + eps) \<le> ?r * ?i * (1 + eps)" using assms(4) unfolding kept_long_enough_def by (intro mult_right_mono) simp_all
    ultimately show ?thesis using B by (simp add: mult.commute mult.left_commute)
  qed
  ultimately show ?thesis using assms(1,2) by (simp add: sound_def fields f64_pos f64_nonneg)
qed

lemma rounded_budget:
  assumes "0 \<le> b" and "0 \<le> r" and "0 \<le> n"
  shows "b * (1 + eps) + r * (1 + eps) ^ 6 + n * (2 * (eps * (b * (1 + eps)))) \<le> (b + r) * (1 + (n + 1) / 2 ^ 49)"
proof -
  have "(1 + eps) ^ 6 \<le> 1 + 1 / 2 ^ 49" by code_simp
  then have "r * (1 + eps) ^ 6 \<le> r * (1 + 1 / 2 ^ 49)" using assms(2) by (rule mult_left_mono)
  also have "\<dots> \<le> r * (1 + (n + 1) / 2 ^ 49)" using assms by (intro mult_left_mono) simp_all
  finally have "r * (1 + eps) ^ 6 \<le> r * (1 + (n + 1) / 2 ^ 49)" .
  moreover have "b * ((1 + eps) + n * (2 * (eps * (1 + eps)))) \<le> b * (1 + (n + 1) / 2 ^ 49)"
    using assms(1,3) by (intro mult_left_mono) (simp_all add: eps_def field_simps)
  then have "b * (1 + eps) + n * (2 * (eps * (b * (1 + eps)))) \<le> b * (1 + (n + 1) / 2 ^ 49)"
    by (simp only: distrib_left mult.assoc mult.left_commute [of b])
  ultimately show ?thesis by (simp only: distrib_right [of b r])
qed


text \<open>The proviso holds of the three budgets of the API; a burst of 10 at 7 a minute refills in 85.7
  seconds and is kept for 85.\<close>

lemma api_budgets: "kept_long_enough 1200 120" "kept_long_enough 10 10" "kept_long_enough 60 30"
  by code_simp+

lemma truncated_budget: "\<not> kept_long_enough 7 10"
  by code_simp


end
