(* ===== verification/Google.thy ===== *)
theory Google
  imports Auth App_Cases Nomba
begin

text \<open>
  The Google sign-in client (\<^verbatim>\<open>internal/auth/google.go\<close>): discovery, the authorization URL,
  the code exchange, the key set with its refetch and the local verification of ID tokens.  The
  issuer is a parameter, a function of the request and its own state; so are SHA-256, RSA
  verification and the JSON decoders, one per document.
\<close>

section \<open>Data\<close>

record google_config =
  gc_issuer :: string
  gc_clientID :: string
  gc_clientSecret :: string
  gc_redirectURL :: string

record identity =
  id_Sub :: string
  id_Email :: string
  id_EmailVerified :: bool
  id_Name :: string
  id_Picture :: string

record discovery =
  ds_Issuer :: string
  ds_AuthorizationEndpoint :: string
  ds_TokenEndpoint :: string
  ds_JWKSURI :: string

record rsa_key =
  rk_N :: int
  rk_E :: int

record jwk =
  jw_Kty :: string
  jw_Kid :: string
  jw_N :: string
  jw_E :: string

record jwt_header =
  jh_Alg :: string
  jh_Kid :: string

record id_claims =
  ic_Iss :: string
  ic_Aud :: string
  ic_Sub :: string
  ic_Exp :: int
  ic_Nonce :: string
  ic_Email :: string
  ic_EmailVerified :: bool
  ic_Name :: string
  ic_Picture :: string

definition trim_suffix_char :: "char \<Rightarrow> string \<Rightarrow> string" where
  "trim_suffix_char c s = (if s \<noteq> [] \<and> last s = c then butlast s else s)"

definition NewGoogle :: "google_config \<Rightarrow> google_config" where
  "NewGoogle cfg = (let issuer = trim_suffix_char (CHR ''/'') (gc_issuer cfg) in
     cfg\<lparr>gc_issuer := (if issuer = [] then ''https://accounts.google.com'' else issuer)\<rparr>)"

section \<open>The issuer and the client's caches\<close>

text \<open>An answer is None when no response was received; its body is None when reading it failed.\<close>

type_synonym http_answer = "(int \<times> string option) option"

datatype oidc_request = GetRequest string | PostForm string "(string \<times> string) list"

datatype oidc_fault =
    FetchFailed | FetchStatus int | BadDocument | IncompleteDiscovery | ExchangeFailed
  | ExchangeStatus int | NoIDToken | NoUsableKeys | InvalidIDToken

record 's oidc_env =
  oe_server :: "oidc_request \<Rightarrow> 's \<Rightarrow> http_answer \<times> 's"
  oe_discovery :: "string \<Rightarrow> discovery option"
  oe_jwks :: "string \<Rightarrow> jwk list option"
  oe_idtoken :: "string \<Rightarrow> string option"
  oe_header :: "string \<Rightarrow> jwt_header option"
  oe_claims :: "string \<Rightarrow> id_claims option"
  oe_sha :: "string \<Rightarrow> string"
  oe_rsa :: "rsa_key \<Rightarrow> string \<Rightarrow> string \<Rightarrow> bool"

record 's oidc =
  oi_disco :: "discovery option"
  oi_keys :: "string \<Rightarrow> rsa_key option"
  oi_keysFetched :: gotime
  oi_server :: 's
  oi_clock :: "nat \<Rightarrow> gotime"
  oi_tick :: nat

type_synonym ('s, 'a) oidc_io = "'s oidc \<Rightarrow> (oidc_fault + 'a) \<times> 's oidc"

definition bind_oi :: "('s, 'a) oidc_io \<Rightarrow> ('a \<Rightarrow> ('s, 'b) oidc_io) \<Rightarrow> ('s, 'b) oidc_io" where
  "bind_oi m f c = (case m c of (Inl e, c') \<Rightarrow> (Inl e, c') | (Inr x, c') \<Rightarrow> f x c')"

definition return_oi :: "'a \<Rightarrow> ('s, 'a) oidc_io" where
  "return_oi x c = (Inr x, c)"

definition fail_oi :: "oidc_fault \<Rightarrow> ('s, 'a) oidc_io" where
  "fail_oi e c = (Inl e, c)"

definition now_oi :: "('s, gotime) oidc_io" where
  "now_oi c = (Inr (oi_clock c (oi_tick c)), c\<lparr>oi_tick := Suc (oi_tick c)\<rparr>)"

definition ask :: "'s oidc_env \<Rightarrow> oidc_request \<Rightarrow> ('s, http_answer) oidc_io" where
  "ask env req c = (case oe_server env req (oi_server c) of (x, s) \<Rightarrow> (Inr x, c\<lparr>oi_server := s\<rparr>))"

definition require_oi :: "oidc_fault \<Rightarrow> 'a option \<Rightarrow> ('s, 'a) oidc_io" where
  "require_oi e x = (case x of None \<Rightarrow> fail_oi e | Some y \<Rightarrow> return_oi y)"

definition getJSON :: "'s oidc_env \<Rightarrow> string \<Rightarrow> (string \<Rightarrow> 'd option) \<Rightarrow> ('s, 'd) oidc_io" where
  "getJSON env url decode = bind_oi (ask env (GetRequest url)) (\<lambda>x. case x of
       None \<Rightarrow> fail_oi FetchFailed
     | Some (status, body) \<Rightarrow>
         (if status \<noteq> 200 then fail_oi (FetchStatus status)
          else bind_oi (require_oi FetchFailed body) (\<lambda>b. require_oi BadDocument (decode b))))"

definition discover :: "'s oidc_env \<Rightarrow> google_config \<Rightarrow> ('s, discovery) oidc_io" where
  "discover env g c = (case oi_disco c of
       Some d \<Rightarrow> (Inr d, c)
     | None \<Rightarrow> bind_oi (getJSON env (gc_issuer g @ ''/.well-known/openid-configuration'') (oe_discovery env))
         (\<lambda>d c. if ds_AuthorizationEndpoint d = [] \<or> ds_TokenEndpoint d = [] \<or> ds_JWKSURI d = []
           then (Inl IncompleteDiscovery, c) else (Inr d, c\<lparr>oi_disco := Some d\<rparr>)) c)"

section \<open>The authorization URL\<close>

text \<open>\<^verbatim>\<open>url.Values.Encode\<close>, the keys given in its sorted order.\<close>

definition values_Encode :: "(string \<times> string) list \<Rightarrow> string" where
  "values_Encode kvs = join_with (CHR ''&'') (map (\<lambda>(k, v). query_escape k @ ''='' @ query_escape v) kvs)"

definition AuthCodeURL :: "'s oidc_env \<Rightarrow> google_config \<Rightarrow> string \<Rightarrow> string \<Rightarrow> string \<Rightarrow> ('s, string) oidc_io" where
  "AuthCodeURL env g st nonce codeChallenge =
     bind_oi (discover env g) (\<lambda>d. return_oi (ds_AuthorizationEndpoint d @ ''?'' @ values_Encode
       [(''client_id'', gc_clientID g), (''code_challenge'', codeChallenge),
        (''code_challenge_method'', ''S256''), (''nonce'', nonce), (''redirect_uri'', gc_redirectURL g),
        (''response_type'', ''code''), (''scope'', ''openid email profile''), (''state'', st)]))"

section \<open>Signing keys\<close>

text \<open>\<^verbatim>\<open>big.Int.SetBytes\<close>, and \<^verbatim>\<open>Int64\<close> of it.\<close>

definition set_bytes :: "string \<Rightarrow> int" where
  "set_bytes s = foldl (\<lambda>n c. n * 256 + int (of_char c)) 0 s"

definition usable_key :: "jwk \<Rightarrow> rsa_key option" where
  "usable_key k = (if jw_Kty k \<noteq> ''RSA'' then None
     else (case (base64_url_decode (jw_N k), base64_url_decode (jw_E k)) of
         (Some n, Some e) \<Rightarrow> Some \<lparr>rk_N = set_bytes n, rk_E = i64 (set_bytes e)\<rparr>
       | _ \<Rightarrow> None))"

text \<open>The last usable key of an id wins.\<close>

definition key_map :: "jwk list \<Rightarrow> string \<Rightarrow> rsa_key option" where
  "key_map ks = foldl (\<lambda>m k. case usable_key k of None \<Rightarrow> m | Some key \<Rightarrow> m(jw_Kid k \<mapsto> key)) (\<lambda>_. None) ks"

definition fetchKeys :: "'s oidc_env \<Rightarrow> google_config \<Rightarrow> ('s, unit) oidc_io" where
  "fetchKeys env g =
     bind_oi (discover env g) (\<lambda>d.
     bind_oi (getJSON env (ds_JWKSURI d) (oe_jwks env)) (\<lambda>ks.
       if list_all (\<lambda>k. usable_key k = None) ks then fail_oi NoUsableKeys
       else bind_oi now_oi (\<lambda>now c. (Inr (), c\<lparr>oi_keys := key_map ks, oi_keysFetched := now\<rparr>))))"

definition signingKey :: "'s oidc_env \<Rightarrow> google_config \<Rightarrow> string \<Rightarrow> ('s, rsa_key) oidc_io" where
  "signingKey env g kid =
     bind_oi now_oi (\<lambda>now c.
       if oi_keys c kid \<noteq> None \<and> time_Sub now (oi_keysFetched c) \<le> time_Hour
       then require_oi InvalidIDToken (oi_keys c kid) c
       else bind_oi (fetchKeys env g) (\<lambda>_ c. require_oi InvalidIDToken (oi_keys c kid) c) c)"

section \<open>ID tokens\<close>

text \<open>The issuer claim with or without the scheme, the audience, the expiry against the clock's
  next reading, the nonce and the subject, in the order of the checks.\<close>

definition check_claims :: "google_config \<Rightarrow> string \<Rightarrow> id_claims \<Rightarrow> gotime \<Rightarrow> bool" where
  "check_claims g nonce cl now \<longleftrightarrow> ic_Exp cl > time_Unix now \<and> ic_Nonce cl \<noteq> [] \<and> ic_Nonce cl = nonce \<and>
     ic_Sub cl \<noteq> []"

definition known_issuer :: "google_config \<Rightarrow> string \<Rightarrow> bool" where
  "known_issuer g iss \<longleftrightarrow> iss = gc_issuer g \<or>
     iss = (case cut_prefix ''https://'' (gc_issuer g) of None \<Rightarrow> gc_issuer g | Some s \<Rightarrow> s)"

definition identity_of :: "id_claims \<Rightarrow> identity" where
  "identity_of cl = \<lparr>id_Sub = ic_Sub cl, id_Email = ic_Email cl, id_EmailVerified = ic_EmailVerified cl,
     id_Name = ic_Name cl, id_Picture = ic_Picture cl\<rparr>"

definition verify_claims :: "'s oidc_env \<Rightarrow> google_config \<Rightarrow> string \<Rightarrow> string \<Rightarrow> ('s, identity) oidc_io" where
  "verify_claims env g nonce payload =
     bind_oi (require_oi InvalidIDToken (base64_url_decode payload)) (\<lambda>p.
     bind_oi (require_oi InvalidIDToken (oe_claims env p)) (\<lambda>cl.
       if \<not> known_issuer g (ic_Iss cl) \<or> ic_Aud cl \<noteq> gc_clientID g then fail_oi InvalidIDToken
       else bind_oi now_oi (\<lambda>now.
         if check_claims g nonce cl now then return_oi (identity_of cl) else fail_oi InvalidIDToken)))"

definition verify_parts :: "'s oidc_env \<Rightarrow> google_config \<Rightarrow> string \<Rightarrow> string \<Rightarrow> string \<Rightarrow> string \<Rightarrow>
    ('s, identity) oidc_io" where
  "verify_parts env g nonce h p s =
     bind_oi (require_oi InvalidIDToken (base64_url_decode h)) (\<lambda>headerJSON.
     bind_oi (require_oi InvalidIDToken (oe_header env headerJSON)) (\<lambda>header.
       if jh_Alg header \<noteq> ''RS256'' then fail_oi InvalidIDToken
       else bind_oi (signingKey env g (jh_Kid header)) (\<lambda>key.
         bind_oi (require_oi InvalidIDToken (base64_url_decode s)) (\<lambda>sig.
           if oe_rsa env key (oe_sha env (h @ ''.'' @ p)) sig then verify_claims env g nonce p
           else fail_oi InvalidIDToken))))"

definition verifyIDToken :: "'s oidc_env \<Rightarrow> google_config \<Rightarrow> string \<Rightarrow> string \<Rightarrow> ('s, identity) oidc_io" where
  "verifyIDToken env g raw nonce = (case split_on (CHR ''.'') raw of
       [h, p, s] \<Rightarrow> verify_parts env g nonce h p s
     | _ \<Rightarrow> fail_oi InvalidIDToken)"

definition Exchange :: "'s oidc_env \<Rightarrow> google_config \<Rightarrow> string \<Rightarrow> string \<Rightarrow> string \<Rightarrow> ('s, identity) oidc_io" where
  "Exchange env g code verifier nonce =
     bind_oi (discover env g) (\<lambda>d.
     bind_oi (ask env (PostForm (ds_TokenEndpoint d)
       [(''grant_type'', ''authorization_code''), (''code'', code), (''redirect_uri'', gc_redirectURL g),
        (''client_id'', gc_clientID g), (''client_secret'', gc_clientSecret g),
        (''code_verifier'', verifier)])) (\<lambda>x. case x of
       None \<Rightarrow> fail_oi ExchangeFailed
     | Some (status, body) \<Rightarrow>
         bind_oi (require_oi ExchangeFailed body) (\<lambda>b.
           if status \<noteq> 200 then fail_oi (ExchangeStatus status)
           else (case oe_idtoken env b of
               None \<Rightarrow> fail_oi NoIDToken
             | Some t \<Rightarrow> if t = [] then fail_oi NoIDToken else verifyIDToken env g t nonce))))"

end
