(* ===== verification/Http_Session.thy ===== *)
theory Http_Session
  imports Google Http_Handlers
begin

text \<open>
  Signing in and out (\<^verbatim>\<open>internal/httpapi/session_handlers.go\<close>).  A reply carries cookies and
  may redirect.  The Google handlers step the sign-in client's state beside the application's
  world; the rate limiter's answer, random draws, generated keys and decoded bodies are arguments.
\<close>

section \<open>Replies\<close>

record user_view =
  uv_ID :: string
  uv_DisplayName :: string
  uv_Phone :: string
  uv_Email :: string
  uv_AvatarURL :: string
  uv_IsAdmin :: bool
  uv_TrustTier :: int
  uv_Strikes :: int

definition buildUserView :: "user_record \<Rightarrow> user_view" where
  "buildUserView u = \<lparr>uv_ID = ur_ID u, uv_DisplayName = ur_DisplayName u, uv_Phone = ur_Phone u,
     uv_Email = ur_Email u, uv_AvatarURL = ur_AvatarURL u, uv_IsAdmin = ur_IsAdmin u,
     uv_TrustTier = ur_TrustTier u, uv_Strikes = ur_Strikes u\<rparr>"

datatype session_body =
    NoContent | SessionError http_message | ProvidersBody bool bool | UserBody user_view | RedirectTo string

record session_reply =
  sr_Status :: nat
  sr_Cookies :: "cookie list"
  sr_Body :: session_body

definition session_error :: "http_error \<Rightarrow> session_reply" where
  "session_error e = (case classify e of (status, msg) \<Rightarrow>
     \<lparr>sr_Status = status, sr_Cookies = [], sr_Body = SessionError msg\<rparr>)"

definition user_reply :: "cookie list \<Rightarrow> user_record \<Rightarrow> session_reply" where
  "user_reply cookies u = \<lparr>sr_Status = 200, sr_Cookies = cookies, sr_Body = UserBody (buildUserView u)\<rparr>"

definition redirect :: "nat \<Rightarrow> cookie list \<Rightarrow> string \<Rightarrow> session_reply" where
  "redirect status cookies target = \<lparr>sr_Status = status, sr_Cookies = cookies, sr_Body = RedirectTo target\<rparr>"

section \<open>Sessions without an identity provider\<close>

definition handleAuthProviders :: "'g api \<Rightarrow> google_config option \<Rightarrow> session_reply" where
  "handleAuthProviders p google = \<lparr>sr_Status = 200, sr_Cookies = [],
     sr_Body = ProvidersBody (google \<noteq> None) (Sandbox (ap_app p))\<rparr>"

definition handleMe :: "'g api \<Rightarrow> http_request \<Rightarrow> ('g, session_reply) hio" where
  "handleMe p r = bind_h (requireUser p r) (\<lambda>u. return_h (user_reply [] u))"

definition handleLogout :: "'g api \<Rightarrow> http_request \<Rightarrow> ('g, session_reply) hio" where
  "handleLogout p r = (case ap_auth p of
       None \<Rightarrow> return_h \<lparr>sr_Status = 204, sr_Cookies = [], sr_Body = NoContent\<rparr>
     | Some m \<Rightarrow> bind_h (app_h (Revoke m (hq_Session r))) (\<lambda>c.
         return_h \<lparr>sr_Status = 204, sr_Cookies = [c], sr_Body = NoContent\<rparr>))"

record demo_login =
  dl_Phone :: string
  dl_DisplayName :: string
  dl_Admin :: bool

text \<open>Granting the flag is part of the sandbox login only.\<close>

definition grant_admin :: "bool \<Rightarrow> user_record \<Rightarrow> ('g, user_record) hio" where
  "grant_admin wanted u =
     (if wanted \<and> \<not> ur_IsAdmin u
      then bind_h (app_h (db_do (SetAdmin (ur_ID u) True))) (\<lambda>_. return_h (u\<lparr>ur_IsAdmin := True\<rparr>))
      else return_h u)"

definition handleDemoLogin :: "'g api \<Rightarrow> auth_manager \<Rightarrow> http_request \<Rightarrow> bool \<Rightarrow> string \<Rightarrow> string res \<Rightarrow>
    demo_login json_body \<Rightarrow> ('g, session_reply) hio" where
  "handleDemoLogin p m r admitted new_id draw body =
     (if \<not> Sandbox (ap_app p) then fail_h errForbidden
      else if \<not> admitted then fail_h errRateLimited
      else bind_h (decodeJSON body) (\<lambda>req. let phone = trim_space (dl_Phone req) in
        if phone = [] then fail_h errBadRequest
        else bind_h (app_h (db_io (UpsertUserByPhone new_id phone (trim_space (dl_DisplayName req))))) (\<lambda>found.
          bind_h (grant_admin (dl_Admin req) found) (\<lambda>u.
          bind_h (app_h (Issue m draw (ur_ID u) (clientIP p r) (hq_UserAgent r))) (\<lambda>c.
            return_h (user_reply [c] u))))))"

section \<open>Signing in with Google\<close>

definition oauthFlowCookie :: string where
  "oauthFlowCookie = ''escrowpay_oauth''"

definition flowTTL :: duration where
  "flowTTL = 10 * time_Minute"

definition flow_cookie :: "'g api \<Rightarrow> string \<Rightarrow> int \<Rightarrow> cookie" where
  "flow_cookie p value age = \<lparr>ck_Name = oauthFlowCookie, ck_Value = value, ck_Path = ''/api/auth/google'',
     ck_Expires = None, ck_MaxAge = Some age, ck_HttpOnly = True, ck_Secure = ap_cookieSecure p, ck_Lax = True\<rparr>"

definition safeNextPath :: "string \<Rightarrow> string" where
  "safeNextPath target =
     (if target = [] \<or> \<not> has_prefix ''/'' target \<or> has_prefix ''//'' target \<or>
         list_ex (\<lambda>c. (of_char c :: nat) \<in> {92, 13, 10}) target
      then ''/dashboard'' else target)"

text \<open>What the sign-in leaves to others: the issuer, the client's configuration and the JSON text
  of the flow state.\<close>

record 's sign_in =
  si_env :: "'s oidc_env"
  si_google :: google_config
  si_json :: "flow_state \<Rightarrow> string"
  si_parse :: "string \<Rightarrow> flow_state option"

type_synonym ('g, 's) google_io = "'s oidc \<times> 'g world \<Rightarrow> session_reply \<times> 's oidc \<times> 'g world"

definition handleGoogleStart :: "'g api \<Rightarrow> 's sign_in option \<Rightarrow> bool \<Rightarrow> string res \<times> string res \<times> string res \<Rightarrow>
    string \<Rightarrow> ('g, 's) google_io" where
  "handleGoogleStart p sign admitted draws target = (\<lambda>(c, w). case sign of
       None \<Rightarrow> (session_error errAuthUnavailable, c, w)
     | Some si \<Rightarrow>
        (if \<not> admitted then (session_error errRateLimited, c, w)
         else (let now = w_clock w (w_tick w); w' = w\<lparr>w_tick := Suc (w_tick w)\<rparr> in
           case NewFlowState (a_sha (ap_app p)) (safeNextPath target) flowTTL now draws of
             Inl e \<Rightarrow> (session_error (AppError e), c, w')
           | Inr (fs, challenge) \<Rightarrow>
              (case AuthCodeURL (si_env si) (si_google si) (fw_State fs) (fw_Nonce fs) challenge c of
                 (Inl e, c') \<Rightarrow> (session_error (AppError ErrAmbiguous), c', w')
               | (Inr url, c') \<Rightarrow>
                   (redirect 302 [flow_cookie p (flow_Encode (a_hmac (ap_app p)) (si_json si) (ap_flowSecret p) fs) 600]
                      url, c', w')))))"

definition login_failed :: "'g api \<Rightarrow> string \<Rightarrow> session_reply" where
  "login_failed p reason = redirect 303 [flow_cookie p [] (- 1)] (''/login?error='' @ reason)"

text \<open>The account and its session, once the identity is verified.\<close>

definition google_account :: "'g api \<Rightarrow> auth_manager \<Rightarrow> http_request \<Rightarrow> string \<Rightarrow> string res \<Rightarrow> identity \<Rightarrow>
    string \<Rightarrow> 'g world \<Rightarrow> session_reply \<times> 'g world" where
  "google_account p m r new_id draw i target w =
     (case db_io (UpsertUserByGoogle new_id (id_Sub i) (if id_EmailVerified i then id_Email i else [])
             (id_Name i) (id_Picture i)) w of
        (Inl e, w') \<Rightarrow> (login_failed p ''account'', w')
      | (Inr u, w') \<Rightarrow>
         (case Issue m draw (ur_ID u) (clientIP p r) (hq_UserAgent r) w' of
            (Inl e, w'') \<Rightarrow> (login_failed p ''session'', w'')
          | (Inr session, w'') \<Rightarrow> (redirect 303 [session, flow_cookie p [] (- 1)] target, w'')))"

text \<open>\<open>state_param\<close> and \<open>code\<close> are the query's.\<close>

definition handleGoogleCallback :: "'g api \<Rightarrow> 's sign_in option \<Rightarrow> auth_manager \<Rightarrow> http_request \<Rightarrow> string \<Rightarrow>
    string res \<Rightarrow> string \<Rightarrow> string \<Rightarrow> ('g, 's) google_io" where
  "handleGoogleCallback p sign m r new_id draw state_param code = (\<lambda>(c, w). case sign of
       None \<Rightarrow> (session_error errAuthUnavailable, c, w)
     | Some si \<Rightarrow> (case hq_FlowCookie r of
         None \<Rightarrow> (login_failed p ''flow'', c, w)
       | Some raw \<Rightarrow>
         (if raw = [] then (login_failed p ''flow'', c, w)
          else (let w' = w\<lparr>w_tick := Suc (w_tick w)\<rparr> in
            case DecodeFlowState (a_hmac (ap_app p)) (si_parse si) (ap_flowSecret p) raw (w_clock w (w_tick w)) of
              Inl e \<Rightarrow> (login_failed p ''flow'', c, w')
            | Inr fs \<Rightarrow>
               (if state_param = [] \<or> state_param \<noteq> fw_State fs then (login_failed p ''state'', c, w')
                else if code = [] then (login_failed p ''denied'', c, w')
                else (case Exchange (si_env si) (si_google si) code (fw_Verifier fs) (fw_Nonce fs) c of
                    (Inl e, c') \<Rightarrow> (login_failed p ''verify'', c', w')
                  | (Inr i, c') \<Rightarrow> (case google_account p m r new_id draw i (fw_Next fs) w' of
                        (reply, w'') \<Rightarrow> (reply, c', w''))))))))"

end
