(* ===== verification/Session_Claims.thy ===== *)
theory Session_Claims
  imports Http_Session App_Demo
begin

text \<open>
  The claims about signing in: what an accepted ID token vouches for, what the Google callback
  demands before it issues a session, and where it sends the browser.
\<close>

section \<open>ID tokens\<close>

text \<open>A token vouches for an identity under a set of keys when its signature verifies under the key
  it names and its claims are ours, current and about this sign-in.\<close>

definition vouched :: "'s oidc_env \<Rightarrow> google_config \<Rightarrow> string \<Rightarrow> (string \<Rightarrow> rsa_key option) \<Rightarrow> gotime \<Rightarrow>
    string \<Rightarrow> identity \<Rightarrow> bool" where
  "vouched env g nonce keys now raw i \<longleftrightarrow> (\<exists>h p s hj header key sig pj cl.
     raw = h @ ''.'' @ p @ ''.'' @ s \<and>
     base64_url_decode h = Some hj \<and> oe_header env hj = Some header \<and> jh_Alg header = ''RS256'' \<and>
     keys (jh_Kid header) = Some key \<and> base64_url_decode s = Some sig \<and>
     oe_rsa env key (oe_sha env (h @ ''.'' @ p)) sig \<and>
     base64_url_decode p = Some pj \<and> oe_claims env pj = Some cl \<and>
     known_issuer g (ic_Iss cl) \<and> ic_Aud cl = gc_clientID g \<and> time_Unix now < ic_Exp cl \<and>
     ic_Nonce cl = nonce \<and> nonce \<noteq> [] \<and> ic_Sub cl \<noteq> [] \<and> i = identity_of cl)"

lemmas oi_defs = bind_oi_def return_oi_def fail_oi_def require_oi_def now_oi_def

lemma bind_oi_Inr:
  "bind_oi m f c = (Inr y, c') \<longleftrightarrow> (\<exists>x c1. m c = (Inr x, c1) \<and> f x c1 = (Inr y, c'))"
  by (auto simp: bind_oi_def split: prod.splits sum.splits)

lemma require_oi_Inr: "require_oi e x c = (Inr y, c') \<longleftrightarrow> x = Some y \<and> c' = c"
  by (auto simp: require_oi_def return_oi_def fail_oi_def split: option.splits)

lemma now_oi_Inr: "now_oi c = (Inr t, c') \<longleftrightarrow> t = oi_clock c (oi_tick c) \<and> c' = c\<lparr>oi_tick := Suc (oi_tick c)\<rparr>"
  by (auto simp: now_oi_def)

lemma fail_oi_Inr: "fail_oi e c = (Inr y, c') \<longleftrightarrow> False"
  by (simp add: fail_oi_def)

lemma return_oi_Inr: "return_oi x c = (Inr y, c') \<longleftrightarrow> y = x \<and> c' = c"
  by (auto simp: return_oi_def)

lemmas oi_inr = bind_oi_Inr require_oi_Inr now_oi_Inr fail_oi_Inr return_oi_Inr

lemma signingKey_cached: "signingKey env g kid c = (Inr key, c') \<Longrightarrow> oi_keys c' kid = Some key"
  by (auto simp: signingKey_def oi_inr split: if_splits)

lemma verify_claims_result:
  assumes "verify_claims env g nonce payload c = (Inr i, c')"
  obtains pj cl where "base64_url_decode payload = Some pj" "oe_claims env pj = Some cl"
    "known_issuer g (ic_Iss cl)" "ic_Aud cl = gc_clientID g" "i = identity_of cl"
    "check_claims g nonce cl (oi_clock c (oi_tick c))" "c' = c\<lparr>oi_tick := Suc (oi_tick c)\<rparr>"
  using assms by (auto simp: verify_claims_def oi_inr split: if_splits)

lemma split_three: "split_on c raw = [h, p, s] \<Longrightarrow> raw = h @ [c] @ p @ [c] @ s"
  using join_split [of c raw] by simp

text \<open>The clock reading the expiry was compared with is the last the client took.\<close>

definition last_reading :: "'s oidc \<Rightarrow> gotime" where
  "last_reading c = oi_clock c (oi_tick c - 1)"

lemma verifyIDToken_vouched:
  assumes "verifyIDToken env g raw nonce c = (Inr i, c')"
  shows "vouched env g nonce (oi_keys c') (last_reading c') raw i"
proof -
  obtain h p s where raw: "split_on (CHR ''.'') raw = [h, p, s]"
      and parts: "verify_parts env g nonce h p s c = (Inr i, c')"
    using assms by (auto simp: verifyIDToken_def fail_oi_Inr split: list.splits)
  obtain hj header key sig c1 where 1: "base64_url_decode h = Some hj" "oe_header env hj = Some header"
      "jh_Alg header = ''RS256''" "signingKey env g (jh_Kid header) c = (Inr key, c1)"
      "base64_url_decode s = Some sig" "oe_rsa env key (oe_sha env (h @ ''.'' @ p)) sig"
      and claims: "verify_claims env g nonce p c1 = (Inr i, c')"
    using parts by (auto simp: verify_parts_def oi_inr split: if_splits)
  from claims obtain pj cl where 2: "base64_url_decode p = Some pj" "oe_claims env pj = Some cl"
      "known_issuer g (ic_Iss cl)" "ic_Aud cl = gc_clientID g" "i = identity_of cl"
      "check_claims g nonce cl (oi_clock c1 (oi_tick c1))" "c' = c1\<lparr>oi_tick := Suc (oi_tick c1)\<rparr>"
    by (rule verify_claims_result)
  have "raw = h @ ''.'' @ p @ ''.'' @ s" using split_three [OF raw] by simp
  moreover have "oi_keys c' (jh_Kid header) = Some key" using signingKey_cached [OF 1(4)] 2(7) by simp
  ultimately show ?thesis
    using 1 2 unfolding vouched_def last_reading_def check_claims_def by fastforce
qed

lemma Exchange_vouched:
  assumes "Exchange env g code verifier nonce c = (Inr i, c')"
  shows "\<exists>raw. vouched env g nonce (oi_keys c') (last_reading c') raw i"
  using assms by (auto simp: Exchange_def oi_inr dest!: verifyIDToken_vouched split: option.splits if_splits)

section \<open>The account of a Google identity\<close>

lemma update_where_mem: "x \<in> set rs \<Longrightarrow> (if P x then f x else x) \<in> set (update_where P f rs)"
  by (auto simp: update_where_def)

lemma google_id_has_sub:
  assumes "google_id_tx new_id sub email name pic d = Inr (uid, d')"
  shows "\<exists>u \<in> set (users d'). u_id u = uid \<and> u_google_sub u = Some sub"
proof (cases "select_one (\<lambda>u. u_google_sub u = Some sub) (users d)")
  case (Some u)
  with assms show ?thesis by (auto simp: google_id_tx_def dest: select_one_Some)
next
  case none: None
  let ?P = "\<lambda>x. u_email x = Some email \<and> u_google_sub x = None" and ?f = "\<lambda>x. x\<lparr>u_google_sub := Some sub\<rparr>"
  show ?thesis
  proof (cases "if email \<noteq> [] then select_one ?P (users d) else None")
    case (Some u)
    then have u: "u \<in> set (users d)" "?P u" by (auto dest: select_one_Some split: if_splits)
    have "uid = u_id u" "d' = set_users ?P ?f d" using assms none Some by (auto simp: google_id_tx_def)
    with update_where_mem [OF u(1), of ?P ?f] u(2) show ?thesis
      by (intro bexI [of _ "?f u"]) (simp_all add: set_users_def)
  next
    case None
    with assms none show ?thesis
      by (auto simp: google_id_tx_def insert_user_def bind_tx_def return_tx_def new_user_def split: if_splits)
  qed
qed

lemma UpsertUserByGoogle_sub:
  assumes "UpsertUserByGoogle new_id sub email name pic d = (Inr u, d')"
  shows "\<exists>x \<in> set (users d'). u_id x = ur_ID u \<and> u_google_sub x = Some sub"
proof -
  obtain uid d1 where id: "google_id_tx new_id sub email name pic d = Inr (uid, d1)"
      and d': "d' = set_users (\<lambda>u. u_id u = uid) (refresh_profile name pic (db_clock d1)) d1"
      and u: "GetUser uid d' = Inr u"
    using assms by (auto simp: UpsertUserByGoogle_def UpsertUserByGoogle_tx_def run_tx_def bind_tx_def
        modify_users_tx_def read_tx_def split: sum.splits)
  obtain x where x: "x \<in> set (users d1)" "u_id x = uid" "u_google_sub x = Some sub"
    using google_id_has_sub [OF id] by blast
  then have "refresh_profile name pic (db_clock d1) x \<in> set (users d')"
    using update_where_mem [OF x(1), of "\<lambda>u. u_id u = uid"] by (fastforce simp: d' set_users_def)
  moreover have "ur_ID u = uid"
    using u by (auto simp: GetUser_def scanUser_def dest: select_one_Some split: option.splits)
  ultimately show ?thesis
    using x by (intro bexI [of _ "refresh_profile name pic (db_clock d1) x"]) (simp_all add: refresh_profile_def)
qed

section \<open>The callback\<close>

definition carries_session :: "session_reply \<Rightarrow> bool" where
  "carries_session reply \<longleftrightarrow> (\<exists>k \<in> set (sr_Cookies reply). ck_Name k = CookieName)"

lemma flow_cookie_name: "ck_Name (flow_cookie p v age) \<noteq> CookieName"
  by (simp add: flow_cookie_def oauthFlowCookie_def CookieName_def)

lemma no_session:
  "\<not> carries_session (session_error e)" "\<not> carries_session (login_failed p reason)"
  by (simp_all add: carries_session_def session_error_def login_failed_def redirect_def flow_cookie_name
      split: prod.split)

lemma Issue_result:
  assumes "Issue m draw uid ip agent w = (Inr k, w')"
  shows "users (w_db w') = users (w_db w) \<and> ck_Name k = CookieName \<and>
    (\<exists>n \<in> set (sessions (w_db w')). n_user n = uid \<and> n_token_hash n = hashToken (am_sha m) (ck_Value k))"
  using assms
  by (auto simp: Issue_def fail_io_def bind_io_def now_io_def db_io_def return_io_def InsertSession_def
      Let_def split: sum.splits prod.splits if_splits)

lemma google_account_result:
  assumes "google_account p m r new_id draw i target w = (reply, w')" and "carries_session reply"
  shows "sr_Body reply = RedirectTo target \<and>
    (\<exists>k \<in> set (sr_Cookies reply). \<exists>n \<in> set (sessions (w_db w')). \<exists>u \<in> set (users (w_db w')).
       ck_Name k = CookieName \<and> n_token_hash n = hashToken (am_sha m) (ck_Value k) \<and> n_user n = u_id u \<and>
       u_google_sub u = Some (id_Sub i))"
proof -
  let ?up = "UpsertUserByGoogle new_id (id_Sub i) (if id_EmailVerified i then id_Email i else [])
      (id_Name i) (id_Picture i)"
  obtain u d where up: "?up (w_db w) = (Inr u, d)"
    using assms no_session(2) by (cases "?up (w_db w)") (auto simp: google_account_def db_io_def split: sum.splits)
  obtain k where issue: "Issue m draw (ur_ID u) (clientIP p r) (hq_UserAgent r) (w\<lparr>w_db := d\<rparr>) = (Inr k, w')"
      and reply: "reply = redirect 303 [k, flow_cookie p [] (- 1)] target"
    using assms no_session(2) by (auto simp: google_account_def db_io_def up split: sum.splits prod.splits)
  from UpsertUserByGoogle_sub [OF up] obtain x where "x \<in> set (users d)" "u_id x = ur_ID u"
      "u_google_sub x = Some (id_Sub i)" by blast
  with Issue_result [OF issue] reply show ?thesis by (auto simp: redirect_def)
qed

text \<open>C12: The Google callback signs nobody in on trust: whenever its reply carries a session cookie,
  the browser held a flow cookie made under the server's secret and still current, the state
  parameter is that flow's, the issuer's token endpoint returned an ID token that verifies under a
  published key, is meant for this client, unexpired and bound to that flow's nonce, the session
  stored belongs to the account of the token's subject, and the redirect goes where the flow began.\<close>

theorem sign_in_verified:
  assumes "handleGoogleCallback p (Some si) m r new_id draw state_param code (c, w) = (reply, c', w')"
    and "carries_session reply"
  shows "\<exists>body fs raw i.
    hq_FlowCookie r = Some (body @ ''.'' @ signFlow (a_hmac (ap_app p)) (ap_flowSecret p) body) \<and>
    map_option (si_parse si) (base64_url_decode body) = Some (Some fs) \<and>
    time_Unix (w_clock w (w_tick w)) < fw_ExpiresAt fs \<and> state_param = fw_State fs \<and> state_param \<noteq> [] \<and>
    vouched (si_env si) (si_google si) (fw_Nonce fs) (oi_keys c') (last_reading c') raw i \<and>
    sr_Body reply = RedirectTo (fw_Next fs) \<and>
    (\<exists>k \<in> set (sr_Cookies reply). \<exists>n \<in> set (sessions (w_db w')). \<exists>u \<in> set (users (w_db w')).
       ck_Name k = CookieName \<and> n_token_hash n = hashToken (am_sha m) (ck_Value k) \<and> n_user n = u_id u \<and>
       u_google_sub u = Some (id_Sub i))"
proof -
  let ?w = "w\<lparr>w_tick := Suc (w_tick w)\<rparr>"
  obtain cookie fs where cookie: "hq_FlowCookie r = Some cookie"
      and fs: "DecodeFlowState (a_hmac (ap_app p)) (si_parse si) (ap_flowSecret p) cookie (w_clock w (w_tick w)) = Inr fs"
      and st: "state_param \<noteq> []" "state_param = fw_State fs" and code: "code \<noteq> []"
    using assms no_session
    by (auto simp: handleGoogleCallback_def Let_def split: option.splits if_splits sum.splits)
  obtain i where exch: "Exchange (si_env si) (si_google si) code (fw_Verifier fs) (fw_Nonce fs) c = (Inr i, c')"
      and acc: "google_account p m r new_id draw i (fw_Next fs) ?w = (reply, w')"
    using assms no_session st code
    by (auto simp: handleGoogleCallback_def Let_def cookie fs split: if_splits sum.splits prod.splits)
  obtain body where "cookie = body @ ''.'' @ signFlow (a_hmac (ap_app p)) (ap_flowSecret p) body"
      "map_option (si_parse si) (base64_url_decode body) = Some (Some fs)"
      "time_Unix (w_clock w (w_tick w)) < fw_ExpiresAt fs"
    using fs by (auto simp: DecodeFlowState_def split: prod.splits if_splits option.splits dest!: cut_at_found)
  with cookie st Exchange_vouched [OF exch] google_account_result [OF acc assms(2)] show ?thesis by blast
qed

text \<open>A small issuer: one key, one token, whose signature is its own text.\<close>

definition demo_flow :: flow_state where
  "demo_flow = \<lparr>fw_State = ''s'', fw_Nonce = ''n'', fw_Verifier = ''v'', fw_Next = ''/p'', fw_ExpiresAt = 60\<rparr>"

definition demo_issuer :: "unit sign_in" where
  "demo_issuer = \<lparr>
     si_env = \<lparr>oe_server = (\<lambda>q s. (Some (200, Some []), s)),
       oe_discovery = (\<lambda>_. Some \<lparr>ds_Issuer = ''i'', ds_AuthorizationEndpoint = ''a'', ds_TokenEndpoint = ''t'', ds_JWKSURI = ''j''\<rparr>),
       oe_jwks = (\<lambda>_. Some [\<lparr>jw_Kty = ''RSA'', jw_Kid = ''k'', jw_N = ''Tg'', jw_E = ''RQ''\<rparr>]),
       oe_idtoken = (\<lambda>_. Some ''aA.cA.cw''),
       oe_header = (\<lambda>_. Some \<lparr>jh_Alg = ''RS256'', jh_Kid = ''k''\<rparr>),
       oe_claims = (\<lambda>_. Some \<lparr>ic_Iss = ''accounts.google.com'', ic_Aud = ''cid'', ic_Sub = ''g1'', ic_Exp = 60,
         ic_Nonce = ''n'', ic_Email = ''ada'', ic_EmailVerified = True, ic_Name = ''Ada'', ic_Picture = []\<rparr>),
       oe_sha = id, oe_rsa = (\<lambda>k digest sig. sig = ''s'')\<rparr>,
     si_google = NewGoogle \<lparr>gc_issuer = [], gc_clientID = ''cid'', gc_clientSecret = ''cs'', gc_redirectURL = ''r''\<rparr>,
     si_json = (\<lambda>_. []), si_parse = (\<lambda>_. Some demo_flow)\<rparr>"

definition demo_api :: "mock counted api" where
  "demo_api = \<lparr>ap_app = demo_app\<lparr>a_hmac := (\<lambda>k m. k)\<rparr>, ap_linkSecret = ''ls'',
     ap_auth = Some (NewManager id 0 True),
     ap_flowSecret = ''f'', ap_cookieSecure = True, ap_trustProxy = False, ap_trustedOrigins = []\<rparr>"

definition demo_request :: http_request where
  "demo_request = \<lparr>hq_Method = ''GET'', hq_Session = None,
     hq_FlowCookie = Some (''.'' @ base64_url ''f''), hq_LinkHeader = [],
     hq_LinkQuery = [], hq_Origin = [], hq_Host = ''escrow.ng'', hq_ForwardedHost = [], hq_ForwardedFor = [],
     hq_RemoteHost = Some ''10'', hq_RemoteAddr = ''10:9'', hq_UserAgent = ''ua''\<rparr>"

definition demo_client :: "unit oidc" where
  "demo_client = \<lparr>oi_disco = None, oi_keys = (\<lambda>_. None), oi_keysFetched = 0, oi_server = (),
     oi_clock = (\<lambda>_. 7), oi_tick = 0\<rparr>"

definition demo_callback :: "session_reply \<times> unit oidc \<times> mock counted world" where
  "demo_callback = handleGoogleCallback demo_api (Some demo_issuer) (NewManager id 0 True) demo_request ''u9''
     (Inr ''d'') ''s'' ''code'' (demo_client, demo_start)"

theorem sign_in_verified_witness:
  "\<exists>raw i. vouched (si_env demo_issuer) (si_google demo_issuer) ''n'' (oi_keys (fst (snd demo_callback)))
     (last_reading (fst (snd demo_callback))) raw i \<and>
   (\<exists>u \<in> set (users (w_db (snd (snd demo_callback)))). u_google_sub u = Some (id_Sub i))"
proof -
  have session: "carries_session (fst demo_callback)" by code_simp
  obtain reply c' w' where run: "demo_callback = (reply, c', w')" by (metis prod_cases3)
  have "carries_session reply" using session unfolding run by simp
  from sign_in_verified [OF run [unfolded demo_callback_def] this] obtain body fs raw i where
      "map_option (si_parse demo_issuer) (base64_url_decode body) = Some (Some fs)"
      "vouched (si_env demo_issuer) (si_google demo_issuer) (fw_Nonce fs) (oi_keys c') (last_reading c') raw i"
      "\<exists>u \<in> set (users (w_db w')). u_google_sub u = Some (id_Sub i)" by blast
  moreover from this(1) have "fw_Nonce fs = ''n''" by (auto simp: demo_issuer_def demo_flow_def)
  ultimately show ?thesis unfolding run fst_conv snd_conv by metis
qed

section \<open>Where the browser is sent\<close>

text \<open>A browser drops tabs and line breaks from a URL before it reads it, takes a backslash for a
  slash, and leaves the site on a path that starts with two of them.\<close>

definition browser_reads :: "string \<Rightarrow> string" where
  "browser_reads target = map (\<lambda>c. if (of_char c :: nat) = 92 then CHR ''/'' else c)
     (filter (\<lambda>c. (of_char c :: nat) \<notin> {9, 10, 13}) target)"

definition leaves_site :: "string \<Rightarrow> bool" where
  "leaves_site target \<longleftrightarrow> has_prefix ''//'' (browser_reads target) \<or> \<not> has_prefix ''/'' (browser_reads target)"

definition tab :: char where
  "tab = char_of (9 :: nat)"

lemma browser_reads_plain:
  "(\<And>c. c \<in> set target \<Longrightarrow> (of_char c :: nat) \<notin> {9, 10, 13, 92}) \<Longrightarrow> browser_reads target = target"
  unfolding browser_reads_def by (induction target) auto

lemma of_char_tab: "(of_char c :: nat) = 9 \<Longrightarrow> c = tab"
  unfolding tab_def by (metis char_of_char)

lemma dashboard_stays: "\<not> leaves_site ''/dashboard''"
  by (simp add: leaves_site_def browser_reads_def has_prefix_def)

lemma safeNextPath_cases:
  "safeNextPath target = ''/dashboard'' \<or> safeNextPath target = target \<and> has_prefix ''/'' target \<and>
     \<not> has_prefix ''//'' target \<and> (\<forall>c \<in> set target. (of_char c :: nat) \<notin> {92, 13, 10})"
  by (simp add: safeNextPath_def list_ex_iff)

lemma safe_next_stays:
  assumes "tab \<notin> set target"
  shows "\<not> leaves_site (safeNextPath target)"
  using safeNextPath_cases [of target]
proof
  assume safe: "safeNextPath target = target \<and> has_prefix ''/'' target \<and> \<not> has_prefix ''//'' target \<and>
      (\<forall>c \<in> set target. (of_char c :: nat) \<notin> {92, 13, 10})"
  have "(of_char c :: nat) \<noteq> 9" if "c \<in> set target" for c
    using assms that of_char_tab by blast
  with safe have "browser_reads target = target" by (intro browser_reads_plain) blast
  with safe show ?thesis by (simp add: leaves_site_def)
qed (simp add: dashboard_stays)

lemma tab_gets_through:
  "safeNextPath (''/'' @ tab # ''/evil.example'') = ''/'' @ tab # ''/evil.example''"
  "leaves_site (''/'' @ tab # ''/evil.example'')"
  by code_simp+

text \<open>C40: The path a sign-in returns to stays on the site, whatever the query asked for, unless it holds
  a tab; and a tab after the first slash does get another host through.\<close>

theorem next_path_stays:
  "{target. leaves_site (safeNextPath target)} \<subseteq> {target. tab \<in> set target} \<and>
   safeNextPath (''/'' @ tab # ''/evil.example'') = ''/'' @ tab # ''/evil.example'' \<and>
   leaves_site (''/'' @ tab # ''/evil.example'')"
  using safe_next_stays tab_gets_through by blast

end
