(* ===== verification/Http_Admin.thy ===== *)
theory Http_Admin
  imports Http_Claims
begin

text \<open>
  The dispute desk (\<^verbatim>\<open>internal/httpapi/admin.go\<close>) and the use cases behind it that only read
  (\<^verbatim>\<open>internal/pocketapp/disputes.go\<close>): the full view of a pocket, the arbitration outcomes and
  the queue.  An event's serial number is not a column of the model; the list keeps its order.
\<close>

section \<open>Replies\<close>

record admin_dispute =
  ad_Class :: dispute_class
  ad_OpenedBy :: role
  ad_State :: dispute_state
  ad_Resolution :: "resolution option"
  ad_CreatedAt :: gotime

record admin_participant =
  dp_Role :: role
  dp_DisplayName :: string
  dp_Phone :: string
  dp_Claimed :: bool
  dp_Accepted :: bool

record admin_event =
  ae_Actor :: role
  ae_FromState :: "state option"
  ae_ToState :: "state option"
  ae_Kind :: string
  ae_CreatedAt :: gotime

record admin_detail =
  av_ID :: string
  av_ShortCode :: string
  av_State :: state
  av_Structure :: pocket_structure
  av_Mode :: mode
  av_Item :: item_view
  av_Money :: money_view
  av_DeliveryAddress :: string
  av_Timers :: timers_view
  av_Participants :: "admin_participant list"
  av_Events :: "admin_event list"
  av_Dispute :: "admin_dispute option"
  av_Evidence :: "evidence_view list"
  av_CreatedAt :: gotime

datatype admin_body =
    AdminError http_message | AdminDetailBody admin_detail | DisputesBody "dispute_queue_item list"

record admin_reply =
  ar_Status :: nat
  ar_Body :: admin_body

definition admin_ok :: "admin_body \<Rightarrow> admin_reply" where
  "admin_ok b = \<lparr>ar_Status = 200, ar_Body = b\<rparr>"

definition admin_respond :: "('g, admin_reply) hio \<Rightarrow> 'g world \<Rightarrow> admin_reply \<times> 'g world" where
  "admin_respond h w = (case h w of
     (Inl e, w') \<Rightarrow> (case classify e of (status, msg) \<Rightarrow> (\<lparr>ar_Status = status, ar_Body = AdminError msg\<rparr>, w'))
   | (Inr r, w') \<Rightarrow> (r, w'))"

section \<open>The full view of a pocket\<close>

definition ListDisputes :: "('g, dispute_queue_item list) io" where
  "ListDisputes = db_read (\<lambda>d. Inr (ListOpenDisputes d))"

definition Dispute :: "string \<Rightarrow> ('g, dispute_row) io" where
  "Dispute pid = db_read (GetDispute pid)"

definition Evidence :: "string \<Rightarrow> ('g, evidence_record list) io" where
  "Evidence pid = db_read (\<lambda>d. Inr (EvidenceForPocket pid d))"

definition buildAdminDetail :: "pocket_record \<Rightarrow> participant_record list \<Rightarrow> event_row list \<Rightarrow> evidence_record list \<Rightarrow> admin_detail" where
  "buildAdminDetail rec parts evs shown = (let p = rec_Pocket rec in
     \<lparr>av_ID = rec_ID rec, av_ShortCode = rec_ShortCode rec, av_State = p_State p,
      av_Structure = p_Structure p, av_Mode = p_Mode p,
      av_Item = \<lparr>iv_Description = rec_ItemDescription rec, iv_Category = rec_Category rec\<rparr>,
      av_Money = no_money\<lparr>mv_BuyerTotalKobo := Some (BuyerTotalKobo p), mv_AmountKobo := Some (p_AmountKobo p),
        mv_CommissionKobo := Some (p_CommissionKobo p), mv_PremiumKobo := Some (p_PremiumKobo p)\<rparr>,
      av_DeliveryAddress = rec_DeliveryAddress rec, av_Timers = pocket_timers p,
      av_Participants = map (\<lambda>t. \<lparr>dp_Role = part_Role t, dp_DisplayName = part_DisplayName t,
        dp_Phone = part_Phone t, dp_Claimed = part_UserID t \<noteq> [], dp_Accepted = part_Accepted t\<rparr>) parts,
      av_Events = map (\<lambda>e. \<lparr>ae_Actor = e_actor e, ae_FromState = e_from e, ae_ToState = e_to e,
        ae_Kind = e_kind e, ae_CreatedAt = e_created_at e\<rparr>) evs,
      av_Dispute = None, av_Evidence = map evidence_item shown, av_CreatedAt = rec_CreatedAt rec\<rparr>)"

definition admin_dispute_of :: "dispute_row \<Rightarrow> admin_dispute" where
  "admin_dispute_of d = \<lparr>ad_Class = d_class d, ad_OpenedBy = d_opened_by d, ad_State = d_state d,
     ad_Resolution = d_resolution d, ad_CreatedAt = d_created_at d\<rparr>"

definition assembleAdminDetail :: "'g api \<Rightarrow> string \<Rightarrow> ('g, admin_detail) hio" where
  "assembleAdminDetail p pid =
     bind_h (app_h (Detail (ap_app p) pid)) (\<lambda>(rec, parts, evs).
     bind_h (app_h (Evidence pid)) (\<lambda>shown w.
       let view = buildAdminDetail rec parts evs shown in
       case Dispute pid w of
         (Inr d, w') \<Rightarrow> (Inr (view\<lparr>av_Dispute := Some (admin_dispute_of d)\<rparr>), w')
       | (Inl e, w') \<Rightarrow> (if e \<noteq> ErrNotFound then Inl (AppError e) else Inr view, w')))"

definition writeAdminDetail :: "'g api \<Rightarrow> string \<Rightarrow> ('g, admin_reply) hio" where
  "writeAdminDetail p pid =
     bind_h (assembleAdminDetail p pid) (\<lambda>view. return_h (admin_ok (AdminDetailBody view)))"

section \<open>The endpoints\<close>

definition handleAdminDetail :: "'g api \<Rightarrow> http_request \<Rightarrow> string \<Rightarrow> ('g, admin_reply) hio" where
  "handleAdminDetail p r pid = bind_h (requireAdmin p r) (\<lambda>_. writeAdminDetail p pid)"

definition handleForceRefund :: "'g api \<Rightarrow> http_request \<Rightarrow> string \<Rightarrow> ('g, admin_reply) hio" where
  "handleForceRefund p r pid =
     bind_h (requireAdmin p r) (\<lambda>_.
     bind_h (app_h (ForceRefund (ap_app p) pid)) (\<lambda>_. writeAdminDetail p pid))"

text \<open>\<open>body\<close> is the decoded \<^verbatim>\<open>bad_faith\<close>; an empty body leaves it false.\<close>

definition handleForcePayout :: "'g api \<Rightarrow> http_request \<Rightarrow> string \<Rightarrow> bool json_body \<Rightarrow> ('g, admin_reply) hio" where
  "handleForcePayout p r pid body =
     bind_h (requireAdmin p r) (\<lambda>_.
     bind_h (decodeOptionalJSON False body) (\<lambda>badFaith.
     bind_h (app_h (ForcePayout (ap_app p) pid badFaith)) (\<lambda>_. writeAdminDetail p pid)))"

definition handleDisputeQueue :: "'g api \<Rightarrow> http_request \<Rightarrow> ('g, admin_reply) hio" where
  "handleDisputeQueue p r =
     bind_h (requireAdmin p r) (\<lambda>_.
     bind_h (app_h ListDisputes) (\<lambda>items. return_h (admin_ok (DisputesBody items))))"

section \<open>Who may arbitrate\<close>

text \<open>The request's session belongs to an account that carries the flag.\<close>

definition admin_session :: "'g api \<Rightarrow> http_request \<Rightarrow> 'g world \<Rightarrow> bool" where
  "admin_session p r w \<longleftrightarrow> (\<exists>u. signed_in p r w (u_id u) \<and> u \<in> set (users (w_db w)) \<and> u_is_admin u)"

datatype admin_call =
    CallDetail string | CallForceRefund string | CallForcePayout string "bool json_body" | CallQueue

fun admin_serve :: "'g api \<Rightarrow> http_request \<Rightarrow> admin_call \<Rightarrow> ('g, admin_reply) hio" where
  "admin_serve p r (CallDetail pid) = handleAdminDetail p r pid"
| "admin_serve p r (CallForceRefund pid) = handleForceRefund p r pid"
| "admin_serve p r (CallForcePayout pid body) = handleForcePayout p r pid body"
| "admin_serve p r CallQueue = handleDisputeQueue p r"

lemma currentUser_account:
  assumes "currentUser p r w = (Inr (Some u), w')"
  shows "\<exists>x \<in> set (users (w_db w)). scanUser x = u"
  using assms
  by (auto simp: currentUser_def return_h_def UserFromRequest_def fail_io_def bind_io_def now_io_def try_io_def
      db_io_def return_io_def SessionUser_def Let_def GetUser_def
      split: option.splits if_splits sum.splits prod.splits dest!: select_one_Some)

lemma requireAdmin_result:
  assumes "requireAdmin p r w = (res, w')"
  shows "untouched w w' \<and> ((\<exists>u. res = Inr u) \<and> admin_session p r w \<or> res = Inl errNoAccount \<or> res = Inl errForbidden)"
proof -
  obtain x w1 where cu: "currentUser p r w = (x, w1)" by fastforce
  obtain u where u: "x = Inr u" "untouched w w1" "u \<noteq> None \<Longrightarrow> signed_in p r w (ur_ID (the u))"
    using currentUser_result [OF cu] by blast
  show ?thesis
  proof (cases u)
    case None
    with assms cu u show ?thesis by (auto simp: requireAdmin_def bind_h_def fail_h_def)
  next
    case (Some a)
    with cu u(1) obtain row where "row \<in> set (users (w_db w))" "scanUser row = a"
      using currentUser_account by blast
    then have "admin_session p r w" if "ur_IsAdmin a"
      using u(3) Some that by (auto simp: admin_session_def scanUser_def)
    with assms cu u Some show ?thesis
      by (auto simp: requireAdmin_def bind_h_def fail_h_def return_h_def split: if_splits)
  qed
qed

text \<open>What follows the gate, and the gate itself.\<close>

fun behind_gate :: "'g api \<Rightarrow> admin_call \<Rightarrow> ('g, admin_reply) hio" where
  "behind_gate p (CallDetail pid) = writeAdminDetail p pid"
| "behind_gate p (CallForceRefund pid) =
     bind_h (app_h (ForceRefund (ap_app p) pid)) (\<lambda>_. writeAdminDetail p pid)"
| "behind_gate p (CallForcePayout pid body) = bind_h (decodeOptionalJSON False body) (\<lambda>badFaith.
     bind_h (app_h (ForcePayout (ap_app p) pid badFaith)) (\<lambda>_. writeAdminDetail p pid))"
| "behind_gate p CallQueue = bind_h (app_h ListDisputes) (\<lambda>items. return_h (admin_ok (DisputesBody items)))"

lemma admin_serve_gate: "admin_serve p r call = bind_h (requireAdmin p r) (\<lambda>_. behind_gate p call)"
  by (cases call) (simp_all add: handleAdminDetail_def handleForceRefund_def handleForcePayout_def
      handleDisputeQueue_def)

lemma detail_reads: "snd (writeAdminDetail p pid w) = w"
  by (auto simp: writeAdminDetail_def assembleAdminDetail_def bind_h_def app_h_def Detail_def Load_def
      Evidence_def Dispute_def bind_io_def db_read_def return_io_def return_h_def Let_def
      split: sum.splits prod.splits)

lemma queue_reads: "snd (behind_gate p CallQueue w) = w"
  by (simp add: bind_h_def app_h_def ListDisputes_def db_read_def return_h_def)

lemma admin_respond_world: "snd (admin_respond h w) = snd (h w)"
  by (auto simp: admin_respond_def split: sum.splits prod.splits)

lemma bind_h_world: "(\<And>x w1. m w = (Inr x, w1) \<Longrightarrow> snd (f x w1) = w1) \<Longrightarrow> snd (bind_h m f w) = snd (m w)"
  by (auto simp: bind_h_def split: sum.splits prod.splits)

text \<open>C27: Only an administrator arbitrates: every endpoint of the dispute desk, on any world, is either
  called with the live session of an account that carries the flag, or answered with 401 or 403
  with nothing changed but session stamps; and looking at a pocket or at the queue never changes
  more than that, for an administrator either.\<close>

theorem admin_gate:
  "(admin_session p r w \<or> ar_Status (fst (admin_respond (admin_serve p r call) w)) \<in> {401, 403} \<and>
     untouched w (snd (admin_respond (admin_serve p r call) w))) \<and>
   untouched w (snd (admin_respond (admin_serve p r (CallDetail pid)) w)) \<and>
   untouched w (snd (admin_respond (admin_serve p r CallQueue) w))"
proof -
  obtain res w1 where run: "requireAdmin p r w = (res, w1)" by fastforce
  have gate: "untouched w w1" "(\<exists>u. res = Inr u) \<and> admin_session p r w \<or> res = Inl errNoAccount \<or> res = Inl errForbidden"
    using requireAdmin_result [OF run] by blast+
  have "snd (admin_serve p r c w) = w1" if "\<And>w. snd (behind_gate p c w) = w" for c
    unfolding admin_serve_gate by (subst bind_h_world) (simp_all add: that run)
  from this [of "CallDetail pid"] this [of CallQueue]
  have "snd (admin_serve p r (CallDetail pid) w) = w1" "snd (admin_serve p r CallQueue w) = w1"
    by (simp_all only: behind_gate.simps(1) detail_reads queue_reads)
  moreover have "admin_session p r w \<or> ar_Status (fst (admin_respond (admin_serve p r call) w)) \<in> {401, 403} \<and>
     snd (admin_serve p r call w) = w1"
    using gate(2) by (auto simp: admin_respond_def admin_serve_gate bind_h_def run)
  ultimately show ?thesis unfolding admin_respond_world using gate(1) by auto
qed

end
