(* ===== verification/Short_Code.thy ===== *)
theory Short_Code
  imports Base64
begin

text \<open>
  The public short code of a pocket (\<^verbatim>\<open>newShortCode\<close> of \<^verbatim>\<open>internal/store/pockets.go\<close>):
  six random bytes in lower-case, unpadded base32.  The encoding is Go's
  \<^verbatim>\<open>base32.StdEncoding\<close>, five bytes to eight letters; the draw of the bytes is an argument.
\<close>

definition b32_letter :: "nat \<Rightarrow> char" where
  "b32_letter n = (if n < 26 then char_of (97 + n) else char_of (24 + n))"

fun b32_groups :: "nat list \<Rightarrow> nat list" where
  "b32_groups [] = []"
| "b32_groups [a] = [a div 8, a mod 8 * 4]"
| "b32_groups [a, b] = [a div 8, a mod 8 * 4 + b div 64, b div 2 mod 32, b mod 2 * 16]"
| "b32_groups [a, b, c] = [a div 8, a mod 8 * 4 + b div 64, b div 2 mod 32, b mod 2 * 16 + c div 16,
     c mod 16 * 2]"
| "b32_groups [a, b, c, d] = [a div 8, a mod 8 * 4 + b div 64, b div 2 mod 32, b mod 2 * 16 + c div 16,
     c mod 16 * 2 + d div 128, d div 4 mod 32, d mod 4 * 8]"
| "b32_groups (a # b # c # d # e # rest) = [a div 8, a mod 8 * 4 + b div 64, b div 2 mod 32,
     b mod 2 * 16 + c div 16, c mod 16 * 2 + d div 128, d div 4 mod 32, d mod 4 * 8 + e div 32, e mod 32]
     @ b32_groups rest"

definition base32_lower :: "string \<Rightarrow> string" where
  "base32_lower s = map b32_letter (b32_groups (bytes_of s))"

definition newShortCode :: "string res \<Rightarrow> string res" where
  "newShortCode draw = bind_res draw (\<lambda>b. Inr (base32_lower b))"

section \<open>Format and collisions\<close>

text \<open>The letters are distinct for the 32 five-bit values, and are lower-case letters or digits.\<close>

lemma b32_letter_code: "n < 32 \<Longrightarrow> of_char (b32_letter n) = (if n < 26 then 97 + n else 24 + n :: nat)"
  by (simp add: b32_letter_def)

lemma b32_letter_inj: "inj_on b32_letter {n. n < 32}"
proof (rule inj_onI)
  fix m n assume m: "m \<in> {n. n < 32}" and n: "n \<in> {n. n < 32}" and "b32_letter m = b32_letter n"
  then have "(of_char (b32_letter m) :: nat) = of_char (b32_letter n)" by simp
  then have "(if m < 26 then 97 + m else 24 + m) = (if n < 26 then 97 + n else 24 + n)"
    using m n by (simp only: b32_letter_code mem_Collect_eq)
  then show "m = n" using m n by (simp split: if_splits)
qed

lemma six_bytes:
  assumes "length s = 6"
  obtains a b c d e f where "bytes_of s = [a, b, c, d, e, f]"
    "a < 256" "b < 256" "c < 256" "d < 256" "e < 256" "f < 256"
proof -
  have "length s = Suc (Suc (Suc (Suc (Suc (Suc 0)))))" using assms by simp
  then obtain x0 x1 x2 x3 x4 x5 where "s = [x0, x1, x2, x3, x4, x5]"
    unfolding length_Suc_conv length_0_conv by blast
  then show ?thesis
    by (intro that [of "of_char x0" "of_char x1" "of_char x2" "of_char x3" "of_char x4" "of_char x5"])
      (simp_all add: bytes_of_def)
qed

text \<open>A letter carries the low bits of one byte and the high bits of the next.\<close>

lemma carry:
  fixes q r m :: nat
  assumes "r < m"
  shows "(q * m + r) div m = q" "(q * m + r) mod m = r"
  using assms by (simp_all add: div_add1_eq)

lemma carried_bits:
  fixes x y :: nat
  assumes "y < 256"
  shows "(x mod 8 * 4 + y div 64) div 4 = x mod 8" "(x mod 8 * 4 + y div 64) mod 4 = y div 64"
    "(x mod 2 * 16 + y div 16) div 16 = x mod 2" "(x mod 2 * 16 + y div 16) mod 16 = y div 16"
    "(x mod 16 * 2 + y div 128) div 2 = x mod 16" "(x mod 16 * 2 + y div 128) mod 2 = y div 128"
    "(x mod 4 * 8 + y div 32) div 8 = x mod 4" "(x mod 4 * 8 + y div 32) mod 8 = y div 32"
  using assms by (intro carry; simp add: div_less_iff_less_mult)+

lemma carry_small:
  fixes x y :: nat
  assumes "y < 256"
  shows "x mod 8 * 4 + y div 64 < 32" "x mod 2 * 16 + y div 16 < 32" "x mod 16 * 2 + y div 128 < 32"
    "x mod 4 * 8 + y div 32 < 32" "y div 8 < 32"
proof -
  have "x mod 8 \<le> 7" "x mod 2 \<le> 1" "x mod 16 \<le> 15" "x mod 4 \<le> 3" by simp_all
  moreover have "y div 64 \<le> 3" "y div 16 \<le> 15" "y div 128 \<le> 1" "y div 32 \<le> 7" "y div 8 \<le> 31"
    using assms by auto
  ultimately show "x mod 8 * 4 + y div 64 < 32" "x mod 2 * 16 + y div 16 < 32" "x mod 16 * 2 + y div 128 < 32"
    "x mod 4 * 8 + y div 32 < 32" "y div 8 < 32" by linarith+
qed

lemma middle_bits:
  fixes x :: nat
  shows "x div 64 * 64 + x div 2 mod 32 * 2 + x mod 2 = x" "x div 128 * 128 + x div 4 mod 32 * 4 + x mod 4 = x"
    "x div 8 * 8 + x mod 8 = x" "x div 16 * 16 + x mod 16 = x" "x div 32 * 32 + x mod 32 = x"
  using mod_mult2_eq [of x 2 32] mod_mult2_eq [of x 4 32] div_mult_mod_eq [of x 64] div_mult_mod_eq [of x 128]
  by (simp_all add: div_mult_mod_eq)

lemma b32_range:
  assumes "length s = 6"
  shows "length (b32_groups (bytes_of s)) = 10" "\<forall>x \<in> set (b32_groups (bytes_of s)). x < 32"
proof -
  obtain a b c d e f where s: "bytes_of s = [a, b, c, d, e, f]"
      "a < 256" "b < 256" "c < 256" "d < 256" "e < 256" "f < 256"
    using six_bytes [OF assms] by blast
  show "length (b32_groups (bytes_of s)) = 10" by (simp add: s)
  have "f mod 8 * 4 < 32" using carry_small(1) [of 0 f] by simp
  then show "\<forall>x \<in> set (b32_groups (bytes_of s)). x < 32" by (simp add: s carry_small)
qed

text \<open>A code has ten characters of \<^verbatim>\<open>a-z2-7\<close>: it is a path segment of its own and needs no escaping.\<close>

lemma short_code_format:
  assumes "length b = 6" and "newShortCode (Inr b) = Inr sc"
  shows "length sc = 10 \<and> (\<forall>c \<in> set sc. (of_char c :: nat) \<in> {97..122} \<union> {50..55})"
proof -
  have sc: "sc = map b32_letter (b32_groups (bytes_of b))"
    using assms(2) by (simp add: newShortCode_def base32_lower_def)
  have "(of_char c :: nat) \<in> {97..122} \<union> {50..55}" if in_code: "c \<in> set sc" for c
  proof -
    obtain n where "n \<in> set (b32_groups (bytes_of b))" and c: "c = b32_letter n"
      using in_code unfolding sc set_map by blast
    then have "n < 32" using b32_range [OF assms(1)] by blast
    then show ?thesis unfolding c b32_letter_code [OF \<open>n < 32\<close>] by auto
  qed
  then show ?thesis using b32_range [OF assms(1)] by (simp add: sc)
qed

text \<open>All 48 bits survive: two draws give one code only when they are the same draw, so the unique
  constraint refuses a pocket only on a repeated draw.\<close>

fun b32_six :: "nat list \<Rightarrow> nat list" where
  "b32_six (p # q # r # s # t # u # v # w # x # y # rest) =
     [p * 8 + q div 4, q mod 4 * 64 + r * 2 + s div 16, s mod 16 * 16 + t div 2,
      t mod 2 * 128 + u * 4 + v div 8, v mod 8 * 32 + w, x * 8 + y div 4]"
| "b32_six _ = []"

lemma b32_six_groups:
  assumes "b < 256" "c < 256" "d < 256" "e < 256"
  shows "b32_six (b32_groups [a, b, c, d, e, f]) = [a, b, c, d, e, f]"
  using assms by (simp add: carried_bits middle_bits)

lemma newShortCode_inj:
  assumes "length s = 6" and "length t = 6" and "newShortCode (Inr s) = newShortCode (Inr t)"
  shows "s = t"
proof -
  have "map b32_letter (b32_groups (bytes_of s)) = map b32_letter (b32_groups (bytes_of t))"
    using assms(3) by (simp add: newShortCode_def base32_lower_def)
  then have "b32_groups (bytes_of s) = b32_groups (bytes_of t)"
    using b32_range [OF assms(1)] b32_range [OF assms(2)]
    by (intro map_inj_on [of b32_letter]) (auto intro: inj_on_subset [OF b32_letter_inj])
  then have "bytes_of s = bytes_of t"
    using six_bytes [OF assms(1)] six_bytes [OF assms(2)] b32_six_groups by metis
  then show ?thesis by (simp add: bytes_of_def inj_map_eq_map inj_of_char)
qed

end
