(* ===== verification/Http_Api.thy ===== *)
theory Http_Api
  imports Rate_Limit Session_Claims Http_Admin Webhook Short_Code
begin

text \<open>
  The whole transport (\<^verbatim>\<open>internal/httpapi/api.go\<close>): the handler set and its limiters, the
  route table, the middleware and the dispatch of a request to its endpoint.  A request carries
  its path, already cleaned and unescaped, and its body and query in every decoded form an
  endpoint may ask for; the keys and random draws the endpoint may use, and the answer the database
  gives a ping, come with it.
\<close>

section \<open>The handler set\<close>

record limits =
  li_global :: "limiter option"
  li_auth :: "limiter option"
  li_write :: "limiter option"
  li_clock :: "nat \<Rightarrow> gotime"
  li_tick :: nat

record ('g, 's) http_config =
  cf_App :: "'g app"
  cf_LinkSecret :: string
  cf_Auth :: auth_manager
  cf_Google :: "'s sign_in option"
  cf_NombaWebhook :: "(wire \<times> string) option"
  cf_FlowSecret :: string
  cf_CookieSecure :: bool
  cf_TrustProxy :: bool
  cf_TrustedOrigins :: "string list"
  cf_RateLimit :: bool

record ('g, 's) http_api =
  ha_api :: "'g api"
  ha_auth :: auth_manager
  ha_google :: "'s sign_in option"
  ha_webhook :: "(wire \<times> string) option"

definition New_api :: "('g, 's) http_config \<Rightarrow> ('g, 's) http_api" where
  "New_api cfg = \<lparr>ha_api = \<lparr>ap_app = cf_App cfg, ap_linkSecret = cf_LinkSecret cfg,
       ap_auth = Some (cf_Auth cfg), ap_flowSecret = cf_FlowSecret cfg,
       ap_cookieSecure = cf_CookieSecure cfg, ap_trustProxy = cf_TrustProxy cfg,
       ap_trustedOrigins = cf_TrustedOrigins cfg\<rparr>,
     ha_auth = cf_Auth cfg, ha_google = cf_Google cfg, ha_webhook = cf_NombaWebhook cfg\<rparr>"

definition New_limits :: "('g, 's) http_config \<Rightarrow> (nat \<Rightarrow> gotime) \<Rightarrow> limits" where
  "New_limits cfg clock = (let set = (\<lambda>perMinute burst.
       if cf_RateLimit cfg then Some (New_limiter perMinute burst) else None) in
     \<lparr>li_global = set 1200 120, li_auth = set 10 10, li_write = set 60 30, li_clock = clock, li_tick = 0\<rparr>)"

text \<open>An absent limiter admits; otherwise it reads the clock and keeps its new state.\<close>

definition allow :: "(limits \<Rightarrow> limiter option) \<Rightarrow> ((limiter option \<Rightarrow> limiter option) \<Rightarrow> limits \<Rightarrow> limits) \<Rightarrow>
    string \<Rightarrow> limits \<Rightarrow> bool \<times> limits" where
  "allow get put key l = (case get l of
       None \<Rightarrow> (True, l)
     | Some m \<Rightarrow> (case Allow key (li_clock l (li_tick l)) m of
         (ok, m') \<Rightarrow> (ok, put (\<lambda>_. Some m') (l\<lparr>li_tick := Suc (li_tick l)\<rparr>))))"

section \<open>Requests and replies\<close>

record http_body =
  hb_Login :: "demo_login json_body"
  hb_Next :: string
  hb_State :: string
  hb_Code :: string
  hb_Goods :: "int option"
  hb_Create :: "create_request json_body"
  hb_VendorAmount :: "int json_body"
  hb_Address :: "string json_body"
  hb_ReleaseCode :: "string json_body"
  hb_Form :: upload_form
  hb_Headers :: webhook_headers
  hb_Raw :: "string option"
  hb_BadFaith :: "bool json_body"

record incoming =
  nq_Request :: http_request
  nq_Path :: string
  nq_Body :: http_body
  nq_NewID :: string
  nq_Draw :: "string res"
  nq_FlowDraws :: "string res \<times> string res \<times> string res"
  nq_ShortCodeDraw :: "string res"
  nq_Ping :: bool

datatype endpoint =
    EpProviders | EpMe | EpDemoLogin | EpLogout | EpGoogleStart | EpGoogleCallback
  | EpMyPockets | EpFees | EpCreate | EpClaim string | EpClaimBroker string
  | EpSeat string seat_call | EpReleaseCode string | EpSimulate string | EpWebhook
  | EpDesk admin_call | EpHealthz

datatype api_reply =
    PocketReply http_reply | SessionReply session_reply | DeskReply admin_reply
  | QuoteReply fee_quote | HealthReply nat string | Unrouted nat

section \<open>Routes\<close>

text \<open>A route: its method, its path pattern, whether it spends the write budget, and the endpoint for
  the path value.\<close>

type_synonym route = "string \<times> string \<times> bool \<times> (string \<Rightarrow> endpoint)"

definition seat_routes :: "incoming \<Rightarrow> route list" where
  "seat_routes q = (let b = nq_Body q in
     [(''GET'', ''/api/p/{shortCode}'', False, \<lambda>v. EpSeat v CallView),
      (''POST'', ''/api/p/{shortCode}/claim'', True, EpClaim),
      (''POST'', ''/api/p/{shortCode}/claim-broker'', True, EpClaimBroker),
      (''POST'', ''/api/p/{shortCode}/accept'', True, \<lambda>v. EpSeat v (CallAccept (hb_Address b))),
      (''POST'', ''/api/p/{shortCode}/cancel'', True, \<lambda>v. EpSeat v CallCancel),
      (''POST'', ''/api/p/{shortCode}/verify-funding'', True, \<lambda>v. EpSeat v CallVerifyFunding),
      (''POST'', ''/api/p/{shortCode}/enter-code'', True, \<lambda>v. EpSeat v (CallEnterCode (hb_ReleaseCode b))),
      (''POST'', ''/api/p/{shortCode}/report-issue'', True, \<lambda>v. EpSeat v CallReportIssue),
      (''POST'', ''/api/p/{shortCode}/confirm-dispatch-failure'', True, \<lambda>v. EpSeat v CallConfirmFailure),
      (''POST'', ''/api/p/{shortCode}/attest-non-receipt'', True, \<lambda>v. EpSeat v CallAttest),
      (''POST'', ''/api/p/{shortCode}/dispute'', True, \<lambda>v. EpSeat v CallOpenDispute),
      (''POST'', ''/api/p/{shortCode}/concede'', True, \<lambda>v. EpSeat v CallConcede),
      (''POST'', ''/api/p/{shortCode}/evidence'', True, \<lambda>v. EpSeat v (CallUpload (nq_NewID q) (hb_Form b))),
      (''GET'', ''/api/p/{shortCode}/dispute'', False, \<lambda>v. EpSeat v CallDisputeView)])"

definition Register :: "incoming \<Rightarrow> route list" where
  "Register q =
     [(''GET'', ''/api/auth/providers'', False, \<lambda>_. EpProviders),
      (''GET'', ''/api/auth/me'', False, \<lambda>_. EpMe),
      (''POST'', ''/api/auth/demo'', False, \<lambda>_. EpDemoLogin),
      (''POST'', ''/api/auth/logout'', False, \<lambda>_. EpLogout),
      (''GET'', ''/api/auth/google/start'', False, \<lambda>_. EpGoogleStart),
      (''GET'', ''/api/auth/google/callback'', False, \<lambda>_. EpGoogleCallback),
      (''GET'', ''/api/me/pockets'', False, \<lambda>_. EpMyPockets),
      (''GET'', ''/api/fees'', False, \<lambda>_. EpFees),
      (''POST'', ''/api/pockets'', True, \<lambda>_. EpCreate)] @
     seat_routes q @
     [(''GET'', ''/api/pockets/{id}/release-code'', False, EpReleaseCode),
      (''POST'', ''/api/demo/pockets/{id}/simulate-funding'', False, EpSimulate),
      (''POST'', ''/api/webhooks/nomba'', False, \<lambda>_. EpWebhook),
      (''GET'', ''/api/admin/pockets/{id}'', False, \<lambda>v. EpDesk (CallDetail v)),
      (''GET'', ''/api/admin/disputes'', False, \<lambda>_. EpDesk CallQueue),
      (''POST'', ''/api/admin/pockets/{id}/force-refund'', True, \<lambda>v. EpDesk (CallForceRefund v)),
      (''POST'', ''/api/admin/pockets/{id}/force-payout'', True,
        \<lambda>v. EpDesk (CallForcePayout v (hb_BadFaith (nq_Body q))))]"

text \<open>The API process's table (\<^verbatim>\<open>cmd/api/main.go\<close>): its health check beside the handler set's.\<close>

definition mux_routes :: "incoming \<Rightarrow> route list" where
  "mux_routes q = (''GET'', ''/healthz'', False, \<lambda>_. EpHealthz) # Register q"

text \<open>\<^verbatim>\<open>http.ServeMux\<close>: a braced segment matches any one segment, a GET pattern also
  matches HEAD, and a path known under other methods only is answered 405.  No two patterns of
  the table match one request.\<close>

fun match_path :: "string list \<Rightarrow> string list \<Rightarrow> string \<Rightarrow> string option" where
  "match_path [] [] v = Some v"
| "match_path (pat # pats) (s # segs) v =
     (if has_prefix ''{'' pat then (if s = [] then None else match_path pats segs s)
      else if pat = s then match_path pats segs v else None)"
| "match_path _ _ v = None"

definition path_value :: "string \<Rightarrow> route \<Rightarrow> string option" where
  "path_value path rt = (case rt of (_, pat, _, _) \<Rightarrow>
     match_path (split_on (CHR ''/'') pat) (split_on (CHR ''/'') path) [])"

definition method_ok :: "string \<Rightarrow> route \<Rightarrow> bool" where
  "method_ok m rt \<longleftrightarrow> m = fst rt \<or> m = ''HEAD'' \<and> fst rt = ''GET''"

definition mux :: "incoming \<Rightarrow> nat + bool \<times> endpoint" where
  "mux q = (let rts = filter (\<lambda>rt. path_value (nq_Path q) rt \<noteq> None) (mux_routes q) in
     case List.find (method_ok (hq_Method (nq_Request q))) rts of
       Some (m, pat, limited, ep) \<Rightarrow> Inr (limited, ep (the (path_value (nq_Path q) (m, pat, limited, ep))))
     | None \<Rightarrow> Inl (if rts = [] then 404 else 405))"

section \<open>Dispatch\<close>

record ('g, 's) server =
  sv_world :: "'g world"
  sv_oidc :: "'s oidc"
  sv_limits :: limits

type_synonym ('g, 's) step = "('g, 's) server \<Rightarrow> api_reply \<times> ('g, 's) server"

definition pocket_step :: "('g, http_reply) hio \<Rightarrow> ('g, 's) step" where
  "pocket_step h sv = (case respond h (sv_world sv) of (r, w) \<Rightarrow> (PocketReply r, sv\<lparr>sv_world := w\<rparr>))"

definition desk_step :: "('g, admin_reply) hio \<Rightarrow> ('g, 's) step" where
  "desk_step h sv = (case admin_respond h (sv_world sv) of (r, w) \<Rightarrow> (DeskReply r, sv\<lparr>sv_world := w\<rparr>))"

definition session_step :: "('g, session_reply) hio \<Rightarrow> ('g, 's) step" where
  "session_step h sv = (case h (sv_world sv) of
     (Inl e, w) \<Rightarrow> (SessionReply (session_error e), sv\<lparr>sv_world := w\<rparr>)
   | (Inr r, w) \<Rightarrow> (SessionReply r, sv\<lparr>sv_world := w\<rparr>))"

definition google_step :: "('g, 's) google_io \<Rightarrow> ('g, 's) step" where
  "google_step h sv = (case h (sv_oidc sv, sv_world sv) of
     (r, c, w) \<Rightarrow> (SessionReply r, sv\<lparr>sv_oidc := c, sv_world := w\<rparr>))"

definition fee_step :: "int option \<Rightarrow> ('g, 's) step" where
  "fee_step goods sv = (case handleFeeQuote goods of
     None \<Rightarrow> (PocketReply (writeError errBadRequest), sv) | Some quote \<Rightarrow> (QuoteReply quote, sv))"

text \<open>\<open>reachable\<close> is the database's answer to a ping; the answer's database field tells it.\<close>

definition healthz :: "bool \<Rightarrow> ('g, 's) step" where
  "healthz reachable sv =
     ((if reachable then HealthReply 200 ''ok'' else HealthReply 503 ''unreachable''), sv)"

text \<open>The credential endpoints consult their limiter once they have found sign-in available.\<close>

definition with_auth_budget :: "('g, 's) http_api \<Rightarrow> http_request \<Rightarrow> bool \<Rightarrow> (bool \<Rightarrow> ('g, 's) step) \<Rightarrow>
    ('g, 's) step" where
  "with_auth_budget a r available f sv =
     (if available
      then (case allow li_auth li_auth_update (clientIP (ha_api a) r) (sv_limits sv) of
          (ok, l) \<Rightarrow> f ok (sv\<lparr>sv_limits := l\<rparr>))
      else f True sv)"

fun handle :: "('g, 's) http_api \<Rightarrow> incoming \<Rightarrow> endpoint \<Rightarrow> ('g, 's) step" where
  "handle a q EpProviders = (\<lambda>sv. (SessionReply (handleAuthProviders (ha_api a) (map_option si_google (ha_google a))), sv))"
| "handle a q EpMe = session_step (handleMe (ha_api a) (nq_Request q))"
| "handle a q EpDemoLogin = with_auth_budget a (nq_Request q) (Sandbox (ap_app (ha_api a)))
     (\<lambda>ok. session_step (handleDemoLogin (ha_api a) (ha_auth a) (nq_Request q) ok (nq_NewID q) (nq_Draw q)
       (hb_Login (nq_Body q))))"
| "handle a q EpLogout = session_step (handleLogout (ha_api a) (nq_Request q))"
| "handle a q EpGoogleStart = with_auth_budget a (nq_Request q) (ha_google a \<noteq> None)
     (\<lambda>ok. google_step (handleGoogleStart (ha_api a) (ha_google a) ok (nq_FlowDraws q) (hb_Next (nq_Body q))))"
| "handle a q EpGoogleCallback = google_step (handleGoogleCallback (ha_api a) (ha_google a) (ha_auth a)
     (nq_Request q) (nq_NewID q) (nq_Draw q) (hb_State (nq_Body q)) (hb_Code (nq_Body q)))"
| "handle a q EpMyPockets = pocket_step (handleMyPockets (ha_api a) (nq_Request q))"
| "handle a q EpFees = fee_step (hb_Goods (nq_Body q))"
| "handle a q EpCreate = pocket_step (handleCreate (ha_api a) (nq_Request q) (newShortCode (nq_ShortCodeDraw q)) (nq_NewID q)
     (hb_Create (nq_Body q)))"
| "handle a q (EpClaim sc) = pocket_step (handleClaim (ha_api a) (nq_Request q) sc)"
| "handle a q (EpClaimBroker sc) = pocket_step (handleClaimBroker (ha_api a) (nq_Request q) sc
     (hb_VendorAmount (nq_Body q)))"
| "handle a q (EpSeat sc call) = pocket_step (serve (ha_api a) (nq_Request q) sc call)"
| "handle a q (EpReleaseCode pid) = pocket_step (handleReleaseCode (ha_api a) (nq_Request q) pid)"
| "handle a q (EpSimulate pid) = pocket_step (handleSimulateFunding (ha_api a) (nq_Request q) pid)"
| "handle a q EpWebhook = pocket_step (handleNombaWebhook (ha_api a) (ha_webhook a) (hb_Headers (nq_Body q))
     (hb_Raw (nq_Body q)))"
| "handle a q (EpDesk call) = desk_step (admin_serve (ha_api a) (nq_Request q) call)"
| "handle a q EpHealthz = healthz (nq_Ping q)"

section \<open>Middleware\<close>

definition refuse :: "http_error \<Rightarrow> ('g, 's) step" where
  "refuse e sv = (PocketReply (writeError e), sv)"

definition limitWrites :: "('g, 's) http_api \<Rightarrow> http_request \<Rightarrow> ('g, 's) step \<Rightarrow> ('g, 's) step" where
  "limitWrites a r next_step sv =
     (case allow li_write li_write_update (clientIP (ha_api a) r) (sv_limits sv) of
        (ok, l) \<Rightarrow> (if ok then next_step else refuse errRateLimited) (sv\<lparr>sv_limits := l\<rparr>))"

definition Middleware :: "(string \<Rightarrow> string \<Rightarrow> bool) \<Rightarrow> ('g, 's) http_api \<Rightarrow> http_request \<Rightarrow> ('g, 's) step \<Rightarrow>
    ('g, 's) step" where
  "Middleware fold_eq a r next_step sv =
     (if hq_Method r \<noteq> ''GET'' \<and> hq_Method r \<noteq> ''HEAD'' \<and> \<not> sameOrigin fold_eq (ha_api a) r
      then refuse errForbidden sv
      else (case allow li_global li_global_update (clientIP (ha_api a) r) (sv_limits sv) of
        (ok, l) \<Rightarrow> (if ok then next_step else refuse errRateLimited) (sv\<lparr>sv_limits := l\<rparr>)))"

definition dispatch :: "('g, 's) http_api \<Rightarrow> incoming \<Rightarrow> ('g, 's) step" where
  "dispatch a q = (case mux q of
       Inl status \<Rightarrow> (\<lambda>sv. (Unrouted status, sv))
     | Inr (limited, ep) \<Rightarrow>
         (if limited then limitWrites a (nq_Request q) (handle a q ep) else handle a q ep))"

definition ServeHTTP :: "(string \<Rightarrow> string \<Rightarrow> bool) \<Rightarrow> ('g, 's) http_api \<Rightarrow> incoming \<Rightarrow> ('g, 's) step" where
  "ServeHTTP fold_eq a q = Middleware fold_eq a (nq_Request q) (dispatch a q)"

end
