(* ===== verification/Http_Api_Claims.thy ===== *)
theory Http_Api_Claims
  imports Http_Api
begin

text \<open>
  The claim about the transport as a whole: what a request without credentials can do.
\<close>

section \<open>Outsiders\<close>

text \<open>A request that carries no live session, no verifying invitation, no flow cookie and no webhook
  signature, to a server outside the sandbox.\<close>

definition outsider :: "('g, 's) http_api \<Rightarrow> incoming \<Rightarrow> 'g world \<Rightarrow> bool" where
  "outsider a q w \<longleftrightarrow> (let r = nq_Request q; p = ha_api a in
     (\<forall>uid. \<not> signed_in p r w uid) \<and>
     (\<forall>c. Parse (a_hmac (ap_app p)) (ap_linkSecret p) (extractToken r) \<noteq> Inr c) \<and>
     hq_FlowCookie r = None \<and> header_signature (hb_Headers (nq_Body q)) = [] \<and> \<not> a_sandbox (ap_app p))"

text \<open>What such a request may leave changed: the reading of the clock, and the revocation mark of a
  session that had already expired, which is what signing out with an old cookie writes.\<close>

definition closed :: "gotime \<Rightarrow> session_row \<Rightarrow> session_row \<Rightarrow> bool" where
  "closed now n n' \<longleftrightarrow> n' = n \<or> n_expires_at n \<le> now \<and> n' = n\<lparr>n_revoked_at := n_revoked_at n'\<rparr>"

definition left_alone :: "'g world \<Rightarrow> 'g world \<Rightarrow> bool" where
  "left_alone w w' \<longleftrightarrow> framed (closed (w_clock w (w_tick w))) w w'"

lemma left_alone_refl [simp]: "left_alone w w"
  by (simp add: left_alone_def closed_def)

lemma left_alone_read [simp]: "left_alone w (w\<lparr>w_tick := t\<rparr>)"
  by (simp add: left_alone_def closed_def)

lemma left_alone_tick: "w' = w\<lparr>w_tick := w_tick w'\<rparr> \<Longrightarrow> left_alone w w'"
  by (metis left_alone_read)

definition harmless :: "('g, 's) step \<Rightarrow> ('g, 's) server \<Rightarrow> bool" where
  "harmless f sv \<longleftrightarrow> left_alone (sv_world sv) (sv_world (snd (f sv)))"

lemma pocket_harmless: "left_alone (sv_world sv) (snd (h (sv_world sv))) \<Longrightarrow> harmless (pocket_step h) sv"
  by (auto simp: harmless_def pocket_step_def respond_def split: sum.splits prod.splits)

lemma desk_harmless: "left_alone (sv_world sv) (snd (h (sv_world sv))) \<Longrightarrow> harmless (desk_step h) sv"
  by (auto simp: harmless_def desk_step_def admin_respond_def split: sum.splits prod.splits)

lemma session_harmless: "left_alone (sv_world sv) (snd (h (sv_world sv))) \<Longrightarrow> harmless (session_step h) sv"
  by (auto simp: harmless_def session_step_def split: sum.splits prod.splits)

lemma anonymous_currentUser:
  assumes "\<forall>uid. \<not> signed_in p r w uid"
  obtains w' where "currentUser p r w = (Inr None, w')" "left_alone w w'"
proof -
  obtain res w' where run: "currentUser p r w = (res, w')" by fastforce
  obtain u where "res = Inr u" "u \<noteq> None \<Longrightarrow> signed_in p r w (ur_ID (the u))" "w' = w\<lparr>w_tick := w_tick w'\<rparr>"
    using currentUser_result [OF run] assms by metis
  with assms run that left_alone_tick show thesis by (cases u) auto
qed

lemma anonymous_requireUser:
  assumes "\<forall>uid. \<not> signed_in p r w uid"
  shows "left_alone w (snd (bind_h (requireUser p r) f w))"
  using assms by (rule anonymous_currentUser) (simp add: requireUser_def bind_h_def fail_h_def)

lemma anonymous_requireAdmin:
  assumes "\<forall>uid. \<not> signed_in p r w uid"
  shows "left_alone w (snd (bind_h (requireAdmin p r) f w))"
  using assms by (rule anonymous_currentUser) (simp add: requireAdmin_def bind_h_def fail_h_def)

lemma anonymous_seat:
  assumes "\<forall>uid. \<not> signed_in p r w uid"
    and "\<forall>c. Parse (a_hmac (ap_app p)) (ap_linkSecret p) (extractToken r) \<noteq> Inr c"
  shows "left_alone w (snd (serve p r sc call w))"
proof -
  obtain w1 where w1: "currentUser p r w = (Inr None, w1)" "left_alone w w1"
    using assms(1) by (rule anonymous_currentUser)
  have "\<not> may_act p r w pid role" for pid role
    using assms by (simp add: may_act_def invited_def)
  then have "refused w w1 (serve p r sc call w)"
    using spec [OF serve_seated [of p r sc call, unfolded seated_def], of w] w1(1) by simp
  with w1(2) show ?thesis
    by (cases "serve p r sc call w"; cases "fst (serve p r sc call w)") (auto simp: refused_def)
qed

lemma anonymous_code:
  assumes "\<forall>uid. \<not> signed_in p r w uid"
  shows "left_alone w (snd (handleReleaseCode p r pid w))"
proof -
  obtain w1 where w1: "currentUser p r w = (Inr None, w1)" "left_alone w w1"
    using assms(1) by (rule anonymous_currentUser)
  obtain res w' where "handleReleaseCode p r pid w = (res, w')" by fastforce
  with release_code_seated [OF this] w1 show ?thesis by auto
qed

text \<open>Signing out revokes the rows of the presented cookie; none of them is live.\<close>

lemma logout_harmless:
  assumes "\<forall>uid. \<not> signed_in p r w uid"
  shows "left_alone w (snd (handleLogout p r w))"
proof -
  have "left_alone w (w\<lparr>w_db := RevokeSession (hashToken (am_sha m) v) (w_db w)\<rparr>)"
    if "ap_auth p = Some m" "hq_Session r = Some v" "v \<noteq> []" for m v
  proof -
    have "list_all2 (closed (w_clock w (w_tick w))) (sessions (w_db w))
        (update_where (\<lambda>n. n_token_hash n = hashToken (am_sha m) v \<and> n_revoked_at n = None)
          (\<lambda>n. n\<lparr>n_revoked_at := Some (db_clock (w_db w))\<rparr>) (sessions (w_db w)))"
      using assms that by (intro framed_update) (fastforce simp: signed_in_def closed_def)+
    then show ?thesis by (simp add: left_alone_def framed_def RevokeSession_def)
  qed
  then show ?thesis
    by (auto simp: handleLogout_def bind_h_def app_h_def Revoke_def bind_io_def db_do_def return_io_def
        return_h_def split: option.split)
qed

lemma google_harmless:
  "hq_FlowCookie r = None \<Longrightarrow> harmless (google_step (handleGoogleCallback p sign m r i d st code)) sv"
  "harmless (google_step (handleGoogleStart p sign ok draws target)) sv"
  by (auto simp: harmless_def google_step_def handleGoogleCallback_def handleGoogleStart_def Let_def
      split: option.splits sum.splits prod.splits)

lemma unsigned_webhook:
  "header_signature h = [] \<Longrightarrow> left_alone w (snd (handleNombaWebhook p verifier h body w))"
  by (auto simp: handleNombaWebhook_def webhook_Verify_def header_signature_def fail_h_def Let_def
      split: option.split prod.split)

lemma auth_budget_harmless:
  assumes "\<And>ok l. available \<Longrightarrow> harmless (f ok) (sv\<lparr>sv_limits := l\<rparr>)" and "\<not> available \<Longrightarrow> harmless (f True) sv"
  shows "harmless (with_auth_budget a r available f) sv"
  using assms by (auto simp: harmless_def with_auth_budget_def split: prod.split)

lemma handle_harmless:
  assumes "outsider a q (sv_world sv)"
  shows "harmless (handle a q ep) sv"
proof -
  let ?w = "sv_world sv"
  note o = assms [unfolded outsider_def Let_def]
  show ?thesis
  proof (cases ep)
    case (EpSeat sc call)
    then show ?thesis using o anonymous_seat by (auto intro!: pocket_harmless)
  next
    case (EpReleaseCode pid)
    then show ?thesis using o anonymous_code by (auto intro!: pocket_harmless)
  next
    case EpProviders
    then show ?thesis by (simp add: harmless_def)
  next
    case EpFees
    then show ?thesis by (simp add: harmless_def fee_step_def split: option.split)
  next
    case EpHealthz
    then show ?thesis by (simp add: harmless_def healthz_def)
  next
    case EpDemoLogin
    then show ?thesis
      using o by (auto intro!: auth_budget_harmless session_harmless simp: handleDemoLogin_def fail_h_def)
  qed (use o in \<open>auto intro!: pocket_harmless session_harmless desk_harmless auth_budget_harmless google_harmless
      anonymous_requireUser anonymous_requireAdmin unsigned_webhook logout_harmless
      simp: handleMe_def handleMyPockets_def handleCreate_def handleClaim_def handleClaimBroker_def
        admin_serve_gate handleSimulateFunding_def CanSimulateFunding_def fail_h_def\<close>)
qed

lemma outsider_any_limits: "outsider a q (sv_world (sv\<lparr>sv_limits := l\<rparr>)) = outsider a q (sv_world sv)"
  by simp

lemma dispatch_harmless:
  assumes "outsider a q (sv_world sv)"
  shows "harmless (dispatch a q) sv"
proof -
  have "harmless (limitWrites a r (handle a q ep)) sv" for r ep
    using handle_harmless [of a q "sv\<lparr>sv_limits := l\<rparr>" ep for l] assms
    by (auto simp: limitWrites_def harmless_def refuse_def split: prod.split)
  with handle_harmless [OF assms] show ?thesis
    by (auto simp: dispatch_def harmless_def split: sum.split prod.split)
qed

text \<open>C10: Outside the sandbox a request without credentials changes nothing: whatever its method, path,
  body and origin, and whatever world, limiters and sign-in client it meets, a request with no live
  session, no verifying invitation, no flow cookie and no webhook signature leaves every table of the
  database, the provider, the messages sent and the draws to come as they were; a clock reading apart,
  all it can write is the revocation mark of a session that has already expired.\<close>

theorem outsiders_change_nothing:
  assumes "outsider a q (sv_world sv)"
  shows "left_alone (sv_world sv) (sv_world (snd (ServeHTTP fold_eq a q sv)))"
proof -
  have "harmless (dispatch a q) (sv\<lparr>sv_limits := l\<rparr>)" for l
    using assms by (intro dispatch_harmless) simp
  then show ?thesis
    by (auto simp: ServeHTTP_def Middleware_def refuse_def harmless_def split: prod.split)
qed

text \<open>A cancellation without credentials, sent to the production server that holds an accepted pocket.\<close>

definition quiet_api :: "(mock counted, unit) http_api" where
  "quiet_api = \<lparr>ha_api = demo_api\<lparr>ap_app := demo_app\<lparr>a_sandbox := False\<rparr>\<rparr>, ha_auth = NewManager id 0 True,
     ha_google = None, ha_webhook = None\<rparr>"

definition bare_body :: http_body where
  "bare_body = \<lparr>hb_Login = EmptyBody, hb_Next = [], hb_State = [], hb_Code = [], hb_Goods = None, hb_Create = EmptyBody,
     hb_VendorAmount = EmptyBody, hb_Address = EmptyBody, hb_ReleaseCode = EmptyBody, hb_Form = (0, None),
     hb_Headers = \<lparr>wh_Signature = [], wh_SigValue = [], wh_Timestamp = []\<rparr>, hb_Raw = None, hb_BadFaith = EmptyBody\<rparr>"

definition bare_cancel :: incoming where
  "bare_cancel = \<lparr>nq_Request = demo_request\<lparr>hq_Method := ''POST'', hq_FlowCookie := None\<rparr>,
     nq_Path = ''/api/p/sc1/cancel'', nq_Body = bare_body, nq_NewID = ''x'', nq_Draw = Inr [],
     nq_FlowDraws = (Inr [], Inr [], Inr []), nq_ShortCodeDraw = Inr [], nq_Ping = True\<rparr>"

definition quiet_server :: "(mock counted, unit) server" where
  "quiet_server = \<lparr>sv_world = demo_world 5, sv_oidc = demo_client,
     sv_limits = \<lparr>li_global = Some (New_limiter 1200 120), li_auth = None, li_write = Some (New_limiter 60 30),
       li_clock = (\<lambda>_. 7), li_tick = 0\<rparr>\<rparr>"

theorem outsiders_change_nothing_witness:
  "mux bare_cancel = Inr (True, EpSeat ''sc1'' CallCancel) \<and>
   left_alone (sv_world quiet_server) (sv_world (snd (ServeHTTP (\<lambda>x y. x = y) quiet_api bare_cancel quiet_server)))"
proof
  show "mux bare_cancel = Inr (True, EpSeat ''sc1'' CallCancel)" by code_simp
  have "outsider quiet_api bare_cancel (sv_world quiet_server)"
    by (simp add: outsider_def quiet_api_def bare_cancel_def bare_body_def demo_request_def demo_api_def
        signed_in_def extractToken_def Parse_def header_signature_def)
  then show "left_alone (sv_world quiet_server)
      (sv_world (snd (ServeHTTP (\<lambda>x y. x = y) quiet_api bare_cancel quiet_server)))"
    by (rule outsiders_change_nothing)
qed

end
