(* ===== verification/Config_Claims.thy ===== *)
theory Config_Claims
  imports Api_Config
begin

text \<open>
  The claims about start-up: what the environment file may set, and that a configuration names its
  payment rails or does not start.
\<close>

section \<open>The environment file\<close>

definition file_pairs :: "string \<Rightarrow> (string \<times> string) list" where
  "file_pairs text = List.map_filter env_line (scan_lines text)"

text \<open>The first non-empty value of a key that the environment can hold.\<close>

definition settable :: "string \<Rightarrow> string \<times> string \<Rightarrow> bool" where
  "settable k kv \<longleftrightarrow> fst kv = k \<and> k \<noteq> [] \<and> snd kv \<noteq> [] \<and> char_of (0 :: nat) \<notin> set (fst kv) \<union> set (snd kv)"

definition file_value :: "string \<Rightarrow> (string \<times> string) list \<Rightarrow> string" where
  "file_value k kvs = (case List.find (settable k) kvs of None \<Rightarrow> [] | Some kv \<Rightarrow> snd kv)"

lemma file_value_Cons: "file_value k (kv # kvs) = (if settable k kv then snd kv else file_value k kvs)"
  by (simp add: file_value_def)

lemma apply_lines:
  "fst (fold apply_line ls (env, n)) k = (if env k \<noteq> [] then env k else file_value k (List.map_filter env_line ls))"
proof (induction ls arbitrary: env n)
  case (Cons l ls)
  obtain env' n' where step: "apply_line l (env, n) = (env', n')" by fastforce
  show ?case
  proof (cases "env_line l")
    case None
    then show ?thesis using Cons.IH step by (simp add: apply_line_def map_filter_simps)
  next
    case (Some kv)
    have "env' = (if fst kv = [] \<or> env (fst kv) \<noteq> [] \<or> char_of (0 :: nat) \<in> set (fst kv) \<union> set (snd kv) then env
        else env(fst kv := snd kv))"
      using step Some by (auto simp: apply_line_def Setenv_def split: prod.splits if_splits)
    with Some Cons.IH [of env' n'] step show ?thesis
      by (cases kv) (auto simp: map_filter_simps file_value_Cons settable_def)
  qed
qed (simp add: map_filter_simps file_value_def)

text \<open>The environment file never overrides the environment: after loading, a variable that was set
  keeps its value, and one that was empty has the first usable value the file gives it.\<close>

theorem dotenv_fills_gaps:
  "fst (loadDotEnv (Some text) env) k = (if env k \<noteq> [] then env k else file_value k (file_pairs text)) \<and>
   loadDotEnv None env = (env, 0)"
  using apply_lines [of "scan_lines text" env 0 k] by (simp add: loadDotEnv_def file_pairs_def)

section \<open>Start-up\<close>

text \<open>What a process that moves real money, and one that does not, are made of.\<close>

definition real_rails :: "('g, 's) platform \<Rightarrow> configuration \<Rightarrow> ('g, 's) process \<Rightarrow> bool" where
  "real_rails pl cfg pr \<longleftrightarrow> a_realGateway (pr_App pr) \<and>
     (\<exists>n. nomba_New (ns_Config (cg_Nomba cfg)) = Inr n \<and> a_gateway (pr_App pr) = pl_nomba pl n) \<and>
     ha_webhook (pr_Api pr) = (if ns_SignatureKey (cg_Nomba cfg) = [] then None
       else Some (pl_wire pl, ns_SignatureKey (cg_Nomba cfg)))"

definition mock_rails :: "('g, 's) platform \<Rightarrow> ('g, 's) process \<Rightarrow> bool" where
  "mock_rails pl pr \<longleftrightarrow> \<not> a_realGateway (pr_App pr) \<and> a_gateway (pr_App pr) = pl_mock pl \<and> ha_webhook (pr_Api pr) = None"

definition usable_nomba :: "nomba_config \<Rightarrow> bool" where
  "usable_nomba n \<longleftrightarrow> nc_ClientID n \<noteq> [] \<and> nc_ClientSecret n \<noteq> [] \<and> nc_AccountID n \<noteq> [] \<and> nc_SubAccountID n \<noteq> [] \<and>
     nc_BaseURL n \<noteq> []"

lemma nomba_New_usable: "(\<exists>c. nomba_New n = Inr c) \<longleftrightarrow> usable_nomba n"
  by (auto simp: nomba_New_def usable_nomba_def)

lemma provider_named: "cg_GatewayProvider (loadConfig env) \<noteq> []"
  by (simp add: loadConfig_def envOr_def)

text \<open>The migrations apply, the pool is created and the evidence directory exists.\<close>

definition host_ready :: "host \<Rightarrow> configuration \<Rightarrow> bool" where
  "host_ready ho cfg \<longleftrightarrow> ho_open ho (cg_DatabaseURL cfg) \<and> ho_dialect ho \<and> ho_up ho (cg_DatabaseURL cfg) \<and>
     ho_pool ho (cg_DatabaseURL cfg) \<and> ho_mkdir ho (cg_EvidenceDir cfg)"

text \<open>Every outcome of the host is checked before a gateway is built.\<close>

lemma start_process_cases:
  "start_process pl ho locked clock cfg =
     (if host_ready ho cfg then
        (case buildGateway cfg of Inl e \<Rightarrow> Inl e
         | Inr (choice, webhook) \<Rightarrow>
             Inr (wire_process pl locked clock cfg \<lparr>bs_baseDir = cg_EvidenceDir cfg\<rparr> choice webhook))
      else Inl (case Migrate ho (cg_DatabaseURL cfg) of
          Inl e \<Rightarrow> MigrationFault e
        | Inr _ \<Rightarrow> if \<not> ho_pool ho (cg_DatabaseURL cfg) then PoolFault else EvidenceFault DirFailed))"
  by (simp add: start_process_def Migrate_def NewFileStore_def host_ready_def)

lemmas wiring = wire_process_def New_app_def app_config_of_def New_api_def http_config_of_def

text \<open>C36: A process never falls back to the mock: on a host that is ready, started on any environment
  and file, it runs on the mock exactly when the provider variable is empty or says so; on the real provider exactly when it
  names that and the credentials are complete, with the webhook mounted exactly under a configured
  key and the funding shortcut off unless a variable asks for it, but the sandbox, with its login to
  any account, on unless a variable turns it off; in any other case, and on a host that is not ready, it does not
  start.\<close>

theorem rails_as_configured:
  "let env = fst (loadDotEnv dotenv env0); cfg = loadConfig env; provider = env ''GATEWAY_PROVIDER'';
       res = main pl ho locked clock dotenv env0
   in if \<not> host_ready ho cfg then (\<exists>e. res = Inl e)
      else if provider = [] \<or> provider = ''mock'' then (\<exists>pr. res = Inr pr \<and> mock_rails pl pr)
      else if provider = ''nomba'' \<and> usable_nomba (ns_Config (cg_Nomba cfg))
      then (\<exists>pr. res = Inr pr \<and> real_rails pl cfg pr \<and>
        a_sandbox (pr_App pr) = envBool env ''SANDBOX_MODE'' True \<and>
        CanSimulateFunding (pr_App pr) = (cg_SandboxMode cfg \<and> envBool env ''SIMULATE_FUNDING_ENABLED'' False))
      else (\<exists>e. res = Inl e)"
proof -
  define env where "env = fst (loadDotEnv dotenv env0)"
  define cfg where "cfg = loadConfig env"
  let ?p = "env ''GATEWAY_PROVIDER''"
  have p: "cg_GatewayProvider cfg = (if ?p = [] then ''mock'' else ?p)"
    and sim: "cg_SimulateFundingEnabled cfg = envBool env ''SIMULATE_FUNDING_ENABLED'' (?p = [] \<or> ?p = ''mock'')"
    by (simp_all add: cfg_def loadConfig_def envOr_def)
  have sandbox: "cg_SandboxMode cfg = envBool env ''SANDBOX_MODE'' True"
    by (simp add: cfg_def loadConfig_def)
  have run: "main pl ho locked clock dotenv env0 = start_process pl ho locked clock cfg"
    by (simp add: main_def cfg_def env_def)
  have mock: "\<exists>pr. start_process pl ho locked clock cfg = Inr pr \<and> mock_rails pl pr"
    if "host_ready ho cfg" "?p = [] \<or> ?p = ''mock''"
    using that p by (auto simp: start_process_cases buildGateway_def mock_rails_def wiring Let_def)
  have nomba: "\<exists>pr. start_process pl ho locked clock cfg = Inr pr \<and> real_rails pl cfg pr \<and>
      a_sandbox (pr_App pr) = envBool env ''SANDBOX_MODE'' True \<and>
      CanSimulateFunding (pr_App pr) = (cg_SandboxMode cfg \<and> envBool env ''SIMULATE_FUNDING_ENABLED'' False)"
    if ready: "host_ready ho cfg" and nomba: "?p = ''nomba''" and usable: "usable_nomba (ns_Config (cg_Nomba cfg))"
  proof -
    obtain n where "nomba_New (ns_Config (cg_Nomba cfg)) = Inr n" using usable nomba_New_usable by blast
    with ready nomba p sim sandbox show ?thesis
      by (simp add: start_process_cases buildGateway_def real_rails_def wiring Let_def CanSimulateFunding_def)
  qed
  have other: "\<exists>e. start_process pl ho locked clock cfg = Inl e"
    if "?p \<noteq> []" "?p \<noteq> ''mock''" "\<not> (?p = ''nomba'' \<and> usable_nomba (ns_Config (cg_Nomba cfg)))"
    using that p nomba_New_usable [of "ns_Config (cg_Nomba cfg)"]
    by (auto simp: start_process_cases buildGateway_def split: sum.split)
  moreover have "\<exists>e. start_process pl ho locked clock cfg = Inl e" if "\<not> host_ready ho cfg"
    using that by (simp add: start_process_cases)
  ultimately show ?thesis
    unfolding Let_def env_def [symmetric] cfg_def [symmetric] run using mock nomba by auto
qed

section \<open>One secret, two uses\<close>

lemma flow_cookie_parts:
  assumes "DecodeFlowState hmac parse_json secret raw now = Inr fs"
  shows "length (split_on (CHR ''.'') raw) = 2"
proof -
  obtain body where "raw = body @ CHR ''.'' # signFlow hmac secret body" "CHR ''.'' \<notin> set body"
    using assms by (auto simp: DecodeFlowState_def split: prod.splits if_splits option.splits dest!: cut_at_found)
  then show ?thesis by (simp add: split_on_append split_on_no_sep signFlow_def)
qed

lemma link_token_parts: "Parse hmac secret token = Inr c \<Longrightarrow> length (split_on (CHR ''.'') token) = 4"
  by (auto simp: Parse_def split: list.splits)

text \<open>C39: The server signs invitations and sign-in flows with one secret, and neither passes for the
  other: in every process that starts the two secrets are equal, and no text is both an invitation
  that verifies and a flow cookie that decodes under it.\<close>

theorem one_secret_two_uses:
  "(case start_process pl ho locked clock cfg of
      Inl e \<Rightarrow> True
    | Inr pr \<Rightarrow> ap_flowSecret (ha_api (pr_Api pr)) = ap_linkSecret (ha_api (pr_Api pr))) \<and>
   {s. \<exists>c. Parse hmac secret s = Inr c} \<inter> {s. \<exists>fs now. DecodeFlowState hmac parse_json secret s now = Inr fs} = {}"
  by (auto simp: start_process_cases wiring Let_def
      split: sum.split prod.split dest!: flow_cookie_parts link_token_parts)

end
