(* ===== verification/Server.thy ===== *)
theory Server
  imports Http_Api Sweeper_Claims Nomba_Claims
begin

text \<open>
  The whole server: requests through the transport, ticks of the sweeper and the passing of
  time, in any order.  Whatever the application keeps the server keeps: the lemmas extend the
  locale of the application's invariants from use cases to endpoints, to requests and to ticks.
\<close>

section \<open>Runs of the server\<close>

inductive server_reach :: "(string \<Rightarrow> string \<Rightarrow> bool) \<Rightarrow> ('g, 's) http_api \<Rightarrow> 'g \<Rightarrow> ('g, 's) server \<Rightarrow> bool"
  for fold_eq a g0 where
  start: "w_db (sv_world sv) = empty_db \<Longrightarrow> w_gw (sv_world sv) = g0 \<Longrightarrow> server_reach fold_eq a g0 sv"
| request: "server_reach fold_eq a g0 sv \<Longrightarrow> plain_id (nq_NewID q) \<Longrightarrow>
    server_reach fold_eq a g0 (snd (ServeHTTP fold_eq a q sv))"
| tick: "server_reach fold_eq a g0 sv \<Longrightarrow>
    Tick (NewSweeper (app_driver (ap_app (ha_api a)) locked) interval) (sv_world sv) = Some (rep, w) \<Longrightarrow>
    server_reach fold_eq a g0 (sv\<lparr>sv_world := w\<rparr>)"
| wait: "server_reach fold_eq a g0 sv \<Longrightarrow>
    server_reach fold_eq a g0 (sv\<lparr>sv_world := (sv_world sv)\<lparr>w_db := (w_db (sv_world sv))\<lparr>db_clock := t\<rparr>\<rparr>\<rparr>)"

section \<open>Handlers that keep a predicate\<close>

definition keeps_h :: "(db \<Rightarrow> 'g \<Rightarrow> bool) \<Rightarrow> ('g, 'a) hio \<Rightarrow> bool" where
  "keeps_h J h \<longleftrightarrow> (\<forall>w. holds J w \<longrightarrow> holds J (snd (h w)))"

lemma keeps_hD: "keeps_h J h \<Longrightarrow> holds J w \<Longrightarrow> holds J (snd (h w))"
  by (simp add: keeps_h_def)

lemma keeps_return_h [keeps]: "keeps_h J (return_h x)"
  by (simp add: keeps_h_def return_h_def)

lemma keeps_fail_h [keeps]: "keeps_h J (fail_h e)"
  by (simp add: keeps_h_def fail_h_def)

lemma keeps_pure_h [keeps]: "keeps_h J (\<lambda>w. (f w, w))"
  by (simp add: keeps_h_def)

lemma keeps_app_h [keeps]: "keeps_io J m \<Longrightarrow> keeps_h J (app_h m)"
  by (auto simp: keeps_h_def keeps_io_def app_h_def split: prod.splits sum.splits)

lemma keeps_bind_h [keeps]: "keeps_h J m \<Longrightarrow> (\<And>x. keeps_h J (f x)) \<Longrightarrow> keeps_h J (bind_h m f)"
  unfolding keeps_h_def bind_h_def by (auto split: prod.splits sum.splits)

lemma keeps_if_h [keeps]: "keeps_h J m \<Longrightarrow> keeps_h J m' \<Longrightarrow> keeps_h J (if b then m else m')"
  by simp

lemma keeps_let_h [keeps]: "keeps_h J (f x) \<Longrightarrow> keeps_h J (Let x f)"
  by simp

lemma keeps_pair_h [keeps]: "(\<And>x y. keeps_h J (f x y)) \<Longrightarrow> keeps_h J (case p of (x, y) \<Rightarrow> f x y)"
  by (simp split: prod.split)

lemma keeps_option_h [keeps]:
  "keeps_h J m \<Longrightarrow> (\<And>x. keeps_h J (h x)) \<Longrightarrow> keeps_h J (case r of None \<Rightarrow> m | Some x \<Rightarrow> h x)"
  by (cases r) auto

lemma keeps_sum_h [keeps]:
  "(\<And>e. keeps_h J (f e)) \<Longrightarrow> (\<And>x. keeps_h J (h x)) \<Longrightarrow> keeps_h J (case r of Inl e \<Rightarrow> f e | Inr x \<Rightarrow> h x)"
  by (cases r) auto

lemma keeps_decode [keeps]:
  "keeps_h J (decodeJSON body)" "keeps_h J (decodeOptionalJSON zero body)" "keeps_h J (parse_form p form)"
  by (cases body; auto simp: parse_form_def split: option.split intro: keeps)+

lemma keeps_pair_io [keeps]: "(\<And>x y. keeps_io J (f x y)) \<Longrightarrow> keeps_io J (case p of (x, y) \<Rightarrow> f x y)"
  by (simp split: prod.split)

lemma keeps_loads [keeps]:
  "keeps_io J (Load app pid)" "keeps_io J (LoadByShortCode app sc)" "keeps_io J (Detail app pid)"
  "keeps_io J (MyPockets app uid)" "keeps_io J (DisputeView pid)" "keeps_io J (Dispute pid)"
  "keeps_io J (Evidence pid)" "keeps_io J ListDisputes"
  unfolding Detail_def Load_def LoadByShortCode_def MyPockets_def DisputeView_def Dispute_def
    Evidence_def ListDisputes_def
  by (intro keeps)+

definition keeps_server :: "(db \<Rightarrow> 'g \<Rightarrow> bool) \<Rightarrow> ('g, 's) step \<Rightarrow> bool" where
  "keeps_server J f \<longleftrightarrow> (\<forall>sv. holds J (sv_world sv) \<longrightarrow> holds J (sv_world (snd (f sv))))"

lemma keeps_steps [keeps]:
  "keeps_h J h \<Longrightarrow> keeps_server J (pocket_step h)"
  "keeps_h J h' \<Longrightarrow> keeps_server J (desk_step h')"
  "keeps_h J h'' \<Longrightarrow> keeps_server J (session_step h'')"
  "keeps_server J (fee_step goods)"
  "keeps_server J (healthz reachable)"
  by (auto simp: keeps_server_def keeps_h_def pocket_step_def desk_step_def session_step_def fee_step_def healthz_def
      respond_def admin_respond_def split: prod.splits sum.splits option.splits)

lemma keeps_auth_budget [keeps]:
  "(\<And>ok. keeps_server J (f ok)) \<Longrightarrow> keeps_server J (with_auth_budget a r available f)"
  by (auto simp: keeps_server_def with_auth_budget_def split: prod.split)

lemma keeps_limitWrites [keeps]: "keeps_server J f \<Longrightarrow> keeps_server J (limitWrites a r f)"
  by (auto simp: keeps_server_def limitWrites_def refuse_def split: prod.split)

lemma keeps_Middleware [keeps]: "keeps_server J f \<Longrightarrow> keeps_server J (Middleware fold_eq a r f)"
  by (auto simp: keeps_server_def Middleware_def refuse_def split: prod.split)

section \<open>What the application keeps\<close>

context app_invariant
begin

lemma io_sessions [keeps]:
  "keeps_io J (db_io (SessionUser h now))"
  "keeps_io J (db_io (InsertSession uid h e ip ua))"
  "keeps_io J (db_do (RevokeSession h))"
  "keeps_io J (db_do (SetAdmin uid b))"
  "keeps_io J (db_io (UpsertUserByPhone i phone name))"
  "keeps_io J (db_io (UpsertUserByGoogle i sub email name pic))"
  using exec [of _ _ "OpSessionUser h now"] exec [of _ _ "OpInsertSession uid h e ip ua"]
    exec [of _ _ "OpRevokeSession h"] exec [of _ _ "OpSetAdmin uid b"]
    exec [of _ _ "OpUserByPhone i phone name"] exec [of _ _ "OpUserByGoogle i sub email name pic"]
  by (auto intro!: keeps_db_io keeps_db_do)

lemma io_auth [keeps]:
  "keeps_io J (UserFromRequest m session)" "keeps_io J (Issue m draw uid ip ua)" "keeps_io J (Revoke m session)"
  unfolding UserFromRequest_def Issue_def Revoke_def by (intro keeps)+

lemma h_user [keeps]: "keeps_h J (currentUser p r)"
  unfolding keeps_h_def
proof (intro allI impI)
  fix w
  assume w: "holds J w"
  show "holds J (snd (currentUser p r w))"
  proof (cases "ap_auth p")
    case (Some m)
    with keeps_ioD [OF io_auth(1) w, of m "hq_Session r"] show ?thesis
      by (auto simp: currentUser_def split: prod.split sum.split)
  qed (simp add: w currentUser_def return_h_def)
qed

lemma h_identity [keeps]:
  "keeps_h J (requireUser p r)" "keeps_h J (requireAdmin p r)"
  "keeps_h J (authParticipant p r pid parts)" "keeps_h J (authByShortCode p r sc)"
  unfolding requireUser_def requireAdmin_def authParticipant_def authByShortCode_def by (intro keeps)+

lemma h_view [keeps]: "keeps_h J (view_reply p rec parts role)" "keeps_h J (respondView p pid role)"
  unfolding respondView_def view_reply_def by (intro keeps)+

lemma h_seats [keeps]:
  assumes [simp]: "ap_app p = a"
  shows "keeps_h J (serve p r sc call)" "keeps_h J (handleClaim p r sc)" "keeps_h J (handleClaimBroker p r sc v)"
    "keeps_h J (handleReleaseCode p r pid)" "keeps_h J (handleSimulateFunding p r pid)" "keeps_h J (handleMyPockets p r)"
    "keeps_h J (handleNombaWebhook p verifier headers body)"
proof -
  have code: "keeps_io J (app_ReleaseCode a pid)"
    unfolding app_ReleaseCode_def by (intro keeps) (simp_all add: keeps_io_def)
  show "keeps_h J (serve p r sc call)"
    by (cases call) (auto simp: handleAccept_def handleCancel_def handleEnterCode_def handleVerifyFunding_def
        handleReportIssue_def handleConfirmDispatchFailure_def handleAttestNonReceipt_def
        handleOpenDispute_def handleConcede_def handleUploadEvidence_def handleDisputeView_def
        handlePublicView_def on_seat_def intro!: keeps)
  show "keeps_h J (handleClaim p r sc)" "keeps_h J (handleClaimBroker p r sc v)"
    "keeps_h J (handleReleaseCode p r pid)" "keeps_h J (handleSimulateFunding p r pid)" "keeps_h J (handleMyPockets p r)"
    "keeps_h J (handleNombaWebhook p verifier headers body)"
    by (auto simp: handleClaim_def handleClaimBroker_def handleReleaseCode_def handleSimulateFunding_def
        handleMyPockets_def handleNombaWebhook_def intro!: keeps code split: option.split sum.split verify_fault.split)
qed

lemma h_create [keeps]:
  assumes [simp]: "ap_app p = a" and "plain_id i"
  shows "keeps_h J (handleCreate p r sc i body)"
  using assms(2) unfolding handleCreate_def by (auto intro!: keeps)

lemma h_desk [keeps]:
  assumes [simp]: "ap_app p = a"
  shows "keeps_h J (admin_serve p r call)"
proof -
  have "keeps_h J (writeAdminDetail p pid)" for pid
    using detail_reads [of p pid] by (simp add: keeps_h_def)
  then have "keeps_h J (behind_gate p call)"
    by (cases call) (auto intro!: keeps)
  then show ?thesis unfolding admin_serve_gate by (intro keeps)
qed

lemma h_session [keeps]:
  "keeps_h J (handleMe p r)" "keeps_h J (handleLogout p r)" "keeps_h J (handleDemoLogin p m r ok i d body)"
  unfolding handleMe_def handleLogout_def handleDemoLogin_def grant_admin_def by (intro keeps)+

lemma google_account_keeps:
  assumes "google_account p m r i d idt target w = (reply, w')" and "holds J w"
  shows "holds J w'"
proof -
  let ?up = "db_io (UpsertUserByGoogle i (id_Sub idt) (if id_EmailVerified idt then id_Email idt else [])
      (id_Name idt) (id_Picture idt))"
  obtain res w1 where up: "?up w = (res, w1)" by fastforce
  from keeps_ioD [OF io_sessions(6) assms(2)] up have w1: "holds J w1" by (metis snd_conv)
  show ?thesis
  proof (cases res)
    case (Inl e)
    with assms(1) up w1 show ?thesis by (simp add: google_account_def)
  next
    case (Inr u)
    obtain k w2 where issue: "Issue m d (ur_ID u) (clientIP p r) (hq_UserAgent r) w1 = (k, w2)" by fastforce
    from keeps_ioD [OF io_auth(2) w1] issue have "holds J w2" by (metis snd_conv)
    with assms(1) up Inr issue show ?thesis by (auto simp: google_account_def split: sum.splits)
  qed
qed

lemma s_google [keeps]:
  "keeps_server J (google_step (handleGoogleStart p sign ok draws target))"
  "keeps_server J (google_step (handleGoogleCallback p sign m r i d st code))"
proof -
  have tick: "holds J (w\<lparr>w_tick := n\<rparr>) \<longleftrightarrow> holds J w" for w :: "'g world" and n
    by (simp add: holds_def)
  show "keeps_server J (google_step (handleGoogleStart p sign ok draws target))"
    by (auto simp: keeps_server_def google_step_def handleGoogleStart_def Let_def tick
        split: option.splits sum.splits prod.splits)
  have "holds J w'" if "handleGoogleCallback p sign m r i d st code (c, w) = (reply, c', w')" "holds J w"
    for c w reply c' w'
    using that
    by (auto simp: handleGoogleCallback_def Let_def tick split: option.splits if_splits sum.splits prod.splits
        dest!: google_account_keeps)
  then show "keeps_server J (google_step (handleGoogleCallback p sign m r i d st code))"
    by (auto simp: keeps_server_def google_step_def split: prod.split)
qed

lemma s_handle:
  assumes "ap_app (ha_api h) = a" and "plain_id (nq_NewID q)"
  shows "keeps_server J (handle h q ep)"
  using assms by (cases ep) (auto intro!: keeps simp: keeps_server_def [of J "\<lambda>sv. (_, sv)"])

lemma s_request:
  assumes "ap_app (ha_api h) = a" and "plain_id (nq_NewID q)" and "holds J (sv_world sv)"
  shows "holds J (sv_world (snd (ServeHTTP fold_eq h q sv)))"
proof -
  have "keeps_server J (dispatch h q)"
    using s_handle [OF assms(1,2)]
    by (auto simp: dispatch_def keeps_server_def [of J "\<lambda>sv. (_, sv)"] split: sum.split prod.split intro!: keeps)
  then have "keeps_server J (ServeHTTP fold_eq h q)" unfolding ServeHTTP_def by (intro keeps)
  with assms(3) show ?thesis by (simp add: keeps_server_def)
qed

lemma s_tick:
  assumes "Tick (NewSweeper (app_driver a locked) interval) w = Some (rep, w')" and "holds J w"
  shows "holds J w'"
proof -
  have verify: "holds J v" if "verification_op a w = Some (n, e, v)" "holds J w" for w n e v
    using that keeps_ioD [OF io_sweep_funding that(2)]
    by (auto simp: verification_op_def split: prod.splits sum.splits)
  have drain: "holds J v" if "drainRule a rule locked w = Some (n, e, v)" "holds J w" for w n e v rule
    using that io_drain by blast
  have inflight: "holds J v" if "inflight_op a w = Some (n, e, v)" "holds J w" for w n e v
  proof -
    have "resolve_legs a (InflightSettlementLegs (w_db w)) 0 w = (n, v)"
      using that(1) by (auto simp: inflight_op_def SweepInflightSettlementLegs_def split: prod.splits)
    with io_resolve_legs [OF that(2)] show ?thesis by (metis snd_conv)
  qed
  have pending: "holds J v" if "SweepPendingSettlementLegs a w = (n, e, v)" "holds J w" for w n e v
    using that io_sweep_pending by (metis SweepPendingSettlementLegs_def snd_conv)
  show ?thesis
    using assms
    by (auto simp: Tick_def NewSweeper_def app_driver_def SweepExpiredFunding_def SweepDeliveryDeadlines_def
        SweepGraceRefunds_def SweepDueSettlements_def sweep_run_def Let_def
        split: Option.bind_splits prod.splits dest!: verify drain inflight pending)
qed

lemma server_keeps:
  assumes "server_reach fold_eq h g0 sv" and "ap_app (ha_api h) = a" and "J empty_db g0"
  shows "J (w_db (sv_world sv)) (w_gw (sv_world sv))"
proof -
  have "holds J (sv_world sv)"
    using assms(1)
  proof (induction rule: server_reach.induct)
    case (start sv)
    then show ?case using assms(3) by (simp add: holds_def)
  next
    case (request sv q)
    then show ?case using s_request [OF assms(2)] by blast
  next
    case (tick sv locked interval rep w)
    then show ?case using s_tick assms(2) by auto
  next
    case (wait sv t)
    then show ?case using exec [of _ _ "OpClock t"] by (simp add: holds_def)
  qed
  then show ?thesis by (simp add: holds_def)
qed

end

section \<open>The server\<close>

text \<open>C1: The server keeps the ledger: whatever requests arrive -- from anyone, in any order, to any
  route -- and however ticks of the sweeper and the passing of time fall between them, against any
  provider and any issuer, each pocket has exactly the settlement legs of its state, a gap-free
  audit history, and no key or seat twice.\<close>

theorem server_keeps_ledger:
  assumes "server_reach fold_eq h g0 sv" and "r \<in> set (pockets (w_db (sv_world sv)))"
  shows "let d = w_db (sv_world sv) in
    map leg_of (filter (\<lambda>s. s_pocket s = r_id r) (settlements d)) = terminal_legs r \<and>
    distinct (map s_key (settlements d)) \<and> chain StateDraft (Events (r_id r) d) (r_state r) \<and>
    distinct (map (\<lambda>t. (t_pocket t, t_role t)) (participants d))"
proof -
  let ?a = "ap_app (ha_api h)"
  have "reached_db ?a empty_db g0" by (simp add: reached_db_def db_reach.start)
  from store_ops.server_keeps [OF assms(1) refl this]
  have reach: "db_reach (a_store ?a) (w_db (sv_world sv))" by (simp add: reached_db_def)
  have "wf_db (w_db (sv_world sv))" "audit_ok (w_db (sv_world sv))"
    using db_reach_good [OF reach] by (simp_all add: good_db_def)
  then show ?thesis
    using wf_unique_legs [of "w_db (sv_world sv)"] db_reach_parties [OF reach] assms(2)
    by (auto simp: Let_def wf_db_def wf_ledger_def legs_of_def unique_legs_def audit_ok_def parties_ok_def)
qed

context honest_gateway
begin

lemma server_moves_once:
  assumes gw: "a_gateway (ap_app (ha_api h)) = counted_gateway gw"
    and run: "server_reach fold_eq h (fresh_counts g0) sv" and fresh: "moved g0 = (\<lambda>_. 0)"
  shows "moved (cn_inner (w_gw (sv_world sv))) k \<le> 1"
proof -
  let ?a = "ap_app (ha_api h)" and ?s = "w_gw (sv_world sv)"
  have "metered (fresh_counts g0)" using fresh by (simp add: metered_def fresh_counts_def)
  from app_invariant.server_keeps [OF metered_invariant [OF gw] run refl this]
  have "moved (cn_inner ?s) k + cn_licences ?s k \<le> cn_submissions ?s k" by (simp add: metered_def)
  moreover have "counted_ok ?a empty_db (fresh_counts g0)"
    by (simp add: counted_ok_def within_licences_def fresh_counts_def db_reach.start)
  from submissions.server_keeps [OF run refl this] gw
  have "within_licences (w_db (sv_world sv)) ?s" unfolding counted_ok_def counted_app_def by blast
  then have "cn_submissions ?s k \<le> cn_licences ?s k + 1"
    by (rule within_licencesD)
  ultimately show ?thesis by simp
qed

end

text \<open>C3: The server moves money at most once: behind the real provider's adapter, over any run of
  requests, ticks and time, of all transfers sent under a leg's idempotency key at most one can
  have moved money.\<close>

theorem server_moves_money_once:
  assumes "server_reach fold_eq h (fresh_counts g0) sv"
    and "a_gateway (ap_app (ha_api h)) = counted_gateway (nomba_gateway (logging env) cfg)"
    and "snd (nb_server g0) = []"
  shows "length (filter (\<lambda>(req, x). carries k (nr_Body req) \<and> may_move x)
    (snd (nb_server (cn_inner (w_gw (sv_world sv)))))) \<le> 1"
proof -
  have "moved_by g0 = (\<lambda>_. 0)" using assms(3) by (simp add: moved_by_def fun_eq_iff)
  from nomba_honest.server_moves_once [OF assms(2,1) this, of k] show ?thesis by (simp add: moved_by_def)
qed

section \<open>A small run\<close>

text \<open>A vendor signs in through the demo login and creates a pocket, the sweeper ticks in between.\<close>

definition real_api :: "((bool \<times> (nomba_request \<times> (string \<times> string) exchange) list) nomba counted, unit) http_api" where
  "real_api = \<lparr>ha_api = \<lparr>ap_app = nomba_app, ap_linkSecret = ''ls'', ap_auth = Some (NewManager id 0 True),
       ap_flowSecret = ''f'', ap_cookieSecure = True, ap_trustProxy = False, ap_trustedOrigins = []\<rparr>,
     ha_auth = NewManager id 0 True, ha_google = None, ha_webhook = None\<rparr>"

definition empty_body :: http_body where
  "empty_body = \<lparr>hb_Login = EmptyBody, hb_Next = [], hb_State = [], hb_Code = [], hb_Goods = None, hb_Create = EmptyBody,
     hb_VendorAmount = EmptyBody, hb_Address = EmptyBody, hb_ReleaseCode = EmptyBody, hb_Form = (0, None),
     hb_Headers = \<lparr>wh_Signature = [], wh_SigValue = [], wh_Timestamp = []\<rparr>, hb_Raw = None, hb_BadFaith = EmptyBody\<rparr>"

definition post :: "string \<Rightarrow> string option \<Rightarrow> string \<Rightarrow> http_body \<Rightarrow> incoming" where
  "post path session new_id body =
     \<lparr>nq_Request = demo_request\<lparr>hq_Method := ''POST'', hq_FlowCookie := None, hq_Session := session\<rparr>,
      nq_Path = path, nq_Body = body, nq_NewID = new_id, nq_Draw = Inr ''d'',
      nq_FlowDraws = (Inr [], Inr [], Inr []), nq_ShortCodeDraw = Inr ''6bytes'', nq_Ping = True\<rparr>"

definition login_request :: incoming where
  "login_request = post ''/api/auth/demo'' None ''u1''
     (empty_body\<lparr>hb_Login := JsonBody \<lparr>dl_Phone = ''0801'', dl_DisplayName = ''Ada'', dl_Admin = False\<rparr>\<rparr>)"

definition create_pocket_request :: incoming where
  "create_pocket_request = post ''/api/pockets'' (Some ''ZA'') ''p1''
     (empty_body\<lparr>hb_Create := JsonBody \<lparr>cq_Structure = StructureP2P, cq_CreatorRole = RoleVendor, cq_Mode = ModeCooldown,
        cq_InspectionWindowMinutes = 60, cq_DeliveryWindowMinutes = 2880, cq_AmountKobo = 5000000,
        cq_CommissionKobo = 0, cq_ItemDescription = ''phone'', cq_Category = []\<rparr>\<rparr>)"

definition first_server :: "((bool \<times> (nomba_request \<times> (string \<times> string) exchange) list) nomba counted, unit) server" where
  "first_server = \<lparr>sv_world = nomba_run [], sv_oidc = demo_client,
     sv_limits = \<lparr>li_global = None, li_auth = Some (New_limiter 10 10), li_write = Some (New_limiter 60 30),
       li_clock = (\<lambda>_. 7), li_tick = 0\<rparr>\<rparr>"

definition second_server :: "((bool \<times> (nomba_request \<times> (string \<times> string) exchange) list) nomba counted, unit) server" where
  "second_server = snd (ServeHTTP (\<lambda>x y. x = y) real_api create_pocket_request
     (snd (ServeHTTP (\<lambda>x y. x = y) real_api login_request first_server)))"

lemma second_server_reach: "server_reach (\<lambda>x y. x = y) real_api (fresh_counts nomba_start) second_server"
  unfolding second_server_def
  by (intro server_reach.request server_reach.start)
    (simp_all add: first_server_def nomba_run_def login_request_def create_pocket_request_def post_def plain_id_def)

lemma second_server_draft: "map r_state (pockets (w_db (sv_world second_server))) = [StateDraft]"
  by code_simp

theorem server_keeps_ledger_witness:
  "\<exists>r \<in> set (pockets (w_db (sv_world second_server))). r_state r = StateDraft \<and>
     filter (\<lambda>s. s_pocket s = r_id r) (settlements (w_db (sv_world second_server))) = []"
proof -
  obtain r where r: "r \<in> set (pockets (w_db (sv_world second_server)))" "r_state r = StateDraft"
    using second_server_draft by (auto simp: map_eq_Cons_conv)
  have "terminal_legs r = []" using r(2) by (simp add: terminal_legs_def)
  with server_keeps_ledger [OF second_server_reach r(1)] r show ?thesis by (auto simp: Let_def)
qed

theorem server_moves_money_once_witness:
  "pockets (w_db (sv_world second_server)) \<noteq> [] \<and>
   length (filter (\<lambda>(req, x). carries (idempotencyKey ''p1'' Payout RoleVendor) (nr_Body req) \<and> may_move x)
     (snd (nb_server (cn_inner (w_gw (sv_world second_server)))))) \<le> 1"
proof -
  have "a_gateway (ap_app (ha_api real_api)) = counted_gateway (nomba_gateway (logging demo_nomba) demo_config)"
    by (simp add: real_api_def nomba_app_def)
  from server_moves_money_once [OF second_server_reach this] second_server_draft
  show ?thesis by (auto simp: nomba_start_def)
qed

end
