(* ===== verification/Spec2Isabelle.thy ===== *)
theory Spec2Isabelle
  imports Pocket_Claims Store_Claims Store_Sweep_Claims App_Money_Claims Nomba_Claims Http_Claims
    Webhook Sweeper_Claims Evidence_Store Rate_Limit Session_Claims Http_Admin Http_Api_Claims
    Config_Claims Server
begin

text \<open>
  EscrowPay: a verification library for the Go backend under \<^verbatim>\<open>src/backend\<close>.

  The backend holds the buyer's money of a sale (a \<^emph>\<open>pocket\<close>) until delivery is confirmed.  A
  pocket is a pure state machine (\<^verbatim>\<open>internal/pocket\<close>); the store runs it inside database
  transactions (\<^verbatim>\<open>internal/store\<close>); the application layer turns its effects into provider
  calls and notifications (\<^verbatim>\<open>internal/pocketapp\<close>); the sweeper drives the clock
  (\<^verbatim>\<open>internal/settlement\<close>); the transport decides who may do what
  (\<^verbatim>\<open>internal/httpapi\<close>); \<^verbatim>\<open>cmd/api\<close> wires them from the environment.  The theories follow
  this order, and each opens with what it holds.

  \<^bold>\<open>Shared vocabulary.\<close>  \<open>Prelude\<close> (results, transactions, tables, \<open>i64\<close> for the wrap-around of
  \<^verbatim>\<open>int64\<close>, the collections \<open>res_simps\<close> and \<open>table_simps\<close>, the locale \<open>keyed_update\<close> of updates
  that keep a key), \<open>Go_Strings\<close>, \<open>Go_Paths\<close> and \<open>Base64\<close> (the standard library the code uses).  \<open>Short_Code\<close> has
  the pocket's public code: ten letters that lose nothing of their six random bytes.

  \<^bold>\<open>The domain.\<close>  \<open>Premium\<close> (\<^verbatim>\<open>premium.go\<close>, \<^verbatim>\<open>fees.go\<close>), \<open>Release_Code\<close>
  (\<^verbatim>\<open>internal/releasecode\<close>), \<open>Pocket\<close> (\<^verbatim>\<open>pocket.go\<close>, \<^verbatim>\<open>transition.go\<close>,
  \<^verbatim>\<open>effect.go\<close>), \<open>Pocket_Spec\<close> (the documented table as data, reachability) and
  \<open>Pocket_Claims\<close>: the machine is the table, money moves once in a life, timers never refund, a
  life is bounded and never stuck.

  \<^bold>\<open>The store.\<close>  \<open>Database\<close> has one record per table and the constraints the inserts test;
  \<open>Store_Rows\<close>, \<open>Store_Executor\<close>, \<open>Store_Legs\<close>, \<open>Store_Identity\<close> have the operations of
  \<^verbatim>\<open>pockets.go\<close>, \<^verbatim>\<open>participants.go\<close>, \<^verbatim>\<open>events.go\<close>, \<^verbatim>\<open>executor.go\<close>,
  \<^verbatim>\<open>convert.go\<close>, \<^verbatim>\<open>sweep.go\<close>, \<^verbatim>\<open>settlements.go\<close>, \<^verbatim>\<open>disputes.go\<close>,
  \<^verbatim>\<open>users.go\<close>, \<^verbatim>\<open>sessions.go\<close>, \<^verbatim>\<open>webhooks.go\<close> and \<^verbatim>\<open>evidence.go\<close>.
  \<open>Store_Inv\<close>, \<open>Store_Effect\<close>, \<open>Store_Path\<close>, \<open>Store_Machine\<close>, \<open>Store_Refine\<close>,
  \<open>Store_Reach\<close> and \<open>Store_Parties\<close> carry the invariant of the reachable databases and the
  refinement of the domain machine; \<open>Store_Claims\<close>, \<open>Store_Draft_Claims\<close> and
  \<open>Store_Sweep_Claims\<close> state the results on the ledger, the audit history, the parties, drafts and
  sweep rules, on the concrete database of \<open>Store_Demo\<close> where they have hypotheses.

  \<^bold>\<open>Money and the application.\<close>  \<open>Gateway\<close> is the payment boundary with the mock provider;
  \<open>App\<close>, \<open>App_Cases\<close>, \<open>App_Funding\<close> and \<open>App_Sweep\<close> are the use cases of
  \<^verbatim>\<open>internal/pocketapp\<close>.  \<open>App_Invariant\<close> states what an invariant of the running
  application is as a locale (every use case keeps what the single statements keep) and its
  reachability relation; \<open>App_Legs\<close> interprets it for the store's invariant and for the count of
  submissions per idempotency key, and \<open>Gateway_Contract\<close> gives, for a provider with an honest
  submission contract, that money moves at most once per leg.  \<open>App_Claims\<close>, \<open>App_Case_Claims\<close>
  and \<open>App_Money_Claims\<close> state the results.  \<open>Nomba\<close> and \<open>Nomba_Claims\<close> have the real provider's
  adapter and its interpretation of that contract, \<open>Webhook\<close> its notifications.

  \<^bold>\<open>The clock.\<close>  \<open>App_Clock\<close> (a use case consumes readings in order), \<open>Sweeper\<close>
  (\<^verbatim>\<open>sweeper.go\<close>, its driver interface as a locale) and \<open>Sweeper_Claims\<close> (a tick leaves nothing
  overdue).

  \<^bold>\<open>The transport.\<close>  \<open>Link_Token\<close>, \<open>Auth\<close>, \<open>Google\<close>, \<open>Rate_Limit\<close> and \<open>Evidence_Store\<close> are
  the packages it stands on; \<open>Http_Auth\<close>, \<open>Http_View\<close>, \<open>Http_Handlers\<close>, \<open>Http_Session\<close>,
  \<open>Http_Admin\<close> and \<open>Http_Api\<close> are \<^verbatim>\<open>internal/httpapi\<close>, up to one function from a request and
  the server's state to the reply and the next state.  \<open>Http_Claims\<close>, \<open>Session_Claims\<close>,
  \<open>Http_Api_Claims\<close> and the last section of \<open>Http_Admin\<close> state who may change what.
  \<open>Server\<close> runs it all: requests, ticks and time in any order keep the ledger, and move money at
  most once per leg; its lemmas extend the locale of the application's invariants to endpoints,
  requests and ticks.
  \<open>Api_Config\<close> and \<open>Config_Claims\<close> have the start-up, in the order its faults end it: migration,
  pool, evidence directory, gateway.
\<close>

section \<open>Conventions\<close>

text \<open>
  \<^item> \<^bold>\<open>Integers\<close> of Go are \<open>int\<close> with \<open>i64\<close> at every operation that can overflow.  Instants are
    nanoseconds since year 1 as \<open>int\<close>, 0 the zero time; they are taken at the database's
    resolution, so that storing one does not change it.  Durations saturate as \<^verbatim>\<open>time.Sub\<close> does.
  \<^item> \<^bold>\<open>Strings\<close> are byte strings; \<^verbatim>\<open>strings.TrimSpace\<close> trims the ASCII spaces only.  Identifiers
    the database generates are arguments; the invariants need them free of colons, as UUIDs are.
  \<^item> \<^bold>\<open>Errors\<close> are values of \<open>error\<close>; an operation returns \<open>error + 'a\<close>.  A transaction
    (\<open>run_tx\<close>) restores the database when it fails.  A use case that fails keeps what it had
    committed.  Wrapping texts and logging are left out.
  \<^item> \<^bold>\<open>Row locks\<close>: operations run one after the other, which is what \<^verbatim>\<open>FOR UPDATE\<close> gives on
    one pocket; \<^verbatim>\<open>SKIP LOCKED\<close> is the argument \<open>locked\<close>, the pockets others hold.  Where the code
    reads outside the transaction it acts in, the model does too, and \<open>cancel_check_races\<close> shows
    what slips between.
  \<^item> \<^bold>\<open>The world\<close> of the application holds the database, the provider's state, the notifications
    sent, and the clock readings and random draws still to come.  The limiters and the sign-in
    client read clocks of their own.
  \<^item> \<^bold>\<open>Parameters\<close>: HMAC, SHA-256, AES-GCM, RSA, JSON, the provider, the issuer and the operating
    system are arguments.  A JSON body is absent, unreadable or a value (\<open>json_body\<close>), a multipart
    form its length and what it parses to, a start-up call of the host its outcome.  No property assumes cryptographic strength; those that speak of
    signatures say whose digest a text must carry.
  \<^item> \<^bold>\<open>Termination\<close>: the drain loops have no bound of their own and are partial functions; that
    they return on every reachable world is proved (\<open>drain_returns\<close>).  No fuel is used.  The
    sweeper's endless loop is a number of ticks.
  \<^item> \<^bold>\<open>Ghosts\<close>: \<open>counted_gateway\<close> and \<open>logging\<close> wrap a provider to count submissions and record
    requests; they pass every answer on unchanged.
  \<^item> \<^bold>\<open>Floating point\<close>: the limiter's \<^verbatim>\<open>float64\<close> is \<open>rat\<close> here, and the conversion of a
    webhook's decimal amount is a parameter.
\<close>

section \<open>Not modelled\<close>

text \<open>
  What a migration does (the SQL files are read as the constraints of \<open>Database\<close>), the connection
  pool beyond its creation, signals, the listener and the shutdown of \<^verbatim>\<open>main.go\<close>, response headers
  and the JSON encoder, multipart parsing, the format of log lines, and the web client: pure
  input and output around the modelled code.  The dispute class is not a column, so a reloaded
  pocket has none; the model loses it as the code does.  Cancellation of contexts is not modelled.
\<close>

end
